(* ===== verification/Prelude.thy ===== *)
theory Prelude
  imports Main "HOL-Library.Word" "HOL-Library.Monad_Syntax"
begin

text \<open>
  What every component of the model uses of Go itself: bytes and fixed-width integers as words,
  byte strings, slices and indexing with their bounds checks, little-endian reads
  (encoding/binary) and the hexadecimal formats of fmt.

  A function that may panic returns an option whose \<open>None\<close> is the run-time panic; the components
  prove that their own calls never reach it. Two collections carry the automation:
  \<open>go_eval\<close> for definitions a closed term is evaluated with, and \<open>no_panic\<close> for the facts that
  an operation returns.
\<close>

unbundle bit_operations_syntax

named_theorems go_eval \<open>definitions unfolded to evaluate a closed term of the model\<close>
named_theorems no_panic \<open>operations that return instead of panicking\<close>

section \<open>Go's integers and strings\<close>

type_synonym byte = "8 word"
type_synonym uint16 = "16 word"
type_synonym uint32 = "32 word"
type_synonym uint64 = "64 word"

text \<open>
  A Go string is a sequence of bytes; \<open>string\<close> is a list of 8-bit characters, so a non-ASCII
  character is the run of its UTF-8 bytes.
\<close>

definition wrap64 :: "int \<Rightarrow> int" where
  \<comment> \<open>the value of an int expression on a 64-bit platform\<close>
  "wrap64 x = (x + 2 ^ 63) mod 2 ^ 64 - 2 ^ 63"

lemma wrap64_id [simp]: "- (2 ^ 63) \<le> x \<Longrightarrow> x < 2 ^ 63 \<Longrightarrow> wrap64 x = x"
  by (simp add: wrap64_def)

lemma wrap64_range: "- (2 ^ 63) \<le> wrap64 x \<and> wrap64 x < 2 ^ 63"
  by (simp add: wrap64_def)

section \<open>Slices with their bounds checks\<close>

definition index :: "'a list \<Rightarrow> nat \<Rightarrow> 'a option" where
  \<comment> \<open>\<open>xs[i]\<close>: out of range is a panic\<close>
  "index xs i = (if i < length xs then Some (xs ! i) else None)"

definition slice :: "'a list \<Rightarrow> nat \<Rightarrow> nat \<Rightarrow> 'a list option" where
  \<comment> \<open>\<open>xs[lo:hi]\<close>: out of range is a panic\<close>
  "slice xs lo hi = (if lo \<le> hi \<and> hi \<le> length xs then Some (take (hi - lo) (drop lo xs)) else None)"

lemma index_Some [simp]: "i < length xs \<Longrightarrow> index xs i = Some (xs ! i)"
  by (simp add: index_def)

lemma slice_Some [simp]:
  "lo \<le> hi \<Longrightarrow> hi \<le> length xs \<Longrightarrow> slice xs lo hi = Some (take (hi - lo) (drop lo xs))"
  by (simp add: slice_def)

lemma index_append_left: "i < length xs \<Longrightarrow> index (xs @ ys) i = index xs i"
  by (simp add: index_def nth_append)

lemma length_slice: "slice xs lo hi = Some ys \<Longrightarrow> length ys = hi - lo"
  by (auto simp: slice_def split: if_splits)

section \<open>Little-endian reads\<close>

definition le16 :: "byte \<Rightarrow> byte \<Rightarrow> uint16" where
  \<comment> \<open>binary.LittleEndian.Uint16 of the bytes \<open>b0, b1\<close>\<close>
  "le16 b0 b1 = ucast b0 OR push_bit 8 (ucast b1)"

definition leUint16 :: "byte list \<Rightarrow> uint16 option" where
  \<comment> \<open>the slice is checked for its second byte first\<close>
  "leUint16 b = do { b1 \<leftarrow> index b 1; b0 \<leftarrow> index b 0; Some (le16 b0 b1) }"

lemma leUint16_slice: "k + 2 \<le> length xs \<Longrightarrow> leUint16 (take 2 (drop k xs)) = Some (le16 (xs ! k) (xs ! (k + 1)))"
  by (simp add: leUint16_def)

definition le32 :: "byte \<Rightarrow> byte \<Rightarrow> byte \<Rightarrow> byte \<Rightarrow> uint32" where
  "le32 b0 b1 b2 b3 =
     ucast b0 OR push_bit 8 (ucast b1) OR push_bit 16 (ucast b2) OR push_bit 24 (ucast b3)"

definition byte_of16 :: "uint16 \<Rightarrow> byte" where
  \<comment> \<open>the conversion \<open>byte(x)\<close> of a 16-bit value\<close>
  "byte_of16 x = ucast x"

lemma le16_bytes [simp]: "le16 (byte_of16 x) (byte_of16 (drop_bit 8 x)) = x"
  unfolding le16_def byte_of16_def
  by (rule bit_word_eqI) (auto simp: bit_simps)

lemma unat_byte_less [simp]: "unat (b :: byte) < 256"
  using unsigned_less [of b, where 'a = nat] by simp

lemma uint_byte_bounds: "0 \<le> uint (b :: byte) \<and> uint b < 256"
  using unsigned_less [of b, where 'a = int] by simp

lemma unat_uint16_less [simp]: "unat (x :: uint16) < 65536"
  using unsigned_less [of x, where 'a = nat] by simp

lemma unat_le16: "unat (le16 b0 b1) = unat b0 + 256 * unat b1"
proof -
  have disj: "(ucast b0 :: uint16) AND push_bit 8 (ucast b1) = 0"
    by (rule bit_word_eqI) (auto simp: bit_simps dest: bit_imp_le_length)
  have "unat (le16 b0 b1) = unat (ucast b0 + push_bit 8 (ucast b1) :: uint16)"
    by (simp add: le16_def disjunctive_add_eq_or [OF disj])
  also have "\<dots> = unat b0 + 256 * unat b1"
    using unat_byte_less [of b0] unat_byte_less [of b1]
    by (simp add: unat_word_ariths push_bit_eq_mult unsigned_ucast_eq take_bit_eq_mod
      del: unat_byte_less)
  finally show ?thesis .
qed

section \<open>fmt: hexadecimal digits\<close>

definition hexDigit :: "nat \<Rightarrow> char" where
  \<comment> \<open>one digit of the verb \<open>%X\<close>\<close>
  "hexDigit d = (''0123456789ABCDEF'') ! d"

definition fmt04X :: "uint16 \<Rightarrow> string" where
  \<comment> \<open>\<open>fmt.Sprintf("%04X", x)\<close>: a 16-bit value never needs more than the four digits\<close>
  "fmt04X x = (let n = unat x in
     [hexDigit (n div 4096 mod 16), hexDigit (n div 256 mod 16),
      hexDigit (n div 16 mod 16), hexDigit (n mod 16)])"

lemma length_fmt04X [simp]: "length (fmt04X x) = 4"
  by (simp add: fmt04X_def Let_def)

lemma hexDigit_inj: "a < 16 \<Longrightarrow> b < 16 \<Longrightarrow> hexDigit a = hexDigit b \<longleftrightarrow> a = b"
  unfolding hexDigit_def by (rule nth_eq_iff_index_eq) simp_all

lemma hex_digits_sum:
  fixes n :: nat
  assumes "n < 65536"
  shows "n = 16 * (16 * (16 * (n div 4096 mod 16) + n div 256 mod 16) + n div 16 mod 16) + n mod 16"
proof -
  have "n div 16 div 16 = n div 256" "n div 256 div 16 = n div 4096"
    by (simp_all add: div_mult2_eq [symmetric])
  moreover have "n div 4096 mod 16 = n div 4096"
    using assms by simp
  ultimately show ?thesis
    using mult_div_mod_eq [of 16 n] mult_div_mod_eq [of 16 "n div 16"]
      mult_div_mod_eq [of 16 "n div 256"] by presburger
qed

lemma fmt04X_inj [simp]: "fmt04X x = fmt04X y \<longleftrightarrow> x = y"
proof
  assume eq: "fmt04X x = fmt04X y"
  let ?digits = "\<lambda>n::nat. 16 * (16 * (16 * (n div 4096 mod 16) + n div 256 mod 16) + n div 16 mod 16)
    + n mod 16"
  have "unat x = ?digits (unat x)"
    by (rule hex_digits_sum) simp
  also from eq have "\<dots> = ?digits (unat y)"
    by (simp add: fmt04X_def Let_def hexDigit_inj)
  also have "\<dots> = unat y"
    by (rule hex_digits_sum [symmetric]) simp
  finally show "x = y"
    by (simp add: word_unat_eq_iff)
qed simp

section \<open>Lists\<close>

lemma take_drop_append_left:
  "m + n \<le> length xs \<Longrightarrow> take n (drop m (xs @ ys)) = take n (drop m xs)"
  by simp

lemma less4_cases: "(j::nat) < 4 \<Longrightarrow> j = 0 \<or> j = 1 \<or> j = 2 \<or> j = 3"
  by arith

lemma list4_exhaust: "length xs = 4 \<Longrightarrow> \<exists>a b c d. xs = [a, b, c, d]"
  by (auto simp: length_Suc_conv eval_nat_numeral)

lemma length_concat_uniform:
  "\<forall>i<n. length (f i) = k \<Longrightarrow> length (concat (map f [0..<n])) = k * n"
  by (induction n) simp_all

lemma nth_concat_uniform:
  assumes "\<forall>i<n. length (f i) = k" "i < n" "j < k"
  shows "concat (map f [0..<n]) ! (k * i + j) = f i ! j"
  using assms
proof (induction n)
  case (Suc n)
  have len: "length (concat (map f [0..<n])) = k * n"
    using Suc.prems(1) by (intro length_concat_uniform) simp
  show ?case
  proof (cases "i = n")
    case True
    with len Suc.prems(3) show ?thesis by (simp add: nth_append)
  next
    case False
    with Suc.prems(2) have "i < n" by simp
    then have "k * Suc i \<le> k * n" by (intro mult_le_mono2) simp
    with Suc.prems(3) have "k * i + j < k * n" by simp
    with Suc \<open>i < n\<close> len show ?thesis by (simp add: nth_append)
  qed
qed simp

lemma concat_uniform_eqI:
  assumes "length xs = k * n" "\<And>i. i < n \<Longrightarrow> length (f i) = k"
    and "\<And>i j. i < n \<Longrightarrow> j < k \<Longrightarrow> xs ! (k * i + j) = f i ! j"
  shows "xs = concat (map f [0..<n])"
proof (rule nth_equalityI)
  have len: "\<forall>i<n. length (f i) = k" using assms(2) by simp
  show "length xs = length (concat (map f [0..<n]))"
    by (simp only: assms(1) length_concat_uniform [OF len])
  fix m assume "m < length xs"
  with assms(1) have m: "m < k * n" by simp
  then have "0 < k" by (cases k) simp_all
  with m have "m div k < n" "m mod k < k" "m = k * (m div k) + m mod k"
    by (simp_all add: less_mult_imp_div_less mult.commute)
  with assms(3) [of "m div k" "m mod k"] nth_concat_uniform [OF len, of "m div k" "m mod k"]
  show "xs ! m = concat (map f [0..<n]) ! m" by simp
qed

lemma take_drop_concat_uniform:
  assumes "\<forall>i<n. length (f i) = k" "i < n"
  shows "take k (drop (i * k) (concat (map f [0..<n]))) = f i"
proof (rule nth_equalityI)
  have "i * k + k \<le> n * k"
    using assms(2) mult_le_mono1 [of "Suc i" n k] by simp
  then show len: "length (take k (drop (i * k) (concat (map f [0..<n])))) = length (f i)"
    using assms by (simp add: length_concat_uniform [OF assms(1)] mult.commute del: length_concat)
  fix j assume "j < length (take k (drop (i * k) (concat (map f [0..<n]))))"
  with len assms have "j < k" by simp
  with assms \<open>i * k + k \<le> n * k\<close>
  show "take k (drop (i * k) (concat (map f [0..<n]))) ! j = f i ! j"
    using nth_concat_uniform [OF assms \<open>j < k\<close>]
    by (simp add: length_concat_uniform [OF assms(1)] mult.commute del: length_concat)
qed

section \<open>Residues\<close>

lemma nat_mod_eq_dvd: "a mod m = b mod m \<longleftrightarrow> int m dvd int a - int b" for a b m :: nat
  by (metis mod_eq_dvd_iff of_nat_eq_iff of_nat_mod)

lemma mod_shift_eq:
  fixes S S' u b c m :: nat
  assumes "S' + u = S + b"
  shows "(S' + c) mod m = (S + c) mod m \<longleftrightarrow> b mod m = u mod m"
proof -
  have "int (S' + c) - int (S + c) = int b - int u" using assms by linarith
  then show ?thesis by (simp only: nat_mod_eq_dvd)
qed

end
