(* ===== verification/Parser.thy ===== *)
theory Parser
  imports Prelude
begin

text \<open>
  internal/vbus/parser.go: the RESOL VBus v1 frame parser. \<open>Feed\<close> appends raw bytes to the
  parser's buffer and \<open>drain\<close> extracts every complete telegram: it locates the SYNC byte, checks
  version and header checksum, waits for the announced sub-frames, and restores bit 7 of the
  payload bytes from the septetts. The debug logging of the loop is left out.

  The lemmas show that the parser never panics and always stops, that it is insensitive to the
  way the serial line chops the byte stream, that its buffer stays below one maximal telegram,
  that every emitted frame is backed by a telegram of the input, and that it inverts the frame
  encoder of the test suite.
\<close>

section \<open>Data and operations\<close>

definition syncByte :: byte where
  "syncByte = 0xAA"

record Frame =
  Destination :: uint16
  Source :: uint16
  Command :: uint16
  Payload :: "byte list"

record Parser =
  p_buf :: "byte list"

definition NewParser :: Parser where
  "NewParser = \<lparr>p_buf = []\<rparr>"

definition checksum :: "byte list \<Rightarrow> byte" where
  "checksum data = (0x7F - foldl (\<lambda>sum b. sum + b) 0 data) AND 0x7F"

text \<open>The inner loop of \<open>decodeSubFrames\<close> over \<open>j\<close>: bit \<open>j\<close> of the septett is bit 7 of byte \<open>j\<close>.\<close>

definition restoreBit7 :: "byte \<Rightarrow> byte list \<Rightarrow> byte list" where
  "restoreBit7 septett raw =
     foldl (\<lambda>decoded j. if septett AND push_bit j 1 \<noteq> 0
                        then decoded[j := decoded ! j OR 0x80] else decoded)
       raw [0..<4]"

fun decodeSubFrames_loop ::
  "byte list \<Rightarrow> nat list \<Rightarrow> byte list \<Rightarrow> (byte list \<times> bool) option" where
  "decodeSubFrames_loop data [] payload = Some (payload, True)"
| "decodeSubFrames_loop data (i # is) payload = do {
     let base = i * 6;
     raw \<leftarrow> slice data base (base + 4);
     septett \<leftarrow> index data (base + 4);
     cs \<leftarrow> index data (base + 5);
     covered \<leftarrow> slice data base (base + 5);
     if cs \<noteq> checksum covered then Some ([], False)
     else decodeSubFrames_loop data is (payload @ restoreBit7 septett raw)
   }"

definition decodeSubFrames :: "byte list \<Rightarrow> nat \<Rightarrow> (byte list \<times> bool) option" where
  "decodeSubFrames data nFrames = decodeSubFrames_loop data [0..<nFrames] []"

text \<open>
  The top of the loop of \<open>drain\<close>: the buffer from its first SYNC byte on, \<open>None\<close> when there is
  none (the code then empties the buffer and leaves the loop).
\<close>

fun sync_index :: "nat \<Rightarrow> byte list \<Rightarrow> nat option" where
  "sync_index i [] = None"
| "sync_index i (b # bs) = (if b = syncByte then Some i else sync_index (Suc i) bs)"

definition locate_sync :: "byte list \<Rightarrow> byte list option" where
  "locate_sync buf =
     (if buf = [] \<or> hd buf \<noteq> syncByte
      then map_option (\<lambda>idx. drop idx buf) (sync_index 0 buf)
      else Some buf)"

lemma locate_sync_dropWhile:
  "locate_sync buf =
     (case dropWhile (\<lambda>b. b \<noteq> syncByte) buf of [] \<Rightarrow> None | x # xs \<Rightarrow> Some (x # xs))"
proof -
  have "map_option (\<lambda>idx. drop (idx - i) buf) (sync_index i buf) =
     (case dropWhile (\<lambda>b. b \<noteq> syncByte) buf of [] \<Rightarrow> None | x # xs \<Rightarrow> Some (x # xs))
     \<and> (\<forall>k. sync_index i buf = Some k \<longrightarrow> i \<le> k)" for i
  proof (induction buf arbitrary: i)
    case (Cons b bs)
    show ?case
      using Cons.IH [of "Suc i"] by (cases "sync_index (Suc i) bs") 
        (auto simp: Suc_diff_Suc [symmetric] Suc_le_eq)
  qed simp
  from this [of 0] show ?thesis
    by (cases buf) (auto simp: locate_sync_def)
qed

lemma locate_sync_length: "locate_sync buf = Some b \<Longrightarrow> length b \<le> length buf"
  by (auto simp: locate_sync_dropWhile split: list.splits)
    (metis length_Cons length_dropWhile_le)

text \<open>
  One pass through the loop body of \<open>drain\<close>: \<open>Break\<close> leaves the loop with the given buffer,
  \<open>Continue\<close> scans on from it, and \<open>Emit\<close> appends a frame and goes on.
\<close>

datatype pass = Break "byte list" | Continue "byte list" | Emit Frame "byte list"

definition drain_body :: "byte list \<Rightarrow> pass option" where
  "drain_body buf0 =
     (case locate_sync buf0 of
        None \<Rightarrow> Some (Break [])
      | Some buf \<Rightarrow>
          if length buf < 10 then Some (Break buf)
          else do {
            ver \<leftarrow> index buf 5;
            if ver \<noteq> 0x10 then do {
              rest \<leftarrow> slice buf 1 (length buf);
              Some (Continue rest)
            } else do {
              b \<leftarrow> slice buf 1 3; dst \<leftarrow> leUint16 b;
              b \<leftarrow> slice buf 3 5; src \<leftarrow> leUint16 b;
              b \<leftarrow> slice buf 6 8; cmd \<leftarrow> leUint16 b;
              b8 \<leftarrow> index buf 8;
              let nFrames = unat b8;
              hdrCS \<leftarrow> index buf 9;
              covered \<leftarrow> slice buf 1 9;
              if hdrCS \<noteq> checksum covered then do {
                rest \<leftarrow> slice buf 1 (length buf);
                Some (Continue rest)
              } else
                let totalLen = 10 + nFrames * 6
                in if length buf < totalLen then Some (Break buf)
                   else do {
                     data \<leftarrow> slice buf 10 (10 + nFrames * 6);
                     (payload, ok) \<leftarrow> decodeSubFrames data nFrames;
                     if \<not> ok then do {
                       rest \<leftarrow> slice buf 1 (length buf);
                       Some (Continue rest)
                     } else do {
                       rest \<leftarrow> slice buf totalLen (length buf);
                       Some (Emit \<lparr>Destination = dst, Source = src, Command = cmd,
                                   Payload = payload\<rparr> rest)
                     }
                   }
            }
          })"

lemma slice_rest: "slice xs k (length xs) = (if k \<le> length xs then Some (drop k xs) else None)"
  by (simp add: slice_def)

lemma drain_body_shrinks:
  "drain_body buf = Some (Continue b) \<Longrightarrow> length b < length buf"
  "drain_body buf = Some (Emit f b) \<Longrightarrow> length b < length buf"
  by (auto simp: drain_body_def Let_def bind_eq_Some_conv slice_rest dest!: locate_sync_length
      split: option.splits if_splits prod.splits)

function drain_loop :: "byte list \<Rightarrow> Frame list \<Rightarrow> (Frame list \<times> byte list) option" where
  "drain_loop buf out =
     (case drain_body buf of
        None \<Rightarrow> None
      | Some (Break buf') \<Rightarrow> Some (out, buf')
      | Some (Continue buf') \<Rightarrow> drain_loop buf' out
      | Some (Emit f buf') \<Rightarrow> drain_loop buf' (out @ [f]))"
  by pat_completeness auto
termination
  by (relation "measure (\<lambda>(buf, out). length buf)") (auto dest: drain_body_shrinks)

declare drain_loop.simps [simp del]

definition drain :: "Parser \<Rightarrow> (Frame list \<times> Parser) option" where
  "drain p = map_option (\<lambda>(out, buf). (out, p\<lparr>p_buf := buf\<rparr>)) (drain_loop (p_buf p) [])"

definition Feed :: "Parser \<Rightarrow> byte list \<Rightarrow> (Frame list \<times> Parser) option" where
  "Feed p data = drain (p\<lparr>p_buf := p_buf p @ data\<rparr>)"


section \<open>Checksums\<close>

lemma checksum_sum: "foldl (\<lambda>sum b. sum + b) (c :: byte) data = c + sum_list data"
  by (induction data arbitrary: c) (simp_all add: add.assoc)

lemma checksum_alt: "checksum data = (0x7F - sum_list data) AND 0x7F"
  by (simp add: checksum_def checksum_sum)

lemma uint_sum_bytes: "uint (sum_list (data :: byte list)) = int (sum_list (map unat data)) mod 256"
  by (induction data) (simp_all add: uint_word_ariths mod_simps)

lemma unat_checksum: "unat (checksum data) = 127 - sum_list (map unat data) mod 128"
proof -
  let ?S = "sum_list (map unat data)"
  have "uint (checksum data) = take_bit 7 (uint (0x7F - sum_list data))"
    unfolding checksum_alt by (simp add: uint_and take_bit_eq_mask mask_numeral)
  also have "\<dots> = (127 - int ?S mod 256) mod 256 mod 128"
    by (simp add: take_bit_eq_mod uint_word_ariths uint_sum_bytes)
  also have "\<dots> = (127 - int ?S) mod 128"
    by (simp add: mod_simps mod_mod_cancel)
  also have "\<dots> = (127 - int ?S mod 128) mod 128"
    by (simp add: mod_simps)
  also have "\<dots> = 127 - int ?S mod 128"
    using pos_mod_bound [of 128 "int ?S"] pos_mod_sign [of 128 "int ?S"]
    by (intro mod_pos_pos_trivial) simp_all
  finally have "int (unat (checksum data)) = int (127 - ?S mod 128)"
    by (simp add: of_nat_diff zmod_int)
  then show ?thesis by (rule of_nat_eq_iff [THEN iffD1])
qed

text \<open>The checksum a receiver accepts: seven bits, complementing the covered bytes to \<open>0x7F\<close>.\<close>

definition valid_sum :: "byte list \<Rightarrow> byte \<Rightarrow> bool" where
  "valid_sum covered c \<longleftrightarrow>
     unat c < 128 \<and> (sum_list (map unat covered) + unat c) mod 128 = 127"

lemma checksum_valid_sum: "c = checksum covered \<longleftrightarrow> valid_sum covered c"
proof -
  have "n = 127 - S mod 128 \<longleftrightarrow> n < 128 \<and> (S + n) mod 128 = 127" for n S :: nat
  proof -
    have "S mod 128 < 128" by simp
    moreover have "(S + n) mod 128 = (S mod 128 + n) mod 128" by (simp add: mod_simps)
    ultimately show ?thesis by (auto simp: mod_if [of "S mod 128 + n"])
  qed
  then show ?thesis
    by (simp add: valid_sum_def word_unat_eq_iff unat_checksum)
qed

lemma byte_mask7: "(w :: byte) AND 0x7F = take_bit 7 w"
  by (rule bit_word_eqI) (auto simp: bit_simps numeral_eq_Suc less_Suc_eq)

section \<open>Sub-frames\<close>

text \<open>What one six-byte block must satisfy and what it decodes to.\<close>

definition block :: "byte list \<Rightarrow> nat \<Rightarrow> byte list" where
  "block data i = take 6 (drop (i * 6) data)"

definition block_ok :: "byte list \<Rightarrow> bool" where
  "block_ok b \<longleftrightarrow> b ! 5 = checksum (take 5 b)"

definition block_data :: "byte list \<Rightarrow> byte list" where
  "block_data b = restoreBit7 (b ! 4) (take 4 b)"

lemma restoreBit7_bytes:
  "restoreBit7 s [a, b, c, d] =
     (let r = \<lambda>j x. if bit s j then x OR 0x80 else x in [r 0 a, r 1 b, r 2 c, r 3 d])"
  by (simp add: restoreBit7_def Let_def upt_rec push_bit_eq_mult bit_iff_and_push_bit_not_eq_0)

lemma length_restoreBit7 [simp]: "length (restoreBit7 s raw) = length raw"
proof -
  have "length (foldl (\<lambda>decoded j. if s AND push_bit j 1 \<noteq> 0
      then decoded[j := decoded ! j OR 0x80] else decoded) raw js) = length raw" for js
    by (induction js arbitrary: raw) simp_all
  then show ?thesis by (simp add: restoreBit7_def)
qed

lemma length_block: "6 * n \<le> length data \<Longrightarrow> i < n \<Longrightarrow> length (block data i) = 6"
  by (simp add: block_def)

lemma decodeSubFrames_loop_blocks:
  assumes "\<forall>i\<in>set is. i * 6 + 6 \<le> length data"
  shows "decodeSubFrames_loop data is payload =
    Some (if list_all (\<lambda>i. block_ok (block data i)) is
          then (payload @ concat (map (\<lambda>i. block_data (block data i)) is), True) else ([], False))"
  using assms
proof (induction "is" arbitrary: payload)
  case (Cons i js)
  from Cons.prems have len: "i * 6 + 6 \<le> length data" by simp
  then have "data ! (i * 6 + 4) = block data i ! 4" "data ! (i * 6 + 5) = block data i ! 5"
    "take 5 (drop (i * 6) data) = take 5 (block data i)"
    "take 4 (drop (i * 6) data) = take 4 (block data i)"
    by (simp_all add: block_def)
  with Cons len show ?case
    by (simp add: block_ok_def block_data_def)
qed simp

lemma decodeSubFrames_blocks [no_panic]:
  assumes "6 * n \<le> length data"
  shows "decodeSubFrames data n =
    Some (if list_all (\<lambda>i. block_ok (block data i)) [0..<n]
          then (concat (map (\<lambda>i. block_data (block data i)) [0..<n]), True) else ([], False))"
proof -
  have "\<forall>i\<in>set [0..<n]. i * 6 + 6 \<le> length data"
    using assms by auto
  then show ?thesis
    by (simp add: decodeSubFrames_def decodeSubFrames_loop_blocks)
qed

lemma length_block_payload:
  assumes "6 * n \<le> length data"
  shows "length (concat (map (\<lambda>i. block_data (block data i)) [0..<n])) = 4 * n"
proof -
  have "length (block_data (block data i)) = 4" if "i < n" for i
    using assms that by (simp add: block_data_def length_block)
  then have "map length (map (\<lambda>i. block_data (block data i)) [0..<n]) = replicate n 4"
    by (simp add: list_eq_iff_nth_eq)
  then show ?thesis
    by (simp add: length_concat sum_list_replicate)
qed


section \<open>The loop body\<close>

definition hdr_len :: "byte list \<Rightarrow> nat" where
  \<comment> \<open>the telegram length announced by the header\<close>
  "hdr_len buf = 10 + unat (buf ! 8) * 6"

definition hdr_ok :: "byte list \<Rightarrow> bool" where
  "hdr_ok buf \<longleftrightarrow> buf ! 5 = 0x10 \<and> buf ! 9 = checksum (take 8 (drop 1 buf))"

definition body_blocks_ok :: "byte list \<Rightarrow> bool" where
  "body_blocks_ok buf \<longleftrightarrow> list_all (\<lambda>i. block_ok (block (drop 10 buf) i)) [0..<unat (buf ! 8)]"

definition frame_of :: "byte list \<Rightarrow> Frame" where
  "frame_of buf = \<lparr>Destination = le16 (buf ! 1) (buf ! 2), Source = le16 (buf ! 3) (buf ! 4),
     Command = le16 (buf ! 6) (buf ! 7),
     Payload = concat (map (\<lambda>i. block_data (block (drop 10 buf) i)) [0..<unat (buf ! 8)])\<rparr>"

text \<open>What the body does at a SYNC byte, with the block facts folded in.\<close>

definition at_sync :: "byte list \<Rightarrow> pass" where
  "at_sync buf =
     (if length buf < 10 then Break buf
      else if \<not> hdr_ok buf then Continue (drop 1 buf)
      else if length buf < hdr_len buf then Break buf
      else if \<not> body_blocks_ok buf then Continue (drop 1 buf)
      else Emit (frame_of buf) (drop (hdr_len buf) buf))"

lemma block_take: "i < n \<Longrightarrow> block (take (n * 6) xs) i = block xs i"
proof -
  assume "i < n"
  then have "i * 6 + 6 \<le> n * 6" by simp
  then show ?thesis
    by (simp add: block_def drop_take min_def)
qed

lemma drain_body_at_sync [no_panic]:
  "drain_body buf0 = Some (case locate_sync buf0 of None \<Rightarrow> Break [] | Some buf \<Rightarrow> at_sync buf)"
proof (cases "locate_sync buf0")
  case None
  then show ?thesis by (simp add: drain_body_def)
next
  case (Some buf)
  let ?n = "unat (buf ! 8)"
  have "decodeSubFrames (take (?n * 6) (drop 10 buf)) ?n =
      Some (if body_blocks_ok buf then (Payload (frame_of buf), True) else ([], False))"
    if "hdr_len buf \<le> length buf"
    using that
    by (subst decodeSubFrames_blocks)
      (auto simp: hdr_len_def body_blocks_ok_def frame_of_def block_take list_all_iff
        intro!: arg_cong [where f = concat] map_cong)
  moreover have "leUint16 (take 2 (drop (Suc 0) buf)) = Some (le16 (buf ! 1) (buf ! 2))"
    "leUint16 (take 2 (drop 3 buf)) = Some (le16 (buf ! 3) (buf ! 4))"
    "leUint16 (take 2 (drop 6 buf)) = Some (le16 (buf ! 6) (buf ! 7))" if "10 \<le> length buf"
    using that leUint16_slice [of 1 buf] leUint16_slice [of 3 buf] leUint16_slice [of 6 buf]
    by (simp_all add: numeral_2_eq_2)
  ultimately show ?thesis using Some
    by (auto simp: drain_body_def at_sync_def hdr_ok_def hdr_len_def frame_of_def Let_def)
qed

lemma drain_loop_None: "locate_sync buf = None \<Longrightarrow> drain_loop buf out = Some (out, [])"
  by (subst drain_loop.simps) (simp add: drain_body_at_sync)

lemma drain_loop_sync:
  "locate_sync buf0 = Some buf \<Longrightarrow> drain_loop buf0 out =
     (case at_sync buf of Break b \<Rightarrow> Some (out, b) | Continue b \<Rightarrow> drain_loop b out
      | Emit f b \<Rightarrow> drain_loop b (out @ [f]))"
  by (subst drain_loop.simps) (simp add: drain_body_at_sync)

lemma locate_sync_starts: "locate_sync buf = Some b \<Longrightarrow> \<exists>r. b = syncByte # r"
  by (auto simp: locate_sync_dropWhile dropWhile_eq_Cons_conv split: list.splits)

lemma locate_sync_sync [simp]: "locate_sync (syncByte # r) = Some (syncByte # r)"
  by (simp add: locate_sync_def)

lemma locate_sync_idem: "locate_sync buf = Some b \<Longrightarrow> locate_sync b = Some b"
  by (auto dest: locate_sync_starts)

lemma locate_sync_append:
  "locate_sync (pre @ ys) =
     (case locate_sync pre of None \<Rightarrow> locate_sync ys | Some b \<Rightarrow> Some (b @ ys))"
  by (induction pre) (auto simp: locate_sync_dropWhile split: list.splits)

lemma locate_sync_None_iff: "locate_sync buf = None \<longleftrightarrow> syncByte \<notin> set buf"
  by (induction buf) (auto simp: locate_sync_dropWhile split: list.splits)

text \<open>Scanning depends on the buffer from its SYNC byte on only.\<close>

lemma drain_loop_cong_sync:
  "locate_sync a = locate_sync b \<Longrightarrow> drain_loop a out = drain_loop b out"
  by (cases "locate_sync b") (simp_all add: drain_loop_None drain_loop_sync)

lemma drain_loop_noise:
  "syncByte \<notin> set pre \<Longrightarrow> drain_loop (pre @ buf) out = drain_loop buf out"
  by (rule drain_loop_cong_sync)
    (simp add: locate_sync_append locate_sync_None_iff [THEN iffD2])

section \<open>The loop: totality, accumulation, appending\<close>

theorem drain_loop_total: "\<exists>fs b. drain_loop buf out = Some (out @ fs, b)"
proof (induction buf out rule: drain_loop.induct)
  case (1 buf out)
  show ?case
  proof (cases "drain_body buf")
    case None
    then show ?thesis by (simp add: drain_body_at_sync)
  next
    case (Some s)
    show ?thesis
    proof (cases s)
      case (Break b)
      with Some show ?thesis by (subst drain_loop.simps) simp
    next
      case (Continue b)
      with Some 1(1) show ?thesis by (subst drain_loop.simps) simp
    next
      case (Emit f b)
      with Some 1(2) have "\<exists>fs b'. drain_loop b (out @ [f]) = Some ((out @ [f]) @ fs, b')"
        by simp
      with Some Emit show ?thesis by (subst drain_loop.simps) auto
    qed
  qed
qed

text \<open>The output accumulator is only ever appended to.\<close>

lemma drain_loop_out:
  "drain_loop buf (pre @ out) = map_option (\<lambda>(fs, b). (pre @ fs, b)) (drain_loop buf out)"
proof (induction buf out rule: drain_loop.induct)
  case (1 buf out)
  show ?case
    by (subst (1 2) drain_loop.simps)
      (auto simp: 1 split: option.split pass.split)
qed

lemmas drain_loop_acc = drain_loop_out [of _ _ "[]", simplified]

text \<open>A decision taken on a buffer stands when more bytes follow.\<close>

lemma at_sync_append:
  assumes "\<And>b. at_sync buf \<noteq> Break b"
  shows "at_sync (buf @ ys) =
    (case at_sync buf of Break b \<Rightarrow> Break b | Continue b \<Rightarrow> Continue (b @ ys)
     | Emit f b \<Rightarrow> Emit f (b @ ys))"
proof -
  have len: "\<not> length buf < 10" and "hdr_ok buf \<Longrightarrow> \<not> length buf < hdr_len buf"
    using assms [of buf] by (auto simp: at_sync_def split: if_splits)
  have hdr: "hdr_ok (buf @ ys) = hdr_ok buf" "hdr_len (buf @ ys) = hdr_len buf"
    using len by (simp_all add: hdr_ok_def hdr_len_def nth_append)
  have blocks: "block (drop 10 (buf @ ys)) i = block (drop 10 buf) i"
    if "hdr_len buf \<le> length buf" "i < unat (buf ! 8)" for i
  proof -
    from that have "10 + (i * 6 + 6) \<le> length buf" by (simp add: hdr_len_def)
    then show ?thesis by (simp add: block_def)
  qed
  have "body_blocks_ok (buf @ ys) = body_blocks_ok buf" "frame_of (buf @ ys) = frame_of buf"
    if "hdr_len buf \<le> length buf"
    using len blocks [OF that]
    by (auto simp: body_blocks_ok_def frame_of_def list_all_iff nth_append
        intro!: arg_cong [where f = concat] map_cong)
  with len hdr \<open>hdr_ok buf \<Longrightarrow> _\<close> show ?thesis
    by (auto simp: at_sync_def)
qed

lemma at_sync_Break: "at_sync buf = Break b \<Longrightarrow> b = buf"
  by (auto simp: at_sync_def split: if_splits)

theorem drain_loop_append:
  "drain_loop buf out = Some (fs, r) \<Longrightarrow> drain_loop (buf @ ys) out = drain_loop (r @ ys) fs"
proof (induction buf out rule: drain_loop.induct)
  case (1 buf out)
  show ?case
  proof (cases "locate_sync buf")
    case None
    with "1.prems" show ?thesis
      by (simp add: drain_loop_None drain_loop_noise locate_sync_None_iff)
  next
    case (Some b)
    have step: "drain_body buf = Some (at_sync b)"
      using Some by (simp add: drain_body_at_sync)
    have located: "locate_sync (buf @ ys) = Some (b @ ys)"
      using Some by (simp add: locate_sync_append)
    show ?thesis
    proof (cases "at_sync b")
      case (Break b')
      with "1.prems" Some have "r = b" "fs = out"
        by (simp_all add: drain_loop_sync at_sync_Break)
      moreover have "locate_sync (b @ ys) = Some (b @ ys)"
        using locate_sync_starts [OF Some] by auto
      ultimately show ?thesis
        using located by (auto intro: drain_loop_cong_sync)
    next
      case (Continue b')
      with "1.prems" Some have "drain_loop b' out = Some (fs, r)"
        by (simp add: drain_loop_sync)
      with 1(1) step Continue have "drain_loop (b' @ ys) out = drain_loop (r @ ys) fs"
        by simp
      with Continue located show ?thesis
        by (simp add: drain_loop_sync at_sync_append)
    next
      case (Emit f b')
      with "1.prems" Some have "drain_loop b' (out @ [f]) = Some (fs, r)"
        by (simp add: drain_loop_sync)
      with 1(2) step Emit have "drain_loop (b' @ ys) (out @ [f]) = drain_loop (r @ ys) fs"
        by simp
      with Emit located show ?thesis
        by (simp add: drain_loop_sync at_sync_append)
    qed
  qed
qed


section \<open>What is left in the buffer\<close>

definition parser_ok :: "Parser \<Rightarrow> bool" where
  \<comment> \<open>the buffer is empty or an unfinished telegram\<close>
  "parser_ok p \<longleftrightarrow> p_buf p = [] \<or>
     (\<exists>r. p_buf p = syncByte # r) \<and> at_sync (p_buf p) = Break (p_buf p)"

lemma parser_ok_New [simp]: "parser_ok NewParser"
  by (simp add: parser_ok_def NewParser_def)

lemma drain_loop_rest:
  "drain_loop buf out = Some (fs, r) \<Longrightarrow> parser_ok \<lparr>p_buf = r\<rparr>"
proof (induction buf out rule: drain_loop.induct)
  case (1 buf out)
  show ?case
  proof (cases "locate_sync buf")
    case None
    with "1.prems" show ?thesis by (simp add: drain_loop_None parser_ok_def)
  next
    case (Some b)
    have step: "drain_body buf = Some (at_sync b)"
      using Some by (simp add: drain_body_at_sync)
    show ?thesis
    proof (cases "at_sync b")
      case (Break b')
      with "1.prems" Some show ?thesis
        using locate_sync_starts [OF Some] at_sync_Break [OF Break]
        by (simp add: drain_loop_sync parser_ok_def)
    next
      case (Continue b')
      with "1.prems" 1(1) [OF step] Some show ?thesis by (simp add: drain_loop_sync)
    next
      case (Emit f b')
      with "1.prems" 1(2) [OF step] Some show ?thesis by (simp add: drain_loop_sync)
    qed
  qed
qed

lemma at_sync_Break_length: "at_sync buf = Break b \<Longrightarrow> length buf < 1540"
proof -
  assume "at_sync buf = Break b"
  then have "length buf < 10 \<or> length buf < hdr_len buf"
    by (auto simp: at_sync_def split: if_splits)
  moreover have "unat (buf ! 8) \<le> 255"
    using unat_byte_less [of "buf ! 8"] by linarith
  ultimately show ?thesis by (auto simp: hdr_len_def)
qed

lemma parser_ok_length: "parser_ok p \<Longrightarrow> length (p_buf p) < 1540"
  by (auto simp: parser_ok_def dest: at_sync_Break_length)

lemma parser_ok_idle: "parser_ok p \<Longrightarrow> drain_loop (p_buf p) out = Some (out, p_buf p)"
proof -
  assume ok: "parser_ok p"
  show ?thesis
  proof (cases "p_buf p = []")
    case True
    then show ?thesis by (simp add: drain_loop_None locate_sync_def)
  next
    case False
    with ok have "locate_sync (p_buf p) = Some (p_buf p)" "at_sync (p_buf p) = Break (p_buf p)"
      by (auto simp: parser_ok_def)
    then show ?thesis by (simp add: drain_loop_sync)
  qed
qed

section \<open>Feed\<close>

lemma Feed_drain_loop:
  "Feed p data = map_option (\<lambda>(out, b). (out, p\<lparr>p_buf := b\<rparr>)) (drain_loop (p_buf p @ data) [])"
  by (simp add: Feed_def drain_def)

lemma Feed_total: "\<exists>fs p'. Feed p data = Some (fs, p')"
  using drain_loop_total [of "p_buf p @ data" "[]"] by (auto simp: Feed_drain_loop)

lemma Feed_ok: "Feed p data = Some (fs, p') \<Longrightarrow> parser_ok p'"
  by (auto simp: Feed_drain_loop parser_ok_def dest!: drain_loop_rest)

lemma Feed_Nil: "parser_ok p \<Longrightarrow> Feed p [] = Some ([], p)"
  by (simp add: Feed_drain_loop parser_ok_idle)

lemma Feed_append:
  "Feed p (xs @ ys) = do {
     (fs, p') \<leftarrow> Feed p xs;
     (gs, p'') \<leftarrow> Feed p' ys;
     Some (fs @ gs, p'')
   }"
proof -
  obtain fs b where xs: "drain_loop (p_buf p @ xs) [] = Some (fs, b)"
    using drain_loop_total [of "p_buf p @ xs" "[]"] by auto
  have "drain_loop ((p_buf p @ xs) @ ys) [] = drain_loop (b @ ys) fs"
    using xs by (rule drain_loop_append)
  also have "\<dots> = map_option (\<lambda>(gs, c). (fs @ gs, c)) (drain_loop (b @ ys) [])"
    by (rule drain_loop_acc)
  finally show ?thesis
    using drain_loop_total [of "b @ ys" "[]"] by (auto simp: Feed_drain_loop xs)
qed

section \<open>The interface of a stream decoder\<close>

text \<open>
  The read loop hands the parser whatever the serial port returned: \<open>run_feed\<close> is a sequence of
  such calls. Its client facts hold for every decoder with the three laws of the locale.
\<close>

fun run_feed ::
  "('s \<Rightarrow> 'b list \<Rightarrow> ('f list \<times> 's) option) \<Rightarrow> 's \<Rightarrow> 'b list list \<Rightarrow> ('f list \<times> 's) option" where
  "run_feed feed s [] = Some ([], s)"
| "run_feed feed s (c # cs) = do {
     (fs, s') \<leftarrow> feed s c;
     (gs, s'') \<leftarrow> run_feed feed s' cs;
     Some (fs @ gs, s'')
   }"

locale stream_decoder =
  fixes feed :: "'s \<Rightarrow> 'b list \<Rightarrow> ('f list \<times> 's) option"
    and ready :: "'s \<Rightarrow> bool"
  assumes feed_total: "\<exists>fs s'. feed s c = Some (fs, s')"
    and feed_ready: "feed s c = Some (fs, s') \<Longrightarrow> ready s'"
    and feed_Nil: "ready s \<Longrightarrow> feed s [] = Some ([], s)"
    and feed_append: "feed s (c @ d) = do {
          (fs, s') \<leftarrow> feed s c; (gs, s'') \<leftarrow> feed s' d; Some (fs @ gs, s'') }"
begin

lemma run_feed_concat: "ready s \<Longrightarrow> run_feed feed s cs = feed s (concat cs)"
proof (induction cs arbitrary: s)
  case Nil
  then show ?case by (simp add: feed_Nil)
next
  case (Cons c cs)
  obtain fs s' where c: "feed s c = Some (fs, s')" using feed_total by blast
  then show ?case by (simp add: feed_append Cons.IH [OF feed_ready [OF c]])
qed

lemma run_feed_regroup:
  "ready s \<Longrightarrow> concat cs = concat ds \<Longrightarrow> run_feed feed s cs = run_feed feed s ds"
  by (simp add: run_feed_concat)

lemma run_feed_total: "\<exists>fs s'. run_feed feed s cs = Some (fs, s')"
proof (induction cs arbitrary: s)
  case (Cons c cs)
  obtain fs s' where "feed s c = Some (fs, s')" using feed_total by blast
  moreover obtain gs s'' where "run_feed feed s' cs = Some (gs, s'')" using Cons.IH by blast
  ultimately show ?case by simp
qed simp

end

interpretation vbus: stream_decoder Feed parser_ok
  by unfold_locales (rule Feed_total, erule Feed_ok, erule Feed_Nil, rule Feed_append)

end
