(* ===== verification/WireFormat.thy ===== *)
theory WireFormat
  imports Parser
begin

text \<open>
  What internal/vbus/parser.go promises, stated without its code: the VBus v1 telegram of the
  package comment as a relation between bytes and frames, and the leftmost scan of a byte stream
  for telegrams. The parser computes exactly that scan.
\<close>

section \<open>The telegram format\<close>

definition telegram :: "byte list \<Rightarrow> Frame \<Rightarrow> bool" where
  "telegram t f \<longleftrightarrow> (let n = unat (t ! 8) in
     length t = 10 + 6 * n \<and> t ! 0 = 0xAA \<and> t ! 5 = 0x10 \<and>
     valid_sum (take 8 (drop 1 t)) (t ! 9) \<and>
     (\<forall>i<n. valid_sum (take 5 (drop (10 + 6 * i) t)) (t ! (10 + 6 * i + 5))) \<and>
     unat (Destination f) = unat (t ! 1) + 256 * unat (t ! 2) \<and>
     unat (Source f) = unat (t ! 3) + 256 * unat (t ! 4) \<and>
     unat (Command f) = unat (t ! 6) + 256 * unat (t ! 7) \<and>
     length (Payload f) = 4 * n \<and>
     (\<forall>i<n. \<forall>j<4. \<forall>b<8. bit (Payload f ! (4 * i + j)) b \<longleftrightarrow>
        bit (t ! (10 + 6 * i + j)) b \<or> b = 7 \<and> bit (t ! (10 + 6 * i + 4)) j))"

lemma restoreBit7_nth:
  assumes "length raw = 4" "j < 4"
  shows "restoreBit7 s raw ! j = (if bit s j then raw ! j OR 0x80 else raw ! j)"
  using list4_exhaust [OF assms(1)] less4_cases [OF assms(2)]
  by (auto simp: restoreBit7_bytes Let_def)

lemma bit_high: "bit (0x80 :: int) b \<longleftrightarrow> b = 7"
proof -
  have "(0x80 :: int) = 2 ^ 7" by simp
  then show ?thesis by (simp only: bit_exp_iff) auto
qed

lemma block_data_bit:
  assumes "length blk = 6" "j < 4" "b < 8"
  shows "bit (block_data blk ! j) b \<longleftrightarrow> bit (blk ! j) b \<or> b = 7 \<and> bit (blk ! 4) j"
  using assms by (auto simp: block_data_def restoreBit7_nth bit_or_iff bit_high)


lemma length_block_data: "length blk = 6 \<Longrightarrow> length (block_data blk) = 4"
  by (simp add: block_data_def)

text \<open>A telegram determines its frame.\<close>

lemma byte_bits_eqI: "(\<And>b. b < 8 \<Longrightarrow> bit (x :: byte) b = bit y b) \<Longrightarrow> x = y"
  by (rule bit_word_eqI) simp

lemma telegram_unique: "telegram t f \<Longrightarrow> telegram t g \<Longrightarrow> f = g"
proof -
  assume f: "telegram t f" and g: "telegram t g"
  let ?n = "unat (t ! 8)"
  have "Payload f = Payload g"
  proof (rule nth_equalityI)
    from f g show "length (Payload f) = length (Payload g)"
      by (simp add: telegram_def Let_def)
    fix m assume "m < length (Payload f)"
    with f have "m < 4 * ?n" by (simp add: telegram_def Let_def)
    then have m: "m div 4 < ?n" "m mod 4 < 4" "m = 4 * (m div 4) + m mod 4" by simp_all
    have "bit (Payload f ! m) b = bit (Payload g ! m) b" if "b < 8" for b
      using f g m that unfolding telegram_def Let_def by metis
    then show "Payload f ! m = Payload g ! m" by (rule byte_bits_eqI)
  qed
  with f g show ?thesis
    by (cases f; cases g) (simp add: telegram_def Let_def word_unat_eq_iff)
qed

section \<open>The parser at a SYNC byte recognises exactly the telegrams\<close>

lemma block_valid_sum:
  assumes "10 + 6 * unat (buf ! 8) \<le> length buf" "i < unat (buf ! 8)"
  shows "block_ok (block (drop 10 buf) i) \<longleftrightarrow>
    valid_sum (take 5 (drop (10 + 6 * i) buf)) (buf ! (10 + 6 * i + 5))"
proof -
  from assms have "10 + (6 * i + 6) \<le> length buf" by simp
  then have "take 5 (block (drop 10 buf) i) = take 5 (drop (10 + 6 * i) buf)"
    "block (drop 10 buf) i ! 5 = buf ! (10 + 6 * i + 5)"
    by (simp_all add: block_def ac_simps)
  then show ?thesis by (simp add: block_ok_def checksum_valid_sum)
qed

lemma frame_of_telegram:
  assumes len: "10 \<le> length buf" "hdr_len buf \<le> length buf" and sync: "buf ! 0 = syncByte"
    and hdr: "hdr_ok buf" and blocks: "body_blocks_ok buf"
  shows "telegram (take (hdr_len buf) buf) (frame_of buf)"
proof -
  let ?n = "unat (buf ! 8)" and ?t = "take (hdr_len buf) buf"
  have n: "10 + 6 * ?n \<le> length buf" "hdr_len buf = 10 + 6 * ?n"
    using len by (simp_all add: hdr_len_def)
  have nth: "?t ! k = buf ! k" if "k < 10" for k
    using that n by simp
  have blk: "length (block (drop 10 buf) i) = 6" if "i < ?n" for i
    using n that by (intro length_block) simp_all
  have inner: "?t ! (10 + 6 * i + j) = buf ! (10 + 6 * i + j)"
    "block (drop 10 buf) i ! j = buf ! (10 + 6 * i + j)" if "i < ?n" "j < 6" for i j
  proof -
    from that have "6 * i + j < 6 * ?n" by linarith
    with n that show "?t ! (10 + 6 * i + j) = buf ! (10 + 6 * i + j)"
      "block (drop 10 buf) i ! j = buf ! (10 + 6 * i + j)"
      by (simp_all add: block_def ac_simps)
  qed
  have "valid_sum (take 5 (drop (10 + 6 * i) ?t)) (?t ! (10 + 6 * i + 5))" if "i < ?n" for i
  proof -
    from that have "6 * i + 6 \<le> 6 * ?n" by linarith
    then have "take 5 (drop (10 + 6 * i) ?t) = take 5 (drop (10 + 6 * i) buf)"
      using n by (simp add: drop_take min_def)
    moreover have "block_ok (block (drop 10 buf) i)"
      using blocks that by (simp add: body_blocks_ok_def list_all_iff)
    ultimately show ?thesis
      using block_valid_sum [OF n(1) that] inner(1) [OF that, of 5] by simp
  qed
  moreover have "bit (Payload (frame_of buf) ! (4 * i + j)) b \<longleftrightarrow>
      bit (?t ! (10 + 6 * i + j)) b \<or> b = 7 \<and> bit (?t ! (10 + 6 * i + 4)) j"
    if "i < ?n" "j < 4" "b < 8" for i j b
  proof -
    have "Payload (frame_of buf) ! (4 * i + j) = block_data (block (drop 10 buf) i) ! j"
      using that blk by (simp add: frame_of_def nth_concat_uniform length_block_data)
    then show ?thesis
      using that blk [OF that(1)] inner [OF that(1)] inner [OF that(1), of 4]
      by (simp add: block_data_bit)
  qed
  moreover have "length (Payload (frame_of buf)) = 4 * ?n"
    unfolding frame_of_def by (simp add: length_concat_uniform blk length_block_data del: length_concat)
  moreover have "valid_sum (take 8 (drop 1 ?t)) (?t ! 9)"
    using hdr n by (simp add: hdr_ok_def checksum_valid_sum drop_take min_def)
  ultimately show ?thesis
    using n sync hdr nth
    by (simp add: telegram_def Let_def frame_of_def unat_le16 hdr_ok_def syncByte_def)
qed

lemma telegram_accepted:
  assumes "telegram t f"
  shows "at_sync (t @ ys) = Emit f ys" "\<exists>r. t = syncByte # r"
proof -
  let ?n = "unat (t ! 8)"
  have len: "length t = 10 + 6 * ?n" and sync: "t ! 0 = syncByte"
    using assms by (simp_all add: telegram_def Let_def syncByte_def)
  then show "\<exists>r. t = syncByte # r" by (cases t) simp_all
  have hdr: "hdr_ok t"
    using assms by (simp add: telegram_def Let_def hdr_ok_def checksum_valid_sum)
  have "block_ok (block (drop 10 t) i)" if "i < ?n" for i
    using assms that by (subst block_valid_sum) (simp_all add: telegram_def Let_def)
  then have blocks: "body_blocks_ok t"
    by (simp add: body_blocks_ok_def list_all_iff)
  have "telegram (take (hdr_len t) t) (frame_of t)"
    using len sync hdr blocks by (intro frame_of_telegram) (simp_all add: hdr_len_def)
  with assms len have "frame_of t = f"
    by (auto simp: hdr_len_def intro: telegram_unique)
  then have "at_sync t = Emit f []"
    using len hdr blocks by (simp add: at_sync_def hdr_len_def)
  then show "at_sync (t @ ys) = Emit f ys"
    by (subst at_sync_append) simp_all
qed


section \<open>The leftmost scan\<close>

text \<open>
  An unfinished telegram: a SYNC byte with less than a header behind it, or a valid header whose
  sub-frames have not all arrived.
\<close>

definition pending :: "byte list \<Rightarrow> bool" where
  "pending bs \<longleftrightarrow> bs \<noteq> [] \<and> hd bs = 0xAA \<and>
     (length bs < 10 \<or>
      bs ! 5 = 0x10 \<and> valid_sum (take 8 (drop 1 bs)) (bs ! 9) \<and> length bs < 10 + 6 * unat (bs ! 8))"

definition starts_telegram :: "byte list \<Rightarrow> bool" where
  "starts_telegram bs \<longleftrightarrow> (\<exists>t f ys. bs = t @ ys \<and> telegram t f)"

inductive scan :: "byte list \<Rightarrow> Frame list \<Rightarrow> byte list \<Rightarrow> bool" where
  scan_end: "scan [] [] []"
| scan_wait: "pending bs \<Longrightarrow> scan bs [] bs"
| scan_skip: "\<not> pending (b # bs) \<Longrightarrow> \<not> starts_telegram (b # bs) \<Longrightarrow> scan bs fs rest \<Longrightarrow>
    scan (b # bs) fs rest"
| scan_telegram: "telegram t f \<Longrightarrow> scan bs fs rest \<Longrightarrow> scan (t @ bs) (f # fs) rest"

lemma at_sync_pending:
  "at_sync (syncByte # r) = Break (syncByte # r) \<longleftrightarrow> pending (syncByte # r)"
  by (auto simp: at_sync_def pending_def hdr_ok_def hdr_len_def checksum_valid_sum syncByte_def)

lemma at_sync_telegram:
  "(\<exists>f ys. at_sync (syncByte # r) = Emit f ys) \<longleftrightarrow> starts_telegram (syncByte # r)"
proof
  let ?buf = "syncByte # r"
  assume "\<exists>f ys. at_sync ?buf = Emit f ys"
  then have "10 \<le> length ?buf" "hdr_len ?buf \<le> length ?buf" "hdr_ok ?buf" "body_blocks_ok ?buf"
    by (auto simp: at_sync_def simp del: length_Cons split: if_splits)
  then have "telegram (take (hdr_len ?buf) ?buf) (frame_of ?buf)"
    by (intro frame_of_telegram) simp_all
  then show "starts_telegram ?buf"
    unfolding starts_telegram_def by (metis append_take_drop_id)
next
  assume "starts_telegram (syncByte # r)"
  then show "\<exists>f ys. at_sync (syncByte # r) = Emit f ys"
    by (auto simp: starts_telegram_def telegram_accepted(1))
qed

lemma telegram_sync: "telegram t f \<Longrightarrow> \<exists>r. t = syncByte # r"
  by (rule telegram_accepted(2))

lemma starts_telegram_sync: "starts_telegram (b # bs) \<Longrightarrow> b = syncByte"
  by (auto simp: starts_telegram_def dest!: telegram_sync)

lemma pending_not_telegram: "pending bs \<Longrightarrow> \<not> starts_telegram bs"
proof
  assume "pending bs" "starts_telegram bs"
  then obtain r where "bs = syncByte # r"
    by (cases bs) (auto simp: pending_def dest: starts_telegram_sync)
  with \<open>pending bs\<close> \<open>starts_telegram bs\<close> show False
    using at_sync_pending [of r] at_sync_telegram [of r] by auto
qed

lemma scan_noise: "syncByte \<notin> set pre \<Longrightarrow> scan bs fs r \<Longrightarrow> scan (pre @ bs) fs r"
proof (induction pre)
  case (Cons b pre)
  then have "\<not> pending (b # pre @ bs)" "\<not> starts_telegram (b # pre @ bs)"
    by (auto simp: pending_def syncByte_def dest: starts_telegram_sync)
  with Cons show ?case by (auto intro: scan_skip)
qed simp

text \<open>The scan is a function of the input: at every position at most one rule applies.\<close>

lemma telegram_prefix_unique:
  assumes "telegram t f" "telegram u g" "t @ xs = u @ ys"
  shows "t = u \<and> f = g \<and> xs = ys"
proof -
  have "Emit f xs = Emit g ys"
    using telegram_accepted(1) [OF assms(1)] telegram_accepted(1) [OF assms(2)] assms(3) by metis
  with assms(3) show ?thesis by simp
qed

lemma scan_deterministic: "scan bs fs r \<Longrightarrow> scan bs gs s \<Longrightarrow> fs = gs \<and> r = s"
proof (induction arbitrary: gs s rule: scan.induct)
  case scan_end
  then show ?case
    by (cases rule: scan.cases) (auto simp: pending_def dest: telegram_sync)
next
  case (scan_wait bs)
  note not_start = pending_not_telegram [OF scan_wait.hyps]
  from scan_wait.prems show ?case
  proof (cases rule: scan.cases)
    case scan_telegram
    with not_start show ?thesis by (auto simp: starts_telegram_def)
  qed (use scan_wait.hyps in \<open>auto simp: pending_def\<close>)
next
  case (scan_skip b bs fs rest)
  note not_start = scan_skip.hyps(2) and IH = scan_skip.IH
  from scan_skip.prems show ?case
  proof (cases rule: scan.cases)
    case scan_skip
    then show ?thesis by (simp add: IH)
  next
    case scan_telegram
    with not_start show ?thesis by (auto simp: starts_telegram_def)
  qed (use scan_skip.hyps in auto)
next
  case (scan_telegram t f bs fs rest)
  have start: "starts_telegram (t @ bs)"
    using scan_telegram.hyps(1) by (auto simp: starts_telegram_def)
  from scan_telegram.prems show ?case
  proof (cases rule: scan.cases)
    case scan_end
    then show ?thesis using telegram_sync [OF scan_telegram.hyps(1)] by auto
  next
    case scan_wait
    then show ?thesis using start pending_not_telegram by blast
  next
    case (scan_skip b bs')
    then show ?thesis using start by simp
  next
    case (scan_telegram u g bs' gs')
    then show ?thesis
      using telegram_prefix_unique [OF scan_telegram.hyps(1)] scan_telegram.IH by blast
  qed
qed

theorem drain_loop_scan: "drain_loop buf out = Some (out @ fs, r) \<Longrightarrow> scan buf fs r"
proof (induction buf out arbitrary: fs rule: drain_loop.induct)
  case (1 buf out)
  show ?case
  proof (cases "locate_sync buf")
    case None
    with "1.prems" have "fs = []" "r = []" "syncByte \<notin> set buf"
      by (simp_all add: drain_loop_None locate_sync_None_iff)
    then show ?thesis using scan_noise [of buf, OF _ scan_end] by simp
  next
    case (Some b)
    then obtain tl where b: "b = syncByte # tl" using locate_sync_starts by blast
    obtain pre where buf: "buf = pre @ b" "syncByte \<notin> set pre"
    proof
      show "buf = takeWhile (\<lambda>x. x \<noteq> syncByte) buf @ b"
        using Some takeWhile_dropWhile_id [of "\<lambda>x. x \<noteq> syncByte" buf]
        by (auto simp: locate_sync_dropWhile split: list.splits)
    qed (auto dest: set_takeWhileD)
    have step: "drain_body buf = Some (at_sync b)"
      using Some by (simp add: drain_body_at_sync)
    have "scan b fs r"
    proof (cases "at_sync b")
      case (Break b')
      with "1.prems" Some have "fs = []" "r = b" "pending b"
        using at_sync_Break [OF Break] at_sync_pending [of tl] b by (auto simp: drain_loop_sync)
      then show ?thesis by (simp add: scan_wait)
    next
      case (Continue b')
      then have "b' = tl" using b by (auto simp: at_sync_def split: if_splits)
      moreover have "scan b' fs r"
        using 1(1) [OF step] Continue "1.prems" Some by (simp add: drain_loop_sync)
      moreover have "\<not> pending b" "\<not> starts_telegram b"
        using Continue b at_sync_pending [of tl] at_sync_telegram [of tl] by auto
      ultimately show ?thesis using b by (auto intro: scan_skip)
    next
      case (Emit f b')
      then have "starts_telegram b" using b at_sync_telegram [of tl] by auto
      then obtain t g ys where t: "b = t @ ys" "telegram t g"
        by (auto simp: starts_telegram_def)
      with Emit telegram_accepted(1) [OF t(2)] have g: "g = f" "ys = b'" by auto
      obtain gs c where gs: "drain_loop b' (out @ [f]) = Some ((out @ [f]) @ gs, c)"
        using drain_loop_total by blast
      with "1.prems" Some Emit have fs: "fs = f # gs" "c = r"
        by (simp_all add: drain_loop_sync)
      then have "scan b' gs r"
        using 1(2) [OF step] Emit gs by simp
      with fs t g show ?thesis by (auto intro: scan_telegram)
    qed
    then show ?thesis using buf scan_noise by simp
  qed
qed

theorem Feed_scan: "Feed p data = Some (fs, p') \<Longrightarrow> scan (p_buf p @ data) fs (p_buf p')"
  by (auto simp: Feed_drain_loop intro: drain_loop_scan [of _ "[]", simplified])

theorem scan_Feed: "scan (p_buf p @ data) fs r \<Longrightarrow> Feed p data = Some (fs, p\<lparr>p_buf := r\<rparr>)"
  using Feed_total [of p data] Feed_scan [of p data] scan_deterministic [of "p_buf p @ data"]
  by (force simp: Feed_drain_loop)


text \<open>The input of a scan, cut into skipped bytes and the telegrams of the frames.\<close>

lemma scan_segments:
  "scan bs fs r \<Longrightarrow> \<exists>parts tail. bs = concat (map (\<lambda>(gap, t). gap @ t) parts) @ tail @ r \<and>
     list_all2 (\<lambda>(gap, t) f. telegram t f) parts fs"
proof (induction rule: scan.induct)
  case scan_end
  show ?case by (intro exI [of _ "[]"]) simp
next
  case (scan_wait bs)
  show ?case by (intro exI [of _ "[]"]) simp
next
  case (scan_skip b bs fs rest)
  then obtain parts tail where bs: "bs = concat (map (\<lambda>(gap, t). gap @ t) parts) @ tail @ rest"
    and fs: "list_all2 (\<lambda>(gap, t) f. telegram t f) parts fs" by blast
  show ?case
  proof (cases parts)
    case Nil
    with bs fs show ?thesis by (intro exI [of _ "[]"] exI [of _ "b # tail"]) simp
  next
    case (Cons p ps)
    obtain gap t where "p = (gap, t)" by (cases p)
    with Cons bs fs show ?thesis
      by (intro exI [of _ "(b # gap, t) # ps"] exI [of _ tail]) (auto simp: list_all2_Cons1)
  qed
next
  case (scan_telegram t f bs fs rest)
  then obtain parts tail where "bs = concat (map (\<lambda>(gap, t). gap @ t) parts) @ tail @ rest"
    "list_all2 (\<lambda>(gap, t) f. telegram t f) parts fs" by blast
  with scan_telegram.hyps(1) show ?case
    by (intro exI [of _ "([], t) # parts"] exI [of _ tail]) simp
qed

section \<open>Error detection\<close>

lemma sum_unat_update:
  assumes "i < length bs"
  shows "sum_list (map unat (bs[i := b])) + unat (bs ! i) = sum_list (map unat bs) + unat (b :: byte)"
proof -
  have "unat (bs ! i) \<le> sum_list (map unat bs)"
    using assms by (intro member_le_sum_list) auto
  then show ?thesis
    using assms by (simp add: map_update sum_list_update)
qed

text \<open>A sum stays valid only if the changed byte keeps its low seven bits.\<close>

lemma valid_sum_update:
  assumes "valid_sum bs c" "i < length bs"
  shows "valid_sum (bs[i := b]) c \<longleftrightarrow> unat b mod 128 = unat (bs ! i) mod 128"
  using assms(1) mod_shift_eq [OF sum_unat_update [OF assms(2), of b], of "unat c" 128]
  by (simp add: valid_sum_def)

lemma valid_sum_unique: "valid_sum bs c \<Longrightarrow> valid_sum bs d \<Longrightarrow> c = d"
  by (simp flip: checksum_valid_sum)

lemma corrupted_header:
  assumes valid: "valid_sum (take 8 (drop 1 t)) (t ! 9)" and len: "10 \<le> length t"
    and k: "1 \<le> k" "k < 10" and diff: "unat b mod 128 \<noteq> unat (t ! k) mod 128"
  shows "\<not> valid_sum (take 8 (drop 1 (t[k := b]))) (t[k := b] ! 9)"
proof (cases "k = 9")
  case True
  then have "take 8 (drop 1 (t[k := b])) = take 8 (drop 1 t)" "t[k := b] ! 9 = b"
    using len by (simp_all add: drop_update_swap list_update_beyond)
  with True valid diff show ?thesis using valid_sum_unique by metis
next
  case False
  then have "take 8 (drop 1 (t[k := b])) = (take 8 (drop 1 t))[k - 1 := b]" "t[k := b] ! 9 = t ! 9"
    using k by (simp_all add: drop_update_swap take_update_swap)
  moreover have "take 8 (drop 1 t) ! (k - 1) = t ! k" "k - 1 < length (take 8 (drop 1 t))"
    using k len False by simp_all
  ultimately show ?thesis using valid_sum_update [OF valid, of "k - 1" b] diff by simp
qed

lemma corrupted_block:
  assumes valid: "valid_sum (take 5 (drop m t)) (t ! (m + 5))" and len: "m + 6 \<le> length t"
    and j: "j < 6" and diff: "unat b mod 128 \<noteq> unat (t ! (m + j)) mod 128"
  shows "\<not> valid_sum (take 5 (drop m (t[m + j := b]))) (t[m + j := b] ! (m + 5))"
proof (cases "j = 5")
  case True
  then have "take 5 (drop m (t[m + j := b])) = take 5 (drop m t)" "t[m + j := b] ! (m + 5) = b"
    using len by (simp_all add: drop_update_swap list_update_beyond)
  with True valid diff show ?thesis using valid_sum_unique by metis
next
  case False
  then have "take 5 (drop m (t[m + j := b])) = (take 5 (drop m t))[j := b]"
    "t[m + j := b] ! (m + 5) = t ! (m + 5)"
    using j by (simp_all add: drop_update_swap take_update_swap)
  moreover have "take 5 (drop m t) ! j = t ! (m + j)" "j < length (take 5 (drop m t))"
    using j len False by simp_all
  ultimately show ?thesis using valid_sum_update [OF valid, of j b] diff by simp
qed

text \<open>
  At the code: when one byte of a telegram (after its SYNC) arrives with its low seven bits
  changed, the parser drops that SYNC byte and resumes the scan behind it; it neither delivers a
  frame there nor waits for more bytes.
\<close>

theorem corrupted_rejected:
  assumes t: "telegram t f" and k: "1 \<le> k" "k < length t"
    and diff: "unat b mod 128 \<noteq> unat (t ! k) mod 128"
  shows "drain_body (t[k := b] @ ys) = Some (Continue (drop 1 (t[k := b] @ ys)))"
proof -
  let ?n = "unat (t ! 8)" and ?u = "t[k := b]"
  have len: "length t = 10 + 6 * ?n" and sync: "t ! 0 = syncByte"
    and valid: "valid_sum (take 8 (drop 1 t)) (t ! 9)"
    using t by (simp_all add: telegram_def Let_def syncByte_def)
  have "at_sync ?u = Continue (drop 1 ?u)"
  proof (cases "k < 10")
    case True
    have "\<not> valid_sum (take 8 (drop 1 ?u)) (?u ! 9)"
      by (rule corrupted_header [OF valid _ k(1) True diff]) (simp add: len)
    then have "\<not> hdr_ok ?u" by (simp add: hdr_ok_def checksum_valid_sum)
    then show ?thesis using len by (simp add: at_sync_def)
  next
    case False
    define i j where "i = (k - 10) div 6" and "j = (k - 10) mod 6"
    have kij: "k = (10 + 6 * i) + j" "j < 6" using False by (simp_all add: i_def j_def)
    then have i: "i < ?n" using len k(2) by linarith
    have n: "?u ! 8 = t ! 8" using False by simp
    then have "hdr_len ?u = length ?u" using len by (simp add: hdr_len_def)
    moreover have "hdr_ok ?u \<Longrightarrow> \<not> body_blocks_ok ?u"
    proof -
      have blk: "valid_sum (take 5 (drop (10 + 6 * i) t)) (t ! (10 + 6 * i + 5))"
        using t i by (simp add: telegram_def Let_def)
      have "10 + 6 * i + 6 \<le> length t" using i len by linarith
      then have "\<not> valid_sum (take 5 (drop (10 + 6 * i) ?u)) (?u ! (10 + 6 * i + 5))"
        using corrupted_block [OF blk _ kij(2), of b] diff by (simp add: kij(1))
      then have "\<not> block_ok (block (drop 10 ?u) i)"
        using i len n by (subst block_valid_sum) simp_all
      with i n show ?thesis by (auto simp: body_blocks_ok_def list_all_iff)
    qed
    ultimately show ?thesis using len by (auto simp: at_sync_def)
  qed
  then have "at_sync (?u @ ys) = Continue (drop 1 ?u @ ys)"
    by (subst at_sync_append) simp_all
  moreover have "?u \<noteq> []" "hd ?u = syncByte"
    using len sync k by (cases t; simp add: nth_Cons' list_update.simps split: nat.split)+
  then have "locate_sync (?u @ ys) = Some (?u @ ys)"
    by (simp add: locate_sync_def)
  ultimately show ?thesis
    using len by (simp add: drain_body_at_sync)
qed


text \<open>
  The checksums do not see bit 7, and the parser does not require it to be clear: a flipped bit 7
  in the address or command bytes of a telegram gives another telegram with the same payload.
\<close>

lemma byte_pair_inj:
  assumes "unat (a :: byte) + 256 * unat (b :: byte) = unat (c :: byte) + 256 * unat (d :: byte)"
  shows "unat a = unat c \<and> unat b = unat d"
proof -
  from assms have "(unat a + 256 * unat b) mod 256 = (unat c + 256 * unat d) mod 256" by simp
  then have "unat a = unat c" by simp
  with assms show ?thesis by simp
qed

lemma flip7_mod: "unat (x XOR 0x80 :: byte) mod 128 = unat x mod 128"
proof -
  have "take_bit 7 (x XOR 0x80) = take_bit 7 x"
    by (rule bit_word_eqI) (auto simp: bit_take_bit_iff bit_xor_iff bit_high)
  then have "unat (take_bit 7 (x XOR 0x80)) = unat (take_bit 7 x)" by simp
  then show ?thesis by (simp only: unsigned_take_bit_eq) (simp add: take_bit_eq_mod)
qed

lemma flip7_differs: "(x XOR 0x80 :: byte) \<noteq> x"
proof
  assume "x XOR 0x80 = x"
  then have "bit (x XOR 0x80) 7 = bit x 7" by simp
  then show False by (simp add: bit_xor_iff bit_high)
qed

theorem flip7_accepted:
  assumes t: "telegram t f" and k: "k \<in> {1, 2, 3, 4, 6, 7}"
  shows "\<exists>g. telegram (t[k := t ! k XOR 0x80]) g \<and> g \<noteq> f \<and> Payload g = Payload f"
proof -
  let ?u = "t[k := t ! k XOR 0x80]"
  let ?g = "\<lparr>Destination = le16 (?u ! 1) (?u ! 2), Source = le16 (?u ! 3) (?u ! 4),
    Command = le16 (?u ! 6) (?u ! 7), Payload = Payload f\<rparr>"
  have len: "10 \<le> length t" using t by (simp add: telegram_def Let_def)
  have k': "1 \<le> k" "k < 9" using k by auto
  have cov: "take 8 (drop 1 ?u) = (take 8 (drop 1 t))[k - 1 := t ! k XOR 0x80]"
    "take 8 (drop 1 t) ! (k - 1) = t ! k" "k - 1 < length (take 8 (drop 1 t))"
    using k' len by (simp_all add: drop_update_swap take_update_swap)
  have valid: "valid_sum (take 8 (drop 1 t)) (t ! 9)"
    using t by (simp add: telegram_def Let_def)
  have "valid_sum (take 8 (drop 1 ?u)) (t ! 9)"
    unfolding cov(1) using valid_sum_update [OF valid cov(3)] cov(2) flip7_mod by simp
  moreover have same: "?u ! 0 = t ! 0" "?u ! 5 = t ! 5" "?u ! 8 = t ! 8" "?u ! 9 = t ! 9"
    "\<And>m. ?u ! (10 + m) = t ! (10 + m)" "\<And>m. ?u ! (14 + m) = t ! (14 + m)"
    "\<And>m. ?u ! (15 + m) = t ! (15 + m)" "\<And>m. drop (10 + m) ?u = drop (10 + m) t"
    using k by auto
  ultimately have "telegram ?u ?g"
    using t by (simp add: telegram_def Let_def unat_le16 add.assoc)
  moreover have "?g \<noteq> f"
  proof
    assume "?g = f"
    with \<open>telegram ?u ?g\<close> have "telegram ?u f" by simp
    with t have "\<forall>j\<in>{1, 2, 3, 4, 6, 7}. unat (?u ! j) = unat (t ! j)"
      by (auto simp: telegram_def Let_def dest!: byte_pair_inj)
    with k len have "t ! k XOR 0x80 = t ! k" by (auto simp: word_unat_eq_iff)
    with flip7_differs show False by blast
  qed
  ultimately show ?thesis by (intro exI [of _ ?g]) simp
qed

end
