(* ===== verification/Encoder.thy ===== *)
theory Encoder
  imports WireFormat
begin

text \<open>
  internal/vbus/parser_test.go: \<open>buildFrame\<close>, the encoder the test suite drives the parser with.
  Its telegrams are telegrams of the wire format, so the parser inverts it, whatever noise free of
  SYNC bytes stands between them.
\<close>

section \<open>The encoder\<close>

text \<open>The four payload bytes of sub-frame \<open>i\<close>, zero-padded past the end of the payload.\<close>

definition subFrameRaw :: "byte list \<Rightarrow> nat \<Rightarrow> byte list" where
  "subFrameRaw payloadBytes i =
     map (\<lambda>j. let idx = i * 4 + j in if idx < length payloadBytes then payloadBytes ! idx else 0)
       [0..<4]"

text \<open>The septett loop: collects bit 7 of every byte and clears it.\<close>

definition septettLoop :: "byte list \<Rightarrow> byte \<times> byte list" where
  "septettLoop raw0 =
     foldl (\<lambda>(septett, raw) j.
        if raw ! j AND 0x80 \<noteq> 0
        then (septett OR push_bit j 1, raw[j := raw ! j AND NOT 0x80])
        else (septett, raw)) (0, raw0) [0..<4]"

definition buildSubFrame :: "byte list \<Rightarrow> nat \<Rightarrow> byte list" where
  "buildSubFrame payloadBytes i =
     (let (septett, raw) = septettLoop (subFrameRaw payloadBytes i);
          sf = [raw ! 0, raw ! 1, raw ! 2, raw ! 3, septett]
      in sf @ [checksum sf])"

definition buildFrame :: "uint16 \<Rightarrow> uint16 \<Rightarrow> uint16 \<Rightarrow> byte list \<Rightarrow> byte list" where
  "buildFrame dst src cmd payloadBytes =
     (let nFrames = (length payloadBytes + 3) div 4;
          header = [0xAA,
            byte_of16 dst, byte_of16 (drop_bit 8 dst),
            byte_of16 src, byte_of16 (drop_bit 8 src),
            0x10,
            byte_of16 cmd, byte_of16 (drop_bit 8 cmd),
            word_of_nat nFrames];
          header = header @ [checksum (drop 1 header)]
      in header @ concat (map (buildSubFrame payloadBytes) [0..<nFrames]))"

text \<open>The frame a receiver should see: the payload padded to whole sub-frames.\<close>

definition padded :: "byte list \<Rightarrow> byte list" where
  "padded bs = bs @ replicate ((4 - length bs mod 4) mod 4) 0"

definition sent :: "uint16 \<Rightarrow> uint16 \<Rightarrow> uint16 \<Rightarrow> byte list \<Rightarrow> Frame" where
  "sent dst src cmd bs = \<lparr>Destination = dst, Source = src, Command = cmd, Payload = padded bs\<rparr>"

section \<open>Sub-frames\<close>

lemma length_padded: "length (padded bs) = 4 * ((length bs + 3) div 4)"
proof -
  define q r where "q = length bs div 4" and "r = length bs mod 4"
  then have len: "length bs = 4 * q + r" and "r < 4" by simp_all
  from \<open>r < 4\<close> consider "r = 0" | "r = 1" | "r = 2" | "r = 3"
    using less4_cases by blast
  then have "4 * q + r + (4 - r) mod 4 = 4 * ((4 * q + r + 3) div 4)"
    by cases simp_all
  with \<open>r < 4\<close> show ?thesis by (simp add: padded_def len)
qed

lemma padded_nth:
  "k < length (padded bs) \<Longrightarrow> padded bs ! k = (if k < length bs then bs ! k else 0)"
  by (auto simp: padded_def nth_append)

lemma padded_whole [simp]: "length bs mod 4 = 0 \<Longrightarrow> padded bs = bs"
  by (simp add: padded_def)

lemma length_subFrameRaw [simp]: "length (subFrameRaw bs i) = 4"
  by (simp add: subFrameRaw_def)

lemma subFrameRaw_nth:
  "j < 4 \<Longrightarrow> subFrameRaw bs i ! j = (if i * 4 + j < length bs then bs ! (i * 4 + j) else 0)"
  by (simp add: subFrameRaw_def Let_def)

lemma bit_low: "bit (- 129 :: int) b \<longleftrightarrow> b \<noteq> 7"
proof -
  have "(- 129 :: int) = NOT (2 ^ 7)" by simp
  then show ?thesis by (simp only: bit_not_int_iff bit_exp_iff) auto
qed

lemma and_high: "(x :: byte) AND 0x80 \<noteq> 0 \<longleftrightarrow> bit x 7"
proof -
  have "x AND 0x80 = 0 \<longleftrightarrow> \<not> bit x 7"
    using and_exp_eq_0_iff_not_bit [of x 7] by simp
  then show ?thesis by simp
qed

text \<open>The loop in closed form: bit \<open>j\<close> of the septett is bit 7 of byte \<open>j\<close>.\<close>

definition septettOf :: "byte list \<Rightarrow> byte" where
  "septettOf raw = foldr (\<lambda>j s. (if bit (raw ! j) 7 then push_bit j 1 else 0) OR s) [0..<4] 0"

lemma septettLoop_eq:
  assumes "length raw = 4"
  shows "septettLoop raw = (septettOf raw, map (\<lambda>b. b AND NOT 0x80) raw)"
proof -
  have clear: "\<not> bit b 7 \<Longrightarrow> b AND - 129 = b" for b :: byte
    by (rule byte_bits_eqI) (auto simp: bit_and_iff bit_low)
  obtain a b c d where raw: "raw = [a, b, c, d]"
    using list4_exhaust [OF assms] by blast
  show ?thesis
    unfolding raw septettLoop_def septettOf_def
    by (simp add: upt_rec and_high clear or.assoc)
qed


lemma septettOf_bit:
  assumes "j < 4"
  shows "bit (septettOf raw) j \<longleftrightarrow> bit (raw ! j) 7"
  using less4_cases [OF assms]
  by (auto simp: septettOf_def upt_rec bit_or_iff push_bit_eq_mult bit_high numeral_2_eq_2 numeral_3_eq_3)


definition encodedBlock :: "byte list \<Rightarrow> byte list" where
  "encodedBlock raw =
     (let sf = map (\<lambda>b. b AND NOT 0x80) raw @ [septettOf raw] in sf @ [checksum sf])"

lemma buildSubFrame_eq: "buildSubFrame bs = (\<lambda>i. encodedBlock (subFrameRaw bs i))"
proof
  fix i
  obtain a b c d where "subFrameRaw bs i = [a, b, c, d]"
    using list4_exhaust [of "subFrameRaw bs i"] by auto
  then show "buildSubFrame bs i = encodedBlock (subFrameRaw bs i)"
    using septettLoop_eq [of "subFrameRaw bs i"]
    by (simp add: buildSubFrame_def encodedBlock_def)
qed

text \<open>
  The interface of a block code: fixed-width blocks that carry their own validity check. Encoding
  a sequence block by block and cutting the result up again gives the sequence back.
\<close>

locale block_code =
  fixes enc :: "'a \<Rightarrow> 'b list" and dec :: "'b list \<Rightarrow> 'a" and ok :: "'b list \<Rightarrow> bool"
    and valid :: "'a \<Rightarrow> bool" and width :: nat
  assumes enc_width: "valid x \<Longrightarrow> length (enc x) = width"
    and enc_ok: "valid x \<Longrightarrow> ok (enc x)"
    and dec_enc: "valid x \<Longrightarrow> dec (enc x) = x"
begin

lemma cut_block:
  assumes "\<forall>i<n. valid (f i)" "i < n"
  shows "take width (drop (i * width) (concat (map (\<lambda>i. enc (f i)) [0..<n]))) = enc (f i)"
proof -
  have "\<forall>i<n. length (enc (f i)) = width" using assms(1) by (simp add: enc_width)
  from take_drop_concat_uniform [OF this assms(2)] show ?thesis .
qed

lemma blocks_ok:
  assumes "\<forall>i<n. valid (f i)"
  shows "list_all (\<lambda>i. ok (take width (drop (i * width) (concat (map (\<lambda>i. enc (f i)) [0..<n]))))) [0..<n]"
  using assms by (simp add: list_all_iff cut_block enc_ok)

lemma decode_blocks:
  assumes "\<forall>i<n. valid (f i)"
  shows "map (\<lambda>i. dec (take width (drop (i * width) (concat (map (\<lambda>i. enc (f i)) [0..<n]))))) [0..<n]
    = map f [0..<n]"
  using assms by (simp add: cut_block dec_enc)

end

interpretation subframe: block_code encodedBlock block_data block_ok "\<lambda>raw. length raw = 4" 6
proof unfold_locales
  fix raw :: "byte list"
  assume len: "length raw = 4"
  then show width: "length (encodedBlock raw) = 6"
    by (simp add: encodedBlock_def Let_def)
  show "block_ok (encodedBlock raw)"
    using len by (simp add: encodedBlock_def Let_def block_ok_def nth_append)
  show "block_data (encodedBlock raw) = raw"
  proof (rule nth_equalityI)
    show "length (block_data (encodedBlock raw)) = length raw"
      using len width by (simp add: length_block_data)
    fix j assume "j < length (block_data (encodedBlock raw))"
    with len width have j: "j < 4" by (simp add: length_block_data)
    then have nth: "encodedBlock raw ! j = raw ! j AND NOT 0x80" "encodedBlock raw ! 4 = septettOf raw"
      using len by (simp_all add: encodedBlock_def Let_def nth_append)
    show "block_data (encodedBlock raw) ! j = raw ! j"
      by (rule byte_bits_eqI)
        (use j nth width in \<open>auto simp: block_data_bit septettOf_bit bit_and_iff bit_low\<close>)
  qed
qed

section \<open>Telegrams\<close>

lemma padded_subFrames:
  "padded bs = concat (map (subFrameRaw bs) [0..<(length bs + 3) div 4])"
proof (rule concat_uniform_eqI)
  fix i j assume "i < (length bs + 3) div 4" "j < (4::nat)"
  then have "4 * i + j < length (padded bs)" by (simp add: length_padded)
  with \<open>j < 4\<close> show "padded bs ! (4 * i + j) = subFrameRaw bs i ! j"
    by (simp add: padded_nth subFrameRaw_nth mult.commute)
qed (simp_all add: length_padded)

theorem buildFrame_telegram:
  assumes "length bs \<le> 1020"
  shows "telegram (buildFrame dst src cmd bs) (sent dst src cmd bs)"
proof -
  let ?n = "(length bs + 3) div 4" and ?t = "buildFrame dst src cmd bs"
  let ?body = "concat (map (\<lambda>i. encodedBlock (subFrameRaw bs i)) [0..<?n])"
  have n: "?n \<le> 255" using assms by simp
  then have count: "unat (word_of_nat ?n :: byte) = ?n"
    by (simp add: unat_of_nat)
  obtain cs where t: "?t = [0xAA, byte_of16 dst, byte_of16 (drop_bit 8 dst),
      byte_of16 src, byte_of16 (drop_bit 8 src), 0x10, byte_of16 cmd, byte_of16 (drop_bit 8 cmd),
      word_of_nat ?n, cs] @ ?body" and cs: "cs = checksum (take 8 (drop 1 ?t))"
    by (simp add: buildFrame_def Let_def buildSubFrame_eq)
  have blk: "\<forall>i<?n. length (subFrameRaw bs i) = 4" by simp
  have cut: "block (drop 10 ?t) i = take 6 (drop (i * 6) ?body)" for i
    by (simp add: t block_def)
  have body: "length ?body = 6 * ?n"
    by (rule length_concat_uniform) (simp add: subframe.enc_width)
  have n8: "unat (?t ! 8) = ?n" by (simp add: t count)
  have ok: "hdr_ok ?t" "hdr_len ?t = length ?t" "10 \<le> length ?t" "?t ! 0 = syncByte"
    using cs count body by (simp_all add: t hdr_ok_def hdr_len_def syncByte_def)
  moreover have "body_blocks_ok ?t"
    using subframe.blocks_ok [OF blk] by (simp only: body_blocks_ok_def cut) (simp add: t count)
  ultimately have "telegram ?t (frame_of ?t)"
    using frame_of_telegram [of ?t] by simp
  moreover have "concat (map (\<lambda>i. block_data (block (drop 10 ?t) i)) [0..<unat (?t ! 8)]) = padded bs"
    by (simp only: cut n8 padded_subFrames subframe.decode_blocks [OF blk])
  then have "frame_of ?t = sent dst src cmd bs"
    by (simp add: frame_of_def sent_def) (simp add: t)
  ultimately show ?thesis by simp
qed


section \<open>Streams\<close>

text \<open>A transmission: telegrams, each behind a run of line noise.\<close>

type_synonym message = "byte list \<times> uint16 \<times> uint16 \<times> uint16 \<times> byte list"

definition transmit :: "message list \<Rightarrow> byte list" where
  "transmit ms = concat (map (\<lambda>(noise, dst, src, cmd, bs). noise @ buildFrame dst src cmd bs) ms)"

definition sendable :: "message \<Rightarrow> bool" where
  "sendable = (\<lambda>(noise, dst, src, cmd, bs). 0xAA \<notin> set noise \<and> length bs \<le> 1020)"

definition sent_frames :: "message list \<Rightarrow> Frame list" where
  "sent_frames ms = map (\<lambda>(noise, dst, src, cmd, bs). sent dst src cmd bs) ms"

lemma scan_transmit: "list_all sendable ms \<Longrightarrow> scan (transmit ms) (sent_frames ms) []"
proof (induction ms)
  case Nil
  then show ?case by (simp add: transmit_def sent_frames_def scan_end)
next
  case (Cons m ms)
  obtain noise dst src cmd bs where m: "m = (noise, dst, src, cmd, bs)" by (cases m)
  with Cons.prems have "syncByte \<notin> set noise" "length bs \<le> 1020"
    by (simp_all add: sendable_def syncByte_def)
  moreover have "scan (transmit ms) (sent_frames ms) []" using Cons by simp
  ultimately have "scan (noise @ buildFrame dst src cmd bs @ transmit ms)
      (sent dst src cmd bs # sent_frames ms) []"
    by (intro scan_noise scan_telegram buildFrame_telegram)
  then show ?case by (simp add: m transmit_def sent_frames_def)
qed

lemma Feed_transmit:
  assumes "list_all sendable ms"
  shows "Feed NewParser (transmit ms) = Some (sent_frames ms, NewParser)"
  using scan_Feed [of NewParser "transmit ms"] scan_transmit [OF assms]
  by (simp add: NewParser_def)

end
