(* ===== verification/GoFloat.thy ===== *)
theory GoFloat
  imports Complex_Main Prelude "HOL-Library.Log_Nat"
begin

text \<open>
  Go's float64: IEEE-754 binary64 with round-to-nearest-even, as far as the program uses it:
  conversion of integers and decimal literals, \<open>*\<close>, \<open>/\<close> and \<open>math.Round\<close>. A finite value is
  a sign, a mantissa below \<open>2 ^ 53\<close> and an exponent; the operations compute with integers only.
  The lemmas relate them to the reals: \<open>rnd\<close> is correct rounding, with relative error at most
  \<open>2 ^ -53\<close> in the normal range, and exact on integers below \<open>2 ^ 53\<close>.
\<close>

section \<open>Values and rounding\<close>

datatype float64 = Fin bool int int | FInf bool | FNaN

text \<open>\<open>scaled p q e\<close> is the fraction \<open>p / q\<close> divided by \<open>2 ^ e\<close>.\<close>

definition scaled :: "int \<Rightarrow> int \<Rightarrow> int \<Rightarrow> int \<times> int" where
  "scaled p q e = (if 0 \<le> e then (p, q * 2 ^ nat e) else (p * 2 ^ nat (- e), q))"

definition rne :: "int \<Rightarrow> int \<Rightarrow> int" where
  \<comment> \<open>the integer nearest to \<open>p / q\<close>, ties to even\<close>
  "rne p q =
     (let d = p div q; r = p mod q
      in if 2 * r < q then d else if q < 2 * r then d + 1 else if even d then d else d + 1)"

definition ilog2 :: "int \<Rightarrow> int \<Rightarrow> int" where
  \<comment> \<open>the exponent of the leading binary digit of \<open>p / q\<close>\<close>
  "ilog2 p q =
     (let d = bitlen p - bitlen q; (p', q') = scaled p q d in if q' \<le> p' then d else d - 1)"

definition rnd :: "bool \<Rightarrow> int \<Rightarrow> int \<Rightarrow> float64" where
  \<comment> \<open>the double nearest to \<open>\<plusminus> p / q\<close>\<close>
  "rnd s p q =
     (if p = 0 then Fin s 0 (- 1074)
      else
        let e = max (- 1074) (ilog2 p q - 52);
            (p', q') = scaled p q e;
            m0 = rne p' q';
            (m, e) = (if m0 = 2 ^ 53 then (2 ^ 52, e + 1) else (m0, e))
        in if 971 < e then FInf s else Fin s m e)"

fun is_finite :: "float64 \<Rightarrow> bool" where
  "is_finite (Fin s m e) \<longleftrightarrow> True"
| "is_finite _ \<longleftrightarrow> False"

lemma is_finite_iff: "is_finite f \<longleftrightarrow> (\<exists>s m e. f = Fin s m e)"
  by (cases f) simp_all

section \<open>Operations\<close>

definition f_of_int :: "int \<Rightarrow> float64" where
  \<comment> \<open>the conversion \<open>float64(n)\<close>\<close>
  "f_of_int n = rnd (n < 0) \<bar>n\<bar> 1"

definition f_lit :: "int \<Rightarrow> int \<Rightarrow> float64" where
  \<comment> \<open>a decimal literal with value \<open>p / q\<close>\<close>
  "f_lit p q = rnd False p q"

fun fmul :: "float64 \<Rightarrow> float64 \<Rightarrow> float64" where
  "fmul (Fin s m e) (Fin t n f) = (let (p, q) = scaled (m * n) 1 (- (e + f)) in rnd (s \<noteq> t) p q)"
| "fmul (Fin s m e) (FInf t) = (if m = 0 then FNaN else FInf (s \<noteq> t))"
| "fmul (FInf s) (Fin t n f) = (if n = 0 then FNaN else FInf (s \<noteq> t))"
| "fmul (FInf s) (FInf t) = FInf (s \<noteq> t)"
| "fmul _ _ = FNaN"

fun fdiv :: "float64 \<Rightarrow> float64 \<Rightarrow> float64" where
  "fdiv (Fin s m e) (Fin t n f) =
     (if n = 0 then if m = 0 then FNaN else FInf (s \<noteq> t)
      else let (p, q) = scaled m n (- (e - f)) in rnd (s \<noteq> t) p q)"
| "fdiv (Fin s m e) (FInf t) = Fin (s \<noteq> t) 0 (- 1074)"
| "fdiv (FInf s) (Fin t n f) = FInf (s \<noteq> t)"
| "fdiv _ _ = FNaN"

fun f_round :: "float64 \<Rightarrow> float64" where
  \<comment> \<open>\<open>math.Round\<close>: nearest integer, ties away from zero, keeping the sign of zero\<close>
  "f_round (Fin s m e) =
     (if 0 \<le> e then Fin s m e
      else let d = 2 ^ nat (- e) in rnd s ((2 * m + d) div (2 * d)) 1)"
| "f_round x = x"

section \<open>The real value of a double\<close>

fun fmag :: "float64 \<Rightarrow> real" where
  "fmag (Fin s m e) = of_int m * 2 powi e"
| "fmag _ = 0"

text \<open>Correct rounding over the reals, the specification of \<open>rnd\<close>.\<close>

definition rne_real :: "real \<Rightarrow> int" where
  "rne_real x =
     (let d = \<lfloor>x\<rfloor>; r = x - of_int d
      in if r < 1 / 2 then d else if 1 / 2 < r then d + 1 else if even d then d else d + 1)"

definition rnd_real :: "bool \<Rightarrow> real \<Rightarrow> float64" where
  "rnd_real s x =
     (if x = 0 then Fin s 0 (- 1074)
      else
        let e = max (- 1074) (\<lfloor>log 2 x\<rfloor> - 52);
            m0 = rne_real (x / 2 powi e);
            (m, e) = (if m0 = 2 ^ 53 then (2 ^ 52, e + 1) else (m0, e))
        in if 971 < e then FInf s else Fin s m e)"

lemma scaled_fraction:
  assumes "scaled p q e = (p', q')" "0 < q"
  shows "0 < q'" "of_int p' / of_int q' = (of_int p / of_int q) / (2 powi e :: real)"
  using assms by (auto simp: scaled_def power_int_def field_simps split: if_splits)

lemma rne_rne_real:
  assumes "0 < q"
  shows "rne p q = rne_real (of_int p / of_int q)"
proof -
  have "real_of_int p = of_int q * of_int (p div q) + of_int (p mod q)"
    by (metis mult_div_mod_eq of_int_add of_int_mult)
  then have r: "of_int p / of_int q - real_of_int (p div q) = of_int (p mod q) / of_int q"
    using assms by (simp add: field_simps)
  have half: "of_int (p mod q) / of_int q < 1 / (2::real) \<longleftrightarrow> 2 * (p mod q) < q"
    "1 / (2::real) < of_int (p mod q) / of_int q \<longleftrightarrow> q < 2 * (p mod q)"
  proof -
    have "of_int (p mod q) / of_int q < 1 / (2::real) \<longleftrightarrow> real_of_int (2 * (p mod q)) < of_int q"
      "1 / (2::real) < of_int (p mod q) / of_int q \<longleftrightarrow> real_of_int q < of_int (2 * (p mod q))"
      using assms by (simp_all add: field_simps)
    then show "of_int (p mod q) / of_int q < 1 / (2::real) \<longleftrightarrow> 2 * (p mod q) < q"
      "1 / (2::real) < of_int (p mod q) / of_int q \<longleftrightarrow> q < 2 * (p mod q)"
      by (simp_all only: of_int_less_iff)
  qed
  show ?thesis
    by (simp only: rne_def rne_real_def Let_def floor_divide_of_int_eq r half)
qed


lemma ilog2_unique:
  assumes "0 < x" "2 powi d \<le> x" "x < 2 powi (d + 1)"
  shows "\<lfloor>log 2 x\<rfloor> = d"
proof -
  have "2 powr of_int n = (2 powi n :: real)" for n
    by (rule powr_real_of_int') simp_all
  with assms have "2 powr of_int d \<le> x" "x < 2 powr of_int (d + 1)"
    by (simp_all only:)
  then show ?thesis
    using assms(1) by (intro floor_unique) (simp_all add: le_log_iff log_less_iff)
qed

lemma bitlen_powi:
  assumes "0 < n"
  shows "2 powi (bitlen n - 1) \<le> real_of_int n" "real_of_int n < 2 powi bitlen n"
proof -
  have "1 \<le> bitlen n"
    using assms bitlen_eq_zero_iff [of n] bitlen_nonneg [of n] by linarith
  then have pow: "(2::real) powi (bitlen n - 1) = of_int (2 ^ nat (bitlen n - 1))"
    "(2::real) powi bitlen n = of_int (2 ^ nat (bitlen n))"
    by (simp_all add: power_int_def)
  show "2 powi (bitlen n - 1) \<le> real_of_int n" "real_of_int n < 2 powi bitlen n"
    using bitlen_bounds [OF assms] by (simp_all only: pow of_int_le_iff of_int_less_iff)
qed

lemma ilog2_log:
  assumes "0 < p" "0 < q"
  shows "ilog2 p q = \<lfloor>log 2 (of_int p / of_int q)\<rfloor>"
proof -
  let ?x = "of_int p / of_int q :: real" and ?d = "bitlen p - bitlen q"
  have x: "0 < ?x" using assms by simp
  note p = bitlen_powi [OF assms(1)] and q = bitlen_powi [OF assms(2)]
  have upper: "?x < 2 powi (?d + 1)"
  proof -
    have "real_of_int p < 2 powi bitlen p" by (rule p)
    also have "\<dots> = 2 powi (?d + 1) * 2 powi (bitlen q - 1)"
      by (simp flip: power_int_add)
    also have "\<dots> \<le> 2 powi (?d + 1) * of_int q"
      using q by (intro mult_left_mono) simp_all
    finally show ?thesis using assms by (simp add: field_simps)
  qed
  have lower: "2 powi (?d - 1) \<le> ?x"
  proof -
    have "2 powi (?d - 1) * real_of_int q \<le> 2 powi (?d - 1) * 2 powi bitlen q"
      using q by (intro mult_left_mono) simp_all
    also have "\<dots> = 2 powi (bitlen p - 1)"
      by (simp flip: power_int_add)
    also have "\<dots> \<le> real_of_int p" by (rule p)
    finally show ?thesis using assms by (simp add: field_simps)
  qed
  obtain p' q' where pq: "scaled p q ?d = (p', q')" by fastforce
  from scaled_fraction [OF pq assms(2)]
  have "q' \<le> p' \<longleftrightarrow> 1 \<le> ?x / 2 powi ?d"
    by (metis le_divide_eq_1_pos of_int_0_less_iff of_int_le_iff)
  then have dec: "q' \<le> p' \<longleftrightarrow> 2 powi ?d \<le> ?x"
    by (simp only: le_divide_eq_1_pos zero_less_power_int zero_less_numeral)
  show ?thesis
  proof (cases "q' \<le> p'")
    case True
    with dec upper x have "\<lfloor>log 2 ?x\<rfloor> = ?d" by (intro ilog2_unique) auto
    with True pq show ?thesis by (simp add: ilog2_def Let_def)
  next
    case False
    with dec lower x have "\<lfloor>log 2 ?x\<rfloor> = ?d - 1" by (intro ilog2_unique) auto
    with False pq show ?thesis by (simp add: ilog2_def Let_def)
  qed
qed


theorem rnd_rnd_real:
  assumes "0 \<le> p" "0 < q"
  shows "rnd s p q = rnd_real s (of_int p / of_int q)"
proof (cases "p = 0")
  case True
  then show ?thesis by (simp add: rnd_def rnd_real_def)
next
  case False
  let ?e = "max (- 1074) (ilog2 p q - 52)"
  obtain p' q' where pq: "scaled p q ?e = (p', q')" by fastforce
  have "rne p' q' = rne_real (of_int p / of_int q / 2 powi ?e)"
    using scaled_fraction [OF pq assms(2)] by (simp add: rne_rne_real)
  then show ?thesis
    using False assms pq by (simp add: rnd_def rnd_real_def Let_def ilog2_log)
qed

lemma rne_real_error: "\<bar>of_int (rne_real x) - x\<bar> \<le> 1 / 2"
  unfolding rne_real_def Let_def by (auto simp: abs_if) linarith+

lemma rne_real_lower: "x - 1 / 2 \<le> of_int (rne_real x)"
  using rne_real_error [of x] by linarith

lemma rne_real_int [simp]: "rne_real (of_int n) = n"
  by (simp add: rne_real_def)

lemma floor_log_bounds:
  assumes "0 < x"
  shows "2 powi \<lfloor>log 2 x\<rfloor> \<le> x" "x < 2 powi (\<lfloor>log 2 x\<rfloor> + 1)"
proof -
  have powi: "(2::real) powi n = 2 powr of_int n" for n
    by (rule powr_real_of_int' [symmetric]) simp_all
  have "2 powr of_int \<lfloor>log 2 x\<rfloor> \<le> 2 powr log 2 x" by simp
  with assms show "2 powi \<lfloor>log 2 x\<rfloor> \<le> x" by (simp add: powi)
  have "2 powr log 2 x < 2 powr of_int (\<lfloor>log 2 x\<rfloor> + 1)"
    by (simp only: powr_less_cancel_iff) linarith
  with assms show "x < 2 powi (\<lfloor>log 2 x\<rfloor> + 1)" by (simp only: powi) simp
qed

lemma mantissa_carry: "real_of_int (2 ^ 52) * 2 powi (k + 1) = of_int (2 ^ 53) * 2 powi k"
  by (simp add: power_int_add)

text \<open>In the normal range the result is finite and its relative error is at most \<open>2 ^ -53\<close>.\<close>

theorem rnd_real_error:
  assumes "2 powi (- 1022) \<le> x" "x < 2 powi 1023"
  shows "\<exists>m e. rnd_real s x = Fin s m e \<and> 0 < m \<and> \<bar>of_int m * 2 powi e - x\<bar> \<le> x / 2 ^ 53"
proof -
  have x: "0 < x" using assms(1) by (rule less_le_trans [rotated]) simp
  let ?L = "\<lfloor>log 2 x\<rfloor>" and ?m = "rne_real (x / 2 powi (\<lfloor>log 2 x\<rfloor> - 52))"
  note L = floor_log_bounds [OF x]
  have lo: "- 1022 \<le> ?L"
  proof (rule ccontr)
    assume "\<not> - 1022 \<le> ?L"
    then have "?L + 1 \<le> - 1022" by linarith
    then have "(2::real) powi (?L + 1) \<le> 2 powi (- 1022)" by (rule power_int_increasing) simp
    with L(2) assms(1) show False by linarith
  qed
  have hi: "?L < 1023"
  proof (rule ccontr)
    assume "\<not> ?L < 1023"
    then have "(2::real) powi 1023 \<le> 2 powi ?L" by (intro power_int_increasing) simp_all
    with L(1) assms(2) show False by linarith
  qed
  let ?e = "?L - 52"
  have pow: "(2::real) powi ?L = 2 powi ?e * 2 ^ 52" "(2::real) powi (?L + 1) = 2 powi ?e * 2 ^ 53"
    using power_int_add [of "2::real" ?e 52] power_int_add [of "2::real" ?e 53]
    by (simp_all add: add.commute)
  have pos: "(0::real) < 2 powi ?e" by simp
  have "\<bar>of_int ?m - x / 2 powi ?e\<bar> * 2 powi ?e \<le> 1 / 2 * 2 powi ?e"
    by (intro mult_right_mono rne_real_error) simp
  moreover have "\<bar>of_int ?m - x / 2 powi ?e\<bar> * 2 powi ?e = \<bar>of_int ?m * 2 powi ?e - x\<bar>"
    using pos by (simp add: abs_mult_pos' field_simps)
  ultimately have err: "\<bar>of_int ?m * 2 powi ?e - x\<bar> \<le> x / 2 ^ 53"
    using L(1) pow(1) by simp
  have "2 ^ 52 \<le> x / 2 powi ?e"
    using L pow by (simp add: field_simps)
  then have "1 \<le> x / 2 powi ?e" by (rule order_trans [rotated]) simp
  moreover have "x / 2 powi ?e - 1 / 2 \<le> of_int ?m"
    by (rule rne_real_lower)
  ultimately have "0 < real_of_int ?m" by linarith
  then have m: "0 < ?m" by simp
  have e: "max (- 1074) ?e = ?e" using lo by linarith
  show ?thesis
  proof (cases "?m = 2 ^ 53")
    case True
    then have r: "rnd_real s x = Fin s (2 ^ 52) (?e + 1)"
      using x e hi by (simp add: rnd_real_def Let_def)
    have v: "real_of_int (2 ^ 52) * 2 powi (?e + 1) = of_int ?m * 2 powi ?e"
      unfolding True by (rule mantissa_carry)
    have "\<bar>real_of_int (2 ^ 52) * 2 powi (?e + 1) - x\<bar> \<le> x / 2 ^ 53"
      unfolding v by (rule err)
    moreover have "(0::int) < 2 ^ 52" by simp
    ultimately show ?thesis using r by (intro exI [of _ "2 ^ 52"] exI [of _ "?e + 1"] conjI)
  next
    case False
    then have "rnd_real s x = Fin s ?m ?e"
      using x e hi by (simp add: rnd_real_def Let_def)
    with m err show ?thesis by blast
  qed
qed

text \<open>Integers below \<open>2 ^ 53\<close> are represented exactly.\<close>

theorem rnd_real_exact:
  assumes "0 < n" "n < 2 ^ 53"
  shows "\<exists>m e. rnd_real s (of_int n) = Fin s m e \<and> 0 < m \<and> of_int m * 2 powi e = real_of_int n"
proof -
  let ?x = "real_of_int n" and ?L = "\<lfloor>log 2 (real_of_int n)\<rfloor>"
  have x: "1 \<le> ?x" "?x < 2 ^ 53" using assms by (simp_all flip: of_int_power)
  note L = floor_log_bounds [of ?x]
  have L52: "?L \<le> 52"
  proof (rule ccontr)
    assume "\<not> ?L \<le> 52"
    then have "(2::real) powi 53 \<le> 2 powi ?L" by (intro power_int_increasing) simp_all
    with L(1) x show False by simp
  qed
  have L0: "0 \<le> ?L" using x by simp
  let ?e = "?L - 52"
  have m: "?x / 2 powi ?e = of_int (n * 2 ^ nat (- ?e))"
    using L52 by (simp add: power_int_def field_simps)
  have "?x < 2 powi ?e * 2 ^ 53"
    using L(2) x power_int_add [of "2::real" ?e 53] by (simp add: add.commute)
  then have "?x / 2 powi ?e < 2 ^ 53" by (simp add: field_simps)
  then have "n * 2 ^ nat (- ?e) \<noteq> 2 ^ 53" unfolding m by (simp flip: of_int_power of_int_mult)
  then have "rnd_real s ?x = Fin s (n * 2 ^ nat (- ?e)) ?e"
    using x L0 L52 by (simp add: rnd_real_def Let_def m max_def del: of_int_mult of_int_power)
  moreover have "of_int (n * 2 ^ nat (- ?e)) * 2 powi ?e = ?x"
    by (subst m [symmetric]) simp
  moreover have "0 < n * 2 ^ nat (- ?e)" using assms by simp
  ultimately show ?thesis by blast
qed


section \<open>The operations over the reals\<close>

lemma scaled_pos: "scaled p q e = (p', q') \<Longrightarrow> 0 \<le> p \<Longrightarrow> 0 \<le> p'"
  by (auto simp: scaled_def split: if_splits)

lemma fmul_real:
  assumes "0 \<le> m" "0 \<le> n"
  shows "fmul (Fin s m e) (Fin t n f) =
    rnd_real (s \<noteq> t) ((of_int m * 2 powi e) * (of_int n * 2 powi f))"
proof -
  obtain p q where pq: "scaled (m * n) 1 (- (e + f)) = (p, q)" by fastforce
  have "0 \<le> p" using scaled_pos [OF pq] assms by simp
  moreover have e: "(2::real) powi (- (e + f)) = inverse (2 powi e * 2 powi f)"
    by (subst power_int_minus) (simp add: power_int_add)
  have "0 < q" "of_int p / of_int q = (of_int m * 2 powi e) * (of_int n * 2 powi f :: real)"
    using scaled_fraction [OF pq] by (simp_all only: e) (simp_all add: field_simps)
  ultimately show ?thesis using pq by (simp add: rnd_rnd_real)
qed

lemma fdiv_real:
  assumes "0 \<le> m" "0 < n"
  shows "fdiv (Fin s m e) (Fin t n f) =
    rnd_real (s \<noteq> t) ((of_int m * 2 powi e) / (of_int n * 2 powi f))"
proof -
  obtain p q where pq: "scaled m n (- (e - f)) = (p, q)" by fastforce
  have "0 \<le> p" using scaled_pos [OF pq] assms by simp
  moreover have e: "(2::real) powi (- (e - f)) = inverse (2 powi e / 2 powi f)"
    by (subst power_int_minus) (simp add: power_int_diff)
  have "0 < q" "of_int p / of_int q = (of_int m * 2 powi e) / (of_int n * 2 powi f :: real)"
    using scaled_fraction [OF pq assms(2)] by (simp_all only: e) (simp_all add: field_simps)
  ultimately show ?thesis using pq assms(2) by (simp add: rnd_rnd_real)
qed

lemma f_round_real:
  assumes "0 \<le> m" "of_int m * 2 powi e < (2 ^ 53 - 1 :: real)"
  shows "\<exists>m' e'. f_round (Fin s m e) = Fin s m' e' \<and> 0 \<le> m' \<and>
    of_int m' * 2 powi e' = real_of_int \<lfloor>of_int m * 2 powi e + (1 / 2 :: real)\<rfloor>"
proof (cases "0 \<le> e")
  case True
  then have "of_int m * 2 powi e = real_of_int (m * 2 ^ nat e)" by (simp add: power_int_def)
  moreover have "\<lfloor>real_of_int k + 1 / 2\<rfloor> = k" for k by linarith
  ultimately have "of_int m * 2 powi e = real_of_int \<lfloor>of_int m * 2 powi e + (1 / 2 :: real)\<rfloor>"
    by (simp only:)
  with True assms(1) show ?thesis by auto
next
  case False
  let ?d = "2 ^ nat (- e) :: int" and ?n = "(2 * m + 2 ^ nat (- e)) div (2 * 2 ^ nat (- e)) :: int"
  have v: "of_int m * 2 powi e = of_int m / real_of_int ?d"
    using False by (simp add: power_int_def field_simps)
  have half: "real_of_int (2 * m + ?d) / of_int (2 * ?d) = of_int m / of_int ?d + 1 / 2"
    by (simp add: field_simps)
  then have n: "?n = \<lfloor>of_int m * 2 powi e + (1 / 2 :: real)\<rfloor>"
    using floor_divide_of_int_eq [where 'a = real, of "2 * m + ?d" "2 * ?d"] unfolding v half by simp
  have n0: "0 \<le> ?n" using assms(1) by (simp add: pos_imp_zdiv_nonneg_iff)
  have "real_of_int ?n \<le> of_int m * 2 powi e + 1 / 2" unfolding n by (rule of_int_floor_le)
  with assms(2) have "real_of_int ?n < of_int (2 ^ 53)" by simp
  then have n53: "?n < 2 ^ 53" by (simp only: of_int_less_iff)
  have r: "f_round (Fin s m e) = rnd_real s (of_int ?n)"
    using False n0 by (simp add: Let_def rnd_rnd_real)
  show ?thesis
  proof (cases "?n = 0")
    case True
    then have "f_round (Fin s m e) = Fin s 0 (- 1074)" unfolding r True by (simp add: rnd_real_def)
    then show ?thesis using True n by auto
  next
    case False
    with n0 have "0 < ?n" by linarith
    then show ?thesis using rnd_real_exact [OF _ n53, of s] r n by force
  qed
qed

text \<open>Relative accuracy, and how a product loses it.\<close>

definition approx :: "bool \<Rightarrow> real \<Rightarrow> real \<Rightarrow> float64 \<Rightarrow> bool" where
  "approx s v d f \<longleftrightarrow> (\<exists>m e. f = Fin s m e \<and> 0 < m \<and> \<bar>of_int m * 2 powi e - v\<bar> \<le> d * v)"

lemma approx_of_int:
  assumes "n \<noteq> 0" "\<bar>n\<bar> < 2 ^ 53"
  shows "approx (n < 0) (of_int \<bar>n\<bar>) 0 (f_of_int n)"
  using rnd_real_exact [of "\<bar>n\<bar>" "n < 0"] assms
  by (force simp: approx_def f_of_int_def rnd_rnd_real)

lemma approx_rnd:
  assumes "2 powi (- 1022) \<le> x" "x < 2 powi 1023"
  shows "approx s x (1 / 2 ^ 53) (rnd_real s x)"
  using rnd_real_error [OF assms, of s] by (auto simp: approx_def)

lemma rel_error_mult:
  fixes x y v w c d :: real
  assumes "\<bar>x - v\<bar> \<le> c * v" "\<bar>y - w\<bar> \<le> d * w" "0 < v" "0 < w" "0 \<le> c" "0 \<le> d"
  shows "\<bar>x * y - v * w\<bar> \<le> (c + d + c * d) * (v * w)"
proof -
  have "\<bar>x * y - v * w\<bar> = \<bar>(x - v) * (y - w) + (x - v) * w + v * (y - w)\<bar>"
    by (simp add: algebra_simps)
  also have "\<dots> \<le> \<bar>x - v\<bar> * \<bar>y - w\<bar> + \<bar>x - v\<bar> * w + v * \<bar>y - w\<bar>"
    using assms(3,4) by (intro order_trans [OF abs_triangle_ineq] add_mono) (simp_all add: abs_mult)
  also have "\<dots> \<le> (c * v) * (d * w) + (c * v) * w + v * (d * w)"
    using assms by (intro add_mono mult_mono) simp_all
  finally show ?thesis by (simp add: algebra_simps)
qed

lemma approx_mult:
  assumes f: "approx s v c f" and g: "approx t w d g" and "0 < v" "0 < w" "0 \<le> c" "0 \<le> d"
    and a: "c + d + c * d \<le> a" "a \<le> 1 / 2" and b: "a + (1 + a) / 2 ^ 53 \<le> b"
    and range: "2 powi (- 1020) \<le> v * w" "v * w < 2 powi 1020"
  shows "approx (s \<noteq> t) (v * w) b (fmul f g)"
proof -
  obtain m e where f: "f = Fin s m e" "0 < m" "\<bar>of_int m * 2 powi e - v\<bar> \<le> c * v"
    using f by (auto simp: approx_def)
  obtain n k where g: "g = Fin t n k" "0 < n" "\<bar>of_int n * 2 powi k - w\<bar> \<le> d * w"
    using g by (auto simp: approx_def)
  let ?x = "(of_int m * 2 powi e) * (of_int n * 2 powi k) :: real" and ?p = "v * w"
  have p: "0 < ?p" using assms by simp
  have "\<bar>?x - ?p\<bar> \<le> (c + d + c * d) * ?p"
    using f(3) g(3) assms by (intro rel_error_mult)
  also have "\<dots> \<le> a * ?p" using a p by (intro mult_right_mono) simp_all
  finally have x: "\<bar>?x - ?p\<bar> \<le> a * ?p" .
  have ap: "a * ?p \<le> ?p / 2" using mult_right_mono [OF a(2), of ?p] p by simp
  have "2 powi (- 1022) \<le> ?x"
    using x ap range(1) power_int_add [of "2::real" "- 1022" 2] by (simp add: abs_if split: if_splits)
  moreover have "?x < 2 powi 1023"
    using x ap range(2) power_int_add [of "2::real" 1020 3] by (simp add: abs_if split: if_splits)
  ultimately obtain q l where q: "rnd_real (s \<noteq> t) ?x = Fin (s \<noteq> t) q l" "0 < q"
    "\<bar>of_int q * 2 powi l - ?x\<bar> \<le> ?x / 2 ^ 53"
    using rnd_real_error by blast
  have "?x / 2 ^ 53 \<le> (?p + a * ?p) / 2 ^ 53" using x by (intro divide_right_mono) simp_all
  with q(3) x have "\<bar>of_int q * 2 powi l - ?p\<bar> \<le> a * ?p + (?p + a * ?p) / 2 ^ 53" by linarith
  also have "\<dots> = (a + (1 + a) / 2 ^ 53) * ?p" by (simp add: field_simps)
  also have "\<dots> \<le> b * ?p" using b p by (intro mult_right_mono) simp_all
  finally have "\<bar>of_int q * 2 powi l - ?p\<bar> \<le> b * ?p" .
  moreover have "fmul f g = Fin (s \<noteq> t) q l"
    using q(1) f(2) g(2) unfolding f(1) g(1) by (subst fmul_real) simp_all
  ultimately show ?thesis
    using q(2) unfolding approx_def by blast
qed

section \<open>Scaled readings\<close>

definition scaleValue :: "int \<Rightarrow> float64 \<Rightarrow> float64" where
  \<comment> \<open>\<open>math.Round(float64(raw)*factor*100) / 100\<close>\<close>
  "scaleValue raw factor =
     fdiv (f_round (fmul (fmul (f_of_int raw) factor) (f_lit 100 1))) (f_lit 100 1)"

lemma powi_tiny: "1 / 10 ^ 4 \<le> (x :: real) \<Longrightarrow> 2 powi (- 1020) \<le> x \<and> 2 powi (- 1022) \<le> x"
proof -
  assume x: "1 / 10 ^ 4 \<le> x"
  have "(2::real) powi (- 1020) \<le> 2 powi (- 14)" "(2::real) powi (- 1022) \<le> 2 powi (- 14)"
    by (rule power_int_increasing; simp)+
  moreover have "(2::real) powi (- 14) \<le> 1 / 10 ^ 4" by (simp add: power_int_minus)
  ultimately show ?thesis using x by linarith
qed

lemma powi_huge: "(x :: real) < 2 ^ 53 \<Longrightarrow> x < 2 powi 1020 \<and> x < 2 powi 1023"
proof -
  assume x: "x < 2 ^ 53"
  have "(2::real) powi 53 \<le> 2 powi 1020" "(2::real) powi 53 \<le> 2 powi 1023"
    by (rule power_int_increasing; simp)+
  with x show ?thesis by (simp add: power_int_def)
qed

lemma f_lit_real: "0 \<le> p \<Longrightarrow> 0 < q \<Longrightarrow> f_lit p q = rnd_real False (of_int p / of_int q)"
  by (simp add: f_lit_def rnd_rnd_real)

lemma approx_hundred: "approx False 100 0 (f_lit 100 1)"
  using rnd_real_exact [of 100 False] by (simp add: f_lit_real) (force simp: approx_def)

lemma approx_factor:
  assumes "0 < D" "D \<le> 10 ^ 4"
  shows "approx False (1 / of_int D) (1 / 2 ^ 53) (f_lit 1 D)"
proof -
  have "1 / 10 ^ 4 \<le> 1 / real_of_int D"
    using assms by (intro divide_left_mono) simp_all
  moreover have "1 / real_of_int D < 2 ^ 53"
    using assms by (simp add: field_simps)
  ultimately show ?thesis
    using assms approx_rnd powi_tiny powi_huge by (simp add: f_lit_real)
qed

text \<open>The product before rounding is the hundredfold reading to 50 bits.\<close>

lemma approx_product:
  assumes "0 < D" "D \<le> 10 ^ 4" "raw \<noteq> 0" "\<bar>raw\<bar> < 2 ^ 32"
  shows "approx (raw < 0) (100 * of_int \<bar>raw\<bar> / of_int D) (1 / 2 ^ 50)
    (fmul (fmul (f_of_int raw) (f_lit 1 D)) (f_lit 100 1))"
proof -
  let ?r = "real_of_int \<bar>raw\<bar>"
  have r: "1 \<le> ?r" "?r < 2 ^ 32"
    using assms(3,4) by (simp_all flip: of_int_power of_int_abs)
  have D: "1 \<le> real_of_int D" "real_of_int D \<le> 10 ^ 4"
    using assms(1,2) by simp_all
  have lo: "1 / 10 ^ 4 \<le> ?r * (1 / of_int D)"
    using r D by (simp add: field_simps)
  have hi: "?r * (1 / of_int D) \<le> ?r"
    using mult_left_mono [of "1 / real_of_int D" 1 ?r] r D by simp
  have f: "approx (raw < 0) ?r 0 (f_of_int raw)"
    using assms(3,4) by (intro approx_of_int) simp_all
  have one: "approx ((raw < 0) \<noteq> False) (?r * (1 / of_int D)) (1 / 2 ^ 51)
      (fmul (f_of_int raw) (f_lit 1 D))"
  proof (rule approx_mult [OF f approx_factor])
    show "(0::real) + 1 / 2 ^ 53 + 0 * (1 / 2 ^ 53) \<le> 1 / 2 ^ 53" by simp
  qed (use assms r D lo hi powi_tiny powi_huge in simp_all)
  have "approx (((raw < 0) \<noteq> False) \<noteq> False) (?r * (1 / of_int D) * 100) (1 / 2 ^ 50)
      (fmul (fmul (f_of_int raw) (f_lit 1 D)) (f_lit 100 1))"
  proof (rule approx_mult [OF one approx_hundred])
    show "1 / 2 ^ 51 + 0 + 1 / 2 ^ 51 * 0 \<le> (1 / 2 ^ 51 :: real)" by simp
    have "?r * (1 / of_int D) * 100 \<le> ?r * 100"
      using hi by (intro mult_right_mono) simp_all
    also have "\<dots> < 2 ^ 53" using r by simp
    finally have "?r * (1 / of_int D) * 100 < 2 ^ 53" .
    moreover have "1 / 10 ^ 4 \<le> x \<Longrightarrow> 1 / 10 ^ 4 \<le> x * 100" for x :: real by simp
    from this [OF lo] have "1 / 10 ^ 4 \<le> ?r * (1 / of_int D) * 100" .
    ultimately show "2 powi (- 1020) \<le> ?r * (1 / of_int D) * 100"
      "?r * (1 / of_int D) * 100 < 2 powi 1020"
      using powi_tiny powi_huge by blast+
  qed (use r D in simp_all)
  then show ?thesis by (simp add: mult.commute)
qed

theorem scaleValue_nearest:
  assumes "0 < D" "D \<le> 10 ^ 4" "\<bar>raw\<bar> < 2 ^ 32"
  shows "\<exists>N. scaleValue raw (f_lit 1 D) = rnd_real (raw < 0) (of_int N / 100) \<and>
    2 * \<bar>D * N - 100 * \<bar>raw\<bar>\<bar> \<le> D"
proof -
  let ?p = "fmul (fmul (f_of_int raw) (f_lit 1 D)) (f_lit 100 1)"
  let ?w = "100 * of_int \<bar>raw\<bar> / of_int D :: real"
  have D: "1 \<le> real_of_int D" using assms(1) by simp
  have r: "real_of_int \<bar>raw\<bar> \<le> 2 ^ 32"
    using assms(3) by (simp flip: of_int_power of_int_abs)
  have w: "0 \<le> ?w" "?w \<le> 100 * 2 ^ 32" "of_int D * ?w = 100 * of_int \<bar>raw\<bar>"
    using D r by (simp_all add: field_simps)
  have "\<exists>m e. ?p = Fin (raw < 0) m e \<and> 0 \<le> m \<and> \<bar>of_int m * 2 powi e - ?w\<bar> \<le> ?w / 2 ^ 50"
  proof (cases "raw = 0")
    case True
    obtain n k where n: "f_lit 1 D = Fin False n k" "0 < n"
      using approx_factor [OF assms(1,2)] by (auto simp: approx_def)
    obtain n' k' where n': "f_lit 100 1 = Fin False n' k'" "0 < n'"
      using approx_hundred by (auto simp: approx_def)
    have "f_of_int raw = Fin False 0 (- 1074)" using True by (simp add: f_of_int_def rnd_def)
    then have "?p = Fin False 0 (- 1074)"
      using n n' by (simp add: fmul_real rnd_real_def del: fmul.simps)
    with True show ?thesis by simp
  next
    case False
    from approx_product [OF assms(1,2) False assms(3)] show ?thesis
      by (auto simp: approx_def intro: less_imp_le)
  qed
  then obtain m e where p: "?p = Fin (raw < 0) m e" "0 \<le> m"
    and err: "\<bar>of_int m * 2 powi e - ?w\<bar> \<le> ?w / 2 ^ 50" by blast
  let ?v = "of_int m * 2 powi e :: real" and ?N = "\<lfloor>of_int m * 2 powi e + (1 / 2 :: real)\<rfloor>"
  have small: "?w / 2 ^ 50 \<le> 1" using w(2) by simp
  have "?v < 2 ^ 53 - 1" using err small w(2) by simp
  from f_round_real [OF p(2) this] obtain m' e' where
    q: "f_round ?p = Fin (raw < 0) m' e'" "0 \<le> m'" "of_int m' * 2 powi e' = real_of_int ?N"
    unfolding p(1) by blast
  obtain n k where n: "f_lit 100 1 = Fin False n k" "0 < n" "of_int n * 2 powi k = (100::real)"
    using approx_hundred by (auto simp: approx_def)
  have "scaleValue raw (f_lit 1 D) = rnd_real (raw < 0) (of_int ?N / 100)"
    using q n by (simp add: scaleValue_def fdiv_real del: fdiv.simps)
  moreover have "2 * \<bar>D * ?N - 100 * \<bar>raw\<bar>\<bar> \<le> D"
  proof -
    have "\<bar>of_int ?N - ?w\<bar> \<le> 1 / 2 + ?w / 2 ^ 50" using err by linarith
    then have "of_int D * \<bar>of_int ?N - ?w\<bar> \<le> of_int D * (1 / 2 + ?w / 2 ^ 50)"
      using D by (intro mult_left_mono) simp_all
    moreover have "of_int D * \<bar>of_int ?N - ?w\<bar> = \<bar>of_int D * of_int ?N - of_int D * ?w\<bar>"
      unfolding right_diff_distrib [symmetric] abs_mult using D by simp
    moreover have "of_int D * (1 / 2 + ?w / 2 ^ 50) = of_int D / 2 + (of_int D * ?w) / 2 ^ 50"
      by (simp add: algebra_simps)
    ultimately have "\<bar>of_int D * of_int ?N - 100 * real_of_int \<bar>raw\<bar>\<bar> \<le> of_int D / 2 + 100 * of_int \<bar>raw\<bar> / 2 ^ 50"
      by (simp only: w(3))
    moreover have "100 * real_of_int \<bar>raw\<bar> / 2 ^ 50 < 1 / 2" using r by simp
    moreover have "a \<le> d / 2 + b \<Longrightarrow> b < 1 / 2 \<Longrightarrow> 2 * a < d + 1" for a b d :: real by linarith
    ultimately have "2 * \<bar>of_int D * of_int ?N - 100 * real_of_int \<bar>raw\<bar>\<bar> < of_int D + 1" by blast
    then have "real_of_int (2 * \<bar>D * ?N - 100 * \<bar>raw\<bar>\<bar>) < of_int (D + 1)" by simp
    then show ?thesis by (simp only: of_int_less_iff)
  qed
  ultimately show ?thesis by blast
qed

text \<open>For factors that are whole hundredths nothing is lost: the result is the double nearest to the reading.\<close>

corollary scaleValue_exact:
  assumes "D \<in> {1, 10, 100}" "\<bar>raw\<bar> < 2 ^ 32"
  shows "scaleValue raw (f_lit 1 D) = rnd_real (raw < 0) (of_int \<bar>raw\<bar> / of_int D)"
proof -
  obtain N where N: "scaleValue raw (f_lit 1 D) = rnd_real (raw < 0) (of_int N / 100)"
    "2 * \<bar>D * N - 100 * \<bar>raw\<bar>\<bar> \<le> D"
    using scaleValue_nearest [of D raw] assms by auto
  have near: "N = k" if "2 * \<bar>N - k\<bar> \<le> 1" for k using that by presburger
  have "D * N = 100 * \<bar>raw\<bar>" using assms(1) N(2) near
    near [of "100 * \<bar>raw\<bar>"] near [of "10 * \<bar>raw\<bar>"] near [of "\<bar>raw\<bar>"] by auto
  then have "real_of_int (D * N) = of_int (100 * \<bar>raw\<bar>)" by (simp only:)
  then have "of_int N / 100 = real_of_int \<bar>raw\<bar> / of_int D"
    using assms(1) by auto
  with N(1) show ?thesis by simp
qed
end
