(* ===== verification/Registry.thy ===== *)
theory Registry
  imports Parser GoFloat
begin

text \<open>
  internal/vbus/registry.go: the table from packet addresses to field layouts and the decoding of
  a frame with it. Offsets and bit indices are Go ints; \<open>extractValue\<close> has its index and slice
  panics, which a well-formed layout (\<open>field_ok\<close>) rules out.
\<close>

section \<open>Data\<close>

text \<open>\<open>FieldType\<close> is a uint8 with five named values.\<close>

datatype FieldType = Int16 | Uint8 | Uint16 | Uint32 | Bit | OtherType byte

record FieldDef =
  fd_Name :: string
  fd_Offset :: int
  fd_Type :: FieldType
  fd_Factor :: float64
  fd_Unit :: string
  fd_BitIndex :: int

record PacketDef =
  pd_DeviceName :: string
  pd_Fields :: "FieldDef list"

type_synonym Registry = "uint64 \<rightharpoonup> PacketDef"

record TelemetryField =
  tf_Name :: string
  tf_Value :: float64
  tf_Unit :: string

definition pkey :: "uint16 \<Rightarrow> uint16 \<Rightarrow> uint16 \<Rightarrow> uint64" where
  "pkey src dst cmd = push_bit 32 (ucast src) OR push_bit 16 (ucast dst) OR ucast cmd"

definition Lookup :: "Registry \<Rightarrow> uint16 \<Rightarrow> uint16 \<Rightarrow> uint16 \<Rightarrow> PacketDef option" where
  "Lookup r src dst cmd = r (pkey src dst cmd)"

definition Register :: "Registry \<Rightarrow> uint16 \<Rightarrow> uint16 \<Rightarrow> uint16 \<Rightarrow> PacketDef \<Rightarrow> Registry" where
  "Register r src dst cmd d = r(pkey src dst cmd \<mapsto> d)"

section \<open>Reading one field\<close>

datatype extract_error =
    OffsetOutOfRange int nat  \<comment> \<open>\<open>offset %d+%d out of range\<close>\<close>
  | UnknownFieldType byte  \<comment> \<open>\<open>unknown field type %d\<close>\<close>

definition indexZ :: "'a list \<Rightarrow> int \<Rightarrow> 'a option" where
  "indexZ xs i = (if 0 \<le> i then index xs (nat i) else None)"

definition sliceFrom :: "'a list \<Rightarrow> int \<Rightarrow> 'a list option" where
  \<comment> \<open>\<open>xs[i:]\<close>\<close>
  "sliceFrom xs i = (if 0 \<le> i \<and> i \<le> int (length xs) then Some (drop (nat i) xs) else None)"

definition leUint32 :: "byte list \<Rightarrow> uint32 option" where
  "leUint32 b = do {
     b3 \<leftarrow> index b 3; b0 \<leftarrow> index b 0; b1 \<leftarrow> index b 1; b2 \<leftarrow> index b 2;
     Some (le32 b0 b1 b2 b3)
   }"

definition bitMask :: "int \<Rightarrow> byte" where
  \<comment> \<open>\<open>1 << uint(i)\<close> as a byte: a negative \<open>i\<close> converts to a count of at least \<open>2 ^ 63\<close>\<close>
  "bitMask i = (if 0 \<le> i then push_bit (nat i) 1 else 0)"

definition extractValue :: "byte list \<Rightarrow> FieldDef \<Rightarrow> (extract_error + float64) option" where
  "extractValue payload fd =
     (case fd_Type fd of
        Bit \<Rightarrow>
          if int (length payload) \<le> fd_Offset fd then Some (Inl (OffsetOutOfRange (fd_Offset fd) 0))
          else do {
            b \<leftarrow> indexZ payload (fd_Offset fd);
            Some (Inr (if b AND bitMask (fd_BitIndex fd) \<noteq> 0 then f_of_int 1 else f_of_int 0))
          }
      | Uint8 \<Rightarrow>
          if int (length payload) \<le> fd_Offset fd then Some (Inl (OffsetOutOfRange (fd_Offset fd) 0))
          else do {
            b \<leftarrow> indexZ payload (fd_Offset fd);
            Some (Inr (scaleValue (uint b) (fd_Factor fd)))
          }
      | Int16 \<Rightarrow>
          if int (length payload) < wrap64 (fd_Offset fd + 2)
          then Some (Inl (OffsetOutOfRange (fd_Offset fd) 2))
          else do {
            b \<leftarrow> sliceFrom payload (fd_Offset fd);
            raw \<leftarrow> leUint16 b;
            Some (Inr (scaleValue (sint raw) (fd_Factor fd)))
          }
      | Uint16 \<Rightarrow>
          if int (length payload) < wrap64 (fd_Offset fd + 2)
          then Some (Inl (OffsetOutOfRange (fd_Offset fd) 2))
          else do {
            b \<leftarrow> sliceFrom payload (fd_Offset fd);
            raw \<leftarrow> leUint16 b;
            Some (Inr (scaleValue (uint raw) (fd_Factor fd)))
          }
      | Uint32 \<Rightarrow>
          if int (length payload) < wrap64 (fd_Offset fd + 4)
          then Some (Inl (OffsetOutOfRange (fd_Offset fd) 4))
          else do {
            b \<leftarrow> sliceFrom payload (fd_Offset fd);
            raw \<leftarrow> leUint32 b;
            Some (Inr (scaleValue (uint raw) (fd_Factor fd)))
          }
      | OtherType n \<Rightarrow> Some (Inl (UnknownFieldType n)))"

section \<open>Decoding a frame\<close>

text \<open>The field loop of \<open>Decode\<close>; a field that does not fit is skipped.\<close>

fun decodeFields :: "byte list \<Rightarrow> FieldDef list \<Rightarrow> TelemetryField list \<Rightarrow> TelemetryField list option" where
  "decodeFields payload [] acc = Some acc"
| "decodeFields payload (fd # fds) acc = do {
     r \<leftarrow> extractValue payload fd;
     case r of
       Inl err \<Rightarrow> decodeFields payload fds acc
     | Inr val \<Rightarrow> decodeFields payload fds
         (acc @ [\<lparr>tf_Name = fd_Name fd, tf_Value = val, tf_Unit = fd_Unit fd\<rparr>])
   }"

definition Decode :: "Frame \<Rightarrow> Registry \<Rightarrow> (string \<times> TelemetryField list \<times> bool) option" where
  "Decode f reg =
     (case Lookup reg (Source f) (Destination f) (Command f) of
        None \<Rightarrow> Some (''src_0x'' @ fmt04X (Source f), [], False)
      | Some d \<Rightarrow> do {
          tfs \<leftarrow> decodeFields (Payload f) (pd_Fields d) [];
          Some (pd_DeviceName d, tfs, True)
        })"

section \<open>Keys\<close>

lemma pkey_parts:
  "ucast (drop_bit 32 (pkey src dst cmd)) = src"
  "ucast (drop_bit 16 (pkey src dst cmd)) = dst"
  "ucast (pkey src dst cmd) = cmd"
  by (rule bit_word_eqI; auto simp: pkey_def bit_simps dest: bit_imp_le_length)+

lemma pkey_inj [simp]: "pkey a b c = pkey a' b' c' \<longleftrightarrow> a = a' \<and> b = b' \<and> c = c'"
  by (metis pkey_parts)

text \<open>The interface of a keyed table, and what building one from a list of entries gives.\<close>

locale keyed_table =
  fixes lookup :: "'m \<Rightarrow> 'k \<Rightarrow> 'v option" and register :: "'m \<Rightarrow> 'k \<Rightarrow> 'v \<Rightarrow> 'm"
  assumes lookup_register: "lookup (register m k v) k' = (if k' = k then Some v else lookup m k')"
begin

definition registers :: "('k \<times> 'v) list \<Rightarrow> 'm \<Rightarrow> 'm" where
  "registers kvs m = foldl (\<lambda>m (k, v). register m k v) m kvs"

definition register_new :: "('k \<times> 'v) list \<Rightarrow> 'm \<Rightarrow> 'm" where
  \<comment> \<open>only keys the table does not have yet\<close>
  "register_new kvs m = foldl (\<lambda>m (k, v). if lookup m k = None then register m k v else m) m kvs"

lemma lookup_registers:
  "lookup (registers kvs m) k = (case map_of (rev kvs) k of Some v \<Rightarrow> Some v | None \<Rightarrow> lookup m k)"
  unfolding registers_def
  by (induction kvs arbitrary: m) (auto simp: lookup_register map_add_def split: option.splits)

lemma lookup_register_new:
  "lookup (register_new kvs m) k = (case lookup m k of Some v \<Rightarrow> Some v | None \<Rightarrow> map_of kvs k)"
  unfolding register_new_def
  by (induction kvs arbitrary: m) (auto simp: lookup_register split: option.splits if_splits)

lemma registers_order:
  assumes "distinct (map fst kvs)" "set kvs = set kvs'" "distinct (map fst kvs')"
  shows "lookup (registers kvs m) k = lookup (registers kvs' m) k"
    "lookup (register_new kvs m) k = lookup (register_new kvs' m) k"
proof -
  have "map_of (rev kvs) = map_of (rev kvs')" "map_of kvs = map_of kvs'"
    using assms by (simp_all add: map_of_inject_set rev_map [symmetric])
  then show "lookup (registers kvs m) k = lookup (registers kvs' m) k"
    "lookup (register_new kvs m) k = lookup (register_new kvs' m) k"
    by (simp_all only: lookup_registers lookup_register_new)
qed

end

interpretation reg: keyed_table "\<lambda>r (s, d, c). Lookup r s d c" "\<lambda>r (s, d, c). Register r s d c"
  by unfold_locales (auto simp: Lookup_def Register_def split: if_splits)

interpretation tbl: keyed_table "\<lambda>r :: Registry. r" "\<lambda>r k v. r(k \<mapsto> v)"
  by unfold_locales simp

section \<open>What a field reads\<close>

text \<open>The layout is usable: a known type, an offset far from overflow, a bit of a byte.\<close>

definition field_ok :: "FieldDef \<Rightarrow> bool" where
  "field_ok fd \<longleftrightarrow> 0 \<le> fd_Offset fd \<and> fd_Offset fd < 2 ^ 62 \<and> (\<forall>n. fd_Type fd \<noteq> OtherType n)"

fun field_width :: "FieldType \<Rightarrow> nat" where
  "field_width Int16 = 2"
| "field_width Uint16 = 2"
| "field_width Uint32 = 4"
| "field_width _ = 1"

definition fits :: "byte list \<Rightarrow> FieldDef \<Rightarrow> bool" where
  "fits payload fd \<longleftrightarrow> nat (fd_Offset fd) + field_width (fd_Type fd) \<le> length payload"

text \<open>The little-endian integer of the field's bytes, and the value published for it.\<close>

definition bytes_value :: "byte list \<Rightarrow> int" where
  "bytes_value bs = foldr (\<lambda>b n. uint b + 256 * n) bs 0"

definition raw_reading :: "byte list \<Rightarrow> FieldDef \<Rightarrow> int" where
  "raw_reading payload fd =
     (let n = bytes_value (take (field_width (fd_Type fd)) (drop (nat (fd_Offset fd)) payload))
      in case fd_Type fd of
           Int16 \<Rightarrow> if n < 2 ^ 15 then n else n - 2 ^ 16
         | Bit \<Rightarrow> if 0 \<le> fd_BitIndex fd \<and> odd (n div 2 ^ nat (fd_BitIndex fd)) then 1 else 0
         | _ \<Rightarrow> n)"

definition field_value :: "byte list \<Rightarrow> FieldDef \<Rightarrow> float64" where
  "field_value payload fd =
     (if fd_Type fd = Bit then f_of_int (raw_reading payload fd)
      else scaleValue (raw_reading payload fd) (fd_Factor fd))"

section \<open>extractValue reads the field\<close>

lemma uint_le16: "uint (le16 b0 b1) = uint b0 + 256 * uint b1"
proof -
  have "int (unat (le16 b0 b1)) = int (unat b0) + 256 * int (unat b1)"
    by (simp only: unat_le16)
  then show ?thesis by simp
qed

lemma uint_le32:
  "uint (le32 b0 b1 b2 b3) = uint b0 + 256 * (uint b1 + 256 * (uint b2 + 256 * uint b3))"
proof -
  have "uint (le32 b0 b1 b2 b3) = uint (ucast (le16 b0 b1) OR push_bit 16 (ucast (le16 b2 b3)) :: uint32)"
    by (rule arg_cong [where f = uint], rule bit_word_eqI)
      (auto simp: le32_def le16_def bit_simps dest: bit_imp_le_length)
  also have "\<dots> = uint (le16 b0 b1) + 2 ^ 16 * uint (le16 b2 b3)"
  proof -
    have disj: "(ucast (le16 b0 b1) :: uint32) AND push_bit 16 (ucast (le16 b2 b3)) = 0"
      by (rule bit_word_eqI) (auto simp: bit_simps dest: bit_imp_le_length)
    have "uint (le16 x y) < 65536" for x y
      using unsigned_less [of "le16 x y", where 'a = int] by simp
    from this [of b0 b1] this [of b2 b3] show ?thesis
      unfolding disjunctive_add_eq_or [OF disj, symmetric]
      by (simp add: uint_word_ariths push_bit_eq_mult unsigned_ucast_eq take_bit_eq_mod)
  qed
  finally show ?thesis by (simp add: uint_le16)
qed

lemma sint_uint16:
  "sint (w :: uint16) = (if uint w < 2 ^ 15 then uint w else uint w - 2 ^ 16)"
proof -
  have w: "0 \<le> uint w" "uint w < 2 ^ 16" using unsigned_less [of w, where 'a = int] by simp_all
  have "uint w div 2 ^ 15 = (if uint w < 2 ^ 15 then 0 else 1)"
    using w int_div_pos_eq [of "uint w" "2 ^ 15" 1 "uint w - 2 ^ 15"] by (simp add: div_pos_pos_trivial)
  then have "bit (uint w) 15 \<longleftrightarrow> \<not> uint w < 2 ^ 15"
    by (simp add: bit_iff_odd)
  with w show ?thesis
    by (simp add: sint_uint signed_take_bit_eq_take_bit_minus take_bit_eq_mod)
qed

lemma bitMask_set: "b AND bitMask i \<noteq> 0 \<longleftrightarrow> 0 \<le> i \<and> odd (uint b div 2 ^ nat i)"
proof -
  have "bit (uint b) (nat i) \<longleftrightarrow> bit b (nat i)"
    by (auto simp: bit_uint_iff dest: bit_imp_le_length)
  then show ?thesis
    by (auto simp: bitMask_def push_bit_eq_mult bit_iff_odd and_exp_eq_0_iff_not_bit)
qed

lemma take_drop_nths: "k + n \<le> length xs \<Longrightarrow> take n (drop k xs) = map (\<lambda>i. xs ! (k + i)) [0..<n]"
  by (rule nth_equalityI) simp_all

lemma field_ok_offset: "field_ok fd \<Longrightarrow> \<exists>k. fd_Offset fd = int k \<and> int k < 2 ^ 62"
  by (auto simp: field_ok_def dest: nonneg_int_cases)

lemma wrap64_small: "0 \<le> i \<Longrightarrow> i < 2 ^ 62 + 10 \<Longrightarrow> wrap64 i = i"
  by (rule wrap64_id) simp_all

lemma extractValue_fits:
  assumes ok: "field_ok fd" and fits: "fits payload fd"
  shows "extractValue payload fd = Some (Inr (field_value payload fd))"
proof -
  obtain k where k: "fd_Offset fd = int k" "int k < 2 ^ 62" using field_ok_offset [OF ok] by blast
  let ?b = "\<lambda>i. payload ! (k + i)"
  have len: "k + field_width (fd_Type fd) \<le> length payload" using fits k by (simp add: fits_def)
  have wrap: "wrap64 (int k + 2) = int k + 2" "wrap64 (int k + 4) = int k + 4"
    using k by (simp_all add: wrap64_small)
  have bytes: "k + 1 \<le> length payload \<Longrightarrow> take (Suc 0) (drop k payload) = [?b 0]"
    "k + 2 \<le> length payload \<Longrightarrow> take 2 (drop k payload) = [?b 0, ?b 1]"
    "k + 4 \<le> length payload \<Longrightarrow> take 4 (drop k payload) = [?b 0, ?b 1, ?b 2, ?b 3]"
    using take_drop_nths [of k 1 payload] take_drop_nths [of k 2 payload] take_drop_nths [of k 4 payload]
    by (simp_all add: upt_rec numeral_3_eq_3)
  have word16: "leUint16 (drop k payload) = Some (le16 (?b 0) (?b 1))" if "k + 2 \<le> length payload"
    using that by (simp add: leUint16_def)
  have word32: "leUint32 (drop k payload) = Some (le32 (?b 0) (?b 1) (?b 2) (?b 3))"
    if "k + 4 \<le> length payload"
    using that by (simp add: leUint32_def)
  show ?thesis
  proof (cases "fd_Type fd")
    case Int16
    with len word16 show ?thesis
      by (simp add: extractValue_def field_value_def raw_reading_def k wrap bytes bytes_value_def
        sliceFrom_def Let_def sint_uint16 uint_le16)
  next
    case Uint16
    with len word16 show ?thesis
      by (simp add: extractValue_def field_value_def raw_reading_def k wrap bytes bytes_value_def
        sliceFrom_def Let_def uint_le16)
  next
    case Uint32
    with len word32 show ?thesis
      by (simp add: extractValue_def field_value_def raw_reading_def k wrap bytes bytes_value_def
        sliceFrom_def Let_def uint_le32)
  next
    case Uint8
    with len show ?thesis
      by (simp add: extractValue_def field_value_def raw_reading_def k bytes bytes_value_def indexZ_def)
  next
    case Bit
    with len show ?thesis
      by (simp add: extractValue_def field_value_def raw_reading_def k bytes bytes_value_def
        indexZ_def bitMask_set)
  next
    case (OtherType n)
    with ok show ?thesis by (simp add: field_ok_def)
  qed
qed

lemma extractValue_short:
  assumes ok: "field_ok fd" and short: "\<not> fits payload fd"
  shows "extractValue payload fd = Some (Inl (OffsetOutOfRange (fd_Offset fd)
    (if fd_Type fd \<in> {Bit, Uint8} then 0 else field_width (fd_Type fd))))"
proof -
  obtain k where k: "fd_Offset fd = int k" "int k < 2 ^ 62" using field_ok_offset [OF ok] by blast
  have wrap: "wrap64 (int k + 2) = int k + 2" "wrap64 (int k + 4) = int k + 4"
    using k by (simp_all add: wrap64_small)
  have len: "length payload < k + field_width (fd_Type fd)"
    using short k by (simp add: fits_def)
  then have "int (length payload) < int k + int (field_width (fd_Type fd))" by linarith
  with ok show ?thesis
    by (cases "fd_Type fd") (simp_all add: extractValue_def k wrap field_ok_def)
qed

lemma extractValue_no_panic [no_panic]: "field_ok fd \<Longrightarrow> extractValue payload fd \<noteq> None"
  by (cases "fits payload fd") (simp_all add: extractValue_fits extractValue_short)

section \<open>Decode\<close>

definition packet_ok :: "PacketDef \<Rightarrow> bool" where
  "packet_ok d \<longleftrightarrow> list_all field_ok (pd_Fields d)"

definition registry_ok :: "Registry \<Rightarrow> bool" where
  "registry_ok reg \<longleftrightarrow> (\<forall>d \<in> ran reg. packet_ok d)"

definition telemetry_of :: "byte list \<Rightarrow> FieldDef \<Rightarrow> TelemetryField" where
  "telemetry_of payload fd =
     \<lparr>tf_Name = fd_Name fd, tf_Value = field_value payload fd, tf_Unit = fd_Unit fd\<rparr>"

lemma decodeFields_filter:
  "list_all field_ok fds \<Longrightarrow> decodeFields payload fds acc =
     Some (acc @ map (telemetry_of payload) (filter (fits payload) fds))"
  by (induction fds arbitrary: acc)
    (simp_all add: extractValue_fits extractValue_short telemetry_of_def)

lemma Decode_eq:
  assumes "registry_ok reg"
  shows "Decode f reg =
    (case reg (pkey (Source f) (Destination f) (Command f)) of
       None \<Rightarrow> Some (''src_0x'' @ fmt04X (Source f), [], False)
     | Some d \<Rightarrow> Some (pd_DeviceName d,
         map (telemetry_of (Payload f)) (filter (fits (Payload f)) (pd_Fields d)), True))"
proof (cases "reg (pkey (Source f) (Destination f) (Command f))")
  case None
  then show ?thesis by (simp add: Decode_def Lookup_def)
next
  case (Some d)
  with assms have "list_all field_ok (pd_Fields d)"
    by (auto simp: registry_ok_def packet_ok_def ran_def)
  with Some show ?thesis by (simp add: Decode_def Lookup_def decodeFields_filter)
qed

lemma Decode_no_panic [no_panic]: "registry_ok reg \<Longrightarrow> Decode f reg \<noteq> None"
  by (simp add: Decode_eq del: not_None_eq split: option.split)

end
