(* ===== verification/RegistryLiteral.thy ===== *)
theory RegistryLiteral
  imports Registry
begin

text \<open>
  The vocabulary the registry tables are written with: a field literal whose BitIndex is left at
  its zero value, a packet literal, the factors, and the units as their UTF-8 bytes. The
  generated units keep the leading blank the specification file gives them.
\<close>

definition fld :: "string \<Rightarrow> int \<Rightarrow> FieldType \<Rightarrow> float64 \<Rightarrow> string \<Rightarrow> FieldDef" where
  "fld name ofs type factor unit =
     \<lparr>fd_Name = name, fd_Offset = ofs, fd_Type = type, fd_Factor = factor, fd_Unit = unit,
      fd_BitIndex = 0\<rparr>"

definition pd :: "string \<Rightarrow> FieldDef list \<Rightarrow> PacketDef" where
  "pd name fds = \<lparr>pd_DeviceName = name, pd_Fields = fds\<rparr>"

definition F1 :: float64 where "F1 = f_lit 1 1"
definition F0_1 :: float64 where "F0_1 = f_lit 1 10"
definition F0_01 :: float64 where "F0_01 = f_lit 1 100"
definition F0_001 :: float64 where "F0_001 = f_lit 1 1000"

definition Pow10_m4 :: float64 where
  \<comment> \<open>\<open>math.Pow10(-4)\<close>: 1 divided by the table entry \<open>1e4\<close>\<close>
  "Pow10_m4 = fdiv (f_lit 1 1) (f_lit 10000 1)"

definition u_degC :: string where "u_degC = '' '' @ [CHR 0xC2] @ [CHR 0xB0] @ ''C''"
definition u_pct :: string where "u_pct = ''%''"
definition u_l_h :: string where "u_l_h = '' l/h''"
definition u_h :: string where "u_h = '' h''"
definition u_s :: string where "u_s = '' s''"
definition u_Wh :: string where "u_Wh = '' Wh''"
definition u_bar :: string where "u_bar = '' bar''"
definition u_W :: string where "u_W = '' W''"
definition u_W_m2 :: string where "u_W_m2 = '' W/m'' @ [CHR 0xC2] @ [CHR 0xB2]"
definition u_degF :: string where "u_degF = '' '' @ [CHR 0xC2] @ [CHR 0xB0] @ ''F''"
definition u_l_min :: string where "u_l_min = '' l/min''"
definition u_kWh :: string where "u_kWh = '' kWh''"
definition u_kWh_m2d :: string where "u_kWh_m2d = '' kWh/(m'' @ [CHR 0xC2] @ [CHR 0xB2] @ ''*d)''"
definition u_V :: string where "u_V = '' V''"
definition u_K :: string where "u_K = '' K''"
definition u_l :: string where "u_l = '' l''"
definition u_Hz :: string where "u_Hz = '' Hz''"
definition u_m3 :: string where "u_m3 = '' m'' @ [CHR 0xC2] @ [CHR 0xB3]"
definition u_ms :: string where "u_ms = '' ms''"
definition u_kW :: string where "u_kW = '' kW''"
definition u_mA :: string where "u_mA = '' mA''"
definition u_min :: string where "u_min = '' min''"
definition u_Ohm :: string where "u_Ohm = '' '' @ [CHR 0xE2] @ [CHR 0x84] @ [CHR 0xA6]"
definition u_MWh :: string where "u_MWh = '' MWh''"
definition u_m3_h :: string where "u_m3_h = '' m'' @ [CHR 0xC2] @ [CHR 0xB3] @ ''/h''"
definition u_Bq_m3 :: string where "u_Bq_m3 = '' Bq/m'' @ [CHR 0xC2] @ [CHR 0xB3]"
definition u_m_s :: string where "u_m_s = '' m/s''"
definition u_kg_h :: string where "u_kg_h = '' kg/h''"
definition u_m2 :: string where "u_m2 = '' m'' @ [CHR 0xC2] @ [CHR 0xB2]"
definition u_kg_m3 :: string where "u_kg_m3 = '' kg/m'' @ [CHR 0xC2] @ [CHR 0xB3]"
definition u_hPa :: string where "u_hPa = '' hPa''"
definition u_l_m2d :: string where "u_l_m2d = '' l/(m'' @ [CHR 0xC2] @ [CHR 0xB2] @ ''*d)''"
definition u_deg :: string where "u_deg = '' '' @ [CHR 0xC2] @ [CHR 0xB0]"

lemmas unit_defs = u_degC_def u_pct_def u_l_h_def u_h_def u_s_def u_Wh_def u_bar_def u_W_def u_W_m2_def u_degF_def u_l_min_def u_kWh_def u_kWh_m2d_def u_V_def u_K_def u_l_def u_Hz_def u_m3_def u_ms_def u_kW_def u_mA_def u_min_def u_Ohm_def u_MWh_def u_m3_h_def u_Bq_m3_def u_m_s_def u_kg_h_def u_m2_def u_kg_m3_def u_hPa_def u_l_m2d_def u_deg_def

section \<open>What the tables are checked for\<close>

text \<open>The factors are the double nearest to a power of ten down to \<open>10 ^ -4\<close>.\<close>

definition factor_ok :: "float64 \<Rightarrow> bool" where
  "factor_ok f \<longleftrightarrow> (\<exists>D \<in> {1, 10, 100, 1000, 10000}. f = f_lit 1 D)"

lemma Pow10_m4_nearest: "Pow10_m4 = f_lit 1 10000"
  by code_simp

lemma factor_ok_literals [simp]:
  "factor_ok F1" "factor_ok F0_1" "factor_ok F0_01" "factor_ok F0_001" "factor_ok Pow10_m4"
  by (auto simp: factor_ok_def F1_def F0_1_def F0_01_def F0_001_def Pow10_m4_nearest)

definition spaced_unit :: "string \<Rightarrow> bool" where
  "spaced_unit u \<longleftrightarrow> u = [] \<or> u = ''%'' \<or> hd u = CHR '' ''"

lemma spaced_unit_literals [simp]:
  "spaced_unit []"
  "spaced_unit u_degC"
  "spaced_unit u_pct"
  "spaced_unit u_l_h"
  "spaced_unit u_h"
  "spaced_unit u_s"
  "spaced_unit u_Wh"
  "spaced_unit u_bar"
  "spaced_unit u_W"
  "spaced_unit u_W_m2"
  "spaced_unit u_degF"
  "spaced_unit u_l_min"
  "spaced_unit u_kWh"
  "spaced_unit u_kWh_m2d"
  "spaced_unit u_V"
  "spaced_unit u_K"
  "spaced_unit u_l"
  "spaced_unit u_Hz"
  "spaced_unit u_m3"
  "spaced_unit u_ms"
  "spaced_unit u_kW"
  "spaced_unit u_mA"
  "spaced_unit u_min"
  "spaced_unit u_Ohm"
  "spaced_unit u_MWh"
  "spaced_unit u_m3_h"
  "spaced_unit u_Bq_m3"
  "spaced_unit u_m_s"
  "spaced_unit u_kg_h"
  "spaced_unit u_m2"
  "spaced_unit u_kg_m3"
  "spaced_unit u_hPa"
  "spaced_unit u_l_m2d"
  "spaced_unit u_deg"
  by (simp_all add: spaced_unit_def unit_defs)

definition generated_field :: "FieldDef \<Rightarrow> bool" where
  "generated_field fd \<longleftrightarrow> 0 \<le> fd_Offset fd \<and> fd_Offset fd < 1020 \<and>
     fd_Type fd \<in> {Int16, Uint8, Uint16, Uint32} \<and> factor_ok (fd_Factor fd) \<and>
     spaced_unit (fd_Unit fd) \<and> fd_BitIndex fd = 0 \<and> fd_Name fd \<noteq> []"

lemma generated_field_fld [simp]:
  "generated_field (fld n ofs t f u) \<longleftrightarrow> 0 \<le> ofs \<and> ofs < 1020 \<and>
     t \<in> {Int16, Uint8, Uint16, Uint32} \<and> factor_ok f \<and> spaced_unit u \<and> n \<noteq> []"
  by (simp add: generated_field_def fld_def)

definition entry_source :: "uint64 \<times> PacketDef \<Rightarrow> uint16" where
  "entry_source e = ucast (drop_bit 32 (fst e))"

lemma entry_source_pkey [simp]: "entry_source (pkey s d c, p) = s"
  by (simp add: entry_source_def pkey_parts)

text \<open>
  A generated entry: the packet a device sends to the DFA (0x0010) with command 0x0100, named
  after the hexadecimal address of its source.
\<close>

definition generated_entry :: "uint64 \<times> PacketDef \<Rightarrow> bool" where
  "generated_entry e \<longleftrightarrow>
     fst e = pkey (entry_source e) 0x0010 0x0100 \<and>
     pd_DeviceName (snd e) = ''0x'' @ fmt04X (entry_source e) \<and>
     list_all generated_field (pd_Fields (snd e))"

lemma generated_entry_pd [simp]:
  "generated_entry (pkey s 0x0010 0x0100, pd n fds) \<longleftrightarrow>
     n = ''0x'' @ fmt04X s \<and> list_all generated_field fds"
  by (simp add: generated_entry_def pd_def)

lemmas table_check = fmt04X_def hexDigit_def Let_def

fun ascending :: "nat list \<Rightarrow> bool" where
  "ascending (x # y # zs) \<longleftrightarrow> x < y \<and> ascending (y # zs)"
| "ascending _ \<longleftrightarrow> True"

lemma ascending_distinct: "ascending xs \<Longrightarrow> distinct xs \<and> (\<forall>y \<in> set xs. hd xs \<le> y)"
proof (induction xs rule: ascending.induct)
  case (1 x y zs)
  then have "x < y" "distinct (y # zs)" "\<forall>z \<in> set (y # zs). y \<le> z" by simp_all
  then show ?case by fastforce
qed simp_all


end
