(* ===== verification/RegistryGen1.thy ===== *)
theory RegistryGen1
  imports RegistryLiteral
begin

text \<open>
  internal/vbus/registry_gen.go, part 1 of 4: the entries of \<open>generatedRegistry\<close> in file order.
\<close>

definition generatedRegistry_01 :: "(uint64 \<times> PacketDef) list" where
  "generatedRegistry_01 = [
    (pkey 0x0053 0x0010 0x0100, pd ''0x0053'' [
      fld ''resistor_sensor_1'' 0 Uint32 F0_001 u_Ohm,
      fld ''resistor_sensor_2'' 4 Uint32 F0_001 u_Ohm,
      fld ''resistor_sensor_3'' 8 Uint32 F0_001 u_Ohm,
      fld ''current_sensor_4'' 12 Uint32 F0_001 u_mA,
      fld ''temperature_sensor_1'' 34 Int16 F0_1 u_degC,
      fld ''temperature_sensor_2'' 36 Int16 F0_1 u_degC,
      fld ''temperature_sensor_3'' 38 Int16 F0_1 u_degC,
      fld ''impulse_counter_sensor_1'' 16 Uint32 F1 '''',
      fld ''impulse_counter_sensor_2'' 20 Uint32 F1 '''',
      fld ''impulse_counter_sensor_3'' 24 Uint32 F1 '''',
      fld ''irradiation_sensor_4'' 40 Int16 F1 u_W_m2,
      fld ''last_impulse_interval_sensor_1'' 44 Uint32 F1 u_ms,
      fld ''last_impulse_interval_sensor_2'' 48 Uint32 F1 u_ms,
      fld ''last_impulse_interval_sensor_3'' 52 Uint32 F1 u_ms,
      fld ''current_impulse_interval_sensor_1'' 56 Uint32 F1 u_ms,
      fld ''current_impulse_interval_sensor_2'' 60 Uint32 F1 u_ms,
      fld ''current_impulse_interval_sensor_3'' 64 Uint32 F1 u_ms,
      fld ''heat_quantity'' 80 Uint32 F1 u_Wh]),
    (pkey 0x1001 0x0010 0x0100, pd ''0x1001'' [
      fld ''system_date'' 0 Uint32 F1 '''',
      fld ''temperature_sensor_1'' 4 Int16 F0_1 u_degC,
      fld ''temperature_sensor_2'' 6 Int16 F0_1 u_degC,
      fld ''temperature_sensor_3'' 8 Int16 F0_1 u_degC,
      fld ''temperature_sensor_4'' 10 Int16 F0_1 u_degC,
      fld ''temperature_sensor_5'' 12 Int16 F0_1 u_degC,
      fld ''temperature_vfs_rps_s6'' 14 Int16 F0_1 u_degC,
      fld ''flow_rate_v40'' 16 Uint32 F1 u_l_h,
      fld ''flow_rate_vfs_s6'' 20 Uint32 F1 u_l_h,
      fld ''flow_rate_flowrotor_s7'' 24 Uint32 F1 u_l_h,
      fld ''pressure_rps_s6'' 28 Int16 F0_01 u_bar,
      fld ''pump_speed_relay_1'' 30 Int16 F1 u_pct,
      fld ''pump_speed_relay_2'' 31 Int16 F1 u_pct,
      fld ''pump_speed_relay_3'' 32 Int16 F1 u_pct,
      fld ''pump_speed_relay_4'' 33 Int16 F1 u_pct,
      fld ''pwm_a'' 34 Int16 F1 u_pct,
      fld ''pwm_b'' 35 Int16 F1 u_pct,
      fld ''error_mask'' 36 Uint32 F1 '''',
      fld ''warning_mask'' 40 Uint32 F1 '''']),
    (pkey 0x1002 0x0010 0x0100, pd ''0x1002'' [
      fld ''temperature_sensor_1'' 0 Int16 F0_1 u_degC,
      fld ''temperature_sensor_2'' 2 Int16 F0_1 u_degC,
      fld ''temperature_sensor_3'' 4 Int16 F0_1 u_degC,
      fld ''temperature_sensor_4'' 6 Int16 F0_1 u_degC,
      fld ''temperature_sensor_5'' 8 Int16 F0_1 u_degC,
      fld ''temperature_sensor_6'' 10 Int16 F0_1 u_degC,
      fld ''pump_speed_relay_1'' 12 Int16 F1 u_pct,
      fld ''pump_speed_relay_2'' 13 Int16 F1 u_pct,
      fld ''pump_speed_relay_3'' 14 Int16 F1 u_pct,
      fld ''pump_speed_relay_4'' 15 Int16 F1 u_pct,
      fld ''pump_speed_relay_5'' 16 Int16 F1 u_pct]),
    (pkey 0x1020 0x0010 0x0100, pd ''0x1020'' [
      fld ''system_date'' 0 Uint32 F1 '''',
      fld ''temperature_sensor_1'' 4 Int16 F0_1 u_degC,
      fld ''temperature_sensor_2'' 6 Int16 F0_1 u_degC,
      fld ''temperature_sensor_3'' 8 Int16 F0_1 u_degC,
      fld ''temperature_sensor_4'' 10 Int16 F0_1 u_degC,
      fld ''temperature_sensor_5'' 12 Int16 F0_1 u_degC,
      fld ''temperature_sensor_6'' 14 Int16 F0_1 u_degC,
      fld ''temperature_sensor_7'' 16 Int16 F0_1 u_degC,
      fld ''state_sensor_8'' 18 Uint8 F1 '''',
      fld ''pump_speed_relay_1'' 19 Uint8 F1 u_pct,
      fld ''pump_speed_relay_2'' 20 Uint8 F1 u_pct,
      fld ''pump_speed_relay_3'' 21 Uint8 F1 u_pct,
      fld ''pump_speed_relay_4'' 22 Uint8 F1 u_pct,
      fld ''pump_speed_relay_potfrei'' 23 Uint8 F1 u_pct,
      fld ''pump_speed_output_pwm_1'' 24 Uint8 F1 u_pct,
      fld ''pump_speed_output_pwm_2'' 25 Uint8 F1 u_pct,
      fld ''error'' 28 Uint32 F1 '''']),
    (pkey 0x1050 0x0010 0x0100, pd ''0x1050'' [
      fld ''temperature_sensor_1'' 0 Int16 F0_1 u_degC,
      fld ''temperature_sensor_2'' 2 Int16 F0_1 u_degC,
      fld ''temperature_sensor_3'' 4 Int16 F0_1 u_degC,
      fld ''temperature_sensor_4'' 6 Int16 F0_1 u_degC,
      fld ''temperature_sensor_5'' 8 Int16 F0_1 u_degC,
      fld ''temperature_sensor_6'' 10 Int16 F0_1 u_degC,
      fld ''temperature_sensor_7'' 12 Int16 F0_1 u_degC,
      fld ''temperature_sensor_8'' 14 Int16 F0_1 u_degC,
      fld ''temperature_sensor_9'' 16 Int16 F0_1 u_degC,
      fld ''temperature_sensor_10'' 18 Int16 F0_1 u_degC,
      fld ''irradiation_cs'' 20 Int16 F1 u_W_m2,
      fld ''impulse_1_v40'' 22 Uint16 F1 '''',
      fld ''digital_input'' 24 Uint16 F1 '''',
      fld ''pwm_1'' 68 Int16 F1 u_pct,
      fld ''pump_speed_relay_1'' 26 Int16 F1 u_pct,
      fld ''pwm_2'' 69 Int16 F1 u_pct,
      fld ''pump_speed_relay_2'' 27 Int16 F1 u_pct,
      fld ''pwm_3'' 70 Int16 F1 u_pct,
      fld ''pump_speed_relay_3'' 28 Int16 F1 u_pct,
      fld ''pump_speed_relay_4'' 29 Int16 F1 u_pct,
      fld ''pump_speed_relay_5'' 30 Int16 F1 u_pct,
      fld ''pump_speed_relay_6'' 31 Int16 F1 u_pct,
      fld ''pump_speed_relay_7'' 32 Int16 F1 u_pct,
      fld ''error_mask'' 36 Uint16 F1 '''',
      fld ''messages'' 38 Uint16 F1 '''',
      fld ''system'' 40 Int16 F1 '''',
      fld ''scheme'' 42 Uint16 F1 '''',
      fld ''flow_set_hc1_module_sensor_18'' 44 Int16 F0_1 u_degC,
      fld ''status_hc1_module'' 46 Uint16 F1 '''',
      fld ''flow_set_hc2_module_sensor_25'' 48 Int16 F0_1 u_degC,
      fld ''status_hc2_module'' 50 Uint16 F1 '''',
      fld ''flow_set_hc3_module_sensor_32'' 52 Int16 F0_1 u_degC,
      fld ''status_hc3_module'' 54 Uint16 F1 '''',
      fld ''flow_set_heating_circuit_sensor_11'' 56 Int16 F0_1 u_degC,
      fld ''heating_circuit_status'' 58 Uint16 F1 '''',
      fld ''system_time'' 62 Int16 F1 '''',
      fld ''year'' 64 Int16 F1 '''',
      fld ''month'' 66 Int16 F1 '''',
      fld ''day'' 67 Int16 F1 '''']),
    (pkey 0x1051 0x0010 0x0100, pd ''0x1051'' [
      fld ''flow_temperature'' 0 Int16 F0_1 u_degC,
      fld ''return_temperature'' 2 Int16 F0_1 u_degC,
      fld ''flow_rate_sensor_8'' 4 Int16 F1 u_l_h])]"

definition generatedRegistry_02 :: "(uint64 \<times> PacketDef) list" where
  "generatedRegistry_02 = [
    (pkey 0x1052 0x0010 0x0100, pd ''0x1052'' [
      fld ''temperature_sensor_1'' 0 Int16 F0_1 u_degC,
      fld ''temperature_sensor_2'' 2 Int16 F0_1 u_degC,
      fld ''temperature_sensor_3'' 4 Int16 F0_1 u_degC,
      fld ''temperature_sensor_4'' 6 Int16 F0_1 u_degC,
      fld ''temperature_sensor_5'' 8 Int16 F0_1 u_degC,
      fld ''temperature_sensor_6'' 10 Int16 F0_1 u_degC,
      fld ''temperature_sensor_7'' 12 Int16 F0_1 u_degC,
      fld ''temperature_sensor_8'' 14 Int16 F0_1 u_degC,
      fld ''temperature_sensor_9'' 16 Int16 F0_1 u_degC,
      fld ''irradiation_sensor_10'' 18 Int16 F1 u_W_m2,
      fld ''temperature_sensor_11'' 20 Int16 F0_1 u_degC,
      fld ''temperature_sensor_12'' 22 Int16 F0_1 u_degC,
      fld ''flow_rate_sensor_9'' 24 Uint32 F1 u_l_h,
      fld ''flow_rate_sensor_11'' 28 Uint32 F1 u_l_h,
      fld ''flow_rate_sensor_12'' 32 Uint32 F1 u_l_h,
      fld ''pressure_sensor_11'' 36 Int16 F0_01 u_bar,
      fld ''pressure_sensor_12'' 38 Int16 F0_01 u_bar,
      fld ''pump_speed_relay_1'' 40 Uint8 F1 u_pct,
      fld ''pump_speed_relay_2'' 41 Uint8 F1 u_pct,
      fld ''pump_speed_relay_3'' 42 Uint8 F1 u_pct,
      fld ''pump_speed_relay_4'' 43 Uint8 F1 u_pct,
      fld ''pump_speed_relay_5'' 44 Uint8 F1 u_pct,
      fld ''system_date'' 48 Uint32 F1 '''',
      fld ''error_mask'' 52 Uint32 F1 '''']),
    (pkey 0x1053 0x0010 0x0100, pd ''0x1053'' [
      fld ''temperature_module_1_sensor_1'' 0 Int16 F0_1 u_degC,
      fld ''temperature_module_1_sensor_2'' 2 Int16 F0_1 u_degC,
      fld ''temperature_module_1_sensor_3'' 4 Int16 F0_1 u_degC,
      fld ''temperature_module_1_sensor_4'' 6 Int16 F0_1 u_degC,
      fld ''temperature_module_1_sensor_5'' 8 Int16 F0_1 u_degC,
      fld ''temperature_module_1_sensor_6'' 10 Int16 F0_1 u_degC,
      fld ''temperature_module_2_sensor_1'' 12 Int16 F0_1 u_degC,
      fld ''temperature_module_2_sensor_2'' 14 Int16 F0_1 u_degC,
      fld ''temperature_module_2_sensor_3'' 16 Int16 F0_1 u_degC,
      fld ''temperature_module_2_sensor_4'' 18 Int16 F0_1 u_degC,
      fld ''temperature_module_2_sensor_5'' 20 Int16 F0_1 u_degC,
      fld ''temperature_module_2_sensor_6'' 22 Int16 F0_1 u_degC]),
    (pkey 0x1054 0x0010 0x0100, pd ''0x1054'' [
      fld ''flow_set_temperature'' 0 Int16 F0_1 u_degC,
      fld ''operating_state'' 2 Uint8 F1 '''']),
    (pkey 0x1055 0x0010 0x0100, pd ''0x1055'' [
      fld ''flow_set_temperature'' 0 Int16 F0_1 u_degC,
      fld ''operating_state'' 2 Uint8 F1 '''']),
    (pkey 0x1056 0x0010 0x0100, pd ''0x1056'' [
      fld ''heat_quantity'' 0 Uint32 F1 u_Wh,
      fld ''heat_quantity_today'' 8 Uint32 F1 u_Wh,
      fld ''heat_quantity_week'' 12 Uint32 F1 u_Wh]),
    (pkey 0x1057 0x0010 0x0100, pd ''0x1057'' [
      fld ''heat_quantity'' 0 Uint32 F1 u_Wh,
      fld ''heat_quantity_today'' 8 Uint32 F1 u_Wh,
      fld ''heat_quantity_week'' 12 Uint32 F1 u_Wh]),
    (pkey 0x1058 0x0010 0x0100, pd ''0x1058'' [
      fld ''temperature_sensor_1'' 0 Int16 F0_1 u_degC,
      fld ''temperature_sensor_2'' 2 Int16 F0_1 u_degC,
      fld ''temperature_sensor_3'' 4 Int16 F0_1 u_degC,
      fld ''sensor_3_zustand_fs'' 6 Uint8 F1 '''',
      fld ''sensor_4_zustand_ta'' 7 Uint8 F1 '''',
      fld ''pump_speed_relay_1'' 8 Int16 F1 u_pct,
      fld ''pump_speed_relay_2'' 9 Int16 F1 u_pct,
      fld ''pump_speed_relay_3'' 10 Int16 F1 u_pct,
      fld ''pump_speed_relay_4'' 11 Int16 F1 u_pct,
      fld ''scheme'' 12 Int16 F1 '''',
      fld ''operating_seconds_relay_1'' 16 Uint32 F1 u_s,
      fld ''operating_seconds_relay_2'' 20 Uint32 F1 u_s,
      fld ''operating_seconds_relay_3'' 24 Uint32 F1 u_s,
      fld ''operating_seconds_relay_4'' 28 Uint32 F1 u_s,
      fld ''error_mask'' 32 Uint32 F1 '''',
      fld ''messages'' 36 Uint32 F1 '''']),
    (pkey 0x1059 0x0010 0x0100, pd ''0x1059'' [
      fld ''temperature_sensor_1'' 0 Int16 F0_1 u_degC,
      fld ''temperature_sensor_2'' 2 Int16 F0_1 u_degC,
      fld ''temperature_sensor_3'' 4 Int16 F0_1 u_degC,
      fld ''temperature_sensor_4'' 6 Int16 F0_1 u_degC,
      fld ''temperature_sensor_5'' 8 Int16 F0_1 u_degC,
      fld ''pump_speed_relay_1'' 12 Int16 F1 u_pct,
      fld ''pump_speed_relay_2'' 13 Int16 F1 u_pct,
      fld ''pump_speed_relay_3'' 14 Int16 F1 u_pct,
      fld ''pump_speed_relay_4'' 15 Int16 F1 u_pct,
      fld ''controller_output_1'' 17 Int16 F1 u_pct,
      fld ''controller_output_2'' 18 Int16 F1 u_pct,
      fld ''system_date'' 20 Uint32 F1 '''',
      fld ''error_mask'' 24 Uint32 F1 '''',
      fld ''warning_mask'' 28 Uint32 F1 '''']),
    (pkey 0x105A 0x0010 0x0100, pd ''0x105A'' [
      fld ''outdoor_temperature'' 0 Int16 F0_1 u_degC,
      fld ''temperature_speicher_unten'' 2 Int16 F0_1 u_degC,
      fld ''temperature_speicher_oben'' 4 Int16 F0_1 u_degC,
      fld ''irradiation'' 6 Int16 F1 u_W_m2,
      fld ''pump_speed_relay_pumpe'' 8 Int16 F1 u_pct,
      fld ''pump_speed_heat_pump'' 9 Int16 F1 u_pct,
      fld ''pump_speed_relay_fastoff'' 10 Int16 F1 u_pct,
      fld ''operating_seconds_relay_pump'' 12 Uint32 F1 u_s,
      fld ''operating_seconds_relay_fastoff'' 16 Uint32 F1 u_s,
      fld ''error_mask'' 20 Uint32 F1 '''',
      fld ''system_date'' 24 Uint32 F1 '''',
      fld ''version'' 28 Uint32 F0_01 ''''])]"

definition generatedRegistry_03 :: "(uint64 \<times> PacketDef) list" where
  "generatedRegistry_03 = [
    (pkey 0x105B 0x0010 0x0100, pd ''0x105B'' [
      fld ''tcap'' 4 Int16 F0_1 u_degC,
      fld ''trh'' 2 Int16 F0_1 u_degC,
      fld ''trb'' 0 Int16 F0_1 u_degC,
      fld ''r1'' 6 Uint8 F1 u_pct,
      fld ''r2'' 7 Uint8 F1 u_pct,
      fld ''h_p1'' 12 Uint16 F1 u_h,
      fld ''h_p2'' 14 Uint16 F1 u_h,
      fld ''kwh'' 16 Uint32 F1 u_kWh,
      fld ''mwh'' 20 Uint32 F1 u_MWh,
      fld ''system_date'' 24 Uint32 F1 '''']),
    (pkey 0x105D 0x0010 0x0100, pd ''0x105D'' [
      fld ''temperature_sensor_1'' 0 Int16 F0_1 u_degC,
      fld ''temperature_sensor_2'' 2 Int16 F0_1 u_degC,
      fld ''temperature_sensor_3'' 4 Int16 F0_1 u_degC,
      fld ''temperature_sensor_4'' 6 Int16 F0_1 u_degC,
      fld ''temperature_vfd1'' 36 Int16 F0_1 u_degC,
      fld ''flow_rate_vfd1'' 38 Int16 F1 u_l_h,
      fld ''pump_speed_relay_1'' 8 Uint8 F1 u_pct,
      fld ''pump_speed_relay_2'' 12 Uint8 F1 u_pct,
      fld ''operating_hours_relay_1'' 10 Uint16 F1 u_h,
      fld ''operating_hours_relay_2'' 14 Uint16 F1 u_h,
      fld ''unittype'' 16 Uint8 F1 '''',
      fld ''system'' 17 Uint8 F1 '''',
      fld ''errormask'' 20 Uint16 F1 '''',
      fld ''system_time'' 22 Int16 F1 '''',
      fld ''status_mask'' 24 Uint32 F1 '''',
      fld ''heat_quantity'' 28 Uint32 F1 u_Wh,
      fld ''sw_version'' 32 Uint16 F0_01 '''']),
    (pkey 0x105E 0x0010 0x0100, pd ''0x105E'' [
      fld ''temperature_sensor_1'' 0 Int16 F0_1 u_degC,
      fld ''temperature_sensor_2'' 2 Int16 F0_1 u_degC,
      fld ''temperature_sensor_3'' 4 Int16 F0_1 u_degC,
      fld ''sensor_3_zustand_fs'' 6 Uint8 F1 '''',
      fld ''sensor_4_zustand_ta'' 7 Uint8 F1 '''',
      fld ''pump_speed_relay_1'' 8 Int16 F1 u_pct,
      fld ''pump_speed_relay_2'' 9 Int16 F1 u_pct,
      fld ''pump_speed_relay_3'' 10 Int16 F1 u_pct,
      fld ''pump_speed_relay_4'' 11 Int16 F1 u_pct,
      fld ''operating_seconds_relay_1'' 12 Uint32 F1 u_s,
      fld ''operating_seconds_relay_2'' 16 Uint32 F1 u_s,
      fld ''operating_seconds_relay_3'' 20 Uint32 F1 u_s,
      fld ''operating_seconds_relay_4'' 24 Uint32 F1 u_s,
      fld ''error_mask'' 28 Uint32 F1 '''',
      fld ''messages'' 32 Uint32 F1 '''',
      fld ''heat_pump_state'' 36 Int16 F1 '''',
      fld ''heat_pump_operating_mode'' 37 Int16 F1 '''',
      fld ''heat_pump_tcalc'' 38 Int16 F0_1 u_degC,
      fld ''mixer_command'' 40 Int16 F1 '''',
      fld ''mixer_dt'' 41 Int16 F0_1 u_K,
      fld ''tplan_timer'' 44 Int16 F1 u_s]),
    (pkey 0x105F 0x0010 0x0100, pd ''0x105F'' [
      fld ''temperature_sensor_1'' 0 Int16 F0_1 u_degC,
      fld ''temperature_sensor_2'' 2 Int16 F0_1 u_degC,
      fld ''temperature_sensor_3'' 4 Int16 F0_1 u_degC,
      fld ''temperature_sensor_4'' 6 Int16 F0_1 u_degC,
      fld ''relay_1'' 8 Int16 F1 u_pct,
      fld ''relay_2'' 9 Int16 F1 u_pct,
      fld ''pwm_a'' 20 Int16 F1 u_pct,
      fld ''pwm_b'' 21 Int16 F1 u_pct,
      fld ''mixer_open'' 10 Int16 F1 u_pct,
      fld ''mixer_closed'' 11 Int16 F1 u_pct,
      fld ''system_message'' 18 Uint8 F1 '''',
      fld ''date'' 12 Uint32 F1 '''',
      fld ''time'' 16 Int16 F1 '''']),
    (pkey 0x1060 0x0010 0x0100, pd ''0x1060'' [
      fld ''temperature_sensor_1'' 0 Int16 F0_1 u_degC,
      fld ''temperature_sensor_2'' 2 Int16 F0_1 u_degC,
      fld ''temperature_sensor_3'' 4 Int16 F0_1 u_degC,
      fld ''temperature_sensor_4'' 6 Int16 F0_1 u_degC,
      fld ''temperature_sensor_5'' 8 Int16 F0_1 u_degC,
      fld ''temperature_sensor_6'' 10 Int16 F0_1 u_degC,
      fld ''temperature_sensor_7'' 12 Int16 F0_1 u_degC,
      fld ''temperature_sensor_8'' 14 Int16 F0_1 u_degC,
      fld ''temperature_sensor_9'' 16 Int16 F0_1 u_degC,
      fld ''temperature_sensor_10'' 18 Int16 F0_1 u_degC,
      fld ''temperature_sensor_11'' 20 Int16 F0_1 u_degC,
      fld ''temperature_sensor_12'' 22 Int16 F0_1 u_degC,
      fld ''sc_irradiation'' 24 Int16 F1 u_W_m2,
      fld ''sc_voltage'' 26 Uint16 F0_001 u_V,
      fld ''impulse_counter_1'' 28 Uint32 F1 u_l_min,
      fld ''impulse_counter_2'' 32 Uint32 F1 u_l_min,
      fld ''sensor_cable_broken'' 36 Int16 F1 '''',
      fld ''sensor_used'' 40 Uint8 F1 '''',
      fld ''pump_speed_relay_1'' 44 Uint8 F1 u_pct,
      fld ''pump_speed_relay_2'' 45 Uint8 F1 u_pct,
      fld ''pump_speed_relay_3'' 46 Uint8 F1 u_pct,
      fld ''pump_speed_relay_4'' 47 Uint8 F1 u_pct,
      fld ''pump_speed_relay_5'' 48 Uint8 F1 u_pct,
      fld ''pump_speed_relay_6'' 49 Uint8 F1 u_pct,
      fld ''pump_speed_relay_7'' 50 Uint8 F1 u_pct,
      fld ''load_detection_relay'' 56 Uint8 F1 '''',
      fld ''error_load_detection_relay'' 57 Uint8 F1 '''',
      fld ''relay_usage_mask'' 58 Uint16 F1 '''',
      fld ''error_mask'' 60 Uint16 F1 '''',
      fld ''warning_mask'' 62 Uint16 F1 '''',
      fld ''sw_version'' 64 Uint8 F0_1 '''',
      fld ''minorversion'' 65 Uint8 F1 '''',
      fld ''system_time'' 66 Uint16 F1 '''',
      fld ''error_solar_cell'' 72 Uint8 F1 ''''])]"

definition generatedRegistry_04 :: "(uint64 \<times> PacketDef) list" where
  "generatedRegistry_04 = [
    (pkey 0x1100 0x0010 0x0100, pd ''0x1100'' [
      fld ''t_lt_out'' 10 Int16 F0_1 u_degC,
      fld ''t_lt_in'' 8 Int16 F0_1 u_degC,
      fld ''t_mt_out'' 12 Int16 F0_1 u_degC,
      fld ''t_mt_in'' 22 Int16 F0_1 u_degC,
      fld ''t_e1_out'' 0 Int16 F0_1 u_degC,
      fld ''t_e2_out'' 2 Int16 F0_1 u_degC,
      fld ''t_a1_out'' 4 Int16 F0_1 u_degC,
      fld ''t_a2_out'' 6 Int16 F0_1 u_degC,
      fld ''t_ht_out'' 14 Int16 F0_1 u_degC,
      fld ''t_amb'' 16 Int16 F0_1 u_degC,
      fld ''t_ht_ext'' 18 Int16 F0_1 u_degC,
      fld ''t_lt_ext'' 20 Int16 F0_1 u_degC,
      fld ''ht_pump'' 29 Int16 F1 u_pct,
      fld ''mt_pump'' 28 Int16 F1 u_pct,
      fld ''lt_pump'' 27 Int16 F1 u_pct,
      fld ''rcs'' 32 Int16 F1 u_pct,
      fld ''phase'' 30 Uint8 F1 '''',
      fld ''system_code'' 31 Uint8 F1 '''',
      fld ''ext_volt_t_set'' 22 Int16 F1 u_V,
      fld ''t_lts_out_avg'' 36 Int16 F0_1 u_degC,
      fld ''t_lt_out_cycle'' 56 Int16 F0_1 u_degC,
      fld ''t_lt_in_avg'' 52 Int16 F0_1 u_degC,
      fld ''t_lt_in_cycle'' 54 Int16 F0_1 u_degC,
      fld ''t_mt_out_avg'' 38 Int16 F0_1 u_degC,
      fld ''t_mt_out_cycle'' 58 Int16 F0_1 u_degC,
      fld (''k'' @ [CHR 0xC3] @ [CHR 0xA4] @ ''lteleistung_letzter_zyklus'') 60 Int16 F0_1 u_kW,
      fld ''flow_rate_cold_water_circuit_dvlt'' 62 Int16 F1 u_l_h,
      fld ''current_set_value_t_set'' 40 Int16 F0_1 u_degC,
      fld ''external_set_temperature_t_set_ext'' 42 Int16 F0_1 u_degC,
      fld ''number_of_cycles_since_start'' 44 Uint32 F1 '''',
      fld ''number_of_cycles_sum'' 48 Uint32 F1 '''',
      fld ''summed_up_spraying_time'' 36 Uint32 F1 '''',
      fld ''system_time'' 64 Int16 F1 '''',
      fld ''year'' 66 Int16 F1 '''',
      fld ''month'' 68 Int16 F1 '''',
      fld ''day'' 69 Int16 F1 '''']),
    (pkey 0x1117 0x0010 0x0100, pd ''0x1117'' [
      fld ''temperature_sensor_1'' 0 Int16 F0_1 u_degC,
      fld ''temperature_sensor_2'' 2 Int16 F0_1 u_degC,
      fld ''temperature_sensor_3'' 4 Int16 F0_1 u_degC,
      fld ''temperature_sensor_4'' 6 Int16 F0_1 u_degC,
      fld ''temperature_vfd1'' 36 Int16 F0_1 u_degC,
      fld ''flow_rate_vfd1'' 38 Int16 F1 u_l_h,
      fld ''pump_speed_relay_1'' 8 Uint8 F1 u_pct,
      fld ''pump_speed_relay_2'' 12 Uint8 F1 u_pct,
      fld ''operating_hours_relay_1'' 10 Uint16 F1 u_h,
      fld ''operating_hours_relay_2'' 14 Uint16 F1 u_h,
      fld ''unittype'' 16 Uint8 F1 '''',
      fld ''system'' 17 Uint8 F1 '''',
      fld ''errormask'' 20 Uint16 F1 '''',
      fld ''system_time'' 22 Int16 F1 '''',
      fld ''status_mask'' 24 Uint32 F1 '''',
      fld ''heat_quantity'' 28 Uint32 F1 u_Wh,
      fld ''sw_version'' 32 Uint16 F0_01 '''']),
    (pkey 0x1119 0x0010 0x0100, pd ''0x1119'' [
      fld ''collector_temperature_tc'' 0 Int16 F0_1 u_degC,
      fld ''speicher_temperatur_ts'' 2 Int16 F0_1 u_degC,
      fld ''heat_quantity'' 8 Uint32 F1 u_Wh,
      fld ''pump_speed_pc'' 12 Uint8 F1 u_pct,
      fld ''control_time_tc'' 14 Int16 F1 u_pct,
      fld ''software_version'' 16 Int16 F0_01 '''']),
    (pkey 0x111E 0x0010 0x0100, pd ''0x111E'' [
      fld ''power_excess'' 2 Uint32 F0_001 u_W,
      fld ''power_heating'' 6 Uint32 F0_001 u_W,
      fld ''dcin'' 68 Uint16 F0_1 u_V,
      fld ''temperature_store_sensor_1'' 10 Int16 F0_1 u_degC,
      fld ''temperature_sensor_2'' 12 Int16 F0_1 u_degC,
      fld ''temperature_sensor_3'' 14 Int16 F0_1 u_degC,
      fld ''excess'' 16 Uint32 F1 u_Wh,
      fld ''heating'' 24 Uint32 F1 u_Wh,
      fld ''operating_seconds_heating'' 32 Uint32 F1 u_h,
      fld ''backup_heating'' 56 Uint32 F1 u_Wh,
      fld ''operating_seconds_backup_heating'' 64 Uint32 F1 u_h,
      fld ''parameter_max_temp_s1'' 36 Int16 F0_1 u_degC,
      fld ''paramter_reserve'' 40 Int16 F1 u_W,
      fld ''system_date'' 44 Uint32 F1 '''']),
    (pkey 0x111F 0x0010 0x0100, pd ''0x111F'' [
      fld ''countdown_blockage'' 1 Int16 F1 '''',
      fld ''power_excess'' 4 Uint32 F0_001 u_W,
      fld ''power_heating'' 8 Uint32 F0_001 u_W,
      fld ''temperature_flow_sensor_1'' 12 Int16 F0_1 u_degC,
      fld ''temperature_return_sensor_2'' 14 Int16 F0_1 u_degC,
      fld ''temperature_store_top_sensor_3'' 16 Int16 F0_1 u_degC,
      fld ''temperature_sensor_4'' 18 Int16 F0_1 u_degC,
      fld ''speed_loading_pump'' 3 Uint8 F1 u_pct,
      fld ''pump_speed_relay_2'' 42 Uint8 F1 u_pct,
      fld ''excess_wh'' 20 Uint32 F1 u_Wh,
      fld ''heating_wh'' 28 Uint32 F1 u_Wh,
      fld ''operating_seconds_heating'' 36 Uint32 F1 u_h,
      fld ''operating_seconds_backup_heating'' 60 Uint32 F1 u_h,
      fld ''operating_hours_relay_2'' 56 Uint32 F1 u_h,
      fld ''paramter_target_temperature'' 40 Int16 F0_1 u_degC,
      fld ''paramter_reserve'' 44 Int16 F1 u_W,
      fld ''system_date'' 52 Uint32 F1 '''']),
    (pkey 0x1120 0x0010 0x0100, pd ''0x1120'' [
      fld ''temperature_sensor_1'' 0 Int16 F0_1 u_degC,
      fld ''temperature_sensor_2'' 2 Int16 F0_1 u_degC,
      fld ''temperature_sensor_3'' 4 Int16 F0_1 u_degC,
      fld ''pump_speed_relay_1'' 6 Uint8 F1 u_pct,
      fld ''pump_speed_relay_2'' 7 Uint8 F1 u_pct,
      fld ''status_display'' 8 Uint16 F1 '''',
      fld ''operating_hours_relay_1'' 12 Uint16 F1 u_h,
      fld ''operating_hours_relay_2'' 14 Uint16 F1 u_h,
      fld ''heat_quantity'' 16 Uint32 F1 u_Wh,
      fld ''time'' 10 Int16 F1 ''''])]"

definition generatedRegistry_05 :: "(uint64 \<times> PacketDef) list" where
  "generatedRegistry_05 = [
    (pkey 0x1121 0x0010 0x0100, pd ''0x1121'' [
      fld ''temperature_sensor_1'' 0 Int16 F0_1 u_degC,
      fld ''temperature_sensor_2'' 2 Int16 F0_1 u_degC,
      fld ''temperature_sensor_3'' 4 Int16 F0_1 u_degC,
      fld ''temperature_sensor_4'' 6 Int16 F0_1 u_degC,
      fld ''temperature_sensor_5'' 8 Int16 F0_1 u_degC,
      fld ''flow_rate'' 10 Int16 F0_1 u_l_min,
      fld ''pump_speed_relay'' 12 Uint8 F1 u_pct,
      fld ''operating_hours_relay'' 14 Uint16 F1 u_h,
      fld ''unittype'' 16 Uint8 F1 '''',
      fld ''errormask'' 18 Uint16 F1 '''',
      fld ''status_mask'' 20 Uint32 F1 '''',
      fld ''heat_quantity'' 24 Uint32 F1 u_Wh,
      fld ''sw_version'' 28 Uint16 F0_01 '''']),
    (pkey 0x1122 0x0010 0x0100, pd ''0x1122'' [
      fld ''temperature_sensor_1'' 0 Int16 F0_1 u_degC,
      fld ''temperature_sensor_2'' 2 Int16 F0_1 u_degC,
      fld ''temperature_sensor_3'' 4 Int16 F0_1 u_degC,
      fld ''temperature_sensor_4'' 6 Int16 F0_1 u_degC,
      fld ''temperature_sensor_5'' 36 Int16 F0_1 u_degC,
      fld ''flow_rate'' 38 Int16 F1 u_l_h,
      fld ''pump_speed_relay_1'' 8 Uint8 F1 u_pct,
      fld ''pump_speed_relay_2'' 12 Uint8 F1 u_pct,
      fld ''operating_hours_relay_1'' 10 Uint16 F1 u_h,
      fld ''operating_hours_relay_2'' 14 Uint16 F1 u_h,
      fld ''unittype'' 16 Uint8 F1 '''',
      fld ''system'' 17 Uint8 F1 '''',
      fld ''errormask'' 20 Uint16 F1 '''',
      fld ''system_time'' 22 Int16 F1 '''',
      fld ''status_mask'' 24 Uint32 F1 '''',
      fld ''heat_quantity'' 28 Uint32 F1 u_Wh,
      fld ''sw_version'' 32 Uint16 F0_01 '''']),
    (pkey 0x1123 0x0010 0x0100, pd ''0x1123'' [
      fld ''countdown_blockage'' 1 Int16 F1 '''',
      fld ''power_excess'' 4 Uint32 F0_001 u_W,
      fld ''power_heating'' 76 Uint32 F0_001 u_W,
      fld ''power_load_ext'' 68 Int16 F1 u_W,
      fld ''temperature_flow_sensor_1'' 12 Int16 F0_1 u_degC,
      fld ''temperature_return_sensor_2'' 14 Int16 F0_1 u_degC,
      fld ''temperature_store_top_sensor_3'' 16 Int16 F0_1 u_degC,
      fld ''temperature_sensor_4'' 18 Int16 F0_1 u_degC,
      fld ''speed_loading_pump'' 3 Uint8 F1 u_pct,
      fld ''pump_speed_relay_2'' 42 Uint8 F1 u_pct,
      fld ''pump_speed_relay_3'' 70 Uint8 F1 u_pct,
      fld ''pump_speed_relay_4'' 71 Uint8 F1 u_pct,
      fld ''excess_wh'' 20 Uint32 F1 u_Wh,
      fld ''heating_wh'' 28 Uint32 F1 u_Wh,
      fld ''operating_seconds_heating'' 36 Uint32 F1 u_h,
      fld ''operating_seconds_backup_heating'' 60 Uint32 F1 u_h,
      fld ''operating_hours_relay_2'' 56 Uint32 F1 u_h,
      fld ''operating_hours_relay_3'' 84 Uint32 F1 u_h,
      fld ''operating_hours_relay_4'' 88 Uint32 F1 u_h,
      fld ''paramter_target_temperature'' 40 Int16 F0_1 u_degC,
      fld ''paramter_reserve'' 44 Int16 F1 u_W,
      fld ''0_10v_in'' 43 Int16 F0_1 u_V,
      fld ''system_date'' 52 Uint32 F1 '''']),
    (pkey 0x1127 0x0010 0x0100, pd ''0x1127'' [
      fld ''system_time'' 34 Int16 F1 '''',
      fld ''temperature_sensor_1'' 0 Int16 F0_1 u_degC,
      fld ''temperature_sensor_2'' 2 Int16 F0_1 u_degC,
      fld ''temperature_sensor_3'' 4 Int16 F0_1 u_degC,
      fld ''temperature_sensor_4'' 6 Int16 F0_1 u_degC,
      fld ''temperature_gfd'' 8 Int16 F0_1 u_degC,
      fld ''flow_rate_1'' 10 Int16 F1 u_l_h,
      fld ''pump_speed_relay_1'' 12 Uint8 F1 u_pct,
      fld ''pump_speed_relay_2'' 16 Uint8 F1 u_pct,
      fld ''operating_hours_relay_1'' 14 Uint16 F1 u_h,
      fld ''operating_hours_relay_2'' 18 Uint16 F1 u_h,
      fld ''pfb1_duty'' 20 Uint32 F0_001 u_pct,
      fld ''pfb1_freq'' 24 Uint32 F0_001 u_Hz,
      fld ''heat_quantity'' 28 Uint32 F1 u_Wh,
      fld ''unittype'' 40 Uint8 F1 '''',
      fld ''status_mask'' 36 Uint32 F1 '''',
      fld ''errormask'' 32 Uint16 F1 '''',
      fld ''sw_version'' 42 Uint16 F0_01 '''']),
    (pkey 0x1129 0x0010 0x0100, pd ''0x1129'' [
      fld ''power_excess'' 2 Uint32 F0_001 u_W,
      fld ''power_heating'' 6 Uint32 F0_001 u_W,
      fld ''temperatur_store_base_s1'' 10 Int16 F0_1 u_degC,
      fld ''temperature_store_top_s2'' 12 Int16 F0_1 u_degC,
      fld ''temperature_sensor_3'' 14 Int16 F0_1 u_degC,
      fld ''stage_1'' 1 Uint8 F1 u_pct,
      fld ''excess'' 16 Uint32 F1 u_Wh,
      fld ''heating'' 24 Uint32 F1 u_Wh,
      fld ''operating_seconds_heating'' 32 Uint32 F1 u_h,
      fld ''backup_heating'' 56 Uint32 F1 u_Wh,
      fld ''operating_seconds_backup_heating'' 64 Uint32 F1 u_h,
      fld ''parameter_max_temp_s1'' 36 Int16 F0_1 u_degC,
      fld ''paramter_reserve'' 40 Int16 F1 u_W,
      fld ''system_date'' 44 Uint32 F1 '''']),
    (pkey 0x112F 0x0010 0x0100, pd ''0x112F'' [
      fld ''power_excess'' 2 Uint32 F0_001 u_W,
      fld ''power_heating'' 6 Uint32 F0_001 u_W,
      fld ''dcin'' 68 Uint16 F0_1 u_V,
      fld ''temperature_store_sensor_1'' 10 Int16 F0_1 u_degC,
      fld ''temperature_sensor_2'' 12 Int16 F0_1 u_degC,
      fld ''temperature_sensor_3'' 14 Int16 F0_1 u_degC,
      fld ''excess'' 16 Uint32 F1 u_Wh,
      fld ''heating'' 24 Uint32 F1 u_Wh,
      fld ''operating_seconds_heating'' 32 Uint32 F1 u_h,
      fld ''backup_heating'' 56 Uint32 F1 u_Wh,
      fld ''operating_seconds_backup_heating'' 64 Uint32 F1 u_h,
      fld ''parameter_max_temp_s1'' 36 Int16 F0_1 u_degC,
      fld ''paramter_reserve'' 40 Int16 F1 u_W,
      fld ''system_date'' 44 Uint32 F1 '''']),
    (pkey 0x1140 0x0010 0x0100, pd ''0x1140'' [
      fld ''heatingheating_circuit1tflowsetc'' 0 Int16 F0_1 u_degC,
      fld ''heatingheating_circuit1operating_state'' 2 Int16 F1 '''',
      fld ''heatingheating_circuit1operating_mode'' 3 Int16 F1 '''',
      fld ''heatingheating_circuit1boiler_starts'' 4 Uint32 F1 ''''])]"

definition generatedRegistry_06 :: "(uint64 \<times> PacketDef) list" where
  "generatedRegistry_06 = [
    (pkey 0x1150 0x0010 0x0100, pd ''0x1150'' [
      fld ''sensor_s1'' 0 Int16 F0_1 u_degC,
      fld ''sensor_s2'' 2 Int16 F0_1 u_degC,
      fld ''sensor_s3'' 4 Int16 F0_1 u_degC,
      fld ''sensor_s4_t'' 6 Int16 F0_1 u_degC,
      fld ''sensor_s4_dv'' 8 Uint32 F1 u_l_h,
      fld ''sensor_s5'' 12 Int16 F0_1 u_degC,
      fld ''potentiometer'' 14 Int16 F0_1 u_degC,
      fld ''dipswitch'' 30 Uint8 F1 '''',
      fld ''primary_pump'' 16 Uint16 F0_1 u_pct,
      fld ''mixing_valve'' 18 Uint16 F1 u_pct,
      fld ''circulating_pump'' 20 Uint8 F1 u_pct,
      fld ''dhw_set_temperature'' 21 Int16 F0_1 u_degC,
      fld ''circulation_switch_on_time'' 24 Int16 F1 u_s,
      fld ''circulation_blocking_period'' 26 Int16 F1 u_s,
      fld ''therm_disinfection'' 28 Int16 F1 u_s,
      fld ''operating_time_prim_pump'' 32 Uint32 F1 u_s,
      fld ''operating_time_circulation'' 36 Uint32 F1 u_s,
      fld ''pwm_a'' 40 Uint8 F1 u_pct,
      fld ''curve'' 41 Uint16 F1 '''',
      fld ''pid_p_part'' 44 Uint32 F0_001 '''',
      fld ''pid_i_part'' 48 Uint32 F0_001 '''',
      fld ''pid_d_part'' 52 Uint32 F0_001 '''',
      fld ''system_date'' 56 Uint32 F1 '''']),
    (pkey 0x1160 0x0010 0x0100, pd ''0x1160'' [
      fld ''temperature_sensor_1'' 0 Int16 F0_1 u_degC,
      fld ''temperature_sensor_2'' 2 Int16 F0_1 u_degC,
      fld ''temperature_sensor_3'' 4 Int16 F0_1 u_degC,
      fld ''temperature_sensor_4'' 6 Int16 F0_1 u_degC,
      fld ''temperature_sensor_5'' 8 Int16 F0_1 u_degC,
      fld ''temperature_sensor_6'' 10 Int16 F0_1 u_degC,
      fld ''temperature_sensor_7'' 12 Int16 F0_1 u_degC,
      fld ''temperature_sensor_8'' 14 Int16 F0_1 u_degC,
      fld ''temperature_sensor_9'' 16 Int16 F0_1 u_degC,
      fld ''temperature_sensor_10'' 18 Int16 F0_1 u_degC,
      fld ''temperature_sensor_11'' 20 Int16 F0_1 u_degC,
      fld ''temperature_sensor_12'' 22 Int16 F0_1 u_degC,
      fld ''temperature_sensor_13'' 24 Int16 F0_1 u_degC,
      fld ''temperature_sensor_14'' 26 Int16 F0_1 u_degC,
      fld ''temperature_sensor_15'' 28 Int16 F0_1 u_degC,
      fld ''irradiation_sensor_16'' 30 Int16 F1 u_W_m2,
      fld ''temperature_sensor_17'' 32 Int16 F0_1 u_degC,
      fld ''temperature_sensor_18'' 34 Int16 F0_1 u_degC,
      fld ''temperature_sensor_19'' 36 Int16 F0_1 u_degC,
      fld ''temperature_sensor_20'' 38 Int16 F0_1 u_degC,
      fld ''flow_rate_sensor_13'' 40 Uint32 F1 u_l_h,
      fld ''flow_rate_sensor_14'' 44 Uint32 F1 u_l_h,
      fld ''flow_rate_sensor_15'' 48 Uint32 F1 u_l_h,
      fld ''flow_rate_sensor_17'' 52 Uint32 F1 u_l_h,
      fld ''flow_rate_sensor_18'' 56 Uint32 F1 u_l_h,
      fld ''flow_rate_sensor_19'' 60 Uint32 F1 u_l_h,
      fld ''flow_rate_sensor_20'' 64 Uint32 F1 u_l_h,
      fld ''pressure_sensor_17'' 68 Int16 F0_01 u_bar,
      fld ''pressure_sensor_18'' 70 Int16 F0_01 u_bar,
      fld ''pressure_sensor_19'' 72 Int16 F0_01 u_bar,
      fld ''pressure_sensor_20'' 74 Int16 F0_01 u_bar,
      fld ''pump_speed_relay_1'' 76 Uint8 F1 u_pct,
      fld ''pump_speed_relay_2'' 77 Uint8 F1 u_pct,
      fld ''pump_speed_relay_3'' 78 Uint8 F1 u_pct,
      fld ''pump_speed_relay_4'' 79 Uint8 F1 u_pct,
      fld ''pump_speed_relay_5'' 80 Uint8 F1 u_pct,
      fld ''pump_speed_relay_6'' 81 Uint8 F1 u_pct,
      fld ''pump_speed_relay_7'' 82 Uint8 F1 u_pct,
      fld ''pump_speed_relay_8'' 83 Uint8 F1 u_pct,
      fld ''pump_speed_relay_9'' 84 Uint8 F1 u_pct,
      fld ''pump_speed_relay_10'' 85 Uint8 F1 u_pct,
      fld ''pump_speed_relay_11'' 86 Uint8 F1 u_pct,
      fld ''pump_speed_relay_12'' 87 Uint8 F1 u_pct,
      fld ''pump_speed_relay_13'' 88 Uint8 F1 u_pct,
      fld ''pump_speed_relay_14'' 89 Uint8 F1 u_pct,
      fld ''system_date'' 92 Uint32 F1 '''',
      fld ''error_mask'' 96 Uint32 F1 '''']),
    (pkey 0x1161 0x0010 0x0100, pd ''0x1161'' [
      fld ''temperature_module_1_sensor_1'' 0 Int16 F0_1 u_degC,
      fld ''temperature_module_1_sensor_2'' 2 Int16 F0_1 u_degC,
      fld ''temperature_module_1_sensor_3'' 4 Int16 F0_1 u_degC,
      fld ''temperature_module_1_sensor_4'' 6 Int16 F0_1 u_degC,
      fld ''temperature_module_1_sensor_5'' 8 Int16 F0_1 u_degC,
      fld ''temperature_module_1_sensor_6'' 10 Int16 F0_1 u_degC,
      fld ''temperature_module_2_sensor_1'' 12 Int16 F0_1 u_degC,
      fld ''temperature_module_2_sensor_2'' 14 Int16 F0_1 u_degC,
      fld ''temperature_module_2_sensor_3'' 16 Int16 F0_1 u_degC,
      fld ''temperature_module_2_sensor_4'' 18 Int16 F0_1 u_degC,
      fld ''temperature_module_2_sensor_5'' 20 Int16 F0_1 u_degC,
      fld ''temperature_module_2_sensor_6'' 22 Int16 F0_1 u_degC,
      fld ''temperature_module_3_sensor_1'' 24 Int16 F0_1 u_degC,
      fld ''temperature_module_3_sensor_2'' 26 Int16 F0_1 u_degC,
      fld ''temperature_module_3_sensor_3'' 28 Int16 F0_1 u_degC,
      fld ''temperature_module_3_sensor_4'' 30 Int16 F0_1 u_degC,
      fld ''temperature_module_3_sensor_5'' 32 Int16 F0_1 u_degC,
      fld ''temperature_module_3_sensor_6'' 34 Int16 F0_1 u_degC,
      fld ''temperature_module_4_sensor_1'' 36 Int16 F0_1 u_degC,
      fld ''temperature_module_4_sensor_2'' 38 Int16 F0_1 u_degC,
      fld ''temperature_module_4_sensor_3'' 40 Int16 F0_1 u_degC,
      fld ''temperature_module_4_sensor_4'' 42 Int16 F0_1 u_degC,
      fld ''temperature_module_4_sensor_5'' 44 Int16 F0_1 u_degC,
      fld ''temperature_module_4_sensor_6'' 46 Int16 F0_1 u_degC,
      fld ''temperature_module_5_sensor_1'' 48 Int16 F0_1 u_degC,
      fld ''temperature_module_5_sensor_2'' 50 Int16 F0_1 u_degC,
      fld ''temperature_module_5_sensor_3'' 52 Int16 F0_1 u_degC,
      fld ''temperature_module_5_sensor_4'' 54 Int16 F0_1 u_degC,
      fld ''temperature_module_5_sensor_5'' 56 Int16 F0_1 u_degC,
      fld ''temperature_module_5_sensor_6'' 58 Int16 F0_1 u_degC]),
    (pkey 0x1162 0x0010 0x0100, pd ''0x1162'' [
      fld ''hot_water_temperature'' 0 Int16 F0_1 u_degC,
      fld ''hot_water_set'' 2 Int16 F0_1 u_degC,
      fld ''draw_off_flow_rate'' 4 Uint32 F0_1 u_l_min,
      fld ''store_flow'' 8 Int16 F0_1 u_degC,
      fld ''draw_off_quantity_in_total'' 12 Uint32 F0_001 u_m3,
      fld ''pump_speed_prim_pump'' 10 Uint8 F1 u_pct,
      fld ''pump_speed_circulation'' 11 Uint8 F1 u_pct,
      fld ''status'' 16 Int16 F1 ''''])]"

definition generatedRegistry_07 :: "(uint64 \<times> PacketDef) list" where
  "generatedRegistry_07 = [
    (pkey 0x1170 0x0010 0x0100, pd ''0x1170'' [
      fld ''changesetid'' 0 Uint32 F1 '''',
      fld ''system_date'' 4 Uint32 F1 '''',
      fld ''software_article_number'' 8 Uint32 F1 '''',
      fld ''system_voltage'' 50 Uint16 F0_01 u_V,
      fld ''vin_1'' 52 Uint16 F0_01 u_V,
      fld ''vin_2'' 54 Uint16 F0_01 u_V,
      fld ''vout'' 56 Uint16 F0_01 u_V,
      fld ''system'' 12 Uint8 F1 '''',
      fld ''control_status'' 13 Uint8 F1 '''',
      fld ''op_mode'' 14 Uint8 F1 '''',
      fld ''sensor_s1'' 20 Int16 F0_1 u_degC,
      fld ''sensor_s2'' 22 Int16 F0_1 u_degC,
      fld ''sensor_k1_temperature'' 26 Int16 F0_1 u_degC,
      fld ''sensor_k1_relative_humidity'' 28 Int16 F1 u_pct,
      fld ''sensor_k1_calculated_dew_point_temperature'' 30 Int16 F0_1 u_degC,
      fld ''sensor_k2_temperature'' 32 Int16 F0_1 u_degC,
      fld ''sensor_k2_relative_humidity'' 34 Int16 F1 u_pct,
      fld ''sensor_k2_calculated_dew_point_temperature'' 36 Int16 F0_1 u_degC,
      fld ''sensor_k3_temperature'' 38 Int16 F0_1 u_degC,
      fld ''sensor_k3_relative_humidity'' 40 Int16 F1 u_pct,
      fld ''sensor_k3_calculated_dew_point_temperature'' 42 Int16 F0_1 u_degC,
      fld ''dew_point_lock_dynamic_collector_temperature'' 58 Int16 F0_1 u_degC,
      fld ''output_fan'' 44 Uint16 F1 u_pct,
      fld ''output_0_10_v'' 46 Uint16 F1 u_pct,
      fld ''relay'' 48 Uint16 F1 u_pct]),
    (pkey 0x1240 0x0010 0x0100, pd ''0x1240'' [
      fld ''system_date'' 0 Uint32 F1 '''',
      fld ''temperature_sensor_1'' 4 Int16 F0_1 u_degC,
      fld ''temperature_sensor_2'' 6 Int16 F0_1 u_degC,
      fld ''temperature_sensor_3'' 8 Int16 F0_1 u_degC,
      fld ''temperature_sensor_4'' 10 Int16 F0_1 u_degC,
      fld ''tage'' 12 Int16 F1 '''',
      fld ''flow_rate_v40'' 16 Uint32 F1 u_l_h,
      fld ''pump_speed_relay_1'' 20 Int16 F1 u_pct,
      fld ''pump_speed_relay_2'' 21 Int16 F1 u_pct,
      fld ''pump_speed_relay_3'' 22 Int16 F1 u_pct,
      fld ''heat_quantity'' 24 Uint32 F1 u_Wh,
      fld ''sw_version'' 28 Int16 F0_01 '''',
      fld ''operating_hours_relay_1'' 32 Uint32 F1 u_h,
      fld ''operating_hours_relay_2'' 36 Uint32 F1 u_h,
      fld ''operating_hours_relay_3'' 40 Uint32 F1 u_h,
      fld ''blocking_protection_1'' 45 Int16 F1 u_pct,
      fld ''blocking_protection_2'' 46 Int16 F1 u_pct,
      fld ''blocking_protection_3'' 47 Int16 F1 u_pct,
      fld ''initialise'' 48 Uint32 F1 '''',
      fld ''filling'' 52 Uint32 F1 '''',
      fld ''stabilise'' 54 Uint32 F1 '''',
      fld ''pump_delay'' 60 Int16 F1 '''',
      fld ''overrun'' 62 Int16 F1 '''',
      fld ''thermal_disinfection'' 63 Int16 F1 '''',
      fld ''spreading'' 66 Int16 F1 '''',
      fld ''antifreeze'' 67 Int16 F1 '''',
      fld ''error_mask'' 72 Uint32 F1 '''']),
    (pkey 0x1241 0x0010 0x0100, pd ''0x1241'' [
      fld ''wmz1valuewh'' 0 Uint32 F1 u_Wh,
      fld ''wmz1powerw'' 4 Uint32 F1 u_W,
      fld ''wmz1valuetodaywh'' 8 Uint32 F1 u_Wh,
      fld ''wmz1valueweekwh'' 12 Uint32 F1 u_Wh]),
    (pkey 0x1250 0x0010 0x0100, pd ''0x1250'' [
      fld ''system_date'' 0 Uint32 F1 '''',
      fld ''t_fl'' 4 Int16 F0_1 u_degC,
      fld ''tdhw'' 6 Int16 F0_1 u_degC,
      fld ''t_cw'' 8 Int16 F0_1 u_degC,
      fld ''s4'' 10 Int16 F0_1 u_degC,
      fld ''s5'' 12 Int16 F0_1 u_degC,
      fld ''f_us'' 16 Uint32 F1 u_l_h,
      fld ''f_impulse'' 20 Uint32 F1 u_l_h,
      fld ''pwm_p'' 24 Uint8 F1 u_pct,
      fld ''pwm_p'' 28 Uint32 F1 u_s,
      fld ''pwm_28'' 25 Uint8 F1 u_pct,
      fld ''pwm_28'' 32 Uint32 F1 u_s,
      fld ''relay_157'' 26 Uint8 F1 '''',
      fld ''relay_28'' 27 Uint8 F1 '''',
      fld ''r2'' 36 Uint8 F1 '''',
      fld ''energy_today'' 44 Uint32 F1 u_Wh,
      fld ''total_energy'' 48 Uint32 F1 u_Wh,
      fld ''total_draw_off_quantity'' 84 Uint32 F1 u_l,
      fld ''total_operation'' 88 Uint32 F1 u_s,
      fld ''fault'' 80 Uint32 F1 '''',
      fld ''version'' 64 Uint16 F0_01 '''',
      fld ''controller_variant'' 66 Uint8 F1 '''']),
    (pkey 0x1260 0x0010 0x0100, pd ''0x1260'' [
      fld ''system_date'' 28 Uint32 F1 '''',
      fld ''cs3'' 0 Int16 F0_1 u_degC,
      fld ''s4'' 2 Int16 F0_1 u_degC,
      fld ''s5'' 32 Int16 F0_1 u_degC,
      fld ''pwm_28'' 4 Uint8 F1 u_pct,
      fld ''pwm_28'' 8 Uint32 F1 u_s,
      fld ''relay_157'' 5 Uint8 F1 '''',
      fld ''relay_28'' 6 Uint8 F1 '''',
      fld ''r2'' 12 Uint8 F1 '''',
      fld ''total_energy'' 16 Uint32 F1 u_Wh,
      fld ''total_draw_off_quantity'' 20 Uint32 F1 u_l,
      fld ''total_operating_time'' 24 Uint32 F1 u_s])]"

definition generatedRegistry_08 :: "(uint64 \<times> PacketDef) list" where
  "generatedRegistry_08 = [
    (pkey 0x1270 0x0010 0x0100, pd ''0x1270'' [
      fld ''leistung_verbraucher'' 72 Uint32 F0_001 u_W,
      fld ''power_excess'' 68 Uint32 F0_001 u_W,
      fld ''paramter_reserve'' 64 Uint32 F1 u_W,
      fld ''excess'' 80 Uint32 F1 u_Wh,
      fld ''temperature_sensor_1'' 16 Int16 F0_1 u_degC,
      fld ''temperature_sensor_2'' 18 Int16 F0_1 u_degC,
      fld ''temperature_sensor_3'' 20 Int16 F0_1 u_degC,
      fld ''temperature_sensor_4'' 22 Int16 F0_1 u_degC,
      fld ''temperature_sensor_5'' 24 Int16 F0_1 u_degC,
      fld ''temperature_sensor_6'' 120 Int16 F0_1 u_degC,
      fld ''temperature_sensor_7'' 122 Int16 F0_1 u_degC,
      fld (''drehzahl_l'' @ [CHR 0xC3] @ [CHR 0xBC] @ ''fter'') 128 Uint16 F1 '''',
      fld ''temperature_sensor_ga1'' 112 Int16 F0_1 u_degC,
      fld ''flow_rate_sensor_ga1'' 114 Int16 F1 u_l_h,
      fld ''pressure_sensor_ga1'' 116 Int16 F0_01 u_bar,
      fld ''luftfeuchtigkeit_sensor_ga1'' 118 Int16 F1 u_pct,
      fld ''temperature_sensor_gd1'' 136 Int16 F0_1 u_degC,
      fld ''flow_rate_sensor_gd1'' 138 Int16 F1 u_l_h,
      fld ''pressure_sensor_gd1'' 140 Int16 F0_01 u_bar,
      fld ''luftfeuchtigkeit_sensor_gd1'' 142 Int16 F1 u_pct,
      fld ''output_a'' 36 Uint16 F1 u_pct,
      fld ''output_b'' 130 Uint16 F1 u_pct,
      fld ''relay_1'' 26 Uint16 F1 u_pct,
      fld ''relay_2'' 28 Uint16 F1 u_pct,
      fld ''relay_3'' 30 Uint16 F1 u_pct,
      fld ''relay_4'' 32 Uint16 F1 u_pct,
      fld ''relay_5'' 34 Uint16 F1 u_pct,
      fld ''operating_hours_output_a'' 60 Uint32 F1 u_h,
      fld ''betriebsstunden_ausgang_b'' 132 Uint32 F1 u_h,
      fld ''operating_hours_relay_1'' 40 Uint32 F1 u_h,
      fld ''operating_hours_relay_2'' 44 Uint32 F1 u_h,
      fld ''operating_hours_relay_3'' 48 Uint32 F1 u_h,
      fld ''operating_hours_relay_4'' 52 Uint32 F1 u_h,
      fld ''operating_hours_relay_5'' 56 Uint32 F1 u_h,
      fld ''system_date'' 4 Uint32 F1 '''']),
    (pkey 0x1271 0x0010 0x0100, pd ''0x1271'' [
      fld ''immersion_heater_1_parameter_priority'' 24 Int16 F1 '''',
      fld ''immersion_heater_1_temperature_store'' 8 Int16 F0_1 u_degC,
      fld ''immersion_heater_1_parameter_tmax'' 22 Int16 F0_1 u_degC,
      fld ''immersion_heater_1_operating_hours_heating'' 14 Uint32 F1 u_h,
      fld ''immersion_heater_1_operating_hours_backup_heating'' 18 Uint32 F1 u_h]),
    (pkey 0x1272 0x0010 0x0100, pd ''0x1272'' [
      fld ''immersion_heater_2_parameter_priority'' 24 Int16 F1 '''',
      fld ''immersion_heater_2_temperature_store'' 8 Int16 F0_1 u_degC,
      fld ''immersion_heater_2_parameter_tmax'' 22 Int16 F0_1 u_degC,
      fld ''immersion_heater_2_operating_hours_heating'' 14 Uint32 F1 u_h,
      fld ''immersion_heater_2_operating_hours_backup_heating'' 18 Uint32 F1 u_h]),
    (pkey 0x1273 0x0010 0x0100, pd ''0x1273'' [
      fld ''immersion_heater_3_parameter_priority'' 24 Int16 F1 '''',
      fld ''immersion_heater_3_temperature_store'' 8 Int16 F0_1 u_degC,
      fld ''immersion_heater_3_parameter_tmax'' 22 Int16 F0_1 u_degC,
      fld ''immersion_heater_3_operating_hours_heating'' 14 Uint32 F1 u_h,
      fld ''immersion_heater_3_operating_hours_backup_heating'' 18 Uint32 F1 u_h]),
    (pkey 0x1274 0x0010 0x0100, pd ''0x1274'' [
      fld ''heat_pump_parameter_priority'' 20 Int16 F1 '''',
      fld ''heat_pump_operating_hours_operation'' 12 Uint32 F1 u_h,
      fld ''heat_pump_operating_hours_mains_operation'' 16 Uint32 F1 u_h]),
    (pkey 0x1275 0x0010 0x0100, pd ''0x1275'' [
      fld ''wallbox_parameter_priority'' 20 Int16 F1 '''',
      fld ''wallbox_operating_hours_operation'' 12 Uint32 F1 u_h,
      fld ''wallbox_operating_hours_mains_operation'' 16 Uint32 F1 u_h]),
    (pkey 0x1330 0x0010 0x0100, pd ''0x1330'' [
      fld ''system_date'' 4 Uint32 F1 '''',
      fld ''hot_water_primary_pump_speed'' 16 Uint16 F0_1 u_pct,
      fld ''hot_water_set_temperature'' 18 Int16 F0_1 u_degC,
      fld ''hot_water_emergency_speed'' 20 Int16 F1 u_pct,
      fld ''hot_water_manual_mode_primary_pump'' 21 Int16 F1 u_pct,
      fld ''circulation_pump_speed'' 32 Uint16 F0_1 u_pct,
      fld ''disinfection_manual_start'' 37 Uint8 F1 '''',
      fld ''disinfection_result'' 39 Uint8 F1 '''',
      fld ''disinfection_last_disinfection'' 40 Uint32 F1 '''',
      fld ''disinfection_starting_time'' 44 Uint16 F1 '''',
      fld ''stratified_return_valve_status'' 51 Uint8 F1 '''',
      fld ''error_relay_status'' 56 Uint8 F1 '''',
      fld ''sensor_s1'' 64 Int16 F0_1 u_degC,
      fld ''sensor_s2'' 66 Int16 F0_1 u_degC,
      fld ''sensor_s3'' 68 Int16 F0_1 u_degC,
      fld ''sensor_s4'' 70 Int16 F0_1 u_degC,
      fld ''sensor_s5'' 72 Int16 F0_1 u_degC,
      fld ''sensor_s6'' 74 Int16 F0_1 u_degC,
      fld ''sensor_s7'' 76 Int16 F0_1 u_degC,
      fld ''sensor_s9_flow_rate'' 84 Uint32 F1 u_l_h,
      fld ''sensor_s10_flow_rate'' 88 Uint32 F1 u_l_h,
      fld ''sensor_s14_caskade_total_flow_rate'' 92 Uint32 F1 u_l_h,
      fld ''cascade_basic_load_station'' 100 Uint8 F1 '''',
      fld ''cascade_station_2_tfl'' 112 Int16 F0_1 u_degC,
      fld ''cascade_station_2_thw'' 114 Int16 F0_1 u_degC,
      fld ''cascade_station_2_flow_rate'' 116 Uint32 F0_1 u_l_min,
      fld ''cascade_station_2_messages'' 120 Uint32 F1 '''',
      fld ''cascade_station_3_tfl'' 124 Int16 F0_1 u_degC,
      fld ''cascade_station_3_thw'' 126 Int16 F0_1 u_degC,
      fld ''cascade_station_3_flow_rate'' 128 Uint32 F0_1 u_l_min,
      fld ''cascade_station_3_messages'' 132 Uint32 F1 '''',
      fld ''cascade_station_4_tfl'' 136 Int16 F0_1 u_degC,
      fld ''cascade_station_4_thw'' 138 Int16 F0_1 u_degC,
      fld ''cascade_station_4_flow_rate'' 140 Uint32 F0_1 u_l_min,
      fld ''cascade_station_4_messages'' 144 Uint32 F1 '''',
      fld ''cascade_station_5_tfl'' 168 Int16 F0_1 u_degC,
      fld ''cascade_station_5_thw'' 170 Int16 F0_1 u_degC,
      fld ''cascade_station_5_flow_rate'' 172 Uint32 F0_1 u_l_min,
      fld ''cascade_station_5_messages'' 176 Uint32 F1 '''',
      fld ''cascade_station_6_tfl'' 180 Int16 F0_1 u_degC,
      fld ''cascade_station_6_thw'' 182 Int16 F0_1 u_degC,
      fld ''cascade_station_6_flow_rate'' 184 Uint32 F0_1 u_l_min,
      fld ''cascade_station_6_messages'' 188 Uint32 F1 '''',
      fld ''cascade_station_2_primary_pump_speed'' 148 Uint16 F0_1 u_pct,
      fld ''cascade_station_3_primary_pump_speed'' 150 Uint16 F0_1 u_pct,
      fld ''cascade_station_4_primary_pump_speed'' 152 Uint16 F0_1 u_pct,
      fld ''cascade_station_5_primary_pump_speed'' 192 Uint16 F0_1 u_pct,
      fld ''cascade_station_6_primary_pump_speed'' 194 Uint16 F0_1 u_pct])]"

definition generatedRegistry_09 :: "(uint64 \<times> PacketDef) list" where
  "generatedRegistry_09 = [
    (pkey 0x1410 0x0010 0x0100, pd ''0x1410'' [
      fld ''primary_return_temperature_sensor_1'' 0 Int16 F0_1 u_degC,
      fld ''secondary_flow_temperature_sensor_2'' 2 Int16 F0_1 u_degC,
      fld ''outdoor_temperature_sensor_3'' 4 Int16 F0_1 u_degC,
      fld ''primary_flow_temperature_ga2'' 34 Int16 F0_1 u_degC,
      fld ''secondary_return_temperature_gd1'' 36 Int16 F0_1 u_degC,
      fld ''boiler_fault_sensor_4'' 40 Int16 F1 '''',
      fld ''oil_level_ga1'' 41 Int16 F1 u_pct,
      fld ''primary_pressure_ga2'' 46 Int16 F0_01 u_bar,
      fld ''secondary_pressure_gd1'' 48 Int16 F0_01 u_bar,
      fld ''humidity_gd2'' 55 Int16 F1 u_pct,
      fld ''relay_1'' 56 Uint8 F1 u_pct,
      fld ''relay_2'' 57 Uint8 F1 u_pct,
      fld ''relay_3'' 58 Uint8 F1 u_pct,
      fld ''relay_4'' 69 Uint8 F1 u_pct,
      fld ''pwm_a'' 80 Uint8 F1 u_pct,
      fld ''boiler_demand_0_10_v'' 81 Uint8 F1 u_pct,
      fld ''system_date'' 72 Uint32 F1 '''',
      fld ''error_mask'' 76 Uint32 F1 '''',
      fld ''last_event_l_e'' 84 Int16 F1 '''',
      fld ''l_e_error_mask'' 88 Uint32 F1 '''',
      fld ''l_e_time_stamp'' 92 Uint32 F1 '''']),
    (pkey 0x1420 0x0010 0x0100, pd ''0x1420'' [
      fld ''system_time'' 34 Int16 F1 '''',
      fld ''temperature_sensor_1'' 0 Int16 F0_1 u_degC,
      fld ''temperature_sensor_2'' 2 Int16 F0_1 u_degC,
      fld ''temperature_sensor_3'' 4 Int16 F0_1 u_degC,
      fld ''temperature_sensor_4'' 6 Int16 F0_1 u_degC,
      fld ''temperature_gfd'' 8 Int16 F0_1 u_degC,
      fld ''flow_rate_1'' 10 Int16 F1 u_l_h,
      fld ''pump_speed_relay_1'' 12 Uint8 F1 u_pct,
      fld ''pump_speed_relay_2'' 16 Uint8 F1 u_pct,
      fld ''operating_hours_relay_1'' 14 Uint16 F1 u_h,
      fld ''operating_hours_relay_2'' 18 Uint16 F1 u_h,
      fld ''pfb1_duty'' 20 Uint32 F0_001 u_pct,
      fld ''pfb1_freq'' 24 Uint32 F0_001 u_Hz,
      fld ''heat_quantity'' 28 Uint32 F1 u_Wh,
      fld ''unittype'' 40 Uint8 F1 '''',
      fld ''status_mask'' 36 Uint32 F1 '''',
      fld ''errormask'' 32 Uint16 F1 '''',
      fld ''sw_version'' 42 Uint16 F0_01 '''']),
    (pkey 0x1510 0x0010 0x0100, pd ''0x1510'' [
      fld ''system_date'' 4 Uint32 F1 '''',
      fld ''hot_water_status'' 13 Uint8 F1 '''',
      fld ''hot_water_primary_pump_speed'' 16 Uint16 F0_1 u_pct,
      fld ''hot_water_set_temperature'' 18 Int16 F0_1 u_degC,
      fld ''circulation_pump_speed'' 32 Uint16 F0_1 u_pct,
      fld ''circulation_dt_pipe'' 34 Uint16 F0_1 u_K,
      fld ''disinfection_status'' 38 Uint8 F1 '''',
      fld ''disinfection_last_disinfection'' 40 Uint32 F1 '''',
      fld ''stratified_return_valve_status'' 51 Uint8 F1 '''',
      fld ''error_relay_status'' 56 Uint8 F1 '''',
      fld ''sensor_s1'' 64 Int16 F0_1 u_degC,
      fld ''sensor_s2'' 66 Int16 F0_1 u_degC,
      fld ''sensor_s3'' 68 Int16 F0_1 u_degC,
      fld ''sensor_s4'' 70 Int16 F0_1 u_degC,
      fld ''sensor_s5'' 72 Int16 F0_1 u_degC,
      fld ''sensor_s6'' 74 Int16 F0_1 u_degC,
      fld ''sensor_s7'' 76 Int16 F0_1 u_degC,
      fld ''sensor_s9_flow_rate'' 84 Uint32 F1 u_l_h]),
    (pkey 0x155A 0x0010 0x0100, pd ''0x155A'' [
      fld ''outdoor_temperature'' 0 Int16 F0_1 u_degC,
      fld ''temperature_speicher_unten'' 2 Int16 F0_1 u_degC,
      fld ''temperature_speicher_oben'' 4 Int16 F0_1 u_degC,
      fld ''flow_temperature'' 6 Int16 F0_1 u_degC,
      fld ''pump_speed_relay_pumpe'' 8 Int16 F1 u_pct,
      fld ''pump_speed_heat_pump'' 9 Int16 F1 u_pct,
      fld ''heizstab'' 10 Int16 F1 u_pct,
      fld ''operating_seconds_relay_pump'' 12 Uint32 F1 u_s,
      fld ''betriebssekunden_heizstab'' 16 Uint32 F1 u_s,
      fld ''error_mask'' 20 Uint32 F1 '''',
      fld ''system_date'' 24 Uint32 F1 '''',
      fld ''version'' 28 Uint32 F0_01 '''']),
    (pkey 0x1560 0x0010 0x0100, pd ''0x1560'' [
      fld ''temperature_sensor_1'' 0 Int16 F0_1 u_degC,
      fld ''temperature_sensor_2'' 2 Int16 F0_1 u_degC,
      fld ''temperature_sensor_3'' 4 Int16 F0_1 u_degC,
      fld ''temperature_sensor_4'' 6 Int16 F0_1 u_degC,
      fld ''temperature_sensor_5'' 8 Int16 F0_1 u_degC,
      fld ''temperature_sensor_6'' 10 Int16 F0_1 u_degC,
      fld ''temperature_sensor_7'' 12 Int16 F0_1 u_degC,
      fld ''temperature_sensor_8'' 14 Int16 F0_1 u_degC,
      fld ''temperature_sensor_9'' 16 Int16 F0_1 u_degC,
      fld ''temperature_sensor_za'' 18 Int16 F0_1 u_degC,
      fld ''temperature_sensor_gd1'' 20 Int16 F0_1 u_degC,
      fld ''temperature_sensor_gd2'' 22 Int16 F0_1 u_degC,
      fld ''flow_rate_sensor_imp1'' 24 Uint32 F1 u_l_h,
      fld ''flow_rate_sensor_gd1'' 28 Uint32 F1 u_l_h,
      fld ''flow_rate_sensor_gd2'' 32 Uint32 F1 u_l_h,
      fld ''pressure_sensor_gd1'' 36 Int16 F0_01 u_bar,
      fld ''pressure_sensor_gd2'' 38 Int16 F0_01 u_bar,
      fld ''pump_speed_relay_1'' 40 Int16 F1 u_pct,
      fld ''pump_speed_relay_2'' 41 Int16 F1 u_pct,
      fld ''pump_speed_relay_3'' 42 Int16 F1 u_pct,
      fld ''pump_speed_relay_4'' 43 Int16 F1 u_pct,
      fld ''pump_speed_relay_5'' 44 Int16 F1 u_pct,
      fld ''pump_speed_relay_6'' 45 Int16 F1 u_pct,
      fld ''pump_speed_relay_7'' 46 Int16 F1 u_pct,
      fld ''controller_output_1'' 47 Int16 F1 u_pct,
      fld ''controller_output_2'' 48 Int16 F1 u_pct,
      fld ''system_date'' 52 Uint32 F1 '''',
      fld ''error_mask'' 56 Uint32 F1 '''',
      fld ''warning_mask'' 60 Uint32 F1 ''''])]"

definition generatedRegistry_10 :: "(uint64 \<times> PacketDef) list" where
  "generatedRegistry_10 = [
    (pkey 0x1632 0x0010 0x0100, pd ''0x1632'' [
      fld ''temperature_sensor_1'' 0 Int16 F0_1 u_degC,
      fld ''temperature_sensor_2'' 2 Int16 F0_1 u_degC,
      fld ''temperature_sensor_3'' 4 Int16 F0_1 u_degC,
      fld ''temperature_sensor_4'' 6 Int16 F0_1 u_degC,
      fld ''temperature_sensor_5'' 8 Int16 F0_1 u_degC,
      fld ''temperature_sensor_6'' 10 Int16 F0_1 u_degC,
      fld ''temperature_sensor_7'' 12 Int16 F0_1 u_degC,
      fld ''temperature_sensor_8'' 14 Int16 F0_1 u_degC,
      fld ''frequency_sensor'' 32 Int16 F1 u_l_h,
      fld ''dipswitch'' 34 Uint8 F1 '''',
      fld ''coding'' 48 Uint8 F1 '''',
      fld ''relay_1'' 35 Uint8 F1 u_pct,
      fld ''relay_2'' 36 Uint8 F1 u_pct,
      fld ''relay_3'' 37 Uint8 F1 u_pct,
      fld ''relay_4'' 38 Uint8 F1 u_pct,
      fld ''relay_5'' 39 Uint8 F1 u_pct,
      fld ''output_1'' 40 Int16 F1 u_pct,
      fld ''output_2'' 42 Int16 F1 u_pct,
      fld ''output_3'' 44 Int16 F1 u_pct,
      fld ''output_4'' 46 Int16 F1 u_pct,
      fld ''lin_out'' 50 Int16 F0_1 u_pct,
      fld ''desinfektion_letztes_ergebnis'' 49 Uint8 F1 '''',
      fld ''system_date'' 64 Uint32 F1 '''']),
    (pkey 0x1711 0x0010 0x0100, pd ''0x1711'' [
      fld ''temperature_sensor_1'' 0 Int16 F0_1 u_degC,
      fld ''temperature_sensor_2'' 2 Int16 F0_1 u_degC,
      fld ''temperature_sensor_3'' 4 Int16 F0_1 u_degC,
      fld ''temperature_sensor_4'' 6 Int16 F0_1 u_degC,
      fld ''temperature_sensor_5'' 8 Int16 F0_1 u_degC,
      fld ''temperature_sensor_6'' 10 Int16 F0_1 u_degC,
      fld ''temperature_sensor_7'' 12 Int16 F0_1 u_degC,
      fld ''temperature_sensor_8'' 14 Int16 F0_1 u_degC,
      fld ''temperature_sensor_9'' 16 Int16 F0_1 u_degC,
      fld ''temperature_sensor_10'' 18 Int16 F0_1 u_degC,
      fld ''temperature_sensor_11'' 20 Int16 F0_1 u_degC,
      fld ''temperature_sensor_12'' 22 Int16 F0_1 u_degC,
      fld ''temperature_sensor_13'' 24 Int16 F0_1 u_degC,
      fld ''temperature_sensor_14'' 26 Int16 F0_1 u_degC,
      fld ''temperature_sensor_15'' 28 Int16 F0_1 u_degC,
      fld ''irradiation_sensor_16'' 30 Int16 F1 u_W_m2,
      fld ''temperature_sensor_17'' 32 Int16 F0_1 u_degC,
      fld ''temperature_sensor_18'' 34 Int16 F0_1 u_degC,
      fld ''temperature_sensor_19'' 36 Int16 F0_1 u_degC,
      fld ''temperature_sensor_20'' 38 Int16 F0_1 u_degC,
      fld ''flow_rate_sensor_13'' 40 Uint32 F1 u_l_h,
      fld ''flow_rate_sensor_14'' 44 Uint32 F1 u_l_h,
      fld ''flow_rate_sensor_15'' 48 Uint32 F1 u_l_h,
      fld ''flow_rate_sensor_17'' 52 Uint32 F1 u_l_h,
      fld ''flow_rate_sensor_18'' 56 Uint32 F1 u_l_h,
      fld ''flow_rate_sensor_19'' 60 Uint32 F1 u_l_h,
      fld ''flow_rate_sensor_20'' 64 Uint32 F1 u_l_h,
      fld ''flow_rate_sensor_21'' 104 Uint32 F1 u_l_h,
      fld ''pressure_sensor_17'' 68 Int16 F0_01 u_bar,
      fld ''pressure_sensor_18'' 70 Int16 F0_01 u_bar,
      fld ''pressure_sensor_19'' 72 Int16 F0_01 u_bar,
      fld ''pressure_sensor_20'' 74 Int16 F0_01 u_bar,
      fld ''pump_speed_relay_1'' 76 Uint8 F1 u_pct,
      fld ''pump_speed_relay_2'' 77 Uint8 F1 u_pct,
      fld ''pump_speed_relay_3'' 78 Uint8 F1 u_pct,
      fld ''pump_speed_relay_4'' 79 Uint8 F1 u_pct,
      fld ''pump_speed_relay_5'' 80 Uint8 F1 u_pct,
      fld ''pump_speed_relay_6'' 81 Uint8 F1 u_pct,
      fld ''pump_speed_relay_7'' 82 Uint8 F1 u_pct,
      fld ''pump_speed_relay_8'' 83 Uint8 F1 u_pct,
      fld ''pump_speed_relay_9'' 84 Uint8 F1 u_pct,
      fld ''pump_speed_relay_10'' 85 Uint8 F1 u_pct,
      fld ''pump_speed_relay_11'' 86 Uint8 F1 u_pct,
      fld ''pump_speed_relay_12'' 87 Uint8 F1 u_pct,
      fld ''pump_speed_relay_13'' 88 Uint8 F1 u_pct,
      fld ''pump_speed_relay_14'' 89 Uint8 F1 u_pct,
      fld ''output_a'' 100 Uint8 F1 u_pct,
      fld ''output_b'' 101 Uint8 F1 u_pct,
      fld ''output_c'' 102 Uint8 F1 u_pct,
      fld ''output_d'' 103 Uint8 F1 u_pct,
      fld ''system_date'' 92 Uint32 F1 '''',
      fld ''error_mask'' 96 Uint32 F1 '''']),
    (pkey 0x1911 0x0010 0x0100, pd ''0x1911'' [
      fld ''temperature_sensor_1'' 0 Int16 F0_1 u_degC,
      fld ''temperature_sensor_2'' 2 Int16 F0_1 u_degC,
      fld ''temperature_sensor_3'' 4 Int16 F0_1 u_degC,
      fld ''temperature_sensor_4'' 6 Int16 F0_1 u_degC,
      fld ''temperature_sensor_5'' 8 Int16 F0_1 u_degC,
      fld ''temperature_sensor_6'' 10 Int16 F0_1 u_degC,
      fld ''temperature_sensor_7'' 12 Int16 F0_1 u_degC,
      fld ''temperature_sensor_8'' 14 Int16 F0_1 u_degC,
      fld ''temperature_sensor_9'' 16 Int16 F0_1 u_degC,
      fld ''temperature_sensor_10'' 18 Int16 F0_1 u_degC,
      fld ''temperature_sensor_11'' 20 Int16 F0_1 u_degC,
      fld ''temperature_sensor_12'' 22 Int16 F0_1 u_degC,
      fld ''temperature_sensor_13'' 24 Int16 F0_1 u_degC,
      fld ''temperature_sensor_14'' 26 Int16 F0_1 u_degC,
      fld ''temperature_sensor_15'' 28 Int16 F0_1 u_degC,
      fld ''einstrahlung_sensor_20'' 30 Int16 F1 u_W_m2,
      fld ''temperature_sensor_21'' 32 Int16 F0_1 u_degC,
      fld ''temperature_sensor_22'' 34 Int16 F0_1 u_degC,
      fld ''temperature_sensor_23'' 36 Int16 F0_1 u_degC,
      fld ''temperature_sensor_24'' 38 Int16 F0_1 u_degC,
      fld ''volumenstrom_sensor_16'' 40 Uint32 F1 u_l_h,
      fld ''flow_rate_sensor_17'' 44 Uint32 F1 u_l_h,
      fld ''flow_rate_sensor_18'' 48 Uint32 F1 u_l_h,
      fld ''flow_rate_sensor_19'' 52 Uint32 F1 u_l_h,
      fld ''flow_rate_sensor_21'' 56 Uint32 F1 u_l_h,
      fld ''volumenstrom_sensor_22'' 60 Uint32 F1 u_l_h,
      fld ''volumenstrom_sensor_23'' 64 Uint32 F1 u_l_h,
      fld ''volumenstrom_sensor_24'' 68 Uint32 F1 u_l_h,
      fld ''volumenstrom_sensor_25'' 72 Uint32 F1 u_l_h,
      fld ''volumenstrom_sensor_26'' 76 Uint32 F1 u_l_h,
      fld ''druck_sensor_21'' 80 Int16 F0_01 u_bar,
      fld ''druck_sensor_22'' 82 Int16 F0_01 u_bar,
      fld ''druck_sensor_23'' 84 Int16 F0_01 u_bar,
      fld ''druck_sensor_24'' 86 Int16 F0_01 u_bar,
      fld ''pump_speed_relay_1'' 88 Uint8 F1 u_pct,
      fld ''pump_speed_relay_2'' 89 Uint8 F1 u_pct,
      fld ''pump_speed_relay_3'' 90 Uint8 F1 u_pct,
      fld ''pump_speed_relay_4'' 91 Uint8 F1 u_pct,
      fld ''pump_speed_relay_5'' 92 Uint8 F1 u_pct,
      fld ''pump_speed_relay_6'' 93 Uint8 F1 u_pct,
      fld ''pump_speed_relay_7'' 94 Uint8 F1 u_pct,
      fld ''pump_speed_relay_8'' 95 Uint8 F1 u_pct,
      fld ''pump_speed_relay_9'' 96 Uint8 F1 u_pct,
      fld ''pump_speed_relay_10'' 97 Uint8 F1 u_pct,
      fld ''pump_speed_relay_11'' 98 Uint8 F1 u_pct,
      fld ''pump_speed_relay_12'' 99 Uint8 F1 u_pct,
      fld ''pump_speed_relay_13'' 100 Uint8 F1 u_pct,
      fld ''pump_speed_relay_14'' 101 Uint8 F1 u_pct,
      fld ''drehzahl_relais_15'' 102 Uint8 F1 u_pct,
      fld ''output_a'' 104 Uint8 F1 u_pct,
      fld ''output_b'' 105 Uint8 F1 u_pct,
      fld ''output_c'' 106 Uint8 F1 u_pct,
      fld ''output_d'' 107 Uint8 F1 u_pct,
      fld ''system_date'' 108 Uint32 F1 '''',
      fld ''error_mask'' 112 Uint32 F1 ''''])]"

definition generatedRegistry_part1 :: "(uint64 \<times> PacketDef) list" where
  "generatedRegistry_part1 =
     generatedRegistry_01 @
     generatedRegistry_02 @
     generatedRegistry_03 @
     generatedRegistry_04 @
     generatedRegistry_05 @
     generatedRegistry_06 @
     generatedRegistry_07 @
     generatedRegistry_08 @
     generatedRegistry_09 @
     generatedRegistry_10"

lemmas part1_defs = generatedRegistry_part1_def
  generatedRegistry_01_def
  generatedRegistry_02_def
  generatedRegistry_03_def
  generatedRegistry_04_def
  generatedRegistry_05_def
  generatedRegistry_06_def
  generatedRegistry_07_def
  generatedRegistry_08_def
  generatedRegistry_09_def
  generatedRegistry_10_def

lemma part1_entries: "list_all generated_entry generatedRegistry_part1"
  by (simp add: part1_defs table_check)

lemma part1_sources:
  "map entry_source generatedRegistry_part1 = [
    0x0053, 0x1001, 0x1002, 0x1020, 0x1050, 0x1051, 0x1052, 0x1053, 0x1054, 0x1055,
    0x1056, 0x1057, 0x1058, 0x1059, 0x105A, 0x105B, 0x105D, 0x105E, 0x105F, 0x1060,
    0x1100, 0x1117, 0x1119, 0x111E, 0x111F, 0x1120, 0x1121, 0x1122, 0x1123, 0x1127,
    0x1129, 0x112F, 0x1140, 0x1150, 0x1160, 0x1161, 0x1162, 0x1170, 0x1240, 0x1241,
    0x1250, 0x1260, 0x1270, 0x1271, 0x1272, 0x1273, 0x1274, 0x1275, 0x1330, 0x1410,
    0x1420, 0x1510, 0x155A, 0x1560, 0x1632, 0x1711, 0x1911]"
  by (simp add: part1_defs)

end
