(* ===== verification/RegistryGen2.thy ===== *)
theory RegistryGen2
  imports RegistryLiteral
begin

text \<open>
  internal/vbus/registry_gen.go, part 2 of 4: the entries of \<open>generatedRegistry\<close> in file order.
\<close>

definition generatedRegistry_11 :: "(uint64 \<times> PacketDef) list" where
  "generatedRegistry_11 = [
    (pkey 0x1961 0x0010 0x0100, pd ''0x1961'' [
      fld ''temperature_module_1_sensor_1'' 0 Int16 F0_1 u_degC,
      fld ''temperature_module_1_sensor_2'' 2 Int16 F0_1 u_degC,
      fld ''temperature_module_1_sensor_3'' 4 Int16 F0_1 u_degC,
      fld ''temperature_module_1_sensor_4'' 6 Int16 F0_1 u_degC,
      fld ''temperature_module_1_sensor_5'' 8 Int16 F0_1 u_degC,
      fld ''temperature_module_1_sensor_6'' 10 Int16 F0_1 u_degC,
      fld ''drehzahl_modul_1_relais_1'' 12 Uint8 F1 u_pct,
      fld ''drehzahl_modul_1_relais_2'' 13 Uint8 F1 u_pct,
      fld ''drehzahl_modul_1_relais_3'' 14 Uint8 F1 u_pct,
      fld ''drehzahl_modul_1_relais_4'' 15 Uint8 F1 u_pct,
      fld ''drehzahl_modul_1_relais_5'' 16 Uint8 F1 u_pct]),
    (pkey 0x1962 0x0010 0x0100, pd ''0x1962'' [
      fld ''temperature_module_2_sensor_1'' 0 Int16 F0_1 u_degC,
      fld ''temperature_module_2_sensor_2'' 2 Int16 F0_1 u_degC,
      fld ''temperature_module_2_sensor_3'' 4 Int16 F0_1 u_degC,
      fld ''temperature_module_2_sensor_4'' 6 Int16 F0_1 u_degC,
      fld ''temperature_module_2_sensor_5'' 8 Int16 F0_1 u_degC,
      fld ''temperature_module_2_sensor_6'' 10 Int16 F0_1 u_degC,
      fld ''drehzahl_modul_2_relais_1'' 12 Uint8 F1 u_pct,
      fld ''drehzahl_modul_2_relais_2'' 13 Uint8 F1 u_pct,
      fld ''drehzahl_modul_2_relais_3'' 14 Uint8 F1 u_pct,
      fld ''drehzahl_modul_2_relais_4'' 15 Uint8 F1 u_pct,
      fld ''drehzahl_modul_2_relais_5'' 16 Uint8 F1 u_pct]),
    (pkey 0x1963 0x0010 0x0100, pd ''0x1963'' [
      fld ''temperature_module_3_sensor_1'' 0 Int16 F0_1 u_degC,
      fld ''temperature_module_3_sensor_2'' 2 Int16 F0_1 u_degC,
      fld ''temperature_module_3_sensor_3'' 4 Int16 F0_1 u_degC,
      fld ''temperature_module_3_sensor_4'' 6 Int16 F0_1 u_degC,
      fld ''temperature_module_3_sensor_5'' 8 Int16 F0_1 u_degC,
      fld ''temperature_module_3_sensor_6'' 10 Int16 F0_1 u_degC,
      fld ''drehzahl_modul_3_relais_1'' 12 Uint8 F1 u_pct,
      fld ''drehzahl_modul_3_relais_2'' 13 Uint8 F1 u_pct,
      fld ''drehzahl_modul_3_relais_3'' 14 Uint8 F1 u_pct,
      fld ''drehzahl_modul_3_relais_4'' 15 Uint8 F1 u_pct,
      fld ''drehzahl_modul_3_relais_5'' 16 Uint8 F1 u_pct]),
    (pkey 0x1964 0x0010 0x0100, pd ''0x1964'' [
      fld ''temperature_module_4_sensor_1'' 0 Int16 F0_1 u_degC,
      fld ''temperature_module_4_sensor_2'' 2 Int16 F0_1 u_degC,
      fld ''temperature_module_4_sensor_3'' 4 Int16 F0_1 u_degC,
      fld ''temperature_module_4_sensor_4'' 6 Int16 F0_1 u_degC,
      fld ''temperature_module_4_sensor_5'' 8 Int16 F0_1 u_degC,
      fld ''temperature_module_4_sensor_6'' 10 Int16 F0_1 u_degC,
      fld ''drehzahl_modul_4_relais_1'' 12 Uint8 F1 u_pct,
      fld ''drehzahl_modul_4_relais_2'' 13 Uint8 F1 u_pct,
      fld ''drehzahl_modul_4_relais_3'' 14 Uint8 F1 u_pct,
      fld ''drehzahl_modul_4_relais_4'' 15 Uint8 F1 u_pct,
      fld ''drehzahl_modul_4_relais_5'' 16 Uint8 F1 u_pct]),
    (pkey 0x1965 0x0010 0x0100, pd ''0x1965'' [
      fld ''temperature_module_5_sensor_1'' 0 Int16 F0_1 u_degC,
      fld ''temperature_module_5_sensor_2'' 2 Int16 F0_1 u_degC,
      fld ''temperature_module_5_sensor_3'' 4 Int16 F0_1 u_degC,
      fld ''temperature_module_5_sensor_4'' 6 Int16 F0_1 u_degC,
      fld ''temperature_module_5_sensor_5'' 8 Int16 F0_1 u_degC,
      fld ''temperature_module_5_sensor_6'' 10 Int16 F0_1 u_degC,
      fld ''drehzahl_modul_5_relais_1'' 12 Uint8 F1 u_pct,
      fld ''drehzahl_modul_5_relais_2'' 13 Uint8 F1 u_pct,
      fld ''drehzahl_modul_5_relais_3'' 14 Uint8 F1 u_pct,
      fld ''drehzahl_modul_5_relais_4'' 15 Uint8 F1 u_pct,
      fld ''drehzahl_modul_5_relais_5'' 16 Uint8 F1 u_pct]),
    (pkey 0x1A30 0x0010 0x0100, pd ''0x1A30'' [
      fld ''leistung_verbraucher'' 72 Uint32 F0_001 u_W,
      fld ''power_excess'' 68 Uint32 F0_001 u_W,
      fld ''paramter_reserve'' 64 Uint32 F1 u_W,
      fld ''excess'' 80 Uint32 F1 u_Wh,
      fld ''temperatur_sensor_1_vorlauf'' 16 Int16 F0_1 u_degC,
      fld ''temperature_sensor_2'' 18 Int16 F0_1 u_degC,
      fld ''temperature_sensor_3'' 20 Int16 F0_1 u_degC,
      fld ''temperature_sensor_4'' 22 Int16 F0_1 u_degC,
      fld ''temperature_sensor_5'' 24 Int16 F0_1 u_degC,
      fld ''temperature_sensor_6'' 120 Int16 F0_1 u_degC,
      fld ''temperature_sensor_7'' 122 Int16 F0_1 u_degC,
      fld (''drehzahl_l'' @ [CHR 0xC3] @ [CHR 0xBC] @ ''fter'') 128 Uint16 F1 '''',
      fld ''temperature_sensor_ga1'' 112 Int16 F0_1 u_degC,
      fld ''flow_rate_sensor_ga1'' 114 Int16 F1 u_l_h,
      fld ''druck_sensor_ga1_systemdruck'' 116 Int16 F0_01 u_bar,
      fld ''luftfeuchtigkeit_sensor_ga1'' 118 Int16 F1 u_pct,
      fld ''temperature_sensor_gd1'' 136 Int16 F0_1 u_degC,
      fld ''flow_rate_sensor_gd1'' 138 Int16 F1 u_l_h,
      fld ''pressure_sensor_gd1'' 140 Int16 F0_01 u_bar,
      fld ''luftfeuchtigkeit_sensor_gd1'' 142 Int16 F1 u_pct,
      fld ''ausgang_a_drehzahl_ladepumpe'' 36 Uint16 F1 u_pct,
      fld ''output_b'' 130 Uint16 F1 u_pct,
      fld ''relay_1'' 26 Uint16 F1 u_pct,
      fld ''relay_2'' 28 Uint16 F1 u_pct,
      fld ''relay_3'' 30 Uint16 F1 u_pct,
      fld ''relay_4'' 32 Uint16 F1 u_pct,
      fld ''relay_5'' 34 Uint16 F1 u_pct,
      fld ''operating_hours_output_a'' 60 Uint32 F1 u_h,
      fld ''betriebsstunden_ausgang_b'' 132 Uint32 F1 u_h,
      fld ''operating_hours_relay_1'' 40 Uint32 F1 u_h,
      fld ''operating_hours_relay_2'' 44 Uint32 F1 u_h,
      fld ''operating_hours_relay_3'' 48 Uint32 F1 u_h,
      fld ''operating_hours_relay_4'' 52 Uint32 F1 u_h,
      fld ''operating_hours_relay_5'' 56 Uint32 F1 u_h,
      fld ''system_date'' 4 Uint32 F1 '''']),
    (pkey 0x1A31 0x0010 0x0100, pd ''0x1A31'' [
      fld ''immersion_heater_1_parameter_priority'' 24 Int16 F1 '''',
      fld ''immersion_heater_1_temperature_store'' 8 Int16 F0_1 u_degC,
      fld ''immersion_heater_1_parameter_tmax'' 22 Int16 F0_1 u_degC,
      fld ''immersion_heater_1_operating_hours_heating'' 14 Uint32 F1 u_h,
      fld ''immersion_heater_1_operating_hours_backup_heating'' 18 Uint32 F1 u_h]),
    (pkey 0x1A32 0x0010 0x0100, pd ''0x1A32'' [
      fld ''immersion_heater_2_parameter_priority'' 24 Int16 F1 '''',
      fld ''immersion_heater_2_temperature_store'' 8 Int16 F0_1 u_degC,
      fld ''immersion_heater_2_parameter_tmax'' 22 Int16 F0_1 u_degC,
      fld ''immersion_heater_2_operating_hours_heating'' 14 Uint32 F1 u_h,
      fld ''immersion_heater_2_operating_hours_backup_heating'' 18 Uint32 F1 u_h])]"

definition generatedRegistry_12 :: "(uint64 \<times> PacketDef) list" where
  "generatedRegistry_12 = [
    (pkey 0x1A33 0x0010 0x0100, pd ''0x1A33'' [
      fld ''immersion_heater_3_parameter_priority'' 24 Int16 F1 '''',
      fld ''immersion_heater_3_temperature_store'' 8 Int16 F0_1 u_degC,
      fld ''immersion_heater_3_parameter_tmax'' 22 Int16 F0_1 u_degC,
      fld ''immersion_heater_3_operating_hours_heating'' 14 Uint32 F1 u_h,
      fld ''immersion_heater_3_operating_hours_backup_heating'' 18 Uint32 F1 u_h]),
    (pkey 0x1A34 0x0010 0x0100, pd ''0x1A34'' [
      fld ''heat_pump_parameter_priority'' 20 Int16 F1 '''',
      fld ''heat_pump_operating_hours_operation'' 12 Uint32 F1 u_h,
      fld ''heat_pump_operating_hours_mains_operation'' 16 Uint32 F1 u_h]),
    (pkey 0x1A35 0x0010 0x0100, pd ''0x1A35'' [
      fld ''wallbox_parameter_priority'' 20 Int16 F1 '''',
      fld ''wallbox_operating_hours_operation'' 12 Uint32 F1 u_h,
      fld ''wallbox_operating_hours_mains_operation'' 16 Uint32 F1 u_h]),
    (pkey 0x1A41 0x0010 0x0100, pd ''0x1A41'' [
      fld ''temperature_module_1_sensor_1'' 0 Int16 F0_1 u_degC,
      fld ''temperature_module_1_sensor_2'' 2 Int16 F0_1 u_degC,
      fld ''temperature_module_1_sensor_3'' 4 Int16 F0_1 u_degC,
      fld ''temperature_module_1_sensor_4'' 6 Int16 F0_1 u_degC,
      fld ''temperature_module_1_sensor_5'' 8 Int16 F0_1 u_degC,
      fld ''temperature_module_1_sensor_6'' 10 Int16 F0_1 u_degC,
      fld ''drehzahl_modul_1_relais_1'' 12 Uint8 F1 u_pct,
      fld ''drehzahl_modul_1_relais_2'' 13 Uint8 F1 u_pct,
      fld ''drehzahl_modul_1_relais_3'' 14 Uint8 F1 u_pct,
      fld ''drehzahl_modul_1_relais_4'' 15 Uint8 F1 u_pct,
      fld ''drehzahl_modul_1_relais_5'' 16 Uint8 F1 u_pct]),
    (pkey 0x1A42 0x0010 0x0100, pd ''0x1A42'' [
      fld ''temperature_module_2_sensor_1'' 0 Int16 F0_1 u_degC,
      fld ''temperature_module_2_sensor_2'' 2 Int16 F0_1 u_degC,
      fld ''temperature_module_2_sensor_3'' 4 Int16 F0_1 u_degC,
      fld ''temperature_module_2_sensor_4'' 6 Int16 F0_1 u_degC,
      fld ''temperature_module_2_sensor_5'' 8 Int16 F0_1 u_degC,
      fld ''temperature_module_2_sensor_6'' 10 Int16 F0_1 u_degC,
      fld ''drehzahl_modul_2_relais_1'' 12 Uint8 F1 u_pct,
      fld ''drehzahl_modul_2_relais_2'' 13 Uint8 F1 u_pct,
      fld ''drehzahl_modul_2_relais_3'' 14 Uint8 F1 u_pct,
      fld ''drehzahl_modul_2_relais_4'' 15 Uint8 F1 u_pct,
      fld ''drehzahl_modul_2_relais_5'' 16 Uint8 F1 u_pct]),
    (pkey 0x1A43 0x0010 0x0100, pd ''0x1A43'' [
      fld ''temperature_module_3_sensor_1'' 0 Int16 F0_1 u_degC,
      fld ''temperature_module_3_sensor_2'' 2 Int16 F0_1 u_degC,
      fld ''temperature_module_3_sensor_3'' 4 Int16 F0_1 u_degC,
      fld ''temperature_module_3_sensor_4'' 6 Int16 F0_1 u_degC,
      fld ''temperature_module_3_sensor_5'' 8 Int16 F0_1 u_degC,
      fld ''temperature_module_3_sensor_6'' 10 Int16 F0_1 u_degC,
      fld ''drehzahl_modul_3_relais_1'' 12 Uint8 F1 u_pct,
      fld ''drehzahl_modul_3_relais_2'' 13 Uint8 F1 u_pct,
      fld ''drehzahl_modul_3_relais_3'' 14 Uint8 F1 u_pct,
      fld ''drehzahl_modul_3_relais_4'' 15 Uint8 F1 u_pct,
      fld ''drehzahl_modul_3_relais_5'' 16 Uint8 F1 u_pct]),
    (pkey 0x1A44 0x0010 0x0100, pd ''0x1A44'' [
      fld ''temperature_module_4_sensor_1'' 0 Int16 F0_1 u_degC,
      fld ''temperature_module_4_sensor_2'' 2 Int16 F0_1 u_degC,
      fld ''temperature_module_4_sensor_3'' 4 Int16 F0_1 u_degC,
      fld ''temperature_module_4_sensor_4'' 6 Int16 F0_1 u_degC,
      fld ''temperature_module_4_sensor_5'' 8 Int16 F0_1 u_degC,
      fld ''temperature_module_4_sensor_6'' 10 Int16 F0_1 u_degC,
      fld ''drehzahl_modul_4_relais_1'' 12 Uint8 F1 u_pct,
      fld ''drehzahl_modul_4_relais_2'' 13 Uint8 F1 u_pct,
      fld ''drehzahl_modul_4_relais_3'' 14 Uint8 F1 u_pct,
      fld ''drehzahl_modul_4_relais_4'' 15 Uint8 F1 u_pct,
      fld ''drehzahl_modul_4_relais_5'' 16 Uint8 F1 u_pct]),
    (pkey 0x1A45 0x0010 0x0100, pd ''0x1A45'' [
      fld ''temperature_module_5_sensor_1'' 0 Int16 F0_1 u_degC,
      fld ''temperature_module_5_sensor_2'' 2 Int16 F0_1 u_degC,
      fld ''temperature_module_5_sensor_3'' 4 Int16 F0_1 u_degC,
      fld ''temperature_module_5_sensor_4'' 6 Int16 F0_1 u_degC,
      fld ''temperature_module_5_sensor_5'' 8 Int16 F0_1 u_degC,
      fld ''temperature_module_5_sensor_6'' 10 Int16 F0_1 u_degC,
      fld ''drehzahl_modul_5_relais_1'' 12 Uint8 F1 u_pct,
      fld ''drehzahl_modul_5_relais_2'' 13 Uint8 F1 u_pct,
      fld ''drehzahl_modul_5_relais_3'' 14 Uint8 F1 u_pct,
      fld ''drehzahl_modul_5_relais_4'' 15 Uint8 F1 u_pct,
      fld ''drehzahl_modul_5_relais_5'' 16 Uint8 F1 u_pct])]"

definition generatedRegistry_13 :: "(uint64 \<times> PacketDef) list" where
  "generatedRegistry_13 = [
    (pkey 0x1A60 0x0010 0x0100, pd ''0x1A60'' [
      fld ''leistung_verbraucher'' 72 Uint32 F0_001 u_W,
      fld ''power_excess'' 68 Uint32 F0_001 u_W,
      fld ''paramter_reserve'' 64 Uint32 F1 u_W,
      fld ''excess'' 80 Uint32 F1 u_Wh,
      fld ''temperature_sensor_1'' 16 Int16 F0_1 u_degC,
      fld ''temperature_sensor_2'' 18 Int16 F0_1 u_degC,
      fld ''temperature_sensor_3'' 20 Int16 F0_1 u_degC,
      fld ''temperature_sensor_4'' 22 Int16 F0_1 u_degC,
      fld ''temperature_sensor_5'' 24 Int16 F0_1 u_degC,
      fld ''temperature_sensor_6'' 120 Int16 F0_1 u_degC,
      fld ''temperature_sensor_7'' 122 Int16 F0_1 u_degC,
      fld (''drehzahl_l'' @ [CHR 0xC3] @ [CHR 0xBC] @ ''fter'') 128 Uint16 F1 '''',
      fld ''temperature_sensor_ga1'' 112 Int16 F0_1 u_degC,
      fld ''flow_rate_sensor_ga1'' 114 Int16 F1 u_l_h,
      fld ''pressure_sensor_ga1'' 116 Int16 F0_01 u_bar,
      fld ''luftfeuchtigkeit_sensor_ga1'' 118 Int16 F1 u_pct,
      fld ''temperature_sensor_gd1'' 136 Int16 F0_1 u_degC,
      fld ''flow_rate_sensor_gd1'' 138 Int16 F1 u_l_h,
      fld ''pressure_sensor_gd1'' 140 Int16 F0_01 u_bar,
      fld ''luftfeuchtigkeit_sensor_gd1'' 142 Int16 F1 u_pct,
      fld ''output_a'' 36 Uint16 F1 u_pct,
      fld ''output_b'' 130 Uint16 F1 u_pct,
      fld ''relay_1'' 26 Uint16 F1 u_pct,
      fld ''relay_2'' 28 Uint16 F1 u_pct,
      fld ''relay_3'' 30 Uint16 F1 u_pct,
      fld ''relay_4'' 32 Uint16 F1 u_pct,
      fld ''relay_5'' 34 Uint16 F1 u_pct,
      fld ''operating_hours_output_a'' 60 Uint32 F1 u_h,
      fld ''betriebsstunden_ausgang_b'' 132 Uint32 F1 u_h,
      fld ''operating_hours_relay_1'' 40 Uint32 F1 u_h,
      fld ''operating_hours_relay_2'' 44 Uint32 F1 u_h,
      fld ''operating_hours_relay_3'' 48 Uint32 F1 u_h,
      fld ''operating_hours_relay_4'' 52 Uint32 F1 u_h,
      fld ''operating_hours_relay_5'' 56 Uint32 F1 u_h,
      fld ''system_date'' 4 Uint32 F1 '''']),
    (pkey 0x1A61 0x0010 0x0100, pd ''0x1A61'' [
      fld ''immersion_heater_1_parameter_priority'' 24 Int16 F1 '''',
      fld ''immersion_heater_1_temperature_store'' 8 Int16 F0_1 u_degC,
      fld ''immersion_heater_1_parameter_tmax'' 22 Int16 F0_1 u_degC,
      fld ''immersion_heater_1_operating_hours_heating'' 14 Uint32 F1 u_h,
      fld ''immersion_heater_1_operating_hours_backup_heating'' 18 Uint32 F1 u_h]),
    (pkey 0x1A62 0x0010 0x0100, pd ''0x1A62'' [
      fld ''immersion_heater_2_parameter_priority'' 24 Int16 F1 '''',
      fld ''immersion_heater_2_temperature_store'' 8 Int16 F0_1 u_degC,
      fld ''immersion_heater_2_parameter_tmax'' 22 Int16 F0_1 u_degC,
      fld ''immersion_heater_2_operating_hours_heating'' 14 Uint32 F1 u_h,
      fld ''immersion_heater_2_operating_hours_backup_heating'' 18 Uint32 F1 u_h]),
    (pkey 0x1A63 0x0010 0x0100, pd ''0x1A63'' [
      fld ''immersion_heater_3_parameter_priority'' 24 Int16 F1 '''',
      fld ''immersion_heater_3_temperature_store'' 8 Int16 F0_1 u_degC,
      fld ''immersion_heater_3_parameter_tmax'' 22 Int16 F0_1 u_degC,
      fld ''immersion_heater_3_operating_hours_heating'' 14 Uint32 F1 u_h,
      fld ''immersion_heater_3_operating_hours_backup_heating'' 18 Uint32 F1 u_h]),
    (pkey 0x1A64 0x0010 0x0100, pd ''0x1A64'' [
      fld ''heat_pump_parameter_priority'' 20 Int16 F1 '''',
      fld ''heat_pump_operating_hours_operation'' 12 Uint32 F1 u_h,
      fld ''heat_pump_operating_hours_mains_operation'' 16 Uint32 F1 u_h]),
    (pkey 0x1A65 0x0010 0x0100, pd ''0x1A65'' [
      fld ''wallbox_parameter_priority'' 20 Int16 F1 '''',
      fld ''wallbox_operating_hours_operation'' 12 Uint32 F1 u_h,
      fld ''wallbox_operating_hours_mains_operation'' 16 Uint32 F1 u_h]),
    (pkey 0x1A71 0x0010 0x0100, pd ''0x1A71'' [
      fld ''temperature_module_1_sensor_1'' 0 Int16 F0_1 u_degC,
      fld ''temperature_module_1_sensor_2'' 2 Int16 F0_1 u_degC,
      fld ''temperature_module_1_sensor_3'' 4 Int16 F0_1 u_degC,
      fld ''temperature_module_1_sensor_4'' 6 Int16 F0_1 u_degC,
      fld ''temperature_module_1_sensor_5'' 8 Int16 F0_1 u_degC,
      fld ''temperature_module_1_sensor_6'' 10 Int16 F0_1 u_degC,
      fld ''drehzahl_modul_1_relais_1'' 12 Uint8 F1 u_pct,
      fld ''drehzahl_modul_1_relais_2'' 13 Uint8 F1 u_pct,
      fld ''drehzahl_modul_1_relais_3'' 14 Uint8 F1 u_pct,
      fld ''drehzahl_modul_1_relais_4'' 15 Uint8 F1 u_pct,
      fld ''drehzahl_modul_1_relais_5'' 16 Uint8 F1 u_pct]),
    (pkey 0x1A72 0x0010 0x0100, pd ''0x1A72'' [
      fld ''temperature_module_2_sensor_1'' 0 Int16 F0_1 u_degC,
      fld ''temperature_module_2_sensor_2'' 2 Int16 F0_1 u_degC,
      fld ''temperature_module_2_sensor_3'' 4 Int16 F0_1 u_degC,
      fld ''temperature_module_2_sensor_4'' 6 Int16 F0_1 u_degC,
      fld ''temperature_module_2_sensor_5'' 8 Int16 F0_1 u_degC,
      fld ''temperature_module_2_sensor_6'' 10 Int16 F0_1 u_degC,
      fld ''drehzahl_modul_2_relais_1'' 12 Uint8 F1 u_pct,
      fld ''drehzahl_modul_2_relais_2'' 13 Uint8 F1 u_pct,
      fld ''drehzahl_modul_2_relais_3'' 14 Uint8 F1 u_pct,
      fld ''drehzahl_modul_2_relais_4'' 15 Uint8 F1 u_pct,
      fld ''drehzahl_modul_2_relais_5'' 16 Uint8 F1 u_pct]),
    (pkey 0x1A73 0x0010 0x0100, pd ''0x1A73'' [
      fld ''temperature_module_3_sensor_1'' 0 Int16 F0_1 u_degC,
      fld ''temperature_module_3_sensor_2'' 2 Int16 F0_1 u_degC,
      fld ''temperature_module_3_sensor_3'' 4 Int16 F0_1 u_degC,
      fld ''temperature_module_3_sensor_4'' 6 Int16 F0_1 u_degC,
      fld ''temperature_module_3_sensor_5'' 8 Int16 F0_1 u_degC,
      fld ''temperature_module_3_sensor_6'' 10 Int16 F0_1 u_degC,
      fld ''drehzahl_modul_3_relais_1'' 12 Uint8 F1 u_pct,
      fld ''drehzahl_modul_3_relais_2'' 13 Uint8 F1 u_pct,
      fld ''drehzahl_modul_3_relais_3'' 14 Uint8 F1 u_pct,
      fld ''drehzahl_modul_3_relais_4'' 15 Uint8 F1 u_pct,
      fld ''drehzahl_modul_3_relais_5'' 16 Uint8 F1 u_pct])]"

definition generatedRegistry_14 :: "(uint64 \<times> PacketDef) list" where
  "generatedRegistry_14 = [
    (pkey 0x1A74 0x0010 0x0100, pd ''0x1A74'' [
      fld ''temperature_module_4_sensor_1'' 0 Int16 F0_1 u_degC,
      fld ''temperature_module_4_sensor_2'' 2 Int16 F0_1 u_degC,
      fld ''temperature_module_4_sensor_3'' 4 Int16 F0_1 u_degC,
      fld ''temperature_module_4_sensor_4'' 6 Int16 F0_1 u_degC,
      fld ''temperature_module_4_sensor_5'' 8 Int16 F0_1 u_degC,
      fld ''temperature_module_4_sensor_6'' 10 Int16 F0_1 u_degC,
      fld ''drehzahl_modul_4_relais_1'' 12 Uint8 F1 u_pct,
      fld ''drehzahl_modul_4_relais_2'' 13 Uint8 F1 u_pct,
      fld ''drehzahl_modul_4_relais_3'' 14 Uint8 F1 u_pct,
      fld ''drehzahl_modul_4_relais_4'' 15 Uint8 F1 u_pct,
      fld ''drehzahl_modul_4_relais_5'' 16 Uint8 F1 u_pct]),
    (pkey 0x1A75 0x0010 0x0100, pd ''0x1A75'' [
      fld ''temperature_module_5_sensor_1'' 0 Int16 F0_1 u_degC,
      fld ''temperature_module_5_sensor_2'' 2 Int16 F0_1 u_degC,
      fld ''temperature_module_5_sensor_3'' 4 Int16 F0_1 u_degC,
      fld ''temperature_module_5_sensor_4'' 6 Int16 F0_1 u_degC,
      fld ''temperature_module_5_sensor_5'' 8 Int16 F0_1 u_degC,
      fld ''temperature_module_5_sensor_6'' 10 Int16 F0_1 u_degC,
      fld ''drehzahl_modul_5_relais_1'' 12 Uint8 F1 u_pct,
      fld ''drehzahl_modul_5_relais_2'' 13 Uint8 F1 u_pct,
      fld ''drehzahl_modul_5_relais_3'' 14 Uint8 F1 u_pct,
      fld ''drehzahl_modul_5_relais_4'' 15 Uint8 F1 u_pct,
      fld ''drehzahl_modul_5_relais_5'' 16 Uint8 F1 u_pct]),
    (pkey 0x1D01 0x0010 0x0100, pd ''0x1D01'' [
      fld ''temperature_sensor_1'' 0 Int16 F0_1 u_degC,
      fld ''temperature_sensor_2'' 2 Int16 F0_1 u_degC,
      fld ''temperature_sensor_3'' 4 Int16 F0_1 u_degC,
      fld ''temperature_sensor_4'' 6 Int16 F0_1 u_degC,
      fld ''temperature_sensor_5'' 8 Int16 F0_1 u_degC,
      fld ''temperature_sensor_6'' 10 Int16 F0_1 u_degC,
      fld ''temperature_sensor_7'' 12 Int16 F0_1 u_degC,
      fld ''temperature_sensor_8'' 14 Int16 F0_1 u_degC,
      fld ''temperature_sensor_9'' 16 Int16 F0_1 u_degC,
      fld ''temperature_sensor_10'' 18 Int16 F0_1 u_degC,
      fld ''temperature_sensor_11'' 20 Int16 F0_1 u_degC,
      fld ''temperature_sensor_12'' 22 Int16 F0_1 u_degC,
      fld ''temperature_sensor_13'' 24 Int16 F0_1 u_degC,
      fld ''temperature_sensor_14'' 26 Int16 F0_1 u_degC,
      fld ''temperature_sensor_15'' 28 Int16 F0_1 u_degC,
      fld ''temperature_sensor_17'' 30 Int16 F0_1 u_degC,
      fld ''temperature_sensor_18'' 32 Int16 F0_1 u_degC,
      fld ''temperature_sensor_19'' 34 Int16 F0_1 u_degC,
      fld ''temperature_sensor_20'' 36 Int16 F0_1 u_degC,
      fld ''flow_sensor_17'' 38 Int16 F1 u_l_h,
      fld ''flow_sensor_18'' 40 Int16 F1 u_l_h,
      fld ''flow_sensor_19'' 42 Int16 F1 u_l_h,
      fld ''flow_sensor_20'' 44 Int16 F1 u_l_h,
      fld ''relay_1'' 46 Uint8 F1 u_pct,
      fld ''relay_2'' 47 Uint8 F1 u_pct,
      fld ''relay_3'' 48 Uint8 F1 u_pct,
      fld ''relay_4'' 49 Uint8 F1 u_pct,
      fld ''relay_5'' 50 Uint8 F1 u_pct,
      fld ''relay_6'' 51 Uint8 F1 u_pct,
      fld ''relay_7'' 52 Uint8 F1 u_pct,
      fld ''relay_8'' 53 Uint8 F1 u_pct,
      fld ''relay_9'' 54 Uint8 F1 u_pct,
      fld ''relay_10'' 55 Uint8 F1 u_pct,
      fld ''relay_11'' 56 Uint8 F1 u_pct,
      fld ''relay_12'' 57 Uint8 F1 u_pct,
      fld ''relay_13'' 58 Uint8 F1 u_pct,
      fld ''relay_14'' 59 Uint8 F1 u_pct,
      fld ''output_1'' 60 Uint8 F1 u_pct,
      fld ''output_2'' 61 Uint8 F1 u_pct,
      fld ''output_3'' 62 Uint8 F1 u_pct,
      fld ''output_4'' 63 Uint8 F1 u_pct,
      fld ''system_time'' 64 Uint32 F1 '''']),
    (pkey 0x1F11 0x0010 0x0100, pd ''0x1F11'' [
      fld ''temperature_sensor_1'' 0 Int16 F0_1 u_degC,
      fld ''temperature_sensor_2'' 2 Int16 F0_1 u_degC,
      fld ''temperature_sensor_3'' 4 Int16 F0_1 u_degC,
      fld ''temperature_sensor_4'' 6 Int16 F0_1 u_degC,
      fld ''temperature_sensor_5'' 8 Int16 F0_1 u_degC,
      fld ''temperature_sensor_6'' 10 Int16 F0_1 u_degC,
      fld ''temperature_sensor_7'' 12 Int16 F0_1 u_degC,
      fld ''temperature_sensor_8'' 14 Int16 F0_1 u_degC,
      fld ''temperature_sensor_9'' 16 Int16 F0_1 u_degC,
      fld ''temperature_sensor_10'' 18 Int16 F0_1 u_degC,
      fld ''temperature_sensor_21'' 20 Int16 F0_1 u_degC,
      fld ''temperature_sensor_22'' 22 Int16 F0_1 u_degC,
      fld ''volumenstrom_sensor_16'' 24 Uint32 F1 u_l_h,
      fld ''flow_rate_sensor_21'' 28 Uint32 F1 u_l_h,
      fld ''volumenstrom_sensor_22'' 32 Uint32 F1 u_l_h,
      fld ''druck_sensor_21'' 36 Int16 F0_01 u_bar,
      fld ''druck_sensor_22'' 38 Int16 F0_01 u_bar,
      fld ''luftfeuchtigkeit_sensor_21'' 40 Int16 F1 u_pct,
      fld ''luftfeuchtigkeit_sensor_22'' 41 Int16 F1 u_pct,
      fld ''sensor_za'' 42 Int16 F0_1 u_degC,
      fld ''pump_speed_relay_1'' 44 Uint8 F1 u_pct,
      fld ''pump_speed_relay_2'' 45 Uint8 F1 u_pct,
      fld ''pump_speed_relay_3'' 46 Uint8 F1 u_pct,
      fld ''pump_speed_relay_4'' 47 Uint8 F1 u_pct,
      fld ''pump_speed_relay_5'' 48 Uint8 F1 u_pct,
      fld ''pump_speed_relay_6'' 49 Uint8 F1 u_pct,
      fld ''pump_speed_relay_7'' 50 Uint8 F1 u_pct,
      fld ''output_a'' 52 Uint8 F1 u_pct,
      fld ''output_b'' 53 Uint8 F1 u_pct,
      fld ''output_c'' 54 Uint8 F1 u_pct,
      fld ''output_d'' 55 Uint8 F1 u_pct,
      fld ''system_date'' 56 Uint32 F1 '''',
      fld ''error_mask'' 60 Uint32 F1 '''',
      fld ''warning_mask'' 64 Uint32 F1 ''''])]"

definition generatedRegistry_15 :: "(uint64 \<times> PacketDef) list" where
  "generatedRegistry_15 = [
    (pkey 0x1F61 0x0010 0x0100, pd ''0x1F61'' [
      fld ''countdown_blockage'' 1 Int16 F1 '''',
      fld ''power_excess'' 4 Uint32 F0_001 u_W,
      fld ''power_heating'' 76 Uint32 F0_001 u_W,
      fld ''leistung_verbraucher_1_extern'' 92 Int16 F1 u_W,
      fld ''leistung_verbraucher_2_extern'' 94 Int16 F1 u_W,
      fld ''temperatur_heizung_sensor_1'' 12 Int16 F0_1 u_degC,
      fld ''temperatur_speicher_unten_sensor_2'' 14 Int16 F0_1 u_degC,
      fld ''temperature_store_top_sensor_3'' 16 Int16 F0_1 u_degC,
      fld ''temperature_sensor_4'' 18 Int16 F0_1 u_degC,
      fld ''temperature_sensor_6'' 104 Int16 F0_1 u_degC,
      fld ''druck_sensor_6'' 106 Int16 F0_01 u_bar,
      fld ''speed_loading_pump'' 3 Uint8 F1 u_pct,
      fld ''pump_speed_relay_2'' 42 Uint8 F1 u_pct,
      fld ''pump_speed_relay_3'' 70 Uint8 F1 u_pct,
      fld ''pump_speed_relay_4'' 71 Uint8 F1 u_pct,
      fld ''excess_wh'' 20 Uint32 F1 u_Wh,
      fld ''heating_wh'' 28 Uint32 F1 u_Wh,
      fld ''operating_seconds_heating'' 36 Uint32 F1 u_h,
      fld ''operating_seconds_backup_heating'' 60 Uint32 F1 u_h,
      fld ''operating_hours_relay_2'' 56 Uint32 F1 u_h,
      fld ''operating_hours_relay_3'' 84 Uint32 F1 u_h,
      fld ''operating_hours_relay_4'' 88 Uint32 F1 u_h,
      fld ''paramter_target_temperature'' 40 Int16 F0_1 u_degC,
      fld ''paramter_reserve'' 44 Int16 F1 u_W,
      fld ''0_10v_in'' 43 Int16 F0_1 u_V,
      fld ''system_date'' 52 Uint32 F1 '''']),
    (pkey 0x2170 0x0010 0x0100, pd ''0x2170'' [
      fld ''temperature_sensor'' 0 Int16 F0_1 u_degC,
      fld ''humidity'' 2 Int16 F0_1 u_pct,
      fld ''radiation'' 4 Int16 F1 u_Bq_m3,
      fld ''age_radiation'' 6 Int16 F1 u_s]),
    (pkey 0x2211 0x0010 0x0100, pd ''0x2211'' [
      fld ''temperature_sensor_1'' 0 Int16 F0_1 u_degC,
      fld ''temperature_sensor_2'' 2 Int16 F0_1 u_degC,
      fld ''temperature_sensor_3'' 4 Int16 F0_1 u_degC,
      fld ''temperature_sensor_4'' 6 Int16 F0_1 u_degC,
      fld ''temperature_sensor_5'' 36 Int16 F0_1 u_degC,
      fld ''flow_rate'' 38 Int16 F1 u_l_h,
      fld ''pump_speed_relay_1'' 8 Uint8 F1 u_pct,
      fld ''pump_speed_relay_2'' 12 Uint8 F1 u_pct,
      fld ''operating_hours_relay_1'' 10 Uint16 F1 u_h,
      fld ''operating_hours_relay_2'' 14 Uint16 F1 u_h,
      fld ''unittype'' 16 Uint8 F1 '''',
      fld ''system'' 17 Uint8 F1 '''',
      fld ''errormask'' 20 Uint16 F1 '''',
      fld ''system_time'' 22 Int16 F1 '''',
      fld ''status_mask'' 24 Uint32 F1 '''',
      fld ''heat_quantity'' 28 Uint32 F1 u_Wh,
      fld ''sw_version'' 32 Uint16 F0_01 '''']),
    (pkey 0x2213 0x0010 0x0100, pd ''0x2213'' [
      fld ''system_time'' 22 Int16 F1 '''',
      fld ''temperature_sensor_1'' 0 Int16 F0_1 u_degC,
      fld ''temperature_sensor_2'' 2 Int16 F0_1 u_degC,
      fld ''temperature_sensor_3'' 4 Int16 F0_1 u_degC,
      fld ''temperature_sensor_4'' 6 Int16 F0_1 u_degC,
      fld ''temperature_gfd'' 36 Int16 F0_1 u_degC,
      fld ''flow_rate_1'' 38 Int16 F1 u_l_h,
      fld ''flow_rate_2'' 40 Int16 F1 u_l_h,
      fld ''pump_speed_relay_1'' 8 Uint8 F1 u_pct,
      fld ''pump_speed_relay_2'' 12 Uint8 F1 u_pct,
      fld ''operating_hours_relay_1'' 10 Uint16 F1 u_h,
      fld ''operating_hours_relay_2'' 14 Uint16 F1 u_h,
      fld ''pfb1_duty'' 44 Uint32 F0_001 u_pct,
      fld ''pfb1_freq'' 48 Uint32 F0_001 u_Hz,
      fld ''pfb2_duty'' 52 Uint32 F0_001 u_pct,
      fld ''pfb2_freq'' 56 Uint32 F0_001 u_Hz,
      fld ''unittype'' 16 Uint8 F1 '''',
      fld ''system'' 17 Uint8 F1 '''',
      fld ''heat_quantity'' 28 Uint32 F1 u_Wh,
      fld ''status_mask'' 24 Uint32 F1 '''',
      fld ''errormask'' 20 Uint16 F1 '''',
      fld ''sw_version'' 32 Uint16 F0_01 '''']),
    (pkey 0x2231 0x0010 0x0100, pd ''0x2231'' [
      fld ''collector'' 0 Int16 F0_1 u_degC,
      fld ''store_solar'' 2 Int16 F0_1 u_degC,
      fld ''boiler_temperature'' 4 Int16 F0_1 u_degC,
      fld ''store_base'' 6 Int16 F0_1 u_degC,
      fld ''heating_circuit_return'' 8 Int16 F0_1 u_degC,
      fld ''store_draw_off'' 10 Int16 F0_1 u_degC,
      fld ''dhw_store'' 12 Int16 F0_1 u_degC,
      fld ''circulation_sensor'' 14 Int16 F0_1 u_degC,
      fld ''sensor_9'' 16 Int16 F0_1 u_degC,
      fld ''sensor_10'' 18 Int16 F0_1 u_degC,
      fld ''sensor_11'' 20 Int16 F0_1 u_degC,
      fld ''sensor_12'' 22 Int16 F0_1 u_degC,
      fld ''sensor_13'' 24 Int16 F0_1 u_degC,
      fld ''flow_temperature_hc1'' 26 Int16 F0_1 u_degC,
      fld ''outdoor_temperature'' 28 Int16 F0_1 u_degC,
      fld ''exhaust_temperature'' 30 Int16 F0_1 u_degC,
      fld ''irradiation'' 36 Int16 F1 u_W_m2,
      fld ''impulse_input_1'' 38 Uint32 F1 '''',
      fld ''impulse_input_2'' 40 Uint32 F1 '''',
      fld ''sensor_line_break_mask'' 88 Uint16 F1 '''',
      fld ''sensor_short_circuit_mask'' 90 Uint16 F1 '''',
      fld ''sensor_usage_mask'' 80 Uint32 F1 '''',
      fld ''pump_solar'' 42 Uint8 F1 u_pct,
      fld ''pump_stove'' 43 Uint8 F1 u_pct,
      fld ''changeover_valve_boiler'' 44 Uint8 F1 u_pct,
      fld ''dhw_loading_p'' 45 Uint8 F1 u_pct,
      fld ''circulating_pump'' 46 Uint8 F1 u_pct,
      fld ''relay_6'' 47 Uint8 F1 u_pct,
      fld ''relay_7'' 48 Uint8 F1 u_pct,
      fld ''relay_8'' 49 Uint8 F1 u_pct,
      fld ''boiler_block'' 50 Uint8 F1 u_pct,
      fld ''mixer_open'' 51 Uint8 F1 u_pct,
      fld ''mixer_closed'' 52 Uint8 F1 u_pct,
      fld ''hc_pump'' 53 Uint8 F1 u_pct,
      fld ''gas_oil_pellet_stove'' 54 Uint8 F1 u_pct,
      fld ''relay_usage_mask'' 84 Uint32 F1 '''',
      fld ''error_mask'' 56 Uint16 F1 '''',
      fld ''warning_mask'' 58 Uint16 F1 '''',
      fld ''controller_version'' 72 Uint16 F1 '''',
      fld ''system_time'' 74 Uint16 F1 ''''])]"

definition generatedRegistry_16 :: "(uint64 \<times> PacketDef) list" where
  "generatedRegistry_16 = [
    (pkey 0x2232 0x0010 0x0100, pd ''0x2232'' [
      fld ''flow_temperature'' 0 Int16 F0_1 u_degC,
      fld ''return_temperature'' 2 Int16 F0_1 u_degC,
      fld ''flow_rate'' 4 Uint16 F1 u_l_h,
      fld ''heat'' 6 Uint16 F1 u_Wh,
      fld ''heat'' 8 Uint16 F1 u_kWh,
      fld ''heat'' 10 Uint16 F1 u_MWh]),
    (pkey 0x2241 0x0010 0x0100, pd ''0x2241'' [
      fld ''s1'' 0 Int16 F0_1 u_degC,
      fld ''s2'' 2 Int16 F0_1 u_degC,
      fld ''s3'' 4 Int16 F0_1 u_degC,
      fld ''s4'' 6 Int16 F0_1 u_degC,
      fld ''s5'' 8 Int16 F0_1 u_l_min,
      fld ''primary_pump'' 10 Int16 F0_1 u_pct,
      fld ''pump_speed_relay_1'' 40 Uint16 F0_1 u_pct,
      fld ''pump_speed_relay_2'' 12 Uint8 F1 u_pct,
      fld ''errormask'' 13 Uint8 F1 '''',
      fld ''warningmask'' 14 Uint8 F1 '''',
      fld ''statusmask'' 15 Uint8 F1 '''',
      fld ''bilanz_heat_quantity'' 16 Uint32 F1 u_Wh,
      fld ''balance_duration_p1_on'' 20 Uint32 F1 u_h,
      fld ''balance_duration_p2_on'' 24 Uint32 F1 u_h,
      fld ''draw_off_quantity'' 28 Uint32 F0_1 u_m3,
      fld ''system_date'' 32 Uint32 F1 '''',
      fld ''system_time'' 36 Int16 F1 '''']),
    (pkey 0x2251 0x0010 0x0100, pd ''0x2251'' [
      fld ''system_date'' 0 Uint32 F1 '''',
      fld ''temperature_sensor_1'' 4 Int16 F0_1 u_degC,
      fld ''temperature_sensor_2'' 6 Int16 F0_1 u_degC,
      fld ''temperature_sensor_3'' 8 Int16 F0_1 u_degC,
      fld ''temperature_sensor_4'' 10 Int16 F0_1 u_degC,
      fld ''temperature_sensor_5'' 12 Int16 F0_1 u_degC,
      fld ''temperature_vfs_rps_s6'' 14 Int16 F0_1 u_degC,
      fld ''flow_rate_v40'' 20 Uint32 F1 u_l_h,
      fld ''flow_rate_vfs_s6'' 24 Uint32 F1 u_l_h,
      fld ''flow_rate_flowrotor_s7'' 28 Uint32 F1 u_l_h,
      fld ''pressure_rps_s6'' 32 Int16 F0_01 u_bar,
      fld ''pump_speed_relay_1'' 34 Int16 F1 u_pct,
      fld ''pump_speed_relay_2'' 35 Int16 F1 u_pct,
      fld ''pump_speed_relay_3'' 36 Int16 F1 u_pct,
      fld ''pump_speed_relay_4'' 37 Int16 F1 u_pct,
      fld ''pwm_a'' 38 Int16 F1 u_pct,
      fld ''pwm_b'' 39 Int16 F1 u_pct,
      fld ''heat_quantity'' 40 Uint32 F1 u_Wh,
      fld ''sw_version'' 44 Uint16 F0_01 '''',
      fld ''operating_seconds_relay_1'' 48 Uint32 F1 u_s,
      fld ''operating_seconds_relay_2'' 52 Uint32 F1 u_s,
      fld ''operating_seconds_relay_3'' 56 Uint32 F1 u_s,
      fld ''operating_seconds_relay_4'' 60 Uint32 F1 u_s,
      fld ''blocking_protection_1'' 65 Int16 F1 u_pct,
      fld ''blocking_protection_2'' 66 Int16 F1 u_pct,
      fld ''blocking_protection_3'' 67 Int16 F1 u_pct,
      fld ''initialise'' 68 Uint32 F1 '''',
      fld ''filling'' 72 Uint32 F1 '''',
      fld ''stabilise'' 76 Uint32 F1 '''',
      fld ''pump_delay'' 80 Int16 F1 '''',
      fld ''overrun'' 82 Int16 F1 '''',
      fld ''thermal_disinfection'' 83 Int16 F1 '''',
      fld ''spreading'' 86 Int16 F1 '''',
      fld ''antifreeze'' 87 Int16 F1 '''',
      fld ''error_mask'' 96 Uint32 F1 '''']),
    (pkey 0x2252 0x0010 0x0100, pd ''0x2252'' [
      fld ''wmz1valuewh'' 0 Uint32 F1 u_Wh,
      fld ''wmz1powerw'' 4 Uint32 F1 u_W,
      fld ''wmz1valuetodaywh'' 8 Uint32 F1 u_Wh,
      fld ''wmz1valueweekwh'' 12 Uint32 F1 u_Wh]),
    (pkey 0x2261 0x0010 0x0100, pd ''0x2261'' [
      fld ''system_date'' 0 Uint32 F1 '''',
      fld ''temperature_sensor_1'' 4 Int16 F0_1 u_degC,
      fld ''temperature_sensor_2'' 6 Int16 F0_1 u_degC,
      fld ''temperature_sensor_3'' 8 Int16 F0_1 u_degC,
      fld ''temperature_sensor_4'' 10 Int16 F0_1 u_degC,
      fld ''tage'' 12 Int16 F1 '''',
      fld ''flow_rate_sensor_v40'' 16 Uint32 F1 u_l_h,
      fld ''flow_rate_sensor_vfs'' 20 Uint32 F1 u_l_h,
      fld ''temperature_sensor_vfs'' 24 Int16 F0_1 u_degC,
      fld ''pump_speed_relay_1'' 26 Int16 F1 u_pct,
      fld ''pump_speed_relay_2'' 27 Int16 F1 u_pct,
      fld ''controller_output_1'' 28 Int16 F1 u_pct,
      fld ''wmz1valuewh'' 32 Uint32 F1 u_Wh,
      fld ''sw_version'' 36 Int16 F0_01 '''',
      fld ''operating_hours_relay1'' 40 Uint32 F1 u_h,
      fld ''operating_hours_relay2'' 44 Uint32 F1 u_h,
      fld ''initialise'' 52 Uint32 F1 '''',
      fld ''filling'' 56 Uint32 F1 '''',
      fld ''stabilise'' 60 Uint32 F1 '''',
      fld ''pump_delay'' 64 Int16 F1 '''',
      fld ''overrun'' 66 Int16 F1 '''',
      fld ''antifreeze'' 68 Int16 F1 '''',
      fld ''error_mask'' 76 Uint32 F1 '''']),
    (pkey 0x2262 0x0010 0x0100, pd ''0x2262'' [
      fld ''wmz1valuewh'' 0 Uint32 F1 u_Wh,
      fld ''wmz1powerw'' 4 Uint32 F1 u_W,
      fld ''wmz1valuetodaywh'' 8 Uint32 F1 u_Wh,
      fld ''wmz1valueweekwh'' 12 Uint32 F1 u_Wh])]"

definition generatedRegistry_17 :: "(uint64 \<times> PacketDef) list" where
  "generatedRegistry_17 = [
    (pkey 0x2271 0x0010 0x0100, pd ''0x2271'' [
      fld ''system_date'' 0 Uint32 F1 '''',
      fld ''temperature_sensor_1'' 4 Int16 F0_1 u_degC,
      fld ''temperature_sensor_2'' 6 Int16 F0_1 u_degC,
      fld ''temperature_sensor_3'' 8 Int16 F0_1 u_degC,
      fld ''temperature_sensor_4'' 10 Int16 F0_1 u_degC,
      fld ''tage'' 12 Int16 F1 '''',
      fld ''flow_rate_v40'' 16 Uint32 F1 u_l_h,
      fld ''pump_speed_relay_1'' 20 Int16 F1 u_pct,
      fld ''pump_speed_relay_2'' 21 Int16 F1 u_pct,
      fld ''pump_speed_relay_4'' 22 Int16 F1 u_pct,
      fld ''heat_quantity'' 24 Uint32 F1 u_Wh,
      fld ''sw_version'' 28 Int16 F0_01 '''',
      fld ''operating_hours_relay_1'' 32 Uint32 F1 u_h,
      fld ''operating_hours_relay_2'' 36 Uint32 F1 u_h,
      fld ''operating_hours_relay_4'' 40 Uint32 F1 u_h,
      fld ''blocking_protection_1'' 45 Int16 F1 u_pct,
      fld ''blocking_protection_2'' 46 Int16 F1 u_pct,
      fld ''blocking_protection_4'' 47 Int16 F1 u_pct,
      fld ''initialise'' 48 Uint32 F1 '''',
      fld ''filling'' 52 Uint32 F1 '''',
      fld ''stabilise'' 56 Uint32 F1 '''',
      fld ''pump_delay'' 60 Int16 F1 '''',
      fld ''overrun'' 62 Int16 F1 '''',
      fld ''thermal_disinfection'' 63 Int16 F1 '''',
      fld ''spreading'' 66 Int16 F1 '''',
      fld ''antifreeze'' 67 Int16 F1 '''',
      fld ''error_mask'' 72 Uint32 F1 '''']),
    (pkey 0x2272 0x0010 0x0100, pd ''0x2272'' [
      fld ''value'' 0 Uint32 F1 u_Wh,
      fld ''power'' 4 Uint32 F1 u_W,
      fld ''value_today'' 8 Uint32 F1 u_Wh,
      fld ''value_week'' 12 Uint32 F1 u_Wh]),
    (pkey 0x2360 0x0010 0x0100, pd ''0x2360'' [
      fld ''system_date'' 0 Uint32 F1 '''',
      fld ''temperature_sensor_1'' 4 Int16 F0_1 u_degC,
      fld ''temperature_sensor_2'' 6 Int16 F0_1 u_degC,
      fld ''temperature_sensor_3'' 8 Int16 F0_1 u_degC,
      fld ''temperature_sensor_4'' 10 Int16 F0_1 u_degC,
      fld ''temperature_sensor_5'' 12 Int16 F0_1 u_degC,
      fld ''temperature_vfs_rps_s6'' 14 Int16 F0_1 u_degC,
      fld ''tage'' 16 Int16 F1 '''',
      fld ''flow_rate_v40'' 20 Uint32 F1 u_l_h,
      fld ''flow_rate_vfs_s6'' 24 Uint32 F1 u_l_h,
      fld ''flow_rate_flowrotor_s7'' 28 Uint32 F1 u_l_h,
      fld ''pressure_rps_s6'' 32 Int16 F0_01 u_bar,
      fld ''pump_speed_relay_1'' 34 Int16 F1 u_pct,
      fld ''pump_speed_relay_2'' 35 Int16 F1 u_pct,
      fld ''pump_speed_relay_3'' 36 Int16 F1 u_pct,
      fld ''pump_speed_relay_4'' 37 Int16 F1 u_pct,
      fld ''pwm_a'' 38 Int16 F1 u_pct,
      fld ''pwm_b'' 39 Int16 F1 u_pct,
      fld ''heat_quantity'' 40 Uint32 F1 u_Wh,
      fld ''sw_version'' 44 Int16 F0_01 '''',
      fld ''operating_seconds_relay_1'' 48 Uint32 F1 u_s,
      fld ''operating_seconds_relay_2'' 52 Uint32 F1 u_s,
      fld ''operating_seconds_relay_3'' 56 Uint32 F1 u_s,
      fld ''operating_seconds_relay_4'' 60 Uint32 F1 u_s,
      fld ''blocking_protection_1'' 65 Int16 F1 u_pct,
      fld ''blocking_protection_2'' 66 Int16 F1 u_pct,
      fld ''blocking_protection_3'' 67 Int16 F1 u_pct,
      fld ''initialise'' 68 Uint32 F1 '''',
      fld ''filling'' 72 Uint32 F1 '''',
      fld ''stabilise'' 76 Uint32 F1 '''',
      fld ''pump_delay'' 80 Int16 F1 '''',
      fld ''overrun'' 82 Int16 F1 '''',
      fld ''thermal_disinfection'' 83 Int16 F1 '''',
      fld ''spreading'' 86 Int16 F1 '''',
      fld ''antifreeze'' 87 Int16 F1 '''',
      fld ''error_mask'' 96 Uint32 F1 '''',
      fld ''wama_counter'' 100 Uint32 F1 '''',
      fld ''twama'' 104 Int16 F0_1 u_degC]),
    (pkey 0x2362 0x0010 0x0100, pd ''0x2362'' [
      fld ''wmz1valuewh'' 0 Uint32 F1 u_Wh,
      fld ''wmz1powerw'' 4 Uint32 F1 u_W,
      fld ''wmz1valuetodaywh'' 8 Uint32 F1 u_Wh,
      fld ''wmz1valueweekwh'' 12 Uint32 F1 u_Wh]),
    (pkey 0x2370 0x0010 0x0100, pd ''0x2370'' [
      fld ''power_heating'' 72 Uint32 F0_001 u_W,
      fld ''power_excess'' 68 Uint32 F0_001 u_W,
      fld ''paramter_reserve'' 64 Uint32 F1 u_W,
      fld ''excess'' 80 Uint32 F1 u_Wh,
      fld ''temperature_sensor_1'' 16 Int16 F0_1 u_degC,
      fld ''temperature_sensor_2'' 18 Int16 F0_1 u_degC,
      fld ''temperature_sensor_3'' 20 Int16 F0_1 u_degC,
      fld ''temperature_sensor_4'' 22 Int16 F0_1 u_degC,
      fld ''temperature_sensor_5'' 24 Int16 F0_1 u_degC,
      fld ''output_a'' 36 Uint16 F1 u_pct,
      fld ''relay_1'' 26 Uint16 F1 u_pct,
      fld ''relay_2'' 28 Uint16 F1 u_pct,
      fld ''relay_3'' 30 Uint16 F1 u_pct,
      fld ''relay_4'' 32 Uint16 F1 u_pct,
      fld ''relay_5'' 34 Uint16 F1 u_pct,
      fld ''operating_hours_output_a'' 60 Uint32 F1 u_h,
      fld ''operating_hours_relay_1'' 40 Uint32 F1 u_h,
      fld ''operating_hours_relay_2'' 44 Uint32 F1 u_h,
      fld ''operating_hours_relay_3'' 48 Uint32 F1 u_h,
      fld ''operating_hours_relay_4'' 52 Uint32 F1 u_h,
      fld ''operating_hours_relay_5'' 56 Uint32 F1 u_h,
      fld ''system_date'' 4 Uint32 F1 '''']),
    (pkey 0x2371 0x0010 0x0100, pd ''0x2371'' [
      fld ''immersion_heater_1_parameter_priority'' 24 Int16 F1 '''',
      fld ''immersion_heater_1_temperature_store'' 8 Int16 F0_1 u_degC,
      fld ''immersion_heater_1_parameter_tmax'' 22 Int16 F0_1 u_degC,
      fld ''immersion_heater_1_operating_hours_heating'' 14 Uint32 F1 u_h,
      fld ''immersion_heater_1_operating_hours_backup_heating'' 18 Uint32 F1 u_h]),
    (pkey 0x2372 0x0010 0x0100, pd ''0x2372'' [
      fld ''immersion_heater_2_parameter_priority'' 24 Int16 F1 '''',
      fld ''immersion_heater_2_temperature_store'' 8 Int16 F0_1 u_degC,
      fld ''immersion_heater_2_parameter_tmax'' 22 Int16 F0_1 u_degC,
      fld ''immersion_heater_2_operating_hours_heating'' 14 Uint32 F1 u_h,
      fld ''immersion_heater_2_operating_hours_backup_heating'' 18 Uint32 F1 u_h])]"

definition generatedRegistry_18 :: "(uint64 \<times> PacketDef) list" where
  "generatedRegistry_18 = [
    (pkey 0x2373 0x0010 0x0100, pd ''0x2373'' [
      fld ''immersion_heater_3_parameter_priority'' 24 Int16 F1 '''',
      fld ''immersion_heater_3_temperature_store'' 8 Int16 F0_1 u_degC,
      fld ''immersion_heater_3_parameter_tmax'' 22 Int16 F0_1 u_degC,
      fld ''immersion_heater_3_operating_hours_heating'' 14 Uint32 F1 u_h,
      fld ''immersion_heater_3_operating_hours_backup_heating'' 18 Uint32 F1 u_h]),
    (pkey 0x2374 0x0010 0x0100, pd ''0x2374'' [
      fld ''heat_pump_parameter_priority'' 20 Int16 F1 '''',
      fld ''heat_pump_operating_hours_operation'' 12 Uint32 F1 u_h,
      fld ''heat_pump_operating_hours_mains_operation'' 16 Uint32 F1 u_h]),
    (pkey 0x2375 0x0010 0x0100, pd ''0x2375'' [
      fld ''wallbox_parameter_priority'' 20 Int16 F1 '''',
      fld ''wallbox_operating_hours_operation'' 12 Uint32 F1 u_h,
      fld ''wallbox_operating_hours_mains_operation'' 16 Uint32 F1 u_h]),
    (pkey 0x3011 0x0010 0x0100, pd ''0x3011'' [
      fld ''flow_temperature'' 0 Int16 F0_1 u_degC,
      fld ''return_temperature'' 2 Int16 F0_1 u_degC,
      fld ''flow_velocity'' 4 Int16 F0_01 u_m_s,
      fld ''air_flow_volume'' 12 Uint32 F1 u_m3_h,
      fld ''air_flow_mass'' 16 Uint32 F1 u_kg_h,
      fld ''air_duct_diamter'' 10 Uint16 F0_01 u_m2,
      fld ''air_density'' 20 Uint16 Pow10_m4 u_kg_m3,
      fld ''air_pressure'' 24 Uint16 F1 u_hPa,
      fld ''power'' 22 Uint16 F0_1 u_kW,
      fld ''heat_quantity_kwh'' 28 Uint16 F1 u_kWh,
      fld ''heat_quantity_mwh'' 30 Uint16 F1 u_kWh,
      fld ''operating_days'' 6 Uint16 F1 '''']),
    (pkey 0x3112 0x0010 0x0100, pd ''0x3112'' [
      fld ''collector_temperature_tc'' 0 Int16 F0_1 u_degC,
      fld ''speicher_temperatur_ts'' 2 Int16 F0_1 u_degC,
      fld ''temperature_sensor_3'' 4 Int16 F0_1 u_degC,
      fld ''heat_quantity'' 8 Uint32 F1 u_Wh,
      fld ''pump_speed_pc'' 12 Uint8 F1 u_pct,
      fld ''control_time_tc'' 14 Int16 F1 u_pct,
      fld ''software_version'' 16 Int16 F0_01 '''',
      fld ''system_time'' 20 Int16 F1 '''',
      fld ''timer'' 22 Int16 F1 '''']),
    (pkey 0x3113 0x0010 0x0100, pd ''0x3113'' [
      fld ''collector_temperature_tc'' 0 Int16 F0_1 u_degC,
      fld ''speicher_temperatur_ts'' 2 Int16 F0_1 u_degC,
      fld ''heat_quantity'' 8 Uint32 F1 u_Wh,
      fld ''pump_speed_pc'' 12 Uint8 F1 u_pct,
      fld ''control_time_tc'' 14 Int16 F1 u_pct,
      fld ''software_version'' 16 Int16 F0_01 '''']),
    (pkey 0x3114 0x0010 0x0100, pd ''0x3114'' [
      fld ''collector_temperature_tc'' 0 Int16 F0_1 u_degC,
      fld ''speicher_temperatur_ts'' 2 Int16 F0_1 u_degC,
      fld ''heating_return_temperature_tr'' 4 Int16 F0_1 u_degC,
      fld ''sensor_temperature_tm'' 6 Int16 F0_1 u_degC,
      fld ''heat_quantity'' 8 Uint32 F1 u_Wh,
      fld ''pump_speed_pc'' 12 Uint8 F1 u_pct,
      fld ''valve_r2'' 13 Uint8 F1 u_pct,
      fld ''control_time_tc'' 14 Int16 F1 u_pct,
      fld ''software_version'' 16 Int16 F0_01 '''']),
    (pkey 0x3211 0x0010 0x0100, pd ''0x3211'' [
      fld ''temperature_sensor_1'' 0 Int16 F0_1 u_degC,
      fld ''temperature_sensor_2'' 2 Int16 F0_1 u_degC,
      fld ''temperature_sensor_3'' 4 Int16 F0_1 u_degC,
      fld ''pump_speed_r1'' 6 Uint8 F1 u_pct,
      fld ''error_code'' 7 Uint8 F1 '''',
      fld ''pump_runtime_r1'' 8 Uint16 F1 u_h,
      fld ''loading_status'' 10 Uint8 F1 '''',
      fld ''flags'' 11 Uint8 F1 '''']),
    (pkey 0x3221 0x0010 0x0100, pd ''0x3221'' [
      fld ''temperature_sensor_1'' 0 Int16 F0_1 u_degC,
      fld ''temperature_sensor_2'' 2 Int16 F0_1 u_degC,
      fld ''temperature_sensor_3'' 4 Int16 F0_1 u_degC,
      fld ''pump_speed_relay_1'' 6 Uint8 F1 u_pct,
      fld ''pump_speed_relay_2'' 7 Uint8 F1 u_pct,
      fld ''control_flags'' 8 Uint16 F1 '''',
      fld ''error_mask'' 10 Uint8 F1 '''',
      fld ''operating_hours_relay_1'' 12 Uint16 F1 u_h,
      fld ''operating_hours_relay_2'' 14 Uint16 F1 u_h]),
    (pkey 0x3231 0x0010 0x0100, pd ''0x3231'' [
      fld ''temperature_sensor_1'' 0 Int16 F0_1 u_degC,
      fld ''temperature_sensor_2'' 2 Int16 F0_1 u_degC,
      fld ''temperature_sensor_3'' 4 Int16 F0_1 u_degC,
      fld ''pump_speed_relay_1'' 6 Int16 F1 u_pct,
      fld ''error_mask'' 7 Int16 F1 '''',
      fld ''operating_hours_relay_1'' 8 Int16 F1 u_h,
      fld ''relay_mask'' 10 Int16 F1 '''']),
    (pkey 0x3241 0x0010 0x0100, pd ''0x3241'' [
      fld ''temperature_sensor_1'' 0 Int16 F0_1 u_degC,
      fld ''temperature_sensor_2'' 2 Int16 F0_1 u_degC,
      fld ''temperature_sensor_3'' 4 Int16 F0_1 u_degC,
      fld ''pump_speed_relay_1'' 6 Uint8 F1 u_pct,
      fld ''error_mask'' 7 Uint8 F1 '''',
      fld ''relay_mask'' 10 Uint8 F1 ''''])]"

definition generatedRegistry_19 :: "(uint64 \<times> PacketDef) list" where
  "generatedRegistry_19 = [
    (pkey 0x3251 0x0010 0x0100, pd ''0x3251'' [
      fld ''temperature_sensor_1'' 0 Int16 F0_1 u_degC,
      fld ''temperature_sensor_2'' 2 Int16 F0_1 u_degC,
      fld ''temperature_sensor_3'' 4 Int16 F0_1 u_degC,
      fld ''pump_speed_relay_1'' 6 Int16 F1 u_pct,
      fld ''error_mask'' 7 Int16 F1 '''',
      fld ''operating_hours_relay_1'' 8 Int16 F1 u_h]),
    (pkey 0x3271 0x0010 0x0100, pd ''0x3271'' [
      fld ''temperature_sensor_1'' 0 Int16 F0_1 u_degC,
      fld ''temperature_sensor_2'' 2 Int16 F0_1 u_degC,
      fld ''temperature_sensor_3'' 4 Int16 F0_1 u_degC,
      fld ''temperature_sensor_4'' 6 Int16 F0_1 u_degC,
      fld ''pump_speed_pump_1'' 8 Int16 F1 u_pct,
      fld ''pump_speed_pump_2'' 9 Int16 F1 u_pct,
      fld ''relay_mask'' 10 Uint8 F1 '''',
      fld ''error_mask'' 11 Uint8 F1 '''',
      fld ''system_time'' 12 Uint16 F1 '''',
      fld ''scheme'' 14 Uint8 F1 '''',
      fld ''operating_hours_relay_1'' 16 Uint16 F1 '''',
      fld ''operating_hours_relay_2'' 18 Uint16 F1 '''',
      fld ''version'' 26 Uint16 F0_01 '''']),
    (pkey 0x3311 0x0010 0x0100, pd ''0x3311'' [
      fld ''temperature_sensor_1'' 0 Int16 F0_1 u_degC,
      fld ''temperature_sensor_2'' 2 Int16 F0_1 u_degC,
      fld ''temperature_sensor_3'' 4 Int16 F0_1 u_degC,
      fld ''temperature_sensor_4_v102'' 6 Int16 F0_1 u_degC,
      fld ''pump_speed_relay_1_v101'' 8 Uint16 F0_1 u_pct,
      fld ''pump_speed_relay_2_v101'' 10 Uint16 F0_1 u_pct,
      fld ''pump_speed_relay_1_v102'' 8 Uint8 F1 u_pct,
      fld ''pump_speed_relay_2_v102'' 9 Uint8 F1 u_pct,
      fld ''error_mask_v102'' 10 Uint8 F1 '''',
      fld ''relay_mask_v102'' 11 Uint8 F1 '''',
      fld ''heat_quantity_v101'' 6 Uint16 F1 u_kWh,
      fld ''heat_quantity_v102'' 12 Uint16 F1 u_kWh]),
    (pkey 0x3561 0x0010 0x0100, pd ''0x3561'' [
      fld ''countdown_blockage'' 1 Int16 F1 '''',
      fld ''power_excess'' 4 Uint32 F0_001 u_W,
      fld ''power_heating'' 76 Uint32 F0_001 u_W,
      fld ''leistung_verbraucher_1_extern'' 92 Int16 F1 u_W,
      fld ''leistung_verbraucher_2_extern'' 94 Int16 F1 u_W,
      fld ''temperatur_heizung_sensor_1'' 12 Int16 F0_1 u_degC,
      fld ''temperatur_speicher_unten_sensor_2'' 14 Int16 F0_1 u_degC,
      fld ''temperature_store_top_sensor_3'' 16 Int16 F0_1 u_degC,
      fld ''temperature_sensor_4'' 18 Int16 F0_1 u_degC,
      fld ''temperature_sensor_6'' 104 Int16 F0_1 u_degC,
      fld ''druck_sensor_6'' 106 Int16 F0_01 u_bar,
      fld ''speed_loading_pump'' 3 Uint8 F1 u_pct,
      fld ''pump_speed_relay_2'' 42 Uint8 F1 u_pct,
      fld ''pump_speed_relay_3'' 70 Uint8 F1 u_pct,
      fld ''pump_speed_relay_4'' 71 Uint8 F1 u_pct,
      fld ''excess_wh'' 20 Uint32 F1 u_Wh,
      fld ''heating_wh'' 28 Uint32 F1 u_Wh,
      fld ''operating_seconds_heating'' 36 Uint32 F1 u_h,
      fld ''operating_seconds_backup_heating'' 60 Uint32 F1 u_h,
      fld ''operating_hours_relay_2'' 56 Uint32 F1 u_h,
      fld ''operating_hours_relay_3'' 84 Uint32 F1 u_h,
      fld ''operating_hours_relay_4'' 88 Uint32 F1 u_h,
      fld ''paramter_target_temperature'' 40 Int16 F0_1 u_degC,
      fld ''paramter_reserve'' 44 Int16 F1 u_W,
      fld ''0_10v_in'' 43 Int16 F0_1 u_V,
      fld ''system_date'' 52 Uint32 F1 '''']),
    (pkey 0x3611 0x0010 0x0100, pd ''0x3611'' [
      fld ''temperature_sensor_1'' 0 Int16 F0_1 u_degC,
      fld ''temperature_sensor_2'' 2 Int16 F0_1 u_degC,
      fld ''temperature_sensor_3'' 4 Int16 F0_1 u_degC,
      fld ''temperature_sensor_4'' 6 Int16 F0_1 u_degC,
      fld ''temperature_sensor_5'' 8 Int16 F0_1 u_degC,
      fld ''temperature_sensor_6'' 10 Int16 F0_1 u_degC,
      fld ''temperature_sensor_7'' 12 Int16 F0_1 u_degC,
      fld ''temperature_sensor_8'' 14 Int16 F0_1 u_degC,
      fld ''temperature_sensor_9'' 16 Int16 F0_1 u_degC,
      fld ''temperature_sensor_10'' 18 Int16 F0_1 u_degC,
      fld ''temperature_sensor_11'' 20 Int16 F0_1 u_degC,
      fld ''temperature_sensor_12'' 22 Int16 F0_1 u_degC,
      fld ''temperature_sensor_13'' 24 Int16 F0_1 u_degC,
      fld ''temperature_sensor_14'' 26 Int16 F0_1 u_degC,
      fld ''temperature_sensor_15'' 28 Int16 F0_1 u_degC,
      fld ''einstrahlung_sensor_20'' 30 Int16 F1 u_W_m2,
      fld ''temperature_sensor_21'' 32 Int16 F0_1 u_degC,
      fld ''temperature_sensor_22'' 34 Int16 F0_1 u_degC,
      fld ''temperature_sensor_23'' 36 Int16 F0_1 u_degC,
      fld ''temperature_sensor_24'' 38 Int16 F0_1 u_degC,
      fld ''volumenstrom_sensor_16'' 40 Uint32 F1 u_l_h,
      fld ''flow_rate_sensor_17'' 44 Uint32 F1 u_l_h,
      fld ''flow_rate_sensor_18'' 48 Uint32 F1 u_l_h,
      fld ''flow_rate_sensor_19'' 52 Uint32 F1 u_l_h,
      fld ''flow_rate_sensor_21'' 56 Uint32 F1 u_l_h,
      fld ''volumenstrom_sensor_22'' 60 Uint32 F1 u_l_h,
      fld ''volumenstrom_sensor_23'' 64 Uint32 F1 u_l_h,
      fld ''volumenstrom_sensor_24'' 68 Uint32 F1 u_l_h,
      fld ''volumenstrom_sensor_25'' 72 Uint32 F1 u_l_h,
      fld ''volumenstrom_sensor_26'' 76 Uint32 F1 u_l_h,
      fld ''druck_sensor_21'' 80 Int16 F0_01 u_bar,
      fld ''druck_sensor_22'' 82 Int16 F0_01 u_bar,
      fld ''druck_sensor_23'' 84 Int16 F0_01 u_bar,
      fld ''druck_sensor_24'' 86 Int16 F0_01 u_bar,
      fld ''pump_speed_relay_1'' 88 Uint8 F1 u_pct,
      fld ''pump_speed_relay_2'' 89 Uint8 F1 u_pct,
      fld ''pump_speed_relay_3'' 90 Uint8 F1 u_pct,
      fld ''pump_speed_relay_4'' 91 Uint8 F1 u_pct,
      fld ''pump_speed_relay_5'' 92 Uint8 F1 u_pct,
      fld ''pump_speed_relay_6'' 93 Uint8 F1 u_pct,
      fld ''pump_speed_relay_7'' 94 Uint8 F1 u_pct,
      fld ''pump_speed_relay_8'' 95 Uint8 F1 u_pct,
      fld ''pump_speed_relay_9'' 96 Uint8 F1 u_pct,
      fld ''pump_speed_relay_10'' 97 Uint8 F1 u_pct,
      fld ''pump_speed_relay_11'' 98 Uint8 F1 u_pct,
      fld ''pump_speed_relay_12'' 99 Uint8 F1 u_pct,
      fld ''pump_speed_relay_13'' 100 Uint8 F1 u_pct,
      fld ''pump_speed_relay_14'' 101 Uint8 F1 u_pct,
      fld ''drehzahl_relais_15'' 102 Uint8 F1 u_pct,
      fld ''output_a'' 104 Uint8 F1 u_pct,
      fld ''output_b'' 105 Uint8 F1 u_pct,
      fld ''output_c'' 106 Uint8 F1 u_pct,
      fld ''output_d'' 107 Uint8 F1 u_pct,
      fld ''system_date'' 108 Uint32 F1 '''',
      fld ''error_mask'' 112 Uint32 F1 ''''])]"

definition generatedRegistry_20 :: "(uint64 \<times> PacketDef) list" where
  "generatedRegistry_20 = [
    (pkey 0x4111 0x0010 0x0100, pd ''0x4111'' [
      fld ''temperature_sensor_1'' 0 Int16 F0_1 u_degC,
      fld ''temperature_sensor_2'' 2 Int16 F0_1 u_degC,
      fld ''temperature_sensor_3'' 4 Int16 F0_1 u_degC,
      fld ''temperature_sensor_4'' 6 Int16 F0_1 u_degC,
      fld ''pump_speed_relay_1'' 8 Uint8 F1 u_pct,
      fld ''status_display'' 10 Uint16 F1 '''',
      fld ''operating_hours_relay_1'' 12 Uint16 F1 u_h,
      fld ''heat_quantity'' 16 Uint32 F1 u_Wh]),
    (pkey 0x4211 0x0010 0x0100, pd ''0x4211'' [
      fld ''temperature_s1'' 0 Int16 F0_1 u_degC,
      fld ''temperature_s2'' 2 Int16 F0_1 u_degC,
      fld ''temperature_s3'' 4 Int16 F0_1 u_degC,
      fld ''temperature_s4'' 6 Int16 F0_1 u_degC,
      fld ''pump_speed_relay_1'' 8 Uint8 F1 u_pct,
      fld ''pump_speed_relay_2'' 9 Uint8 F1 u_pct,
      fld ''error_mask'' 10 Uint8 F1 '''',
      fld ''operating_hours_relay_1'' 12 Uint16 F1 u_h,
      fld ''operating_hours_relay_2'' 14 Uint16 F1 u_h]),
    (pkey 0x4212 0x0010 0x0100, pd ''0x4212'' [
      fld ''temperature_s1'' 0 Int16 F0_1 u_degC,
      fld ''temperature_s2'' 2 Int16 F0_1 u_degC,
      fld ''temperature_s3'' 4 Int16 F0_1 u_degC,
      fld ''temperature_s4'' 6 Int16 F0_1 u_degC,
      fld ''pump_speed_r1'' 8 Uint8 F1 u_pct,
      fld ''pump_speed_r2'' 9 Uint8 F1 u_pct,
      fld ''error_mask'' 10 Uint8 F1 '''',
      fld ''variant'' 11 Uint8 F1 '''',
      fld ''operating_hours_r1'' 12 Uint16 F1 u_h,
      fld ''operating_hours_r2'' 14 Uint16 F1 u_h,
      fld ''system_time'' 22 Int16 F1 '''']),
    (pkey 0x4213 0x0010 0x0100, pd ''0x4213'' [
      fld ''temperature_s1'' 0 Int16 F0_1 u_degC,
      fld ''temperature_s2'' 2 Int16 F0_1 u_degC,
      fld ''temperature_s3'' 4 Int16 F0_1 u_degC,
      fld ''temperature_s4'' 6 Int16 F0_1 u_degC,
      fld ''temperature_vfd1'' 24 Int16 F0_1 u_degC,
      fld ''flow_rate_vfd1'' 26 Int16 F1 u_l_h,
      fld ''pump_speed_relay_1'' 8 Uint8 F1 u_pct,
      fld ''pump_speed_relay_2'' 9 Uint8 F1 u_pct,
      fld ''voltage_10_v'' 32 Uint8 F0_1 u_V,
      fld ''error_mask'' 10 Uint8 F1 '''',
      fld ''operating_hours_relay_1'' 12 Uint16 F1 u_h,
      fld ''operating_hours_relay_2'' 14 Uint16 F1 u_h]),
    (pkey 0x4214 0x0010 0x0100, pd ''0x4214'' [
      fld ''temperature_s1'' 0 Int16 F0_1 u_degC,
      fld ''temperature_s2'' 2 Int16 F0_1 u_degC,
      fld ''temperature_s3'' 4 Int16 F0_1 u_degC,
      fld ''temperature_s4'' 6 Int16 F0_1 u_degC,
      fld ''temperature_vfd1'' 24 Int16 F0_1 u_degC,
      fld ''flow_rate_vfd1'' 26 Int16 F1 u_l_h,
      fld ''pump_speed_relay_1'' 8 Uint8 F1 u_pct,
      fld ''pump_speed_relay_2'' 9 Uint8 F1 u_pct,
      fld ''voltage_10_v'' 32 Uint8 F0_1 u_V,
      fld ''error_mask'' 10 Uint8 F1 '''',
      fld ''operating_hours_relay_1'' 12 Uint16 F1 u_h,
      fld ''operating_hours_relay_2'' 14 Uint16 F1 u_h]),
    (pkey 0x4221 0x0010 0x0100, pd ''0x4221'' [
      fld ''temperature_sensor_1'' 0 Int16 F0_1 u_degC,
      fld ''temperature_sensor_2'' 2 Int16 F0_1 u_degC,
      fld ''temperature_sensor_3'' 4 Int16 F0_1 u_degC,
      fld ''temperature_sensor_4'' 6 Int16 F0_1 u_degC,
      fld ''pump_speed_pump_1'' 8 Int16 F1 u_pct,
      fld ''pump_speed_pump_2'' 9 Int16 F1 u_pct,
      fld ''relay_mask'' 10 Uint8 F1 '''',
      fld ''error_mask'' 11 Uint8 F1 '''',
      fld ''system_time'' 12 Uint16 F1 '''',
      fld ''scheme'' 14 Uint8 F1 '''',
      fld ''operating_hours_relay_1'' 16 Uint16 F1 '''',
      fld ''operating_hours_relay_2'' 18 Uint16 F1 '''',
      fld ''version'' 26 Uint16 F0_01 '''']),
    (pkey 0x4223 0x0010 0x0100, pd ''0x4223'' [
      fld ''temperature_sensor_1'' 0 Int16 F0_1 u_degF,
      fld ''temperature_sensor_2'' 2 Int16 F0_1 u_degF,
      fld ''temperature_sensor_3'' 4 Int16 F0_1 u_degF,
      fld ''temperature_sensor_4'' 6 Int16 F0_1 u_degF,
      fld ''pump_speed_pump_1'' 8 Int16 F1 u_pct,
      fld ''pump_speed_pump_2'' 9 Int16 F1 u_pct,
      fld ''relay_mask'' 10 Uint8 F1 '''',
      fld ''error_mask'' 11 Uint8 F1 '''',
      fld ''system_time'' 12 Uint16 F1 '''',
      fld ''scheme'' 14 Uint8 F1 '''',
      fld ''operating_hours_relay_1'' 16 Uint16 F1 '''',
      fld ''operating_hours_relay_2'' 18 Uint16 F1 '''',
      fld ''version'' 26 Uint16 F0_01 '''']),
    (pkey 0x4224 0x0010 0x0100, pd ''0x4224'' [
      fld ''temperature_sensor_1'' 0 Int16 F0_1 u_degC,
      fld ''temperature_sensor_2'' 2 Int16 F0_1 u_degC,
      fld ''temperature_sensor_3'' 4 Int16 F0_1 u_degC,
      fld ''temperature_sensor_4'' 6 Int16 F0_1 u_degC,
      fld ''pump_speed_pump_1'' 8 Int16 F1 u_pct,
      fld ''pump_speed_pump_2'' 9 Int16 F1 u_pct,
      fld ''relay_mask'' 10 Uint8 F1 '''',
      fld ''error_mask'' 11 Uint8 F1 '''',
      fld ''system_time'' 12 Uint16 F1 '''',
      fld ''scheme'' 14 Uint8 F1 '''',
      fld ''operating_hours_relay_1'' 16 Uint16 F1 '''',
      fld ''operating_hours_relay_2'' 18 Uint16 F1 '''',
      fld ''version'' 26 Uint16 F0_01 ''''])]"

definition generatedRegistry_part2 :: "(uint64 \<times> PacketDef) list" where
  "generatedRegistry_part2 =
     generatedRegistry_11 @
     generatedRegistry_12 @
     generatedRegistry_13 @
     generatedRegistry_14 @
     generatedRegistry_15 @
     generatedRegistry_16 @
     generatedRegistry_17 @
     generatedRegistry_18 @
     generatedRegistry_19 @
     generatedRegistry_20"

lemmas part2_defs = generatedRegistry_part2_def
  generatedRegistry_11_def
  generatedRegistry_12_def
  generatedRegistry_13_def
  generatedRegistry_14_def
  generatedRegistry_15_def
  generatedRegistry_16_def
  generatedRegistry_17_def
  generatedRegistry_18_def
  generatedRegistry_19_def
  generatedRegistry_20_def

lemma part2_entries: "list_all generated_entry generatedRegistry_part2"
  by (simp add: part2_defs table_check)

lemma part2_sources:
  "map entry_source generatedRegistry_part2 = [
    0x1961, 0x1962, 0x1963, 0x1964, 0x1965, 0x1A30, 0x1A31, 0x1A32, 0x1A33, 0x1A34,
    0x1A35, 0x1A41, 0x1A42, 0x1A43, 0x1A44, 0x1A45, 0x1A60, 0x1A61, 0x1A62, 0x1A63,
    0x1A64, 0x1A65, 0x1A71, 0x1A72, 0x1A73, 0x1A74, 0x1A75, 0x1D01, 0x1F11, 0x1F61,
    0x2170, 0x2211, 0x2213, 0x2231, 0x2232, 0x2241, 0x2251, 0x2252, 0x2261, 0x2262,
    0x2271, 0x2272, 0x2360, 0x2362, 0x2370, 0x2371, 0x2372, 0x2373, 0x2374, 0x2375,
    0x3011, 0x3112, 0x3113, 0x3114, 0x3211, 0x3221, 0x3231, 0x3241, 0x3251, 0x3271,
    0x3311, 0x3561, 0x3611, 0x4111, 0x4211, 0x4212, 0x4213, 0x4214, 0x4221, 0x4223,
    0x4224]"
  by (simp add: part2_defs)

end
