(* ===== verification/RegistryGen3.thy ===== *)
theory RegistryGen3
  imports RegistryLiteral
begin

text \<open>
  internal/vbus/registry_gen.go, part 3 of 4: the entries of \<open>generatedRegistry\<close> in file order.
\<close>

definition generatedRegistry_21 :: "(uint64 \<times> PacketDef) list" where
  "generatedRegistry_21 = [
    (pkey 0x4231 0x0010 0x0100, pd ''0x4231'' [
      fld ''dhw_temperature'' 0 Int16 F0_1 u_degC,
      fld ''cold_water_temperature'' 2 Int16 F0_1 u_degC,
      fld ''circulation_temperature'' 4 Int16 F0_1 u_degC,
      fld ''flow_rate'' 6 Int16 F0_1 u_l_min,
      fld ''pump_speed_relay_1'' 8 Uint8 F1 u_pct,
      fld ''pump_speed_relay_2'' 9 Uint8 F1 u_pct,
      fld ''system_time'' 10 Int16 F1 '''',
      fld ''options'' 12 Uint8 F1 '''',
      fld ''status'' 13 Uint8 F1 '''',
      fld ''relay_status'' 14 Uint8 F1 '''',
      fld ''sensor_defective'' 15 Uint8 F1 '''',
      fld ''dhw_set_temperature'' 16 Uint8 F1 u_degC,
      fld ''source_temperature'' 17 Uint8 F1 u_degC,
      fld ''remaining_draw_off'' 19 Uint8 F1 u_min,
      fld ''operating_cycles'' 20 Uint32 F1 '''',
      fld ''max_cold_water_temperature'' 32 Int16 F0_1 u_degC,
      fld ''min_cold_water_temperature'' 34 Int16 F0_1 u_degC,
      fld ''max_flow_rate'' 36 Int16 F1 u_l_h,
      fld ''draw_off_quantity'' 38 Uint16 F0_1 u_m3]),
    (pkey 0x4241 0x0010 0x0100, pd ''0x4241'' [
      fld ''dhw_temperature_display'' 0 Int16 F0_1 u_degC,
      fld ''cold_water_temperature'' 2 Int16 F0_1 u_degC,
      fld ''buffer_temperature'' 4 Int16 F0_1 u_degC,
      fld ''flow_rate'' 6 Uint16 F0_01 u_l_h,
      fld ''speed_1'' 8 Uint8 F1 u_pct,
      fld ''speed_2'' 9 Uint8 F1 u_pct,
      fld ''system_time'' 10 Uint16 F1 '''',
      fld ''dhw_set_temperature'' 16 Uint8 F1 u_degC,
      fld ''mixing_valve_temperature'' 17 Uint8 F1 u_degC,
      fld ''dt_buffer'' 18 Uint8 F0_1 u_K,
      fld ''remaining_circulation_time'' 19 Uint8 F1 u_min,
      fld ''number_of_operating_cycles'' 20 Uint32 F1 '''',
      fld ''software_version_major'' 30 Uint8 F1 '''',
      fld ''software_version_minor'' 31 Uint8 F1 '''',
      fld ''max_cold_water_temperature'' 32 Int16 F0_1 u_degC,
      fld ''min_cold_water_temperature'' 34 Int16 F0_1 u_degC,
      fld ''flow_rate_max'' 36 Uint16 F1 u_l_h,
      fld ''maximum_draw_off_quantity'' 38 Uint16 F1 u_m3,
      fld ''dhw_temperature_control'' 40 Int16 F0_1 u_degC,
      fld ''source_temperature_control'' 42 Int16 F0_1 u_degC,
      fld ''internal_value'' 44 Uint8 F1 '''',
      fld ''internal_value'' 45 Uint8 F1 '''',
      fld ''internal_value'' 46 Uint8 F1 '''',
      fld ''internal_value'' 47 Uint8 F1 '''',
      fld ''internal_value'' 48 Uint16 F1 '''',
      fld ''internal_value'' 50 Uint16 F1 '''']),
    (pkey 0x4251 0x0010 0x0100, pd ''0x4251'' [
      fld ''temperature_absorber_s1'' 0 Int16 F0_1 u_degC,
      fld ''temperature_behind_heat_pump_s2'' 2 Int16 F0_1 u_degC,
      fld ''temperature_behind_underground_tank_s3'' 4 Int16 F0_1 u_degC,
      fld ''estim_temperature_underground_tank'' 6 Int16 F0_1 u_degC,
      fld ''temperature_behind_pump_1_s4'' 8 Int16 F0_1 u_degC,
      fld ''system_time'' 10 Uint16 F1 '''',
      fld ''switch_on_temperature_difference'' 12 Int16 F0_1 u_K,
      fld ''switch_off_temperature_difference'' 14 Int16 F0_1 u_K,
      fld ''dt_heat_pump_active'' 16 Int16 F0_1 u_K,
      fld ''dt_heat_pump_inactive'' 18 Int16 F0_1 u_K,
      fld ''underground_tank_maximum_temperature'' 20 Int16 F0_1 u_degC,
      fld ''version'' 24 Uint16 F0_01 '''']),
    (pkey 0x4252 0x0010 0x0100, pd ''0x4252'' [
      fld ''temperature_sensor_1'' 0 Int16 F0_1 u_degC,
      fld ''temperature_sensor_2'' 2 Int16 F0_1 u_degC,
      fld ''temperature_sensor_3'' 4 Int16 F0_1 u_degC,
      fld ''temperature_sensor_4'' 6 Int16 F0_1 u_degC,
      fld ''unit'' 8 Uint8 F1 '''',
      fld ''pump_speed_relay_1'' 10 Uint8 F1 u_pct,
      fld ''pump_speed_relay_2'' 11 Uint8 F1 u_pct,
      fld ''operating_seconds_relay_1'' 12 Uint32 F1 u_s,
      fld ''operating_seconds_relay_2'' 16 Uint32 F1 u_s,
      fld ''heat_quantity'' 24 Uint32 F1 u_Wh,
      fld ''time'' 28 Int16 F1 '''',
      fld ''version'' 30 Uint16 F0_01 '''']),
    (pkey 0x4261 0x0010 0x0100, pd ''0x4261'' [
      fld ''t_lt_out'' 0 Int16 F0_1 u_degC,
      fld ''t_lt_in'' 12 Int16 F0_1 u_degC,
      fld ''t_mt_out'' 2 Int16 F0_1 u_degC,
      fld ''t_a1_out'' 4 Int16 F0_1 u_degC,
      fld ''t_a2_out'' 6 Int16 F0_1 u_degC,
      fld ''t_ht_ext'' 8 Int16 F0_1 u_degC,
      fld ''t_lt_ext'' 10 Int16 F0_1 u_degC,
      fld ''rcs'' 15 Int16 F1 u_pct,
      fld ''pump_relay'' 16 Int16 F1 u_pct,
      fld ''spr_relay'' 17 Int16 F1 u_pct,
      fld ''phase'' 18 Uint8 F1 '''',
      fld ''system_code'' 19 Uint8 F1 '''',
      fld ''w_set'' 22 Uint16 F1 u_Hz,
      fld ''t_lts_out_avg'' 24 Int16 F0_1 u_degC,
      fld ''t_lt_out_cycle'' 52 Int16 F0_1 u_degC,
      fld ''t_lt_in_avg'' 48 Int16 F0_1 u_degC,
      fld ''t_lt_in_cycle'' 50 Int16 F0_1 u_degC,
      fld ''t_mt_out_avg'' 26 Int16 F0_1 u_degC,
      fld ''t_mt_out_cycle'' 54 Int16 F0_1 u_degC,
      fld ''dq_lt_cycle'' 56 Int16 F0_1 u_kW,
      fld ''dv_lt'' 58 Int16 F1 u_l_h,
      fld ''current_set_value'' 52 Int16 F0_1 u_degC,
      fld ''external_set_temperature'' 30 Int16 F0_1 u_degC,
      fld ''number_of_cycles'' 32 Uint32 F1 '''',
      fld ''summed_up_spraying_time'' 36 Uint32 F1 '''',
      fld ''system_time'' 40 Int16 F1 '''',
      fld ''year'' 42 Int16 F1 '''',
      fld ''month'' 44 Int16 F1 '''',
      fld ''day'' 45 Int16 F1 '''']),
    (pkey 0x4265 0x0010 0x0100, pd ''0x4265'' [
      fld ''temperature_sensor_1'' 0 Int16 F0_1 u_degC,
      fld ''temperature_sensor_2'' 2 Int16 F0_1 u_degC,
      fld ''temperature_sensor_3'' 4 Int16 F0_1 u_degC,
      fld ''temperature_sensor_4'' 6 Int16 F0_1 u_degC,
      fld ''pump_speed_relay_1'' 8 Uint8 F1 u_pct,
      fld ''pump_speed_relay_2'' 9 Uint8 F1 u_pct,
      fld ''operating_hours_relay_1'' 12 Uint16 F1 u_h,
      fld ''operating_hours_relay_2'' 14 Uint16 F1 u_h,
      fld ''version'' 24 Uint16 F0_01 ''''])]"

definition generatedRegistry_22 :: "(uint64 \<times> PacketDef) list" where
  "generatedRegistry_22 = [
    (pkey 0x4278 0x0010 0x0100, pd ''0x4278'' [
      fld ''temperature_sensor_1'' 0 Int16 F0_1 u_degC,
      fld ''temperature_sensor_2'' 2 Int16 F0_1 u_degC,
      fld ''temperature_sensor_3'' 4 Int16 F0_1 u_degC,
      fld ''temperature_sensor_4'' 6 Int16 F0_1 u_degC,
      fld ''pump_speed_relay_1'' 8 Uint8 F1 u_pct,
      fld ''pump_speed_relay_2'' 9 Uint8 F1 u_pct,
      fld ''operating_hours_relay_1'' 12 Uint16 F1 u_h,
      fld ''operating_hours_relay_2'' 14 Uint16 F1 u_h,
      fld ''status'' 22 Int16 F1 '''',
      fld ''programme'' 23 Uint8 F1 '''',
      fld ''version'' 24 Uint16 F0_01 '''']),
    (pkey 0x4279 0x0010 0x0100, pd ''0x4279'' [
      fld ''temperature_sensor_1'' 0 Int16 F0_1 u_degF,
      fld ''temperature_sensor_2'' 2 Int16 F0_1 u_degF,
      fld ''temperature_sensor_3'' 4 Int16 F0_1 u_degF,
      fld ''temperature_sensor_4'' 6 Int16 F0_1 u_degF,
      fld ''pump_speed_relay_1'' 8 Uint8 F1 u_pct,
      fld ''pump_speed_relay_2'' 9 Uint8 F1 u_pct,
      fld ''operating_hours_relay_1'' 12 Uint16 F1 u_h,
      fld ''operating_hours_relay_2'' 14 Uint16 F1 u_h,
      fld ''status'' 22 Int16 F1 '''',
      fld ''programme'' 23 Uint8 F1 '''',
      fld ''version'' 24 Uint16 F0_01 '''']),
    (pkey 0x427B 0x0010 0x0100, pd ''0x427B'' [
      fld ''temperature_sensor_1'' 0 Int16 F0_1 u_degC,
      fld ''temperature_sensor_2'' 2 Int16 F0_1 u_degC,
      fld ''temperature_sensor_3'' 4 Int16 F0_1 u_degC,
      fld ''temperature_sensor_4'' 6 Int16 F0_1 u_degC,
      fld ''pump_speed_relay_1'' 8 Uint8 F1 u_pct,
      fld ''pump_speed_relay_2'' 12 Uint8 F1 u_pct,
      fld ''operating_hours_relay_1'' 10 Uint16 F1 u_h,
      fld ''operating_hours_relay_2'' 14 Uint16 F1 u_h,
      fld ''unittype'' 16 Uint8 F1 '''',
      fld ''system'' 17 Uint8 F1 '''',
      fld ''errormask'' 20 Uint16 F1 '''',
      fld ''system_time'' 22 Int16 F1 '''',
      fld ''status_mask'' 24 Uint32 F1 '''',
      fld ''heat_quantity'' 28 Uint32 F1 u_Wh,
      fld ''sw_version'' 32 Uint16 F0_01 '''',
      fld ''variant'' 34 Uint16 F1 '''']),
    (pkey 0x4311 0x0010 0x0100, pd ''0x4311'' [
      fld ''tc'' 0 Int16 F0_1 u_degC,
      fld ''cd'' 2 Int16 F0_1 u_degC,
      fld ''cu'' 4 Int16 F0_1 u_degC,
      fld ''p1'' 6 Uint8 F1 u_pct,
      fld ''p1s'' 13 Uint8 F1 '''',
      fld ''p2'' 7 Uint8 F1 u_pct,
      fld ''ls'' 10 Int16 F0_1 '''',
      fld ''ph'' 12 Uint8 F1 '''',
      fld ''kwh'' 16 Uint32 F0_1 u_kWh]),
    (pkey 0x4321 0x0010 0x0100, pd ''0x4321'' [
      fld ''temperature_sensor_1'' 0 Int16 F0_1 u_degC,
      fld ''temperature_sensor_2'' 2 Int16 F0_1 u_degC,
      fld ''temperature_sensor_3'' 4 Int16 F0_1 u_degC,
      fld ''temperature_sensor_4'' 6 Int16 F0_1 u_degC,
      fld ''pump_speed_relay_1'' 8 Uint8 F1 u_pct,
      fld ''pump_speed_relay_2'' 9 Uint8 F1 u_pct,
      fld ''system_time'' 10 Uint16 F1 '''',
      fld ''status_info_1'' 12 Uint8 F1 '''',
      fld ''status_info_2'' 13 Uint8 F1 '''',
      fld ''remaining_status_runtime'' 14 Uint16 F1 '''',
      fld ''heat_quantity'' 24 Uint32 F1 u_Wh]),
    (pkey 0x4720 0x0010 0x0100, pd ''0x4720'' [
      fld ''temperature_sensor_1'' 4 Int16 F0_1 u_degC,
      fld ''temperature_sensor_2'' 6 Int16 F0_1 u_degC,
      fld ''temperature_sensor_3'' 8 Int16 F0_1 u_degC,
      fld ''pump_speed_relay_1'' 16 Int16 F1 u_pct,
      fld ''heat_quantity'' 20 Uint32 F1 u_Wh,
      fld ''sw_version'' 24 Int16 F0_01 '''',
      fld ''operating_hours_relay_1'' 28 Uint32 F1 u_h,
      fld ''error_mask'' 68 Uint32 F1 '''']),
    (pkey 0x4721 0x0010 0x0100, pd ''0x4721'' [
      fld ''value'' 0 Uint32 F1 u_Wh,
      fld ''power'' 4 Uint32 F1 u_W,
      fld ''value_today'' 8 Uint32 F1 u_Wh,
      fld ''value_week'' 12 Uint32 F1 u_Wh]),
    (pkey 0x4730 0x0010 0x0100, pd ''0x4730'' [
      fld ''temperature_sensor_1'' 4 Int16 F0_1 u_degC,
      fld ''temperature_sensor_2'' 6 Int16 F0_1 u_degC,
      fld ''temperature_sensor_3'' 8 Int16 F0_1 u_degC,
      fld ''pump_speed_relay_1'' 16 Int16 F1 u_pct,
      fld ''pump_speed_relay_2'' 17 Int16 F1 u_pct,
      fld ''heat_quantity'' 20 Uint32 F1 u_Wh,
      fld ''sw_version'' 24 Int16 F0_01 '''',
      fld ''operating_hours_relay_1'' 28 Uint32 F1 u_h,
      fld ''operating_hours_relay_2'' 32 Uint32 F1 u_h,
      fld ''error_mask'' 72 Uint32 F1 '''']),
    (pkey 0x4731 0x0010 0x0100, pd ''0x4731'' [
      fld ''value'' 0 Uint32 F1 u_Wh,
      fld ''power'' 4 Uint32 F1 u_W,
      fld ''value_today'' 8 Uint32 F1 u_Wh,
      fld ''value_week'' 12 Uint32 F1 u_Wh])]"

definition generatedRegistry_23 :: "(uint64 \<times> PacketDef) list" where
  "generatedRegistry_23 = [
    (pkey 0x4A00 0x0010 0x0100, pd ''0x4A00'' [
      fld ''tc'' 0 Int16 F0_1 u_degC,
      fld ''cd'' 2 Int16 F0_1 u_degC,
      fld ''cu'' 4 Int16 F0_1 u_degC,
      fld ''p1'' 6 Uint8 F1 u_pct,
      fld ''p1s'' 13 Uint8 F1 '''',
      fld ''p2'' 7 Uint8 F1 u_pct,
      fld ''ls'' 10 Int16 F0_1 '''',
      fld ''ph'' 12 Uint8 F1 '''',
      fld ''kwh'' 16 Uint32 F0_1 u_kWh]),
    (pkey 0x5111 0x0010 0x0100, pd ''0x5111'' [
      fld ''temperature_sensor_1'' 0 Int16 F0_1 u_degC,
      fld ''temperature_sensor_2'' 2 Int16 F0_1 u_degC,
      fld ''temperature_sensor_3'' 4 Int16 F0_1 u_degC,
      fld ''temperature_sensor_4'' 6 Int16 F0_1 u_degC,
      fld ''temperature_sensor_5'' 8 Int16 F0_1 u_degC,
      fld ''system_pressure'' 10 Int16 F0_1 u_bar,
      fld ''flow_rate'' 12 Int16 F1 u_l_h,
      fld ''pump_speed_relay_1'' 14 Uint8 F1 u_pct,
      fld ''system_message'' 15 Uint8 F1 '''',
      fld ''heat_quantity'' 20 Uint32 F1 u_Wh,
      fld ''date'' 24 Uint32 F1 '''',
      fld ''time'' 28 Int16 F1 '''']),
    (pkey 0x5112 0x0010 0x0100, pd ''0x5112'' [
      fld ''temperature_sensor_1'' 0 Int16 F0_1 u_degC,
      fld ''temperature_sensor_2'' 2 Int16 F0_1 u_degC,
      fld ''temperature_sensor_3'' 4 Int16 F0_1 u_degC,
      fld ''temperature_sensor_4'' 6 Int16 F0_1 u_degC,
      fld ''flow_rate'' 8 Int16 F1 u_l_h,
      fld ''pump_speed_relay_1'' 10 Uint8 F1 u_pct,
      fld ''system_message'' 11 Uint8 F1 '''',
      fld ''power'' 12 Uint32 F0_001 u_kW,
      fld ''heat_quantity'' 16 Uint32 F1 u_Wh,
      fld ''date'' 20 Uint32 F1 '''',
      fld ''time'' 24 Int16 F1 '''']),
    (pkey 0x5121 0x0010 0x0100, pd ''0x5121'' [
      fld ''cold_water_temperature'' 0 Int16 F0_1 u_degC,
      fld ''temperature_sensor_2'' 2 Int16 F0_1 u_degC,
      fld ''temperature_sensor_3'' 4 Int16 F0_1 u_degC,
      fld ''set_value'' 6 Int16 F0_01 u_degC,
      fld ''loading_temperature'' 8 Int16 F0_01 u_degC,
      fld ''loading_flow_rate'' 10 Int16 F0_01 u_l_min,
      fld ''hot_water_temperature'' 12 Int16 F0_01 u_degC,
      fld ''draw_off_flow_rate'' 14 Int16 F0_01 u_l_min,
      fld ''pwm1'' 16 Uint8 F1 u_pct,
      fld ''relay_1'' 17 Uint8 F1 u_pct,
      fld ''status'' 18 Uint8 F1 '''',
      fld ''draw_off'' 19 Uint8 F1 '''',
      fld ''error_mask'' 20 Uint32 F1 '''',
      fld ''warning_mask'' 24 Uint32 F1 '''',
      fld ''draw_off_quantity'' 36 Uint32 F0_1 '''',
      fld ''date'' 40 Uint32 F1 '''',
      fld ''system_time'' 44 Uint16 F1 '''',
      fld ''version'' 46 Uint16 F0_01 '''']),
    (pkey 0x5141 0x0010 0x0100, pd ''0x5141'' [
      fld ''temperature_sensor_1'' 0 Int16 F0_1 u_degC,
      fld ''temperature_sensor_2'' 2 Int16 F0_1 u_degC,
      fld ''temperature_sensor_3'' 4 Int16 F0_1 u_degC,
      fld ''pump_speed_relay_1'' 6 Uint8 F1 u_pct,
      fld ''pump_speed_relay_2'' 7 Uint8 F1 u_pct,
      fld ''system_message'' 8 Uint8 F1 '''',
      fld ''error_mask'' 10 Uint16 F1 '''',
      fld ''date'' 12 Uint32 F1 '''',
      fld ''time'' 16 Int16 F1 '''']),
    (pkey 0x5210 0x0010 0x0100, pd ''0x5210'' [
      fld ''temperature_sensor_1'' 0 Int16 F0_1 u_degC,
      fld ''temperature_sensor_2'' 2 Int16 F0_1 u_degC,
      fld ''temperature_sensor_3'' 4 Int16 F0_1 u_degC,
      fld ''temperature_sensor_4'' 6 Int16 F0_1 u_degC,
      fld ''temperature_sensor_5'' 8 Int16 F0_1 u_degC,
      fld ''pump_speed_relay_1'' 10 Uint8 F1 u_pct,
      fld ''pump_speed_relay_2'' 11 Uint8 F1 u_pct,
      fld ''flow_rate'' 12 Uint16 F1 u_l_h,
      fld ''antifreeze_ratio'' 14 Uint8 F1 u_pct,
      fld ''antifreeze_type'' 15 Uint8 F1 '''',
      fld ''hardware'' 22 Uint8 F1 '''',
      fld ''software'' 23 Uint8 F1 '''',
      fld ''error_mask'' 24 Uint8 F1 '''',
      fld ''error_info_1'' 25 Uint8 F1 '''',
      fld ''error_info_2'' 26 Uint8 F1 '''',
      fld ''relay_mask'' 27 Uint8 F1 '''',
      fld ''system_time'' 28 Uint16 F1 '''']),
    (pkey 0x5221 0x0010 0x0100, pd ''0x5221'' [
      fld ''temperature_sensor_1'' 0 Int16 F0_1 u_degC,
      fld ''temperature_sensor_2'' 2 Int16 F0_1 u_degC,
      fld ''temperature_sensor_3'' 4 Int16 F0_1 u_degC,
      fld ''pump_speed_relay_1'' 6 Uint8 F1 u_pct,
      fld ''error_mask'' 7 Uint8 F1 '''',
      fld ''relay_mask'' 10 Uint8 F1 '''',
      fld ''temperature_sensor_4'' 12 Int16 F0_1 u_degC,
      fld ''temperature_sensor_5'' 14 Int16 F0_1 u_degC,
      fld ''flow_rate'' 16 Int16 F0_1 u_l_min]),
    (pkey 0x5231 0x0010 0x0100, pd ''0x5231'' [
      fld ''temperature_sensor_1'' 0 Int16 F0_1 u_degC,
      fld ''temperature_sensor_2'' 2 Int16 F0_1 u_degC,
      fld ''temperature_sensor_3'' 4 Int16 F0_1 u_degC,
      fld ''temperature_sensor_4'' 6 Int16 F0_1 u_degC,
      fld ''flow_rate_sensor_5'' 8 Int16 F0_1 u_l_min,
      fld ''pump_speed_1'' 10 Uint16 F0_1 u_pct,
      fld ''pump_speed_2'' 12 Uint8 F1 u_pct,
      fld ''error_mask'' 13 Uint8 F1 '''',
      fld ''warning_mask'' 14 Uint8 F1 '''',
      fld ''status_mask'' 15 Uint8 F1 '''',
      fld ''heat_quantity'' 16 Uint32 F1 u_Wh,
      fld ''operating_seconds_relay_1'' 20 Uint32 F1 u_s,
      fld ''operating_seconds_relay_2'' 24 Uint32 F1 u_s,
      fld ''draw_off_quantity'' 28 Uint32 F0_001 u_m3,
      fld ''date'' 32 Uint32 F1 '''',
      fld ''system_time'' 36 Uint16 F1 '''',
      fld ''version'' 38 Uint16 F0_01 ''''])]"

definition generatedRegistry_24 :: "(uint64 \<times> PacketDef) list" where
  "generatedRegistry_24 = [
    (pkey 0x5251 0x0010 0x0100, pd ''0x5251'' [
      fld ''temperature_sensor_1'' 0 Int16 F0_1 u_degC,
      fld ''temperature_sensor_2'' 2 Int16 F0_1 u_degC,
      fld ''temperature_sensor_3'' 4 Int16 F0_1 u_degC,
      fld ''temperature_sensor_4'' 6 Int16 F0_1 u_degC,
      fld ''temperature_sensor_5'' 8 Int16 F0_1 u_degC,
      fld ''temperature_sensor_6'' 10 Int16 F0_1 u_degC,
      fld ''temperature_sensor_vfs_us'' 22 Int16 F0_1 u_degC,
      fld ''flow_rate_sensor_vfs_us'' 36 Uint32 F1 u_l_h,
      fld ''pump_speed_relay_1'' 49 Uint8 F1 u_pct,
      fld ''pump_speed_relay_2'' 50 Uint8 F1 u_pct,
      fld ''pump_speed_relay_3'' 51 Uint8 F1 u_pct,
      fld ''pump_speed_relay_potfrei'' 52 Uint8 F1 u_pct,
      fld ''pump_speed_output_pwm_1'' 56 Uint8 F1 u_pct,
      fld ''pump_speed_output_pwm_2'' 57 Uint8 F1 u_pct,
      fld ''operating_seconds_relay_1'' 64 Uint32 F1 u_s,
      fld ''operating_seconds_relay_2'' 68 Uint32 F1 u_s,
      fld ''operating_seconds_relay_3'' 72 Uint32 F1 u_s,
      fld ''operating_seconds_pot_free_relay'' 76 Uint32 F1 u_s,
      fld ''operating_seconds_output_pwm1'' 80 Uint32 F1 u_s,
      fld ''operating_seconds_output_pwm2'' 84 Uint32 F1 u_s,
      fld ''heat_quantity'' 96 Uint32 F1 u_Wh,
      fld ''error'' 100 Uint32 F1 '''',
      fld ''version'' 108 Uint16 F0_01 '''',
      fld ''system_date'' 112 Uint32 F1 '''']),
    (pkey 0x5311 0x0010 0x0100, pd ''0x5311'' [
      fld ''temperature_sensor_1'' 0 Int16 F0_1 u_degC,
      fld ''temperature_sensor_2'' 2 Int16 F0_1 u_degC,
      fld ''temperature_sensor_3'' 4 Int16 F0_1 u_degC,
      fld ''temperature_sensor_4'' 6 Int16 F0_1 u_degC,
      fld ''irradiation_sensor_5'' 8 Int16 F1 u_W_m2,
      fld ''pump_speed_r1'' 10 Uint8 F1 u_pct,
      fld ''pump_speed_r2'' 11 Uint8 F1 u_pct,
      fld ''pump_speed_r3'' 12 Uint8 F1 u_pct,
      fld ''relay_bit_mask'' 13 Uint8 F1 '''',
      fld ''system'' 21 Uint8 F1 '''',
      fld ''error_mask'' 24 Uint8 F1 '''',
      fld ''sensor_line_break_mask'' 25 Uint8 F1 '''',
      fld ''sensor_short_circuit_mask'' 26 Uint8 F1 '''',
      fld ''system_time'' 28 Int16 F1 '''']),
    (pkey 0x5351 0x0010 0x0100, pd ''0x5351'' [
      fld ''hydraulics'' 110 Uint8 F1 '''',
      fld ''flow_rate'' 132 Uint32 F1 u_l_h,
      fld ''tspvl_s1'' 0 Int16 F0_1 u_degC,
      fld ''thw'' 116 Int16 F0_1 u_degC,
      fld ''s3'' 4 Int16 F0_1 u_degC,
      fld ''tkw_s4'' 6 Int16 F0_1 u_degC,
      fld ''s5'' 8 Int16 F0_1 u_degC,
      fld ''s6'' 10 Int16 F0_1 u_degC,
      fld ''s7'' 12 Int16 F0_1 u_degC,
      fld ''s8'' 14 Int16 F0_1 u_degC,
      fld ''s9'' 16 Int16 F0_1 u_degC,
      fld ''pump_speed_prim_pump'' 56 Uint8 F1 u_pct,
      fld ''pump_speed_second_pump'' 118 Uint8 F1 u_pct,
      fld ''pump_speed_circulation_pump'' 119 Uint8 F1 u_pct,
      fld ''r2'' 50 Uint8 F1 u_pct,
      fld ''r3'' 51 Uint8 F1 u_pct,
      fld ''r4'' 52 Uint8 F1 u_pct,
      fld ''heat_quantity'' 96 Uint32 F1 u_Wh,
      fld ''version'' 108 Uint16 F0_01 '''',
      fld ''date_time'' 112 Uint32 F1 '''',
      fld ''flow_rate_us1'' 120 Uint32 F1 u_l_h,
      fld ''flow_rate_us2'' 124 Uint32 F1 u_l_h,
      fld ''flow_rate_us_in_total'' 128 Uint32 F1 u_l_h]),
    (pkey 0x5400 0x0010 0x0100, pd ''0x5400'' [
      fld ''temperature_sensor_1'' 0 Int16 F0_1 u_degC,
      fld ''temperature_sensor_2'' 2 Int16 F0_1 u_degC,
      fld ''temperature_sensor_3'' 4 Int16 F0_1 u_degC,
      fld ''temperature_sensor_4'' 6 Int16 F0_1 u_degC,
      fld ''temperature_sensor_5'' 8 Int16 F0_1 u_degC,
      fld ''temperature_sensor_6'' 10 Int16 F0_1 u_degC,
      fld ''temperature_sensor_7'' 12 Int16 F0_1 u_degC,
      fld ''temperature_sensor_8'' 14 Int16 F0_1 u_degC,
      fld ''temperature_sensor_9'' 16 Int16 F0_1 u_degC,
      fld ''irradiation_sensor'' 18 Int16 F1 u_W_m2,
      fld ''temperature_sensor_11'' 20 Int16 F0_1 u_degC,
      fld ''temperature_sensor_12'' 22 Int16 F0_1 u_degC,
      fld ''flow_rate_sensor_1'' 24 Uint32 F1 u_l_h,
      fld ''flow_rate_sensor_2'' 28 Uint32 F1 u_l_h,
      fld ''flow_rate_sensor_3'' 32 Uint32 F1 u_l_h,
      fld ''pressure_sensor_11'' 36 Int16 F0_01 u_bar,
      fld ''pressure_sensor_12'' 38 Int16 F0_01 u_bar,
      fld ''pump_speed_relay_1'' 40 Int16 F1 u_pct,
      fld ''pump_speed_relay_2'' 41 Int16 F1 u_pct,
      fld ''pump_speed_relay_3'' 42 Int16 F1 u_pct,
      fld ''pump_speed_relay_4'' 43 Int16 F1 u_pct,
      fld ''pump_speed_relay_5'' 44 Int16 F1 u_pct,
      fld ''controller_output_1'' 45 Int16 F1 u_pct,
      fld ''controller_output_2'' 46 Int16 F1 u_pct,
      fld ''system_date'' 48 Uint32 F1 '''',
      fld ''error_mask'' 52 Uint32 F1 '''',
      fld ''warning_mask'' 56 Uint32 F1 '''']),
    (pkey 0x5510 0x0010 0x0100, pd ''0x5510'' [
      fld ''temperature_sensor_1'' 0 Int16 F0_1 u_degC,
      fld ''temperature_sensor_2'' 2 Int16 F0_1 u_degC,
      fld ''temperature_sensor_3'' 4 Int16 F0_1 u_degC,
      fld ''temperature_sensor_4'' 6 Int16 F0_1 u_degC,
      fld ''operating_hours'' 8 Uint16 F1 u_h,
      fld ''pump_speed_relay_1'' 10 Uint8 F1 u_pct,
      fld ''control_status'' 11 Uint8 F1 '''',
      fld ''error_mask'' 12 Uint8 F1 '''']),
    (pkey 0x5611 0x0010 0x0100, pd ''0x5611'' [
      fld ''temperature_sensor_1'' 0 Int16 F0_1 u_degC,
      fld ''temperature_sensor_2'' 2 Int16 F0_1 u_degC,
      fld ''temperature_sensor_3'' 4 Int16 F0_1 u_degC,
      fld ''temperature_sensor_4'' 6 Int16 F0_1 u_degC,
      fld ''pump_speed_relay_1'' 8 Int16 F1 u_pct,
      fld ''pump_speed_relay_2'' 9 Int16 F1 u_pct,
      fld ''mixer_open'' 10 Int16 F1 u_pct,
      fld ''mixer_closed'' 11 Int16 F1 u_pct,
      fld ''system_message'' 18 Uint8 F1 '''',
      fld ''date'' 12 Uint32 F1 '''',
      fld ''time'' 16 Int16 F1 ''''])]"

definition generatedRegistry_25 :: "(uint64 \<times> PacketDef) list" where
  "generatedRegistry_25 = [
    (pkey 0x6610 0x0010 0x0100, pd ''0x6610'' [
      fld ''temperature_sensor_1'' 0 Int16 F0_1 u_degC,
      fld ''temperature_sensor_2'' 2 Int16 F0_1 u_degC,
      fld ''temperature_sensor_3'' 4 Int16 F0_1 u_degC,
      fld ''temperature_sensor_4'' 6 Int16 F0_1 u_degC,
      fld ''temperature_sensor_5'' 8 Int16 F0_1 u_degC,
      fld ''temperature_sensor_6'' 10 Int16 F0_1 u_degC,
      fld ''pump_speed_1'' 13 Uint8 F1 u_pct,
      fld ''pump_speed_2'' 30 Uint8 F1 u_pct,
      fld ''pump_speed_3'' 31 Uint8 F1 u_pct,
      fld ''error_number'' 15 Uint8 F1 '''',
      fld ''error_mask'' 16 Uint16 F1 '''',
      fld ''error_info_1'' 18 Uint8 F1 '''',
      fld ''error_info_2'' 19 Uint8 F1 '''',
      fld ''error_info_3'' 20 Uint8 F1 '''',
      fld ''error_info_4'' 21 Uint8 F1 '''',
      fld ''arrangement_options_1'' 22 Uint16 F1 '''',
      fld ''arrangement_options_2'' 32 Uint8 F1 '''',
      fld ''system'' 24 Uint8 F1 '''',
      fld ''version'' 25 Uint16 F1 '''',
      fld ''module_status'' 27 Uint8 F1 '''',
      fld ''system_time'' 28 Uint16 F1 '''',
      fld ''irradiation'' 33 Uint16 F1 u_W_m2,
      fld ''operating_hours_flag'' 35 Uint8 F1 '''']),
    (pkey 0x6620 0x0010 0x0100, pd ''0x6620'' [
      fld ''temperature_sensor_1'' 0 Int16 F0_1 u_degC,
      fld ''temperature_sensor_2'' 2 Int16 F0_1 u_degC,
      fld ''temperature_sensor_3'' 4 Int16 F0_1 u_degC,
      fld ''temperature_sensor_4'' 6 Int16 F0_1 u_degC,
      fld ''temperature_sensor_5'' 8 Int16 F0_1 u_degC,
      fld ''temperature_sensor_6'' 10 Int16 F0_1 u_degC,
      fld ''pump_speed_1'' 13 Uint8 F1 u_pct,
      fld ''pump_speed_2'' 30 Uint8 F1 u_pct,
      fld ''pump_speed_3'' 31 Uint8 F1 u_pct,
      fld ''error_number'' 15 Uint8 F1 '''',
      fld ''error_mask'' 16 Uint16 F1 '''',
      fld ''error_info_1'' 18 Uint8 F1 '''',
      fld ''error_info_2'' 19 Uint8 F1 '''',
      fld ''error_info_3'' 20 Uint8 F1 '''',
      fld ''error_info_4'' 21 Uint8 F1 '''',
      fld ''arrangement_options_1'' 22 Uint16 F1 '''',
      fld ''system'' 24 Uint8 F1 '''',
      fld ''version'' 25 Uint16 F1 '''',
      fld ''module_status'' 27 Uint8 F1 '''',
      fld ''system_time'' 28 Uint16 F1 '''']),
    (pkey 0x7101 0x0010 0x0100, pd ''0x7101'' [
      fld ''temperature_sensor_1'' 0 Int16 F0_1 u_degC,
      fld ''temperature_sensor_2'' 2 Int16 F0_1 u_degC,
      fld ''temperature_sensor_3'' 4 Int16 F0_1 u_degC,
      fld ''temperature_sensor_4'' 6 Int16 F0_1 u_degC,
      fld ''temperature_sensor_5'' 8 Int16 F0_1 u_degC,
      fld ''temperature_rps'' 10 Int16 F0_1 u_degC,
      fld ''pressure_rps'' 12 Int16 F0_1 u_bar,
      fld ''temperature_vfs'' 14 Int16 F0_1 u_degC,
      fld ''flow_rate_vfs'' 16 Int16 F1 u_l_h,
      fld ''pump_speed_relay_1'' 24 Uint8 F1 u_pct,
      fld ''pump_speed_relay_2'' 25 Uint8 F1 u_pct,
      fld ''pump_speed_relay_3'' 26 Uint8 F1 u_pct,
      fld ''pump_speed_relay_4'' 27 Uint8 F1 u_pct,
      fld ''pwm_1'' 22 Uint8 F1 u_pct,
      fld ''pwm_2'' 23 Uint8 F1 u_pct,
      fld ''flow_rate_vfs'' 16 Int16 F1 u_l_h,
      fld ''flow_rate_v40'' 18 Int16 F1 u_l_h,
      fld ''flow_rate_flowrotor'' 60 Int16 F1 u_l_h,
      fld ''heat_quantity'' 48 Uint32 F1 u_Wh,
      fld ''system_time'' 54 Uint16 F1 '''',
      fld ''date'' 56 Uint32 F1 '''',
      fld ''version'' 52 Uint16 F0_01 '''',
      fld ''operating_seconds_relay_1'' 28 Uint32 F1 u_s,
      fld ''operating_seconds_relay_2'' 32 Uint32 F1 u_s,
      fld ''operating_seconds_relay_3'' 36 Uint32 F1 u_s,
      fld ''operating_seconds_relay_4'' 40 Uint32 F1 u_s,
      fld ''status'' 46 Uint16 F1 '''',
      fld ''unit'' 20 Uint8 F1 '''',
      fld ''error'' 44 Uint16 F1 '''']),
    (pkey 0x7112 0x0010 0x0100, pd ''0x7112'' [
      fld ''temperature_sensor_1'' 0 Int16 F0_1 u_degC,
      fld ''temperature_sensor_2'' 2 Int16 F0_1 u_degC,
      fld ''temperature_sensor_3'' 4 Int16 F0_1 u_degC,
      fld ''temperature_sensor_4'' 6 Int16 F0_1 u_degC,
      fld ''temperature_sensor_5'' 8 Int16 F0_1 u_degC,
      fld ''temperature_sensor_6'' 10 Int16 F0_1 u_degC,
      fld ''temperature_sensor_7'' 12 Int16 F0_1 u_degC,
      fld ''temperature_sensor_8'' 14 Int16 F0_1 u_degC,
      fld ''temperature_sensor_9'' 16 Int16 F0_1 u_degC,
      fld ''irradiation_sensor_10'' 18 Int16 F1 u_W_m2,
      fld ''temperature_sensor_11'' 20 Int16 F0_1 u_degC,
      fld ''temperature_sensor_12'' 22 Int16 F0_1 u_degC,
      fld ''flow_rate_sensor_9'' 24 Uint32 F1 u_l_h,
      fld ''flow_rate_sensor_11'' 28 Uint32 F1 u_l_h,
      fld ''flow_rate_sensor_12'' 32 Uint32 F1 u_l_h,
      fld ''pressure_sensor_11'' 36 Int16 F0_01 u_bar,
      fld ''pressure_sensor_12'' 38 Int16 F0_01 u_bar,
      fld ''relay_1'' 40 Uint8 F1 u_pct,
      fld ''relay_2'' 41 Uint8 F1 u_pct,
      fld ''relay_3'' 42 Uint8 F1 u_pct,
      fld ''relay_4'' 43 Uint8 F1 u_pct,
      fld ''relay_5'' 44 Uint8 F1 u_pct,
      fld ''pwm_0_10v_a'' 64 Uint8 F1 u_pct,
      fld ''pwm_0_10v_b'' 65 Uint8 F1 u_pct,
      fld ''system_date'' 48 Uint32 F1 '''',
      fld ''error_mask'' 52 Uint32 F1 '''',
      fld ''warning_mask'' 68 Uint32 F1 '''']),
    (pkey 0x7113 0x0010 0x0100, pd ''0x7113'' [
      fld ''temperature_module_1_sensor_1'' 0 Int16 F0_1 u_degC,
      fld ''temperature_module_1_sensor_2'' 2 Int16 F0_1 u_degC,
      fld ''temperature_module_1_sensor_3'' 4 Int16 F0_1 u_degC,
      fld ''temperature_module_1_sensor_4'' 6 Int16 F0_1 u_degC,
      fld ''temperature_module_1_sensor_5'' 8 Int16 F0_1 u_degC,
      fld ''temperature_module_1_sensor_6'' 10 Int16 F0_1 u_degC,
      fld ''temperature_module_2_sensor_1'' 12 Int16 F0_1 u_degC,
      fld ''temperature_module_2_sensor_2'' 14 Int16 F0_1 u_degC,
      fld ''temperature_module_2_sensor_3'' 16 Int16 F0_1 u_degC,
      fld ''temperature_module_2_sensor_4'' 18 Int16 F0_1 u_degC,
      fld ''temperature_module_2_sensor_5'' 20 Int16 F0_1 u_degC,
      fld ''temperature_module_2_sensor_6'' 22 Int16 F0_1 u_degC])]"

definition generatedRegistry_26 :: "(uint64 \<times> PacketDef) list" where
  "generatedRegistry_26 = [
    (pkey 0x7140 0x0010 0x0100, pd ''0x7140'' [
      fld ''temperature_sensor_1'' 0 Int16 F0_1 u_degC,
      fld ''temperature_sensor_2'' 2 Int16 F0_1 u_degC,
      fld ''temperature_sensor_3'' 4 Int16 F0_1 u_degC,
      fld ''temperature_sensor_4'' 6 Int16 F0_1 u_degC,
      fld ''temperature_sensor_5'' 8 Int16 F0_1 u_degC,
      fld ''temperature_sensor_6'' 10 Int16 F0_1 u_degC,
      fld ''temperature_sensor_7'' 12 Int16 F0_1 u_degC,
      fld ''temperature_sensor_8'' 14 Int16 F0_1 u_degC,
      fld ''temperature_sensor_9'' 16 Int16 F0_1 u_degC,
      fld ''irradiation_sensor_10'' 18 Int16 F1 u_W_m2,
      fld ''flow_rate_sensor_10'' 20 Uint32 F1 u_l_h,
      fld ''pump_speed_relay_1'' 24 Uint8 F1 u_pct,
      fld ''pump_speed_relay_2'' 25 Uint8 F1 u_pct,
      fld ''pump_speed_relay_3'' 26 Uint8 F1 u_pct,
      fld ''system_date'' 28 Uint32 F1 '''',
      fld ''error_mask'' 32 Uint32 F1 '''']),
    (pkey 0x7160 0x0010 0x0100, pd ''0x7160'' [
      fld ''temperature_sensor_1'' 0 Int16 F0_1 u_degC,
      fld ''temperature_sensor_2'' 2 Int16 F0_1 u_degC,
      fld ''temperature_sensor_3'' 4 Int16 F0_1 u_degC,
      fld ''temperature_sensor_4'' 6 Int16 F0_1 u_degC,
      fld ''temperature_sensor_5'' 8 Int16 F0_1 u_degC,
      fld ''temperature_sensor_6'' 10 Int16 F0_1 u_degC,
      fld ''temperature_sensor_7'' 12 Int16 F0_1 u_degC,
      fld ''temperature_sensor_8'' 14 Int16 F0_1 u_degC,
      fld ''temperature_gfd1'' 36 Int16 F0_1 u_degC,
      fld ''temperature_gfd2'' 38 Int16 F0_1 u_degC,
      fld ''irradiation'' 16 Int16 F1 u_W_m2,
      fld ''flow_rate'' 18 Int16 F1 u_l_h,
      fld ''flow_rate_2'' 44 Uint32 F1 u_l_h,
      fld ''flow_rate_3'' 48 Uint32 F1 u_l_h,
      fld ''pump_speed_a1'' 20 Uint8 F1 u_pct,
      fld ''pump_speed_a2'' 21 Uint8 F1 u_pct,
      fld ''pump_speed_a3'' 22 Uint8 F1 u_pct,
      fld ''pump_speed_a'' 23 Uint8 F1 u_pct,
      fld ''power_2'' 52 Uint32 F0_001 u_kW,
      fld ''power_3'' 56 Uint32 F0_001 u_kW,
      fld ''error_mask'' 32 Uint8 F1 '''',
      fld ''sensor_line_break_number'' 33 Uint8 F1 '''',
      fld ''sensor_short_circuit_number'' 34 Uint8 F1 '''',
      fld ''system_time'' 42 Int16 F1 '''',
      fld ''system_time2'' 42 Int16 F1 '''']),
    (pkey 0x7161 0x0010 0x0100, pd ''0x7161'' [
      fld ''flow_set_temperature'' 0 Int16 F0_1 u_degC,
      fld ''mixer_runtime'' 2 Uint8 F1 u_s,
      fld ''mixer_break_time'' 3 Uint8 F1 u_s,
      fld ''hc_status'' 4 Uint16 F1 '''']),
    (pkey 0x7162 0x0010 0x0100, pd ''0x7162'' [
      fld ''flow_set_temperature'' 0 Int16 F0_1 u_degC,
      fld ''mixer_runtime'' 2 Uint8 F1 u_s,
      fld ''mixer_break_time'' 3 Uint8 F1 u_s,
      fld ''hc_status'' 4 Uint16 F1 '''']),
    (pkey 0x7163 0x0010 0x0100, pd ''0x7163'' [
      fld ''flow_set_temperature'' 0 Int16 F0_1 u_degC,
      fld ''mixer_runtime'' 2 Uint8 F1 u_s,
      fld ''mixer_break_time'' 3 Uint8 F1 u_s,
      fld ''hc_status'' 4 Uint16 F1 '''']),
    (pkey 0x7176 0x0010 0x0100, pd ''0x7176'' [
      fld ''temperature_sensor_1'' 0 Int16 F0_1 u_degC,
      fld ''temperature_sensor_2'' 2 Int16 F0_1 u_degC,
      fld ''temperature_sensor_3'' 4 Int16 F0_1 u_degC,
      fld ''temperature_sensor_4'' 6 Int16 F0_1 u_degC,
      fld ''temperature_sensor_5'' 8 Int16 F0_1 u_degC,
      fld ''temperature_sensor_6'' 10 Int16 F0_1 u_degC,
      fld ''temperature_sensor_7'' 12 Int16 F0_1 u_degC,
      fld ''temperature_sensor_8'' 14 Int16 F0_1 u_degC,
      fld ''temperature_sensor_9'' 16 Int16 F0_1 u_degC,
      fld ''temperature_sensor_10'' 18 Int16 F0_1 u_degC,
      fld ''irradiation_sensor_11'' 20 Int16 F1 u_W_m2,
      fld ''temperature_sensor_ga1'' 24 Int16 F0_1 u_degC,
      fld ''temperature_sensor_ga2'' 26 Int16 F0_1 u_degC,
      fld ''flow_rate_sensor_9'' 28 Uint32 F1 u_l_h,
      fld ''flow_rate_sensor_10'' 32 Uint32 F1 u_l_h,
      fld ''flow_rate_sensor_ga1'' 36 Uint32 F1 u_l_h,
      fld ''flow_rate_sensor_ga2'' 40 Uint32 F1 u_l_h,
      fld ''pressure_sensor_ga1'' 44 Int16 F0_01 u_bar,
      fld ''pressure_sensor_ga2'' 46 Int16 F0_01 u_bar,
      fld ''relay_1'' 48 Uint8 F1 u_pct,
      fld ''relay_2'' 49 Uint8 F1 u_pct,
      fld ''relay_3'' 50 Uint8 F1 u_pct,
      fld ''relay_4'' 51 Uint8 F1 u_pct,
      fld ''relay_5'' 52 Uint8 F1 u_pct,
      fld ''pwm_0_10v_a'' 72 Uint8 F1 u_pct,
      fld ''pwm_0_10v_b'' 73 Uint8 F1 u_pct,
      fld ''pwm_0_10v_c'' 74 Uint8 F1 u_pct,
      fld ''pwm_0_10v_d'' 75 Uint8 F1 u_pct,
      fld ''system_date'' 56 Uint32 F1 '''',
      fld ''error_mask'' 60 Uint32 F1 '''']),
    (pkey 0x7177 0x0010 0x0100, pd ''0x7177'' [
      fld ''temperature_module_1_sensor_1'' 0 Int16 F0_1 u_degC,
      fld ''temperature_module_1_sensor_2'' 2 Int16 F0_1 u_degC,
      fld ''temperature_module_1_sensor_3'' 4 Int16 F0_1 u_degC,
      fld ''temperature_module_1_sensor_4'' 6 Int16 F0_1 u_degC,
      fld ''temperature_module_1_sensor_5'' 8 Int16 F0_1 u_degC,
      fld ''temperature_module_1_sensor_6'' 10 Int16 F0_1 u_degC,
      fld ''temperature_module_2_sensor_1'' 12 Int16 F0_1 u_degC,
      fld ''temperature_module_2_sensor_2'' 14 Int16 F0_1 u_degC,
      fld ''temperature_module_2_sensor_3'' 16 Int16 F0_1 u_degC,
      fld ''temperature_module_2_sensor_4'' 18 Int16 F0_1 u_degC,
      fld ''temperature_module_2_sensor_5'' 20 Int16 F0_1 u_degC,
      fld ''temperature_module_2_sensor_6'' 22 Int16 F0_1 u_degC]),
    (pkey 0x7178 0x0010 0x0100, pd ''0x7178'' [
      fld ''flow_set_temperature'' 0 Int16 F0_1 u_degC,
      fld ''operating_state'' 2 Uint8 F1 ''''])]"

definition generatedRegistry_27 :: "(uint64 \<times> PacketDef) list" where
  "generatedRegistry_27 = [
    (pkey 0x7179 0x0010 0x0100, pd ''0x7179'' [
      fld ''flow_set_temperature'' 0 Int16 F0_1 u_degC,
      fld ''operating_state'' 2 Uint8 F1 '''']),
    (pkey 0x717A 0x0010 0x0100, pd ''0x717A'' [
      fld ''heat_quantity'' 0 Uint32 F1 u_Wh,
      fld ''heat_quantity_today'' 8 Uint32 F1 u_Wh,
      fld ''heat_quantity_week'' 12 Uint32 F1 u_Wh,
      fld ''volume_in_total'' 16 Uint32 F1 u_l]),
    (pkey 0x717B 0x0010 0x0100, pd ''0x717B'' [
      fld ''heat_quantity'' 0 Uint32 F1 u_Wh,
      fld ''heat_quantity_today'' 8 Uint32 F1 u_Wh,
      fld ''heat_quantity_week'' 12 Uint32 F1 u_Wh,
      fld ''volume_in_total'' 16 Uint32 F1 u_l]),
    (pkey 0x7210 0x0010 0x0100, pd ''0x7210'' [
      fld ''temperature_sensor_1'' 0 Int16 F0_1 u_degC,
      fld ''temperature_sensor_2'' 2 Int16 F0_1 u_degC,
      fld ''temperature_sensor_3'' 4 Int16 F0_1 u_degC,
      fld ''temperature_sensor_4'' 6 Int16 F0_1 u_degC,
      fld ''temperature_sensor_5'' 8 Int16 F0_1 u_degC,
      fld ''temperature_sensor_6'' 10 Int16 F0_1 u_degC,
      fld ''temperature_sensor_7'' 12 Int16 F0_1 u_degC,
      fld ''temperature_sensor_8'' 14 Int16 F0_1 u_degC,
      fld ''irradiation'' 16 Int16 F1 u_W_m2,
      fld ''flow_rate'' 18 Int16 F1 u_l_h,
      fld ''pump_speed_a1'' 20 Uint8 F1 u_pct,
      fld ''pump_speed_a2'' 21 Uint8 F1 u_pct,
      fld ''pump_speed_a3'' 22 Uint8 F1 u_pct,
      fld ''pump_speed_a'' 23 Uint8 F1 u_pct,
      fld ''error_mask'' 32 Uint8 F1 '''',
      fld ''sensor_line_break_number'' 33 Uint8 F1 '''',
      fld ''sensor_short_circuit_number'' 34 Uint8 F1 '''',
      fld ''system_time'' 42 Int16 F1 '''']),
    (pkey 0x7211 0x0010 0x0100, pd ''0x7211'' [
      fld ''flow_set_temperature'' 0 Int16 F0_1 u_degC,
      fld ''mixer_runtime'' 2 Uint8 F1 u_s,
      fld ''mixer_break_time'' 3 Uint8 F1 u_s,
      fld ''hc_status'' 4 Uint16 F1 '''']),
    (pkey 0x7212 0x0010 0x0100, pd ''0x7212'' [
      fld ''flow_set_temperature'' 0 Int16 F0_1 u_degC,
      fld ''mixer_runtime'' 2 Uint8 F1 u_s,
      fld ''mixer_break_time'' 3 Uint8 F1 u_s,
      fld ''hc_status'' 4 Uint16 F1 '''']),
    (pkey 0x7213 0x0010 0x0100, pd ''0x7213'' [
      fld ''flow_set_temperature'' 0 Int16 F0_1 u_degC,
      fld ''mixer_runtime'' 2 Uint8 F1 u_s,
      fld ''mixer_break_time'' 3 Uint8 F1 u_s,
      fld ''hc_status'' 4 Uint16 F1 '''']),
    (pkey 0x7221 0x0010 0x0100, pd ''0x7221'' [
      fld ''temperature_sensor_1'' 0 Int16 F0_1 u_degC,
      fld ''temperature_sensor_2'' 2 Int16 F0_1 u_degC,
      fld ''temperature_sensor_3'' 4 Int16 F0_1 u_degC,
      fld ''temperature_sensor_4'' 6 Int16 F0_1 u_degC,
      fld ''temperature_sensor_5'' 8 Int16 F0_1 u_degC,
      fld ''flow_rate'' 10 Int16 F1 u_l_h,
      fld ''system_pressure'' 12 Int16 F0_1 u_bar,
      fld ''control_1'' 14 Int16 F1 u_pct,
      fld ''control_2'' 15 Int16 F1 u_pct,
      fld ''pump_speed_relay_1'' 16 Uint8 F1 u_pct,
      fld ''pwm_1'' 17 Uint8 F1 u_pct,
      fld ''pump_speed_relay_2'' 18 Uint8 F1 u_pct,
      fld ''pwm_2'' 19 Uint8 F1 u_pct,
      fld ''heat_quantity'' 20 Uint32 F1 u_Wh,
      fld ''version'' 36 Uint8 F0_01 '''',
      fld ''time'' 38 Int16 F1 '''',
      fld ''date'' 40 Uint32 F1 '''']),
    (pkey 0x7231 0x0010 0x0100, pd ''0x7231'' [
      fld ''temperature_sensor_1'' 0 Int16 F0_1 u_degC,
      fld ''temperature_sensor_2'' 2 Int16 F0_1 u_degC,
      fld ''temperature_sensor_3'' 4 Int16 F0_1 u_degC,
      fld ''temperature_sensor_4'' 6 Int16 F0_1 u_degC,
      fld ''temperature_sensor_5'' 8 Int16 F0_1 u_degC,
      fld ''flow_rate'' 10 Int16 F1 u_l_h,
      fld ''system_pressure'' 12 Int16 F0_1 u_bar,
      fld ''temperature_sensor_8'' 14 Int16 F0_1 u_degC,
      fld ''control_1'' 16 Int16 F1 u_pct,
      fld ''control_2'' 17 Int16 F1 u_pct,
      fld ''pump_speed_relay_1'' 18 Uint8 F1 u_pct,
      fld ''pwm_1'' 19 Uint8 F1 u_pct,
      fld ''pump_speed_relay_2'' 20 Uint8 F1 u_pct,
      fld ''pwm_2'' 21 Uint8 F1 u_pct,
      fld ''heat_quantity'' 24 Uint32 F1 u_Wh,
      fld ''version'' 40 Uint16 F0_01 '''',
      fld ''time'' 42 Int16 F1 '''',
      fld ''date'' 44 Uint32 F1 ''''])]"

definition generatedRegistry_28 :: "(uint64 \<times> PacketDef) list" where
  "generatedRegistry_28 = [
    (pkey 0x7311 0x0010 0x0100, pd ''0x7311'' [
      fld ''temperature_sensor_1'' 0 Int16 F0_1 u_degC,
      fld ''temperature_sensor_2'' 2 Int16 F0_1 u_degC,
      fld ''temperature_sensor_3'' 4 Int16 F0_1 u_degC,
      fld ''temperature_sensor_4'' 6 Int16 F0_1 u_degC,
      fld ''temperature_sensor_5'' 8 Int16 F0_1 u_degC,
      fld ''temperature_sensor_6'' 10 Int16 F0_1 u_degC,
      fld ''temperature_sensor_7'' 12 Int16 F0_1 u_degC,
      fld ''temperature_sensor_8'' 14 Int16 F0_1 u_degC,
      fld ''temperature_sensor_9'' 16 Int16 F0_1 u_degC,
      fld ''temperature_sensor_10'' 18 Int16 F0_1 u_degC,
      fld ''temperature_sensor_11'' 20 Int16 F0_1 u_degC,
      fld ''temperature_sensor_12'' 22 Int16 F0_1 u_degC,
      fld ''irradiation'' 24 Int16 F1 u_W_m2,
      fld ''impulse_input_1'' 28 Uint32 F1 '''',
      fld ''impulse_input_2'' 32 Uint32 F1 '''',
      fld ''sensor_line_break_mask'' 36 Uint16 F1 '''',
      fld ''sensor_short_circuit_mask'' 38 Uint16 F1 '''',
      fld ''sensor_usage_mask'' 40 Uint16 F1 '''',
      fld ''pump_speed_relay_1'' 44 Uint8 F1 u_pct,
      fld ''pump_speed_relay_2'' 45 Uint8 F1 u_pct,
      fld ''pump_speed_relay_3'' 46 Uint8 F1 u_pct,
      fld ''pump_speed_relay_4'' 47 Uint8 F1 u_pct,
      fld ''pump_speed_relay_5'' 48 Uint8 F1 u_pct,
      fld ''pump_speed_relay_6'' 49 Uint8 F1 u_pct,
      fld ''pump_speed_relay_7'' 50 Uint8 F1 u_pct,
      fld ''pump_speed_relay_8'' 51 Uint8 F1 u_pct,
      fld ''pump_speed_relay_9'' 52 Uint8 F1 u_pct,
      fld ''relay_usage_mask'' 58 Uint16 F1 '''',
      fld ''error_mask'' 60 Uint16 F1 '''',
      fld ''warning_mask'' 62 Uint16 F1 '''',
      fld ''controller_version'' 64 Uint16 F1 '''',
      fld ''system_time'' 66 Uint16 F1 '''']),
    (pkey 0x7315 0x0010 0x0100, pd ''0x7315'' [
      fld ''operating_seconds_r1'' 0 Uint32 F1 u_s,
      fld ''operating_seconds_r2'' 4 Uint32 F1 u_s,
      fld ''operating_seconds_r3'' 8 Uint32 F1 u_s,
      fld ''operating_seconds_r4'' 12 Uint32 F1 u_s,
      fld ''operating_seconds_r5'' 16 Uint32 F1 u_s,
      fld ''operating_seconds_r6'' 20 Uint32 F1 u_s,
      fld ''operating_seconds_r7'' 24 Uint32 F1 u_s,
      fld ''operating_seconds_r8'' 28 Uint32 F1 u_s,
      fld ''operating_seconds_r9'' 32 Uint32 F1 u_s,
      fld ''volume_1'' 36 Uint32 F0_1 u_l,
      fld ''volume_2'' 40 Uint32 F0_1 u_l]),
    (pkey 0x7321 0x0010 0x0100, pd ''0x7321'' [
      fld ''temperature_sensor_1'' 0 Int16 F0_1 u_degC,
      fld ''temperature_sensor_2'' 2 Int16 F0_1 u_degC,
      fld ''temperature_sensor_3'' 4 Int16 F0_1 u_degC,
      fld ''temperature_sensor_4'' 6 Int16 F0_1 u_degC,
      fld ''temperature_sensor_5'' 8 Int16 F0_1 u_degC,
      fld ''temperature_sensor_6'' 10 Int16 F0_1 u_degC,
      fld ''temperature_sensor_7'' 12 Int16 F0_1 u_degC,
      fld ''temperature_sensor_8'' 14 Int16 F0_1 u_degC,
      fld ''temperature_sensor_9'' 16 Int16 F0_1 u_degC,
      fld ''temperature_sensor_10'' 18 Int16 F0_1 u_degC,
      fld ''temperature_sensor_11'' 20 Int16 F0_1 u_degC,
      fld ''temperature_sensor_12'' 22 Int16 F0_1 u_degC,
      fld ''irradiation'' 24 Int16 F1 u_W_m2,
      fld ''impulse_input_1'' 28 Uint32 F1 '''',
      fld ''impulse_input_2'' 32 Uint32 F1 '''',
      fld ''sensor_line_break_mask'' 36 Uint16 F1 '''',
      fld ''sensor_short_circuit_mask'' 38 Uint16 F1 '''',
      fld ''sensor_usage_mask'' 40 Uint16 F1 '''',
      fld ''pump_speed_relay_1'' 44 Uint8 F1 u_pct,
      fld ''pump_speed_relay_2'' 45 Uint8 F1 u_pct,
      fld ''pump_speed_relay_3'' 46 Uint8 F1 u_pct,
      fld ''pump_speed_relay_4'' 47 Uint8 F1 u_pct,
      fld ''pump_speed_relay_5'' 48 Uint8 F1 u_pct,
      fld ''pump_speed_relay_6'' 49 Uint8 F1 u_pct,
      fld ''pump_speed_relay_7'' 50 Uint8 F1 u_pct,
      fld ''pump_speed_relay_8'' 51 Uint8 F1 u_pct,
      fld ''pump_speed_relay_9'' 52 Uint8 F1 u_pct,
      fld ''relay_usage_mask'' 58 Uint16 F1 '''',
      fld ''error_mask'' 60 Uint16 F1 '''',
      fld ''warning_mask'' 62 Uint16 F1 '''',
      fld ''controller_version'' 64 Uint16 F1 '''',
      fld ''system_time'' 66 Uint16 F1 '''']),
    (pkey 0x7331 0x0010 0x0100, pd ''0x7331'' [
      fld ''temperature_sensor_1'' 0 Int16 F0_1 u_degC,
      fld ''temperature_sensor_2'' 2 Int16 F0_1 u_degC,
      fld ''temperature_sensor_3'' 4 Int16 F0_1 u_degC,
      fld ''temperature_sensor_4'' 6 Int16 F0_1 u_degC,
      fld ''temperature_sensor_5'' 8 Int16 F0_1 u_degC,
      fld ''temperature_sensor_6'' 10 Int16 F0_1 u_degC,
      fld ''temperature_sensor_7'' 12 Int16 F0_1 u_degC,
      fld ''temperature_sensor_8'' 14 Int16 F0_1 u_degC,
      fld ''temperature_sensor_9'' 16 Int16 F0_1 u_degC,
      fld ''temperature_sensor_10'' 18 Int16 F0_1 u_degC,
      fld ''temperature_sensor_11'' 20 Int16 F0_1 u_degC,
      fld ''temperature_sensor_12'' 22 Int16 F0_1 u_degC,
      fld ''temperature_sensor_13'' 24 Int16 F0_1 u_degC,
      fld ''temperature_sensor_14'' 26 Int16 F0_1 u_degC,
      fld ''temperature_sensor_15'' 28 Int16 F0_1 u_degC,
      fld ''temperature_sensor_16'' 30 Int16 F0_1 u_degC,
      fld ''temperature_sensor_17'' 32 Int16 F0_1 u_degC,
      fld ''temperature_sensor_18'' 34 Int16 F0_1 u_degC,
      fld ''temperature_sensor_19'' 36 Int16 F0_1 u_degC,
      fld ''temperature_sensor_20'' 38 Int16 F0_1 u_degC,
      fld ''temperature_sensor_21'' 40 Int16 F0_1 u_degC,
      fld ''temperature_sensor_22'' 42 Int16 F0_1 u_degC,
      fld ''pump_speed_r1'' 44 Uint8 F1 u_pct,
      fld ''pump_speed_r2'' 45 Uint8 F1 u_pct,
      fld ''pump_speed_r3'' 46 Uint8 F1 u_pct,
      fld ''pump_speed_r4'' 47 Uint8 F1 u_pct,
      fld ''pump_speed_r5'' 48 Uint8 F1 u_pct,
      fld ''pump_speed_r6'' 49 Uint8 F1 u_pct,
      fld ''pump_speed_r7'' 50 Uint8 F1 u_pct,
      fld ''pump_speed_r8'' 51 Uint8 F1 u_pct,
      fld ''pump_speed_r9'' 52 Uint8 F1 u_pct,
      fld ''pump_speed_r10'' 53 Uint8 F1 u_pct,
      fld ''pump_speed_r11'' 54 Uint8 F1 u_pct,
      fld ''pump_speed_r12'' 55 Uint8 F1 u_pct,
      fld ''pump_speed_r13'' 56 Uint8 F1 u_pct,
      fld ''pump_speed_r14'' 57 Uint8 F1 u_pct,
      fld ''pump_speed_r15'' 58 Uint8 F1 u_pct,
      fld ''pump_speed_r16'' 59 Uint8 F1 u_pct,
      fld ''pump_speed_r17'' 60 Uint8 F1 u_pct,
      fld ''pump_speed_r18'' 61 Uint8 F1 u_pct,
      fld ''sensor_usage_mask_1'' 64 Uint32 F1 '''',
      fld ''sensor_usage_mask_2'' 68 Uint32 F1 '''',
      fld ''error_mask'' 72 Uint16 F1 '''',
      fld ''warning_mask'' 74 Uint16 F1 '''',
      fld ''version'' 76 Uint16 F1 '''',
      fld ''system_time'' 78 Int16 F1 '''',
      fld ''variant'' 80 Uint8 F1 ''''])]"

definition generatedRegistry_29 :: "(uint64 \<times> PacketDef) list" where
  "generatedRegistry_29 = [
    (pkey 0x7332 0x0010 0x0100, pd ''0x7332'' [
      fld ''temperature_sensor_17'' 0 Int16 F0_1 u_degC,
      fld ''temperature_sensor_18'' 2 Int16 F0_1 u_degC,
      fld ''temperature_sensor_19'' 4 Int16 F0_1 u_degC,
      fld ''temperature_sensor_20'' 6 Int16 F0_1 u_degC,
      fld ''temperature_sensor_21'' 8 Int16 F0_1 u_degC,
      fld ''temperature_sensor_22'' 10 Int16 F0_1 u_degC,
      fld ''pump_speed_r14'' 12 Uint8 F1 u_pct,
      fld ''pump_speed_r15'' 13 Uint8 F1 u_pct,
      fld ''pump_speed_r16'' 14 Uint8 F1 u_pct,
      fld ''pump_speed_r17'' 15 Uint8 F1 u_pct,
      fld ''pump_speed_r18'' 16 Uint8 F1 u_pct]),
    (pkey 0x7333 0x0010 0x0100, pd ''0x7333'' [
      fld ''temperature_sensor_23'' 0 Int16 F0_1 u_degC,
      fld ''temperature_sensor_24'' 2 Int16 F0_1 u_degC,
      fld ''temperature_sensor_25'' 4 Int16 F0_1 u_degC,
      fld ''temperature_sensor_26'' 6 Int16 F0_1 u_degC,
      fld ''temperature_sensor_27'' 8 Int16 F0_1 u_degC,
      fld ''temperature_sensor_28'' 10 Int16 F0_1 u_degC,
      fld ''pump_speed_r19'' 12 Uint8 F1 u_pct,
      fld ''pump_speed_r20'' 13 Uint8 F1 u_pct,
      fld ''pump_speed_r21'' 14 Uint8 F1 u_pct,
      fld ''pump_speed_r22'' 15 Uint8 F1 u_pct,
      fld ''pump_speed_r23'' 16 Uint8 F1 u_pct]),
    (pkey 0x7334 0x0010 0x0100, pd ''0x7334'' [
      fld ''temperature_sensor_29'' 0 Int16 F0_1 u_degC,
      fld ''temperature_sensor_30'' 2 Int16 F0_1 u_degC,
      fld ''temperature_sensor_31'' 4 Int16 F0_1 u_degC,
      fld ''temperature_sensor_32'' 6 Int16 F0_1 u_degC,
      fld ''temperature_sensor_33'' 8 Int16 F0_1 u_degC,
      fld ''temperature_sensor_34'' 10 Int16 F0_1 u_degC,
      fld ''pump_speed_r24'' 12 Uint8 F1 u_pct,
      fld ''pump_speed_r25'' 13 Uint8 F1 u_pct,
      fld ''pump_speed_r26'' 14 Uint8 F1 u_pct,
      fld ''pump_speed_r27'' 15 Uint8 F1 u_pct,
      fld ''pump_speed_r28'' 16 Uint8 F1 u_pct]),
    (pkey 0x7335 0x0010 0x0100, pd ''0x7335'' [
      fld ''temperature_sensor_35'' 0 Int16 F0_1 u_degC,
      fld ''temperature_sensor_36'' 2 Int16 F0_1 u_degC,
      fld ''temperature_sensor_37'' 4 Int16 F0_1 u_degC,
      fld ''temperature_sensor_38'' 6 Int16 F0_1 u_degC,
      fld ''temperature_sensor_39'' 8 Int16 F0_1 u_degC,
      fld ''temperature_sensor_40'' 10 Int16 F0_1 u_degC,
      fld ''pump_speed_r29'' 12 Uint8 F1 u_pct,
      fld ''pump_speed_r30'' 13 Uint8 F1 u_pct,
      fld ''pump_speed_r31'' 14 Uint8 F1 u_pct,
      fld ''pump_speed_r32'' 15 Uint8 F1 u_pct,
      fld ''pump_speed_r33'' 16 Uint8 F1 u_pct]),
    (pkey 0x7341 0x0010 0x0100, pd ''0x7341'' [
      fld ''s1_sf_k'' 0 Int16 F0_1 u_degC,
      fld ''s2_sf_1'' 2 Int16 F0_1 u_degC,
      fld ''s3_sf_2'' 4 Int16 F0_1 u_degC,
      fld ''s4_sf_3_wt_f_rla1_rlu1'' 6 Int16 F0_1 u_degC,
      fld ''s5_fn_hk_f_rla2'' 8 Int16 F0_1 u_degC,
      fld ''s6_fn_ww_bf_sf_wt'' 10 Int16 F0_1 u_degC,
      fld ''s7_fn_k2'' 12 Int16 F0_1 u_degC,
      fld ''s8_fz'' 14 Int16 F0_1 u_degC,
      fld ''s9_af'' 16 Int16 F0_1 u_degC,
      fld ''s10_vl_f1'' 18 Int16 F0_1 u_degC,
      fld ''s11_fv_1'' 20 Int16 F0_1 u_degC,
      fld ''s12_vl_f2_wa_1_sf_4_f_rlu1'' 22 Int16 F0_1 u_degC,
      fld ''s13_fv_2_wa_2_sf_wt'' 24 Int16 F0_1 u_degC,
      fld ''s14_kf_1_kf_nh'' 26 Int16 F0_1 u_degC,
      fld ''s15_kf_2_sf_k2'' 28 Int16 F0_1 u_degC,
      fld ''s16_bf_bf_1_f_rlu2'' 30 Int16 F0_1 u_degC,
      fld ''sensorvolume_flowreglergas1totalwertl'' 32 Uint32 F1 u_l,
      fld ''sensorvolume_flowreglergas2totalwertl'' 36 Uint32 F1 u_l,
      fld ''sensorvolume_flowreglergds1totalwertl'' 40 Uint32 F1 u_l,
      fld ''sensorvolume_flowreglergds2totalwertl'' 44 Uint32 F1 u_l,
      fld ''sensorreglerdruckgas1wertbar'' 48 Int16 F0_01 u_bar,
      fld ''sensorreglerdruckgas2wertbar'' 50 Int16 F0_01 u_bar,
      fld ''sensorreglerdruckgds1wertbar'' 52 Int16 F0_01 u_bar,
      fld ''sensorreglerdruckgds2wertbar'' 54 Int16 F0_01 u_bar,
      fld ''r1_sp_1'' 56 Int16 F1 u_pct,
      fld ''r2_sp_2'' 57 Int16 F1 u_pct,
      fld ''r3_blp_1'' 58 Int16 F1 u_pct,
      fld ''r4_sv1_v_rlu'' 59 Int16 F1 u_pct,
      fld ''r5_hkp1'' 60 Int16 F1 u_pct,
      fld ''r6_mv_1_auf'' 61 Int16 F1 u_pct,
      fld ''r7_mv_1_zu'' 62 Int16 F1 u_pct,
      fld ''r8_klp_1_hkp_2'' 63 Int16 F1 u_pct,
      fld ''r9_klp_2_sp_3'' 64 Int16 F1 u_pct,
      fld ''r10_sv_2_hkp_2_v_rl'' 65 Int16 F1 u_pct,
      fld ''r11_mv_2_auf_blp_2_sv_3'' 66 Int16 F1 u_pct,
      fld ''r12_mv_2_zu_sv_3_v_rlu'' 67 Int16 F1 u_pct,
      fld ''r13_zp'' 68 Int16 F1 u_pct,
      fld ''r14_rp'' 69 Int16 F1 u_pct,
      fld ''hc1tflowset'' 72 Int16 F0_1 u_degC,
      fld ''hc2tflowset'' 74 Int16 F0_1 u_degC,
      fld ''hc3tflowset'' 76 Int16 F0_1 u_degC,
      fld ''hc4tflowset'' 78 Int16 F0_1 u_degC,
      fld ''hc5tflowset'' 80 Int16 F0_1 u_degC,
      fld ''swflset'' 82 Int16 F0_1 u_degC,
      fld ''wmz1valuewh'' 84 Uint32 F1 u_Wh,
      fld ''wmz2valuewh'' 88 Uint32 F1 u_Wh,
      fld ''system_date'' 92 Uint32 F1 '''',
      fld ''sensorbenutzt_bit_031'' 96 Uint32 F1 '''',
      fld ''sensorbenutzt_bit_3163'' 100 Uint32 F1 '''',
      fld ''error_sensorbruch_bit_031'' 104 Uint32 F1 '''',
      fld ''error_sensorbruch_bit_3163'' 108 Uint32 F1 '''',
      fld ''error_sensorkurzschluss_bit_031'' 112 Uint32 F1 '''',
      fld ''error_sensorkurzschluss_bit_3163'' 116 Uint32 F1 '''',
      fld ''errormask'' 120 Uint16 F1 '''',
      fld ''warningmask'' 122 Uint16 F1 '''',
      fld ''systemflowparameteraenderungen'' 124 Uint16 F1 '''']),
    (pkey 0x7342 0x0010 0x0100, pd ''0x7342'' [
      fld ''temperature_sensor_1'' 0 Int16 F0_1 u_degC,
      fld ''temperature_sensor_2'' 2 Int16 F0_1 u_degC,
      fld ''temperature_sensor_3'' 4 Int16 F0_1 u_degC,
      fld ''temperature_sensor_4'' 6 Int16 F0_1 u_degC,
      fld ''temperature_sensor_5'' 8 Int16 F0_1 u_degC,
      fld ''temperature_sensor_6'' 10 Int16 F0_1 u_degC,
      fld ''pump_speed_r1'' 12 Uint8 F1 u_pct,
      fld ''pump_speed_r2'' 13 Uint8 F1 u_pct,
      fld ''pump_speed_r3'' 14 Uint8 F1 u_pct,
      fld ''pump_speed_r4'' 15 Uint8 F1 u_pct,
      fld ''pump_speed_r5'' 16 Uint8 F1 u_pct])]"

definition generatedRegistry_30 :: "(uint64 \<times> PacketDef) list" where
  "generatedRegistry_30 = [
    (pkey 0x7343 0x0010 0x0100, pd ''0x7343'' [
      fld ''temperature_sensor_1'' 0 Int16 F0_1 u_degC,
      fld ''temperature_sensor_2'' 2 Int16 F0_1 u_degC,
      fld ''temperature_sensor_3'' 4 Int16 F0_1 u_degC,
      fld ''temperature_sensor_4'' 6 Int16 F0_1 u_degC,
      fld ''temperature_sensor_5'' 8 Int16 F0_1 u_degC,
      fld ''temperature_sensor_6'' 10 Int16 F0_1 u_degC,
      fld ''pump_speed_r1'' 12 Uint8 F1 u_pct,
      fld ''pump_speed_r2'' 13 Uint8 F1 u_pct,
      fld ''pump_speed_r3'' 14 Uint8 F1 u_pct,
      fld ''pump_speed_r4'' 15 Uint8 F1 u_pct,
      fld ''pump_speed_r5'' 16 Uint8 F1 u_pct]),
    (pkey 0x7344 0x0010 0x0100, pd ''0x7344'' [
      fld ''temperature_sensor_1'' 0 Int16 F0_1 u_degC,
      fld ''temperature_sensor_2'' 2 Int16 F0_1 u_degC,
      fld ''temperature_sensor_3'' 4 Int16 F0_1 u_degC,
      fld ''temperature_sensor_4'' 6 Int16 F0_1 u_degC,
      fld ''temperature_sensor_5'' 8 Int16 F0_1 u_degC,
      fld ''temperature_sensor_6'' 10 Int16 F0_1 u_degC,
      fld ''pump_speed_r1'' 12 Uint8 F1 u_pct,
      fld ''pump_speed_r2'' 13 Uint8 F1 u_pct,
      fld ''pump_speed_r3'' 14 Uint8 F1 u_pct,
      fld ''pump_speed_r4'' 15 Uint8 F1 u_pct,
      fld ''pump_speed_r5'' 16 Uint8 F1 u_pct]),
    (pkey 0x7345 0x0010 0x0100, pd ''0x7345'' [
      fld ''temperature_sensor_1'' 0 Int16 F0_1 u_degC,
      fld ''temperature_sensor_2'' 2 Int16 F0_1 u_degC,
      fld ''temperature_sensor_3'' 4 Int16 F0_1 u_degC,
      fld ''temperature_sensor_4'' 6 Int16 F0_1 u_degC,
      fld ''temperature_sensor_5'' 8 Int16 F0_1 u_degC,
      fld ''temperature_sensor_6'' 10 Int16 F0_1 u_degC,
      fld ''pump_speed_r1'' 12 Uint8 F1 u_pct,
      fld ''pump_speed_r2'' 13 Uint8 F1 u_pct,
      fld ''pump_speed_r3'' 14 Uint8 F1 u_pct,
      fld ''pump_speed_r4'' 15 Uint8 F1 u_pct,
      fld ''pump_speed_r5'' 16 Uint8 F1 u_pct]),
    (pkey 0x7346 0x0010 0x0100, pd ''0x7346'' [
      fld ''temperature_sensor_1'' 0 Int16 F0_1 u_degC,
      fld ''temperature_sensor_2'' 2 Int16 F0_1 u_degC,
      fld ''temperature_sensor_3'' 4 Int16 F0_1 u_degC,
      fld ''temperature_sensor_4'' 6 Int16 F0_1 u_degC,
      fld ''temperature_sensor_5'' 8 Int16 F0_1 u_degC,
      fld ''temperature_sensor_6'' 10 Int16 F0_1 u_degC,
      fld ''pump_speed_r1'' 12 Uint8 F1 u_pct,
      fld ''pump_speed_r2'' 13 Uint8 F1 u_pct,
      fld ''pump_speed_r3'' 14 Uint8 F1 u_pct,
      fld ''pump_speed_r4'' 15 Uint8 F1 u_pct,
      fld ''pump_speed_r5'' 16 Uint8 F1 u_pct]),
    (pkey 0x7351 0x0010 0x0100, pd ''0x7351'' [
      fld ''temperature_sensor_1'' 0 Int16 F0_1 u_degC,
      fld ''temperature_sensor_2'' 2 Int16 F0_1 u_degC,
      fld ''temperature_sensor_3'' 4 Int16 F0_1 u_degC,
      fld ''temperature_sensor_4'' 6 Int16 F0_1 u_degC,
      fld ''temperature_sensor_5'' 8 Int16 F0_1 u_degC,
      fld ''temperature_sensor_6'' 10 Int16 F0_1 u_degC,
      fld ''temperature_sensor_7'' 12 Int16 F0_1 u_degC,
      fld ''temperature_sensor_8'' 14 Int16 F0_1 u_degC,
      fld ''temperature_sensor_9'' 16 Int16 F0_1 u_degC,
      fld ''temperature_sensor_10'' 18 Int16 F0_1 u_degC,
      fld ''temperature_sensor_11'' 20 Int16 F0_1 u_degC,
      fld ''temperature_sensor_12'' 22 Int16 F0_1 u_degC,
      fld ''temperature_sensor_13'' 24 Int16 F0_1 u_degC,
      fld ''temperature_sensor_14'' 26 Int16 F0_1 u_degC,
      fld ''temperature_sensor_15'' 28 Int16 F0_1 u_degC,
      fld ''irradiation_sensor_16'' 30 Int16 F1 u_W_m2,
      fld ''temperature_sensor_17'' 32 Int16 F0_1 u_degC,
      fld ''temperature_sensor_18'' 34 Int16 F0_1 u_degC,
      fld ''temperature_sensor_19'' 36 Int16 F0_1 u_degC,
      fld ''temperature_sensor_20'' 38 Int16 F0_1 u_degC,
      fld ''flow_rate_sensor_13'' 40 Uint32 F1 u_l_h,
      fld ''flow_rate_sensor_14'' 44 Uint32 F1 u_l_h,
      fld ''flow_rate_sensor_15'' 48 Uint32 F1 u_l_h,
      fld ''flow_rate_sensor_17'' 52 Uint32 F1 u_l_h,
      fld ''flow_rate_sensor_18'' 56 Uint32 F1 u_l_h,
      fld ''flow_rate_sensor_19'' 60 Uint32 F1 u_l_h,
      fld ''flow_rate_sensor_20'' 64 Uint32 F1 u_l_h,
      fld ''pressure_sensor_17'' 68 Int16 F0_01 u_bar,
      fld ''pressure_sensor_18'' 70 Int16 F0_01 u_bar,
      fld ''pressure_sensor_19'' 72 Int16 F0_01 u_bar,
      fld ''pressure_sensor_20'' 74 Int16 F0_01 u_bar,
      fld ''pump_speed_relay_1'' 76 Uint8 F1 u_pct,
      fld ''pump_speed_relay_2'' 77 Uint8 F1 u_pct,
      fld ''pump_speed_relay_3'' 78 Uint8 F1 u_pct,
      fld ''pump_speed_relay_4'' 79 Uint8 F1 u_pct,
      fld ''pump_speed_relay_5'' 80 Uint8 F1 u_pct,
      fld ''pump_speed_relay_6'' 81 Uint8 F1 u_pct,
      fld ''pump_speed_relay_7'' 82 Uint8 F1 u_pct,
      fld ''pump_speed_relay_8'' 83 Uint8 F1 u_pct,
      fld ''pump_speed_relay_9'' 84 Uint8 F1 u_pct,
      fld ''pump_speed_relay_10'' 85 Uint8 F1 u_pct,
      fld ''pump_speed_relay_11'' 86 Uint8 F1 u_pct,
      fld ''pump_speed_relay_12'' 87 Uint8 F1 u_pct,
      fld ''pump_speed_relay_13'' 88 Uint8 F1 u_pct,
      fld ''pump_speed_relay_14'' 89 Uint8 F1 u_pct,
      fld ''system_date'' 92 Uint32 F1 '''',
      fld ''error_mask'' 96 Uint32 F1 ''''])]"

definition generatedRegistry_part3 :: "(uint64 \<times> PacketDef) list" where
  "generatedRegistry_part3 =
     generatedRegistry_21 @
     generatedRegistry_22 @
     generatedRegistry_23 @
     generatedRegistry_24 @
     generatedRegistry_25 @
     generatedRegistry_26 @
     generatedRegistry_27 @
     generatedRegistry_28 @
     generatedRegistry_29 @
     generatedRegistry_30"

lemmas part3_defs = generatedRegistry_part3_def
  generatedRegistry_21_def
  generatedRegistry_22_def
  generatedRegistry_23_def
  generatedRegistry_24_def
  generatedRegistry_25_def
  generatedRegistry_26_def
  generatedRegistry_27_def
  generatedRegistry_28_def
  generatedRegistry_29_def
  generatedRegistry_30_def

lemma part3_entries: "list_all generated_entry generatedRegistry_part3"
  by (simp add: part3_defs table_check)

lemma part3_sources:
  "map entry_source generatedRegistry_part3 = [
    0x4231, 0x4241, 0x4251, 0x4252, 0x4261, 0x4265, 0x4278, 0x4279, 0x427B, 0x4311,
    0x4321, 0x4720, 0x4721, 0x4730, 0x4731, 0x4A00, 0x5111, 0x5112, 0x5121, 0x5141,
    0x5210, 0x5221, 0x5231, 0x5251, 0x5311, 0x5351, 0x5400, 0x5510, 0x5611, 0x6610,
    0x6620, 0x7101, 0x7112, 0x7113, 0x7140, 0x7160, 0x7161, 0x7162, 0x7163, 0x7176,
    0x7177, 0x7178, 0x7179, 0x717A, 0x717B, 0x7210, 0x7211, 0x7212, 0x7213, 0x7221,
    0x7231, 0x7311, 0x7315, 0x7321, 0x7331, 0x7332, 0x7333, 0x7334, 0x7335, 0x7341,
    0x7342, 0x7343, 0x7344, 0x7345, 0x7346, 0x7351]"
  by (simp add: part3_defs)

end
