(* ===== verification/RegistryGen4.thy ===== *)
theory RegistryGen4
  imports RegistryLiteral
begin

text \<open>
  internal/vbus/registry_gen.go, part 4 of 4: the entries of \<open>generatedRegistry\<close> in file order.
\<close>

definition generatedRegistry_31 :: "(uint64 \<times> PacketDef) list" where
  "generatedRegistry_31 = [
    (pkey 0x7352 0x0010 0x0100, pd ''0x7352'' [
      fld ''temperature_module_1_sensor_1'' 0 Int16 F0_1 u_degC,
      fld ''temperature_module_1_sensor_2'' 2 Int16 F0_1 u_degC,
      fld ''temperature_module_1_sensor_3'' 4 Int16 F0_1 u_degC,
      fld ''temperature_module_1_sensor_4'' 6 Int16 F0_1 u_degC,
      fld ''temperature_module_1_sensor_5'' 8 Int16 F0_1 u_degC,
      fld ''temperature_module_1_sensor_6'' 10 Int16 F0_1 u_degC,
      fld ''temperature_module_2_sensor_1'' 12 Int16 F0_1 u_degC,
      fld ''temperature_module_2_sensor_2'' 14 Int16 F0_1 u_degC,
      fld ''temperature_module_2_sensor_3'' 16 Int16 F0_1 u_degC,
      fld ''temperature_module_2_sensor_4'' 18 Int16 F0_1 u_degC,
      fld ''temperature_module_2_sensor_5'' 20 Int16 F0_1 u_degC,
      fld ''temperature_module_2_sensor_6'' 22 Int16 F0_1 u_degC,
      fld ''temperature_module_3_sensor_1'' 24 Int16 F0_1 u_degC,
      fld ''temperature_module_3_sensor_2'' 26 Int16 F0_1 u_degC,
      fld ''temperature_module_3_sensor_3'' 28 Int16 F0_1 u_degC,
      fld ''temperature_module_3_sensor_4'' 30 Int16 F0_1 u_degC,
      fld ''temperature_module_3_sensor_5'' 32 Int16 F0_1 u_degC,
      fld ''temperature_module_3_sensor_6'' 34 Int16 F0_1 u_degC,
      fld ''temperature_module_4_sensor_1'' 36 Int16 F0_1 u_degC,
      fld ''temperature_module_4_sensor_2'' 38 Int16 F0_1 u_degC,
      fld ''temperature_module_4_sensor_3'' 40 Int16 F0_1 u_degC,
      fld ''temperature_module_4_sensor_4'' 42 Int16 F0_1 u_degC,
      fld ''temperature_module_4_sensor_5'' 44 Int16 F0_1 u_degC,
      fld ''temperature_module_4_sensor_6'' 46 Int16 F0_1 u_degC,
      fld ''temperature_module_5_sensor_1'' 48 Int16 F0_1 u_degC,
      fld ''temperature_module_5_sensor_2'' 50 Int16 F0_1 u_degC,
      fld ''temperature_module_5_sensor_3'' 52 Int16 F0_1 u_degC,
      fld ''temperature_module_5_sensor_4'' 54 Int16 F0_1 u_degC,
      fld ''temperature_module_5_sensor_5'' 56 Int16 F0_1 u_degC,
      fld ''temperature_module_5_sensor_6'' 58 Int16 F0_1 u_degC]),
    (pkey 0x7411 0x0010 0x0100, pd ''0x7411'' [
      fld ''temperature_sensor_1'' 0 Int16 F0_1 u_degC,
      fld ''temperature_sensor_2'' 2 Int16 F0_1 u_degC,
      fld ''temperature_sensor_3'' 4 Int16 F0_1 u_degC,
      fld ''temperature_sensor_4'' 6 Int16 F0_1 u_degC,
      fld ''temperature_sensor_5'' 8 Int16 F0_1 u_degC,
      fld ''temperature_sensor_6'' 10 Int16 F0_1 u_degC,
      fld ''temperature_sensor_7'' 12 Int16 F0_1 u_degC,
      fld ''temperature_sensor_8'' 14 Int16 F0_1 u_degC,
      fld ''flow_rate'' 16 Int16 F0_01 u_m3_h,
      fld ''irradiation'' 18 Int16 F1 u_W_m2,
      fld ''pump_speed_1'' 21 Uint8 F1 u_pct,
      fld ''pump_speed_2'' 22 Uint8 F1 u_pct,
      fld ''pump_speed_3'' 23 Uint8 F1 u_pct,
      fld ''system_time'' 24 Int16 F1 '''',
      fld ''scheme'' 26 Uint8 F1 '''',
      fld ''operating_hours_1'' 28 Uint16 F1 u_h,
      fld ''operating_hours_2'' 30 Uint16 F1 u_h,
      fld ''operating_hours_3'' 32 Uint16 F1 u_h,
      fld ''operating_hours_4'' 34 Uint16 F1 u_h,
      fld ''operating_hours_5'' 36 Uint16 F1 u_h,
      fld ''operating_hours_6'' 38 Uint16 F1 u_h]),
    (pkey 0x7421 0x0010 0x0100, pd ''0x7421'' [
      fld ''temperature_sensor_1'' 0 Int16 F0_1 u_degC,
      fld ''temperature_sensor_2'' 2 Int16 F0_1 u_degC,
      fld ''temperature_sensor_3'' 4 Int16 F0_1 u_degC,
      fld ''temperature_sensor_4'' 6 Int16 F0_1 u_degC,
      fld ''temperature_sensor_5'' 8 Int16 F0_1 u_degC,
      fld ''temperature_rps'' 10 Int16 F0_1 u_degC,
      fld ''pressure_rps'' 12 Int16 F0_1 u_bar,
      fld ''temperature_vfs'' 14 Int16 F0_1 u_degC,
      fld ''flow_rate_vfs'' 16 Int16 F1 u_l_h,
      fld ''pump_speed_relay_1'' 24 Uint8 F1 u_pct,
      fld ''pump_speed_relay_2'' 25 Uint8 F1 u_pct,
      fld ''pump_speed_relay_3'' 26 Uint8 F1 u_pct,
      fld ''pump_speed_relay_4'' 27 Uint8 F1 u_pct,
      fld ''pwm_1'' 22 Uint8 F1 u_pct,
      fld ''pwm_2'' 23 Uint8 F1 u_pct,
      fld ''flow_rate_vfs'' 16 Int16 F1 u_l_h,
      fld ''flow_rate_v40'' 18 Int16 F1 u_l_h,
      fld ''heat_quantity'' 48 Uint32 F1 u_Wh,
      fld ''system_time'' 54 Uint16 F1 '''',
      fld ''date'' 56 Uint32 F1 '''',
      fld ''version'' 52 Uint16 F0_01 '''',
      fld ''operating_seconds_relay_1'' 28 Uint32 F1 u_s,
      fld ''operating_seconds_relay_2'' 32 Uint32 F1 u_s,
      fld ''operating_seconds_relay_3'' 36 Uint32 F1 u_s,
      fld ''operating_seconds_relay_4'' 40 Uint32 F1 u_s,
      fld ''status'' 46 Uint16 F1 '''',
      fld ''unit'' 20 Uint8 F1 '''',
      fld ''error'' 44 Uint16 F1 '''']),
    (pkey 0x7422 0x0010 0x0100, pd ''0x7422'' [
      fld ''temperature_sensor_1'' 0 Int16 F0_1 u_degC,
      fld ''temperature_sensor_2'' 2 Int16 F0_1 u_degC,
      fld ''temperature_sensor_3'' 4 Int16 F0_1 u_degC,
      fld ''temperature_sensor_4'' 6 Int16 F0_1 u_degC,
      fld ''temperature_sensor_5'' 8 Int16 F0_1 u_degC,
      fld ''temperature_rps'' 10 Int16 F0_1 u_degC,
      fld ''pressure_rps'' 12 Int16 F0_1 u_bar,
      fld ''temperature_vfs'' 14 Int16 F0_1 u_degC,
      fld ''flow_rate_vfs'' 16 Int16 F1 u_l_h,
      fld ''pump_speed_relay_1'' 24 Uint8 F1 u_pct,
      fld ''pump_speed_relay_2'' 25 Uint8 F1 u_pct,
      fld ''pump_speed_relay_3'' 26 Uint8 F1 u_pct,
      fld ''pump_speed_relay_4'' 27 Uint8 F1 u_pct,
      fld ''pwm_1'' 22 Uint8 F1 u_pct,
      fld ''pwm_2'' 23 Uint8 F1 u_pct,
      fld ''flow_rate_vfs'' 16 Int16 F1 u_l_h,
      fld ''flow_rate_v40'' 18 Int16 F1 u_l_h,
      fld ''heat_quantity'' 48 Uint32 F1 u_Wh,
      fld ''system_time'' 54 Uint16 F1 '''',
      fld ''date'' 56 Uint32 F1 '''',
      fld ''version'' 52 Uint16 F0_01 '''',
      fld ''operating_seconds_relay_1'' 28 Uint32 F1 u_s,
      fld ''operating_seconds_relay_2'' 32 Uint32 F1 u_s,
      fld ''operating_seconds_relay_3'' 36 Uint32 F1 u_s,
      fld ''operating_seconds_relay_4'' 40 Uint32 F1 u_s,
      fld ''status'' 46 Uint16 F1 '''',
      fld ''unit'' 20 Uint8 F1 '''',
      fld ''error'' 44 Uint16 F1 ''''])]"

definition generatedRegistry_32 :: "(uint64 \<times> PacketDef) list" where
  "generatedRegistry_32 = [
    (pkey 0x7428 0x0010 0x0100, pd ''0x7428'' [
      fld ''s1'' 0 Int16 F0_1 u_degC,
      fld ''s2'' 2 Int16 F0_1 u_degC,
      fld ''s3'' 4 Int16 F0_1 u_degC,
      fld ''s4'' 6 Int16 F0_1 u_degC,
      fld ''s5'' 8 Int16 F0_1 u_degC,
      fld ''sr_1'' 24 Uint8 F1 u_pct,
      fld ''sr_2'' 25 Uint8 F1 u_pct,
      fld ''sr_3'' 26 Uint8 F1 u_pct,
      fld ''sr_4'' 27 Uint8 F1 u_pct,
      fld ''flow_v40'' 18 Int16 F1 u_l_h,
      fld ''heat'' 48 Uint32 F1 u_Wh,
      fld ''time'' 54 Uint16 F1 '''',
      fld ''date'' 56 Uint32 F1 '''',
      fld ''version'' 52 Uint16 F0_01 '''',
      fld ''osr_1'' 28 Uint32 F1 u_s,
      fld ''osr_2'' 32 Uint32 F1 u_s,
      fld ''osr_3'' 36 Uint32 F1 u_s,
      fld ''osr_4'' 40 Uint32 F1 u_s,
      fld ''control_status'' 46 Uint16 F1 '''',
      fld ''unit'' 20 Uint8 F1 '''',
      fld ''error'' 44 Uint16 F1 '''']),
    (pkey 0x7441 0x0010 0x0100, pd ''0x7441'' [
      fld ''temperature_sensor_1'' 4 Int16 F0_1 u_degC,
      fld ''temperature_sensor_2'' 6 Int16 F0_1 u_degC,
      fld ''temperature_sensor_3'' 8 Int16 F0_1 u_degC,
      fld ''temperature_sensor_4'' 10 Int16 F0_1 u_degC,
      fld ''pump_speed_relay_1'' 12 Int16 F1 u_pct,
      fld ''pump_speed_relay_2'' 13 Int16 F1 u_pct,
      fld ''controller_output_1'' 14 Int16 F1 u_pct,
      fld ''wmz1valuewh'' 16 Uint32 F1 u_Wh,
      fld ''sw_version'' 20 Uint32 F1 '''',
      fld ''operating_seconds_relay_1'' 24 Uint32 F1 u_s,
      fld ''operating_seconds_relay_2'' 28 Uint32 F1 u_s,
      fld ''initialise'' 32 Uint32 F1 '''',
      fld ''filling'' 36 Uint32 F1 '''',
      fld ''stabilise'' 40 Uint32 F1 '''',
      fld ''antifreeze'' 44 Int16 F1 '''',
      fld ''error_mask'' 52 Uint32 F1 '''']),
    (pkey 0x7442 0x0010 0x0100, pd ''0x7442'' [
      fld ''wmz1valuewh'' 0 Uint32 F1 u_Wh,
      fld ''wmz1powerw'' 4 Uint32 F1 u_W,
      fld ''wmz1valuetodaywh'' 8 Uint32 F1 u_Wh,
      fld ''wmz1valueweekwh'' 12 Uint32 F1 u_Wh]),
    (pkey 0x7511 0x0010 0x0100, pd ''0x7511'' [
      fld ''collector_temperature'' 0 Int16 F0_1 u_degC,
      fld ''temperature_sp'' 2 Int16 F0_1 u_degC,
      fld ''temperature_ss'' 4 Int16 F0_1 u_degC,
      fld ''hp_flow_temperature'' 6 Int16 F0_1 u_degC,
      fld ''hp_return_temperature'' 8 Int16 F0_1 u_degC,
      fld ''evap_temperature'' 10 Int16 F0_1 u_degC,
      fld ''soil_temperature'' 12 Int16 F0_1 u_degC,
      fld ''flow_rate_collector'' 14 Int16 F0_1 u_l_min,
      fld ''power_pko'' 18 Uint8 F1 u_pct,
      fld ''power_ps'' 19 Uint8 F1 u_pct,
      fld ''error_mask'' 20 Uint32 F1 '''',
      fld ''pko_nominal_power'' 25 Uint8 F1 u_pct,
      fld ''twabs'' 26 Int16 F0_1 u_degC,
      fld ''heat_quantity_sp'' 28 Uint32 F0_1 u_kWh,
      fld ''heat_quantity_ss'' 32 Uint32 F0_1 u_kWh,
      fld ''diff_toutd_24h'' 36 Int16 F0_1 u_K,
      fld ''diff_tss_8h'' 38 Int16 F0_1 u_K,
      fld ''diff_tss_1h'' 40 Int16 F0_1 u_K,
      fld ''operating_sec_heat_pump'' 42 Int16 F1 u_s,
      fld ''time_period_hp_24h'' 44 Uint32 F1 u_s,
      fld ''heat_pump_runtime_24_h'' 48 Uint32 F1 u_s,
      fld ''temperature_th'' 56 Int16 F0_1 u_degC,
      fld ''system_time'' 58 Int16 F1 '''']),
    (pkey 0x7512 0x0010 0x0100, pd ''0x7512'' [
      fld ''t_sp'' 0 Uint32 F1 u_s,
      fld ''t_ss'' 4 Uint32 F1 u_s,
      fld ''heat_pump_runtime'' 8 Uint32 F1 u_s,
      fld ''number_of_hp_starts'' 12 Uint32 F1 '''',
      fld ''t_wp_ss'' 16 Uint32 F1 u_s,
      fld ''t_ps'' 20 Uint32 F1 u_s,
      fld ''temperature_t_x'' 24 Int16 F0_1 u_degC,
      fld ''temperature_t_xx'' 26 Int16 F0_1 u_degC,
      fld ''c1'' 28 Int16 F0_01 '''',
      fld ''version'' 30 Int16 F0_01 '''']),
    (pkey 0x7513 0x0010 0x0100, pd ''0x7513'' [
      fld ''tko'' 0 Int16 F0_1 u_degC,
      fld ''tsp'' 2 Int16 F0_1 u_degC,
      fld ''tss'' 4 Int16 F0_1 u_degC,
      fld ''tkr'' 6 Int16 F0_1 u_degC,
      fld ''tr'' 8 Int16 F0_1 u_degC,
      fld ''tv'' 10 Int16 F0_1 u_degC,
      fld ''terd'' 24 Int16 F0_1 u_degC,
      fld ''flow_rate_collector'' 26 Int16 F0_1 u_l_min,
      fld ''power_pko'' 32 Uint8 F1 u_pct,
      fld ''power_ps'' 33 Uint8 F1 u_pct,
      fld ''error_mask'' 36 Uint32 F1 '''',
      fld ''pko_nominal_power'' 35 Uint8 F1 u_pct,
      fld ''q_sp'' 40 Uint32 F0_1 u_kWh,
      fld ''q_ss'' 44 Uint32 F0_1 u_kWh,
      fld ''thr'' 16 Int16 F0_1 u_degC,
      fld ''thv'' 18 Int16 F0_1 u_degC,
      fld ''power_p_h'' 34 Uint8 F1 u_pct,
      fld ''system_time'' 48 Int16 F1 '''',
      fld ''tx'' 20 Int16 F0_1 u_degC,
      fld ''txx'' 22 Int16 F0_1 u_degC,
      fld ''c1'' 50 Int16 F0_01 ''''])]"

definition generatedRegistry_33 :: "(uint64 \<times> PacketDef) list" where
  "generatedRegistry_33 = [
    (pkey 0x7521 0x0010 0x0100, pd ''0x7521'' [
      fld ''temperature_sensor_1'' 0 Int16 F0_1 u_degC,
      fld ''temperature_sensor_2'' 2 Int16 F0_1 u_degC,
      fld ''temperature_sensor_3'' 4 Int16 F0_1 u_degC,
      fld ''temperature_sensor_4'' 6 Int16 F0_1 u_degC,
      fld ''temperature_sensor_5'' 8 Int16 F0_1 u_degC,
      fld ''temperature_sensor_6'' 10 Int16 F0_1 u_degC,
      fld ''temperature_sensor_7'' 12 Int16 F0_1 u_degC,
      fld ''temperature_sensor_8'' 14 Int16 F0_1 u_degC,
      fld ''temperature_sensor_9'' 16 Int16 F0_1 u_degC,
      fld ''flow_rate_sensor_10'' 18 Int16 F0_1 u_l_min,
      fld ''pump_speed_relay_1'' 20 Uint8 F1 u_pct,
      fld ''pump_speed_relay_2'' 21 Uint8 F1 u_pct,
      fld ''pump_speed_relay_3'' 22 Uint8 F1 u_pct,
      fld ''pump_speed_relay_4'' 24 Uint16 F0_1 u_pct,
      fld ''pump_speed_relay_5'' 23 Uint8 F1 u_pct,
      fld ''disinf_phase'' 27 Uint8 F1 '''',
      fld ''operating_seconds_relay_1'' 28 Uint32 F1 u_s,
      fld ''operating_seconds_relay_2'' 32 Uint32 F1 u_s,
      fld ''operating_seconds_relay_3'' 36 Uint32 F1 u_s,
      fld ''operating_seconds_relay_4'' 40 Uint32 F1 u_s,
      fld ''operating_seconds_relay_5'' 44 Uint32 F1 u_s,
      fld ''heat_quantity'' 52 Uint32 F1 u_Wh,
      fld ''version'' 56 Uint16 F0_01 '''',
      fld ''system_time'' 58 Uint16 F1 '''',
      fld ''date'' 60 Uint32 F1 '''']),
    (pkey 0x7522 0x0010 0x0100, pd ''0x7522'' [
      fld ''temperature_sensor_1'' 0 Int16 F0_1 u_degC,
      fld ''temperature_sensor_2'' 2 Int16 F0_1 u_degC,
      fld ''temperature_sensor_3'' 4 Int16 F0_1 u_degC,
      fld ''temperature_sensor_4'' 6 Int16 F0_1 u_degC,
      fld ''temperature_sensor_5'' 8 Int16 F0_1 u_degC,
      fld ''temperature_sensor_6'' 10 Int16 F0_1 u_degC,
      fld ''temperature_sensor_7'' 12 Int16 F0_1 u_degC,
      fld ''temperature_sensor_8'' 14 Int16 F0_1 u_degC,
      fld ''temperature_sensor_9'' 16 Int16 F0_1 u_degC,
      fld ''temperature_sensor_gds1'' 20 Int16 F0_1 u_degC,
      fld ''temperature_sensor_gds2'' 22 Int16 F0_1 u_degC,
      fld ''irradiation_sensor'' 18 Int16 F1 u_W_m2,
      fld ''flow_rate_sensor_v40'' 24 Uint32 F1 u_l_h,
      fld ''flow_rate_sensor_gds1'' 28 Uint32 F1 u_l_h,
      fld ''flow_rate_sensor_gds2'' 32 Uint32 F1 u_l_h,
      fld ''pressure_sensor_gds1'' 36 Int16 F0_01 u_bar,
      fld ''pressure_sensor_gds2'' 38 Int16 F0_01 u_bar,
      fld ''pump_speed_relay_1'' 40 Uint8 F1 u_pct,
      fld ''pump_speed_relay_2'' 41 Uint8 F1 u_pct,
      fld ''pump_speed_relay_3'' 42 Uint8 F1 u_pct,
      fld ''pump_speed_relay_4'' 43 Uint8 F1 u_pct,
      fld ''pump_speed_relay_5'' 44 Uint8 F1 u_pct,
      fld ''system_date'' 48 Uint32 F1 '''',
      fld ''error_mask'' 52 Uint32 F1 '''']),
    (pkey 0x7523 0x0010 0x0100, pd ''0x7523'' [
      fld ''temperature_module_1_sensor_1'' 0 Int16 F0_1 u_degC,
      fld ''temperature_module_1_sensor_2'' 2 Int16 F0_1 u_degC,
      fld ''temperature_module_1_sensor_3'' 4 Int16 F0_1 u_degC,
      fld ''temperature_module_1_sensor_4'' 6 Int16 F0_1 u_degC,
      fld ''temperature_module_1_sensor_5'' 8 Int16 F0_1 u_degC,
      fld ''temperature_module_1_sensor_6'' 10 Int16 F0_1 u_degC,
      fld ''temperature_module_2_sensor_1'' 12 Int16 F0_1 u_degC,
      fld ''temperature_module_2_sensor_2'' 14 Int16 F0_1 u_degC,
      fld ''temperature_module_2_sensor_3'' 16 Int16 F0_1 u_degC,
      fld ''temperature_module_2_sensor_4'' 18 Int16 F0_1 u_degC,
      fld ''temperature_module_2_sensor_5'' 20 Int16 F0_1 u_degC,
      fld ''temperature_module_2_sensor_6'' 22 Int16 F0_1 u_degC,
      fld ''temperature_module_3_sensor_1'' 24 Int16 F0_1 u_degC,
      fld ''temperature_module_3_sensor_2'' 26 Int16 F0_1 u_degC,
      fld ''temperature_module_3_sensor_3'' 28 Int16 F0_1 u_degC,
      fld ''temperature_module_3_sensor_4'' 30 Int16 F0_1 u_degC,
      fld ''temperature_module_3_sensor_5'' 32 Int16 F0_1 u_degC,
      fld ''temperature_module_3_sensor_6'' 34 Int16 F0_1 u_degC,
      fld ''temperature_module_4_sensor_1'' 36 Int16 F0_1 u_degC,
      fld ''temperature_module_4_sensor_2'' 38 Int16 F0_1 u_degC,
      fld ''temperature_module_4_sensor_3'' 40 Int16 F0_1 u_degC,
      fld ''temperature_module_4_sensor_4'' 42 Int16 F0_1 u_degC,
      fld ''temperature_module_4_sensor_5'' 44 Int16 F0_1 u_degC,
      fld ''temperature_module_4_sensor_6'' 46 Int16 F0_1 u_degC,
      fld ''temperature_module_5_sensor_1'' 48 Int16 F0_1 u_degC,
      fld ''temperature_module_5_sensor_2'' 50 Int16 F0_1 u_degC,
      fld ''temperature_module_5_sensor_3'' 52 Int16 F0_1 u_degC,
      fld ''temperature_module_5_sensor_4'' 54 Int16 F0_1 u_degC,
      fld ''temperature_module_5_sensor_5'' 56 Int16 F0_1 u_degC,
      fld ''temperature_module_5_sensor_6'' 58 Int16 F0_1 u_degC]),
    (pkey 0x7541 0x0010 0x0100, pd ''0x7541'' [
      fld ''temperature_sensor_1'' 0 Int16 F0_1 u_degC,
      fld ''temperature_sensor_2'' 2 Int16 F0_1 u_degC,
      fld ''temperature_sensor_3'' 4 Int16 F0_1 u_degC,
      fld ''temperature_sensor_4'' 6 Int16 F0_1 u_degC,
      fld ''temperature_sensor_5'' 8 Int16 F0_1 u_degC,
      fld ''temperature_sensor_6'' 10 Int16 F0_1 u_degC,
      fld ''temperature_sensor_7'' 12 Int16 F0_1 u_degC,
      fld ''temperature_sensor_8'' 14 Int16 F0_1 u_degC,
      fld ''temperature_sensor_s14_vfd'' 16 Int16 F0_1 u_degC,
      fld ''flow_sensor_s8_v40'' 20 Uint32 F1 u_l_h,
      fld ''flow_sensor_s14_vfd'' 24 Uint32 F1 u_l_h,
      fld ''pressure_sensor_s14_vfd'' 28 Int16 F0_01 u_bar,
      fld ''flow_turbotron'' 132 Uint32 F1 u_l_h,
      fld ''irradiation_sensor_9'' 30 Int16 F1 u_W_m2,
      fld ''pwm_in_dutycycle_1'' 32 Uint32 F0_001 u_pct,
      fld ''pwm_in_dutycycle_2'' 36 Uint32 F0_001 u_pct,
      fld ''pwm_in_dutycycle_3'' 40 Uint32 F0_001 u_pct,
      fld ''pwm_in_dutycycle_4'' 44 Uint32 F0_001 u_pct,
      fld ''pwm_in_frequency_1'' 48 Uint32 F0_001 u_Hz,
      fld ''pwm_in_frequency_2'' 52 Uint32 F0_001 u_Hz,
      fld ''pwm_in_frequency_3'' 56 Uint32 F0_001 u_Hz,
      fld ''pwm_in_frequency_4'' 60 Uint32 F0_001 u_Hz,
      fld ''pump_speed_relay_1'' 64 Uint8 F1 u_pct,
      fld ''pump_speed_relay_2'' 65 Uint8 F1 u_pct,
      fld ''pump_speed_relay_3'' 66 Uint8 F1 u_pct,
      fld ''pump_speed_relay_4'' 67 Uint8 F1 u_pct,
      fld ''pump_speed_relay_5'' 68 Uint8 F1 u_pct,
      fld ''output_pwm_1'' 72 Uint8 F1 u_pct,
      fld ''output_pwm_2'' 73 Uint8 F1 u_pct,
      fld ''output_pwm_3'' 74 Uint8 F1 u_pct,
      fld ''output_pwm_4'' 75 Uint8 F1 u_pct,
      fld ''operating_seconds_relay_1'' 76 Uint32 F1 u_s,
      fld ''operating_seconds_relay_2'' 80 Uint32 F1 u_s,
      fld ''operating_seconds_relay_3'' 84 Uint32 F1 u_s,
      fld ''operating_seconds_relay_4'' 88 Uint32 F1 u_s,
      fld ''operating_seconds_relay_5'' 92 Uint32 F1 u_s,
      fld ''operating_seconds_output_pwm1'' 96 Uint32 F1 u_s,
      fld ''operating_seconds_output_pwm2'' 100 Uint32 F1 u_s,
      fld ''w_o3'' 104 Uint32 F1 u_s,
      fld ''w_o4'' 108 Uint32 F1 u_s,
      fld ''heat_quantity'' 112 Uint32 F1 u_Wh,
      fld ''error'' 116 Uint32 F1 '''',
      fld ''option_mask'' 120 Uint32 F1 '''',
      fld ''version'' 124 Uint16 F0_01 '''',
      fld ''system_date'' 128 Uint32 F1 ''''])]"

definition generatedRegistry_34 :: "(uint64 \<times> PacketDef) list" where
  "generatedRegistry_34 = [
    (pkey 0x7611 0x0010 0x0100, pd ''0x7611'' [
      fld ''temperature_sensor_1'' 0 Int16 F0_1 u_degC,
      fld ''temperature_sensor_2'' 2 Int16 F0_1 u_degC,
      fld ''temperature_sensor_3'' 4 Int16 F0_1 u_degC,
      fld ''temperature_sensor_4'' 6 Int16 F0_1 u_degC,
      fld ''temperature_sensor_5'' 8 Int16 F0_1 u_degC,
      fld ''temperature_sensor_6'' 10 Int16 F0_1 u_degC,
      fld ''temperature_sensor_7'' 12 Int16 F0_1 u_degC,
      fld ''temperature_sensor_8'' 14 Int16 F0_1 u_degC,
      fld ''temperature_sensor_9'' 16 Int16 F0_1 u_degC,
      fld ''system_time'' 18 Int16 F1 '''',
      fld ''pump_speed_relay_1'' 20 Int16 F1 u_pct,
      fld ''pump_speed_relay_2'' 21 Int16 F1 u_pct,
      fld ''sensor_defect_mask'' 23 Uint8 F1 '''',
      fld ''dhw_set_temperature'' 24 Uint8 F1 u_degC,
      fld ''options'' 25 Uint8 F1 '''',
      fld ''status'' 26 Uint8 F1 '''']),
    (pkey 0x7621 0x0010 0x0100, pd ''0x7621'' [
      fld ''temperature_sensor_1'' 0 Int16 F0_1 u_degC,
      fld ''temperature_sensor_2'' 2 Int16 F0_1 u_degC,
      fld ''temperature_sensor_3'' 4 Int16 F0_1 u_degC,
      fld ''temperature_sensor_4'' 6 Int16 F0_1 u_degC,
      fld ''temperature_sensor_5'' 8 Int16 F0_1 u_degC,
      fld ''temperature_sensor_6'' 10 Int16 F0_1 u_degC,
      fld ''temperature_sensor_7'' 12 Int16 F0_1 u_degC,
      fld ''flow_rate_sensor_8'' 14 Int16 F1 u_l_h,
      fld ''irradiation_sensor_9'' 16 Int16 F1 u_W_m2,
      fld ''system_time'' 18 Int16 F1 '''',
      fld ''pump_speed_relay_1'' 20 Int16 F1 u_pct,
      fld ''pump_speed_relay_2'' 21 Int16 F1 u_pct,
      fld ''pump_speed_relay_3'' 22 Int16 F1 u_pct,
      fld ''pump_speed_relay_4'' 23 Int16 F1 u_pct,
      fld ''pump_speed_relay_5'' 24 Int16 F1 u_pct,
      fld ''error_mask'' 25 Uint16 F1 '''',
      fld ''messages'' 28 Uint16 F1 '''']),
    (pkey 0x7622 0x0010 0x0100, pd ''0x7622'' [
      fld ''flow_temperature'' 0 Int16 F0_1 u_degC,
      fld ''return_temperature'' 2 Int16 F0_1 u_degC,
      fld ''flow_rate_sensor_8'' 4 Int16 F1 u_l_h]),
    (pkey 0x7651 0x0010 0x0100, pd ''0x7651'' [
      fld ''temperature_sensor_1'' 0 Int16 F0_1 u_degC,
      fld ''temperature_sensor_2'' 2 Int16 F0_1 u_degC,
      fld ''temperature_sensor_3'' 4 Int16 F0_1 u_degC,
      fld ''temperature_sensor_4'' 6 Int16 F0_1 u_degC,
      fld ''temperature_sensor_5'' 8 Int16 F0_1 u_degC,
      fld ''temperature_sensor_6'' 10 Int16 F0_1 u_degC,
      fld ''temperature_sensor_7'' 12 Int16 F0_1 u_degC,
      fld ''flow_rate_sensor_8'' 14 Int16 F0_1 u_l_min,
      fld ''digital_input_9'' 16 Int16 F1 '''',
      fld ''status_relay_1'' 17 Int16 F1 u_pct,
      fld ''status_relay2'' 18 Int16 F1 u_pct,
      fld ''relay_3_status'' 19 Int16 F1 u_pct,
      fld ''relay_4_status'' 20 Int16 F1 u_pct,
      fld ''status_relay_5'' 21 Int16 F1 u_pct,
      fld ''version'' 24 Uint16 F0_01 '''',
      fld ''system_time'' 26 Uint16 F1 '''']),
    (pkey 0x7711 0x0010 0x0100, pd ''0x7711'' [
      fld ''temperature_sensor_1'' 0 Int16 F0_1 u_degC,
      fld ''temperature_sensor_2'' 2 Int16 F0_1 u_degC,
      fld ''temperature_sensor_3'' 4 Int16 F0_1 u_degC,
      fld ''temperature_sensor_4'' 6 Int16 F0_1 u_degC,
      fld ''temperature_sensor_5'' 8 Int16 F0_1 u_degC,
      fld ''temperature_sensor_6'' 10 Int16 F0_1 u_degC,
      fld ''temperature_sensor_7'' 12 Int16 F0_1 u_degC,
      fld ''temperature_sensor_8'' 14 Int16 F0_1 u_degC,
      fld ''temperature_sensor_9'' 16 Int16 F0_1 u_degC,
      fld ''temperature_sensor_10'' 18 Int16 F0_1 u_degC,
      fld ''irradiation'' 20 Int16 F1 u_W_m2,
      fld ''impulse_input_1'' 22 Uint16 F1 '''',
      fld ''impulse_input_2'' 24 Uint16 F1 '''',
      fld ''pump_speed_relay_1'' 26 Uint8 F1 u_pct,
      fld ''pump_speed_relay_2'' 27 Uint8 F1 u_pct,
      fld ''pump_speed_relay_3'' 28 Uint8 F1 u_pct,
      fld ''pump_speed_relay_4'' 29 Uint8 F1 u_pct,
      fld ''pump_speed_relay_5'' 30 Uint8 F1 u_pct,
      fld ''pump_speed_relay_6'' 31 Uint8 F1 u_pct,
      fld ''pump_speed_relay_7'' 32 Uint8 F1 u_pct,
      fld ''system_time'' 34 Uint16 F1 '''',
      fld ''error_mask'' 36 Uint16 F1 '''',
      fld ''warning_mask'' 38 Uint16 F1 '''',
      fld ''controller_version'' 40 Uint16 F1 '''',
      fld ''system'' 42 Uint8 F1 '''',
      fld ''scheme'' 43 Uint8 F1 '''',
      fld ''hc1_flow_set'' 44 Int16 F0_1 u_degC,
      fld ''hc1_operation_status'' 46 Uint8 F1 '''',
      fld ''hc1_status'' 47 Uint8 F1 '''',
      fld ''hc2_flow_set'' 48 Int16 F0_1 u_degC,
      fld ''hc2_operation_status'' 50 Uint8 F1 '''',
      fld ''hc2_status'' 51 Uint8 F1 '''',
      fld ''hc3_flow_set'' 52 Int16 F0_1 u_degC,
      fld ''hc3_operation_status'' 54 Uint8 F1 '''',
      fld ''hc3_status'' 55 Uint8 F1 '''',
      fld ''sensor_usage_mask'' 56 Uint32 F1 '''',
      fld ''relay_usage_mask'' 60 Uint32 F1 '''']),
    (pkey 0x7712 0x0010 0x0100, pd ''0x7712'' [
      fld ''flow_temperature'' 0 Int16 F0_1 u_degC,
      fld ''return_temperature'' 2 Int16 F0_1 u_degC,
      fld ''flow_rate'' 4 Uint16 F1 u_l_h])]"

definition generatedRegistry_35 :: "(uint64 \<times> PacketDef) list" where
  "generatedRegistry_35 = [
    (pkey 0x7721 0x0010 0x0100, pd ''0x7721'' [
      fld ''temperature_sensor_1'' 0 Int16 F0_1 u_degC,
      fld ''temperature_sensor_2'' 2 Int16 F0_1 u_degC,
      fld ''temperature_sensor_3'' 4 Int16 F0_1 u_degC,
      fld ''temperature_sensor_4'' 6 Int16 F0_1 u_degC,
      fld ''temperature_sensor_5'' 8 Int16 F0_1 u_degC,
      fld ''temperature_sensor_6'' 10 Int16 F0_1 u_degC,
      fld ''temperature_sensor_7'' 12 Int16 F0_1 u_degC,
      fld ''temperature_sensor_8'' 14 Int16 F0_1 u_degC,
      fld ''temperature_sensor_9'' 16 Int16 F0_1 u_degC,
      fld ''temperature_sensor_10'' 18 Int16 F0_1 u_degC,
      fld ''irradiation_cs'' 20 Int16 F1 u_W_m2,
      fld ''impulse_1_v40'' 22 Uint16 F1 '''',
      fld ''digital_input'' 24 Uint16 F1 '''',
      fld ''pump_speed_relay_1'' 26 Int16 F1 u_pct,
      fld ''pump_speed_relay_2'' 27 Int16 F1 u_pct,
      fld ''pump_speed_relay_3'' 28 Int16 F1 u_pct,
      fld ''pump_speed_relay_4'' 29 Int16 F1 u_pct,
      fld ''pump_speed_relay_5'' 30 Int16 F1 u_pct,
      fld ''pump_speed_relay_6'' 31 Int16 F1 u_pct,
      fld ''pump_speed_relay_7'' 32 Int16 F1 u_pct,
      fld ''error_mask'' 36 Uint16 F1 '''',
      fld ''messages'' 38 Uint16 F1 '''',
      fld ''system'' 40 Int16 F1 '''',
      fld ''scheme'' 42 Uint16 F1 '''',
      fld ''flow_set_hc1_module_sensor_18'' 44 Int16 F0_1 u_degC,
      fld ''status_hc1_module'' 46 Uint16 F1 '''',
      fld ''flow_set_hc2_module_sensor_25'' 48 Int16 F0_1 u_degC,
      fld ''status_hc2_module'' 50 Uint16 F1 '''',
      fld ''flow_set_hc3_module_sensor_32'' 52 Int16 F0_1 u_degC,
      fld ''status_hc3_module'' 54 Uint16 F1 '''',
      fld ''flow_set_heating_circuit_sensor_11'' 56 Int16 F0_1 u_degC,
      fld ''heating_circuit_status'' 58 Uint16 F1 '''',
      fld ''system_time'' 62 Int16 F1 '''',
      fld ''year'' 64 Int16 F1 '''',
      fld ''month'' 66 Int16 F1 '''',
      fld ''day'' 67 Int16 F1 '''']),
    (pkey 0x7722 0x0010 0x0100, pd ''0x7722'' [
      fld ''flow_temperature'' 0 Int16 F0_1 u_degC,
      fld ''return_temperature'' 2 Int16 F0_1 u_degC,
      fld ''flow_rate_sensor_8'' 4 Int16 F1 u_l_h]),
    (pkey 0x7729 0x0010 0x0100, pd ''0x7729'' [
      fld ''temperature_sensor_1'' 0 Int16 F0_1 u_degF,
      fld ''temperature_sensor_2'' 2 Int16 F0_1 u_degF,
      fld ''temperature_sensor_3'' 4 Int16 F0_1 u_degF,
      fld ''temperature_sensor_4'' 6 Int16 F0_1 u_degF,
      fld ''temperature_sensor_5'' 8 Int16 F0_1 u_degF,
      fld ''temperature_sensor_6'' 10 Int16 F0_1 u_degF,
      fld ''temperature_sensor_7'' 12 Int16 F0_1 u_degF,
      fld ''temperature_sensor_8'' 14 Int16 F0_1 u_degF,
      fld ''temperature_sensor_9'' 16 Int16 F0_1 u_degF,
      fld ''temperature_sensor_10'' 18 Int16 F0_1 u_degF,
      fld ''irradiation_cs'' 20 Int16 F1 u_W_m2,
      fld ''impulse_1_v40'' 22 Uint16 F1 '''',
      fld ''digital_input'' 24 Uint16 F1 '''',
      fld ''pump_speed_relay_1'' 26 Int16 F1 u_pct,
      fld ''pump_speed_relay_2'' 27 Int16 F1 u_pct,
      fld ''pump_speed_relay_3'' 28 Int16 F1 u_pct,
      fld ''pump_speed_relay_4'' 29 Int16 F1 u_pct,
      fld ''pump_speed_relay_5'' 30 Int16 F1 u_pct,
      fld ''pump_speed_relay_6'' 31 Int16 F1 u_pct,
      fld ''pump_speed_relay_7'' 32 Int16 F1 u_pct,
      fld ''error_mask'' 36 Uint16 F1 '''',
      fld ''messages'' 38 Uint16 F1 '''',
      fld ''system'' 40 Int16 F1 '''',
      fld ''scheme'' 42 Uint16 F1 '''',
      fld ''flow_set_hc1_module_sensor_18'' 44 Int16 F0_1 u_degF,
      fld ''status_hc1_module'' 46 Uint16 F1 '''',
      fld ''flow_set_hc2_module_sensor_25'' 48 Int16 F0_1 u_degF,
      fld ''status_hc2_module'' 50 Uint16 F1 '''',
      fld ''flow_set_hc3_module_sensor_32'' 52 Int16 F0_1 u_degF,
      fld ''status_hc3_module'' 54 Uint16 F1 '''',
      fld ''flow_set_heating_circuit_sensor_11'' 56 Int16 F0_1 u_degF,
      fld ''heating_circuit_status'' 58 Uint16 F1 '''',
      fld ''system_time'' 62 Int16 F1 '''',
      fld ''year'' 64 Int16 F1 '''',
      fld ''month'' 66 Int16 F1 '''',
      fld ''day'' 67 Int16 F1 '''']),
    (pkey 0x772A 0x0010 0x0100, pd ''0x772A'' [
      fld ''flow_temperature'' 0 Int16 F0_1 u_degF,
      fld ''return_temperature'' 2 Int16 F0_1 u_degF,
      fld ''flow_rate_sensor_8'' 4 Int16 F1 u_l_h]),
    (pkey 0x7731 0x0010 0x0100, pd ''0x7731'' [
      fld ''temperature_sensor_1'' 0 Int16 F0_1 u_degC,
      fld ''temperature_sensor_2'' 2 Int16 F0_1 u_degC,
      fld ''temperature_sensor_3'' 4 Int16 F0_1 u_degC,
      fld ''temperature_sensor_4'' 6 Int16 F0_1 u_degC,
      fld ''temperature_sensor_5'' 8 Int16 F0_1 u_degC,
      fld ''temperature_sensor_6'' 10 Int16 F0_1 u_degC,
      fld ''temperature_sensor_7'' 12 Int16 F0_1 u_degC,
      fld ''temperature_sensor_8'' 14 Int16 F0_1 u_degC,
      fld ''pump_speed_r1'' 16 Uint8 F1 u_pct,
      fld ''pump_speed_r2'' 17 Uint8 F1 u_pct,
      fld ''pump_speed_r3'' 18 Uint8 F1 u_pct,
      fld ''relay_byte'' 19 Uint8 F1 '''',
      fld ''scheme'' 26 Uint8 F1 '''']),
    (pkey 0x7751 0x0010 0x0100, pd ''0x7751'' [
      fld ''temperature_sensor_1'' 0 Int16 F0_1 u_degC,
      fld ''temperature_sensor_2'' 2 Int16 F0_1 u_degC,
      fld ''temperature_sensor_3'' 4 Int16 F0_1 u_degC,
      fld ''temperature_sensor_4'' 6 Int16 F0_1 u_degC,
      fld ''temperature_sensor_5'' 8 Int16 F0_1 u_degC,
      fld ''temperature_sensor_6'' 10 Int16 F0_1 u_degC,
      fld ''temperature_sensor_7'' 12 Int16 F0_1 u_degC,
      fld ''temperature_sensor_8'' 14 Int16 F0_1 u_degC,
      fld ''temperature_sensor_9'' 16 Int16 F0_1 u_degC,
      fld ''temperature_sensor_10'' 18 Int16 F0_1 u_degC,
      fld ''temperature_sensor_11'' 20 Int16 F0_1 u_degC,
      fld ''flow_rate'' 22 Int16 F0_1 u_l_min,
      fld ''pump_speed_r1'' 24 Uint8 F1 u_pct,
      fld ''pump_speed_r2'' 25 Uint8 F1 u_pct,
      fld ''pump_speed_r3'' 26 Uint8 F1 u_pct,
      fld ''heat_quantity'' 28 Uint32 F1 u_Wh,
      fld ''system_date'' 32 Uint32 F1 '''',
      fld ''system_time'' 36 Uint16 F1 '''',
      fld ''variant'' 39 Uint8 F1 ''''])]"

definition generatedRegistry_36 :: "(uint64 \<times> PacketDef) list" where
  "generatedRegistry_36 = [
    (pkey 0x7761 0x0010 0x0100, pd ''0x7761'' [
      fld ''temperature_sensor_1'' 0 Int16 F0_1 u_degC,
      fld ''temperature_sensor_2'' 2 Int16 F0_1 u_degC,
      fld ''temperature_sensor_3'' 4 Int16 F0_1 u_degC,
      fld ''temperature_sensor_4'' 6 Int16 F0_1 u_degC,
      fld ''temperature_sensor_5'' 8 Int16 F0_1 u_degC,
      fld ''temperature_sensor_6'' 10 Int16 F0_1 u_degC,
      fld ''temperature_sensor_7'' 12 Int16 F0_1 u_degC,
      fld ''temperature_sensor_8'' 14 Int16 F0_1 u_degC,
      fld ''temperature_sensor_9'' 16 Int16 F0_1 u_degC,
      fld ''temperature_sensor_10'' 18 Int16 F0_1 u_degC,
      fld ''irradiation_cs'' 20 Int16 F1 u_W_m2,
      fld ''impulse_1_v40'' 22 Uint16 F1 '''',
      fld ''digital_input'' 24 Uint16 F1 '''',
      fld ''pump_speed_relay_1'' 26 Int16 F1 u_pct,
      fld ''pump_speed_relay_2'' 27 Int16 F1 u_pct,
      fld ''pump_speed_relay_3'' 28 Int16 F1 u_pct,
      fld ''pump_speed_relay_4'' 29 Int16 F1 u_pct,
      fld ''pump_speed_relay_5'' 30 Int16 F1 u_pct,
      fld ''pump_speed_relay_6'' 31 Int16 F1 u_pct,
      fld ''pump_speed_relay_7'' 32 Int16 F1 u_pct,
      fld ''error_mask'' 33 Uint16 F1 '''',
      fld ''messages'' 36 Uint32 F1 '''',
      fld ''filter_runtime'' 40 Uint16 F1 u_min,
      fld ''system_time'' 46 Int16 F1 '''',
      fld ''year'' 48 Int16 F1 '''',
      fld ''month'' 50 Int16 F1 '''',
      fld ''day'' 51 Int16 F1 '''',
      fld ''circulation_time_counter'' 52 Uint32 F1 u_s,
      fld ''extra_filter_time'' 56 Uint32 F1 u_s,
      fld ''pump_monitoring'' 60 Uint32 F1 u_s,
      fld ''solar_min_on_off'' 64 Uint32 F1 u_s,
      fld ''sim5'' 68 Uint32 F1 '''',
      fld ''duration_controlling_period'' 72 Uint32 F1 u_ms,
      fld ''solar_phase'' 44 Uint8 F1 '''']),
    (pkey 0x7762 0x0010 0x0100, pd ''0x7762'' [
      fld ''flow_temperature'' 0 Int16 F0_1 u_degC,
      fld ''return_temperature'' 2 Int16 F0_1 u_degC,
      fld ''flow_rate_sensor_8'' 4 Int16 F1 u_l_h]),
    (pkey 0x7774 0x0010 0x0100, pd ''0x7774'' [
      fld ''date'' 0 Uint32 F1 '''',
      fld ''time'' 4 Int16 F1 '''',
      fld ''tss'' 8 Int16 F0_1 u_degC,
      fld ''tef'' 10 Int16 F0_1 u_degC,
      fld ''flow_rate'' 18 Uint16 F1 u_l_h,
      fld ''volume'' 20 Uint32 F0_01 u_m3,
      fld ''impulse'' 96 Uint32 F1 '''',
      fld ''tss'' 24 Int16 F0_1 u_degC,
      fld ''tsa'' 26 Int16 F0_1 u_degC,
      fld ''flow_rate2'' 34 Uint16 F1 u_l_h,
      fld ''impulse'' 96 Uint32 F1 '''',
      fld ''tac'' 36 Int16 F0_1 u_degC,
      fld ''taf'' 38 Int16 F0_1 u_degC,
      fld ''flow_rate3'' 46 Uint16 F1 u_l_h,
      fld ''impulse'' 100 Uint32 F1 '''',
      fld ''tbc'' 48 Int16 F0_1 u_degC,
      fld ''tbf'' 50 Int16 F0_1 u_degC,
      fld ''flow_rate4'' 58 Uint16 F1 u_l_h,
      fld ''impulse'' 104 Uint32 F1 '''',
      fld ''tsc'' 60 Int16 F0_1 u_degC,
      fld ''tsf'' 62 Int16 F0_1 u_degC,
      fld ''flow_rate5'' 70 Uint16 F1 u_l_h,
      fld ''impulse'' 108 Uint32 F1 '''',
      fld ''current1'' 72 Uint32 F1 u_Wh,
      fld ''current1'' 76 Uint32 F1 u_kWh,
      fld ''impulse'' 112 Uint32 F1 '''',
      fld ''current2'' 80 Uint32 F1 u_kWh,
      fld ''impulse'' 116 Uint32 F1 '''',
      fld ''gas1'' 84 Uint32 F0_01 u_m3,
      fld ''impulse'' 128 Uint32 F1 '''',
      fld ''therm_energy1'' 88 Uint32 F1 u_kWh,
      fld ''impulse'' 120 Uint32 F1 '''',
      fld ''therm_energy2'' 92 Uint32 F1 u_kWh,
      fld ''impulse'' 124 Uint32 F1 '''',
      fld ''impulse_counter_1_volume_1_2'' 96 Uint32 F1 '''',
      fld ''impulse_counter_2_volume_3'' 100 Uint32 F1 '''',
      fld ''impulse_counter_3_volume_4'' 104 Uint32 F1 '''',
      fld ''impulse_counter_4_volume_5'' 108 Uint32 F1 '''',
      fld ''impulse_counter_5_current_1'' 112 Uint32 F1 '''',
      fld ''impulse_counter_6_current_2'' 116 Uint32 F1 '''',
      fld ''impulse_counter_7_th_energy_1'' 120 Uint32 F1 '''',
      fld ''impulse_counter_8_th_energy_2'' 124 Uint32 F1 '''',
      fld ''impulse_counter_9_gas_1'' 128 Uint32 F1 '''']),
    (pkey 0x7821 0x0010 0x0100, pd ''0x7821'' [
      fld ''temperature_sensor_1'' 0 Int16 F0_1 u_degC,
      fld ''temperature_sensor_2'' 2 Int16 F0_1 u_degC,
      fld ''temperature_sensor_3'' 4 Int16 F0_1 u_degC,
      fld ''temperature_sensor_4'' 6 Int16 F0_1 u_degC,
      fld ''temperature_sensor_5'' 8 Int16 F0_1 u_degC,
      fld ''temperature_sensor_6'' 10 Int16 F0_1 u_degC,
      fld ''temperature_sensor_7'' 12 Int16 F0_1 u_degC,
      fld ''temperature_sensor_8'' 14 Int16 F0_1 u_degC,
      fld ''temperature_sensor_9'' 16 Int16 F0_1 u_degC,
      fld ''temperature_sensor_10'' 18 Int16 F0_1 u_degC,
      fld ''irradiation_cs'' 20 Int16 F1 u_W_m2,
      fld ''impulse_1_v40'' 22 Uint16 F1 '''',
      fld ''digital_input'' 24 Uint16 F1 '''',
      fld ''pump_speed_relay_1'' 26 Int16 F1 u_pct,
      fld ''pump_speed_relay_2'' 27 Int16 F1 u_pct,
      fld ''pump_speed_relay_3'' 28 Int16 F1 u_pct,
      fld ''pump_speed_relay_4'' 29 Int16 F1 u_pct,
      fld ''pump_speed_relay_5'' 30 Int16 F1 u_pct,
      fld ''pump_speed_relay_6'' 31 Int16 F1 u_pct,
      fld ''pump_speed_relay_7'' 32 Int16 F1 u_pct,
      fld ''error_mask'' 36 Uint16 F1 '''',
      fld ''messages'' 38 Uint16 F1 '''',
      fld ''system'' 40 Int16 F1 '''',
      fld ''scheme'' 42 Uint16 F1 '''',
      fld ''flow_set_hc1_module_sensor_18'' 44 Int16 F0_1 u_degC,
      fld ''status_hc1_module'' 46 Uint16 F1 '''',
      fld ''flow_set_hc2_module_sensor_25'' 48 Int16 F0_1 u_degC,
      fld ''status_hc2_module'' 50 Uint16 F1 '''',
      fld ''flow_set_hc3_module_sensor_32'' 52 Int16 F0_1 u_degC,
      fld ''status_hc3_module'' 54 Uint16 F1 '''',
      fld ''flow_set_heating_circuit_sensor_11'' 56 Int16 F0_1 u_degC,
      fld ''heating_circuit_status'' 58 Uint16 F1 '''',
      fld ''system_time'' 62 Int16 F1 '''',
      fld ''year'' 64 Int16 F1 '''',
      fld ''month'' 66 Int16 F1 '''',
      fld ''day'' 67 Int16 F1 '''']),
    (pkey 0x7822 0x0010 0x0100, pd ''0x7822'' [
      fld ''flow_temperature'' 0 Int16 F0_1 u_degC,
      fld ''return_temperature'' 2 Int16 F0_1 u_degC,
      fld ''flow_rate_sensor_8'' 4 Int16 F1 u_l_h])]"

definition generatedRegistry_37 :: "(uint64 \<times> PacketDef) list" where
  "generatedRegistry_37 = [
    (pkey 0x7840 0x0010 0x0100, pd ''0x7840'' [
      fld ''temperature_sensor_1'' 4 Int16 F0_1 u_degC,
      fld ''temperature_sensor_2'' 6 Int16 F0_1 u_degC,
      fld ''temperature_sensor_3'' 8 Int16 F0_1 u_degC,
      fld ''temperature_sensor_4'' 10 Int16 F0_1 u_degC,
      fld ''pump_speed_relay_1'' 20 Int16 F1 u_pct,
      fld ''pump_speed_relay_2'' 21 Int16 F1 u_pct,
      fld ''sw_version'' 28 Int16 F0_01 '''',
      fld ''operating_hours_relay_1'' 32 Uint32 F1 u_h,
      fld ''operating_hours_relay_2'' 36 Uint32 F1 u_h,
      fld ''antifreeze'' 67 Int16 F1 '''',
      fld ''error_mask'' 72 Uint32 F1 '''']),
    (pkey 0x7841 0x0010 0x0100, pd ''0x7841'' [
      fld ''heat_quantity'' 0 Uint32 F1 u_Wh,
      fld ''power'' 4 Uint32 F1 u_W]),
    (pkey 0x7910 0x0010 0x0100, pd ''0x7910'' [
      fld ''temperature_sensor_1'' 0 Int16 F0_1 u_degC,
      fld ''temperature_sensor_2'' 2 Int16 F0_1 u_degC,
      fld ''temperature_sensor_3'' 4 Int16 F0_1 u_degC,
      fld ''temperature_sensor_4'' 6 Int16 F0_1 u_degC,
      fld ''temperature_sensor_5'' 8 Int16 F0_1 u_degC,
      fld ''temperature_sensor_6'' 10 Int16 F0_1 u_degC,
      fld ''temperature_sensor_7'' 12 Int16 F0_1 u_degC,
      fld ''temperature_sensor_8'' 14 Int16 F0_1 u_degC,
      fld ''temperature_sensor_9'' 16 Int16 F0_1 u_degC,
      fld ''temperature_sensor_10'' 18 Int16 F0_1 u_degC,
      fld ''flow_rate_sensor_s10_v40'' 20 Uint32 F1 u_l_h,
      fld ''irradiation_sensor_cs10'' 24 Int16 F1 u_W_m2,
      fld ''pressure_sensor_rps'' 26 Int16 F0_01 u_bar,
      fld ''flow_rate_sensor_flowrotor'' 28 Uint32 F1 u_l_h,
      fld ''pump_speed_relay_1'' 32 Uint8 F1 u_pct,
      fld ''pump_speed_relay_2'' 33 Uint8 F1 u_pct,
      fld ''pump_speed_relay_3'' 34 Uint8 F1 u_pct,
      fld ''pump_speed_relay_4'' 35 Uint8 F1 u_pct,
      fld ''pump_speed_relay_5'' 36 Uint8 F1 u_pct,
      fld ''system_date'' 40 Uint32 F1 '''',
      fld ''error_mask'' 44 Uint32 F1 '''']),
    (pkey 0x7911 0x0010 0x0100, pd ''0x7911'' [
      fld ''temperature_module_1_sensor_1'' 0 Int16 F0_1 u_degC,
      fld ''temperature_module_1_sensor_2'' 2 Int16 F0_1 u_degC,
      fld ''temperature_module_1_sensor_3'' 4 Int16 F0_1 u_degC,
      fld ''temperature_module_1_sensor_4'' 6 Int16 F0_1 u_degC,
      fld ''temperature_module_1_sensor_5'' 8 Int16 F0_1 u_degC,
      fld ''temperature_module_1_sensor_6'' 10 Int16 F0_1 u_degC,
      fld ''temperature_module_2_sensor_1'' 12 Int16 F0_1 u_degC,
      fld ''temperature_module_2_sensor_2'' 14 Int16 F0_1 u_degC,
      fld ''temperature_module_2_sensor_3'' 16 Int16 F0_1 u_degC,
      fld ''temperature_module_2_sensor_4'' 18 Int16 F0_1 u_degC,
      fld ''temperature_module_2_sensor_5'' 20 Int16 F0_1 u_degC,
      fld ''temperature_module_2_sensor_6'' 22 Int16 F0_1 u_degC]),
    (pkey 0x7D04 0x0010 0x0100, pd ''0x7D04'' [
      fld ''dhw_temperature'' 0 Int16 F0_1 u_degC,
      fld ''cold_water_temperature'' 2 Int16 F0_1 u_degC,
      fld ''circulation_temperature'' 4 Int16 F0_1 u_degC,
      fld ''flow_rate'' 6 Int16 F0_1 u_l_min,
      fld ''pump_speed_relay_1'' 8 Uint8 F1 u_pct,
      fld ''pump_speed_relay_2'' 9 Uint8 F1 u_pct,
      fld ''system_time'' 10 Int16 F1 '''',
      fld ''options'' 12 Uint8 F1 '''',
      fld ''status'' 13 Uint8 F1 '''',
      fld ''relay_status'' 14 Uint8 F1 '''',
      fld ''sensor_defective'' 15 Uint8 F1 '''',
      fld ''dhw_set_temperature'' 16 Uint8 F1 u_degC,
      fld ''source_temperature'' 17 Uint8 F1 u_degC,
      fld ''remaining_draw_off'' 19 Uint8 F1 u_min,
      fld ''operating_cycles'' 20 Uint32 F1 '''',
      fld ''max_cold_water_temperature'' 32 Int16 F0_1 u_degC,
      fld ''min_cold_water_temperature'' 34 Int16 F0_1 u_degC,
      fld ''max_flow_rate'' 36 Int16 F1 u_l_h,
      fld ''draw_off_quantity'' 38 Uint16 F0_1 u_m3])]"

definition generatedRegistry_38 :: "(uint64 \<times> PacketDef) list" where
  "generatedRegistry_38 = [
    (pkey 0x7E11 0x0010 0x0100, pd ''0x7E11'' [
      fld ''temperature_sensor_1'' 0 Int16 F0_1 u_degC,
      fld ''temperature_sensor_2'' 2 Int16 F0_1 u_degC,
      fld ''temperature_sensor_3'' 4 Int16 F0_1 u_degC,
      fld ''temperature_sensor_4'' 6 Int16 F0_1 u_degC,
      fld ''temperature_sensor_5'' 8 Int16 F0_1 u_degC,
      fld ''temperature_sensor_6'' 10 Int16 F0_1 u_degC,
      fld ''temperature_sensor_7'' 12 Int16 F0_1 u_degC,
      fld ''temperature_sensor_8'' 14 Int16 F0_1 u_degC,
      fld ''temperature_sensor_9'' 16 Int16 F0_1 u_degC,
      fld ''temperature_sensor_10'' 18 Int16 F0_1 u_degC,
      fld ''temperature_sensor_11'' 20 Int16 F0_1 u_degC,
      fld ''temperature_sensor_12'' 22 Int16 F0_1 u_degC,
      fld ''temperature_sensor_13'' 24 Int16 F0_1 u_degC,
      fld ''temperature_sensor_14'' 26 Int16 F0_1 u_degC,
      fld ''temperature_sensor_15'' 28 Int16 F0_1 u_degC,
      fld ''irradiation_sensor_16'' 30 Int16 F1 u_W_m2,
      fld ''temperature_sensor_17'' 32 Int16 F0_1 u_degC,
      fld ''temperature_sensor_18'' 34 Int16 F0_1 u_degC,
      fld ''temperature_sensor_19'' 36 Int16 F0_1 u_degC,
      fld ''temperature_sensor_20'' 38 Int16 F0_1 u_degC,
      fld ''flow_rate_sensor_13'' 40 Uint32 F1 u_l_h,
      fld ''flow_rate_sensor_14'' 44 Uint32 F1 u_l_h,
      fld ''flow_rate_sensor_15'' 48 Uint32 F1 u_l_h,
      fld ''flow_rate_sensor_17'' 52 Uint32 F1 u_l_h,
      fld ''flow_rate_sensor_18'' 56 Uint32 F1 u_l_h,
      fld ''flow_rate_sensor_19'' 60 Uint32 F1 u_l_h,
      fld ''flow_rate_sensor_20'' 64 Uint32 F1 u_l_h,
      fld ''flow_rate_sensor_21'' 104 Uint32 F1 u_l_h,
      fld ''pressure_sensor_17'' 68 Int16 F0_01 u_bar,
      fld ''pressure_sensor_18'' 70 Int16 F0_01 u_bar,
      fld ''pressure_sensor_19'' 72 Int16 F0_01 u_bar,
      fld ''pressure_sensor_20'' 74 Int16 F0_01 u_bar,
      fld ''pump_speed_relay_1'' 76 Uint8 F1 u_pct,
      fld ''pump_speed_relay_2'' 77 Uint8 F1 u_pct,
      fld ''pump_speed_relay_3'' 78 Uint8 F1 u_pct,
      fld ''pump_speed_relay_4'' 79 Uint8 F1 u_pct,
      fld ''pump_speed_relay_5'' 80 Uint8 F1 u_pct,
      fld ''pump_speed_relay_6'' 81 Uint8 F1 u_pct,
      fld ''pump_speed_relay_7'' 82 Uint8 F1 u_pct,
      fld ''pump_speed_relay_8'' 83 Uint8 F1 u_pct,
      fld ''pump_speed_relay_9'' 84 Uint8 F1 u_pct,
      fld ''pump_speed_relay_10'' 85 Uint8 F1 u_pct,
      fld ''pump_speed_relay_11'' 86 Uint8 F1 u_pct,
      fld ''pump_speed_relay_12'' 87 Uint8 F1 u_pct,
      fld ''pump_speed_relay_13'' 88 Uint8 F1 u_pct,
      fld ''pump_speed_relay_14'' 89 Uint8 F1 u_pct,
      fld ''output_a'' 100 Uint8 F1 u_pct,
      fld ''output_b'' 101 Uint8 F1 u_pct,
      fld ''output_c'' 102 Uint8 F1 u_pct,
      fld ''output_d'' 103 Uint8 F1 u_pct,
      fld ''system_date'' 92 Uint32 F1 '''',
      fld ''error_mask'' 96 Uint32 F1 '''']),
    (pkey 0x7E12 0x0010 0x0100, pd ''0x7E12'' [
      fld ''temperature_module_1_sensor_1'' 0 Int16 F0_1 u_degC,
      fld ''temperature_module_1_sensor_2'' 2 Int16 F0_1 u_degC,
      fld ''temperature_module_1_sensor_3'' 4 Int16 F0_1 u_degC,
      fld ''temperature_module_1_sensor_4'' 6 Int16 F0_1 u_degC,
      fld ''temperature_module_1_sensor_5'' 8 Int16 F0_1 u_degC,
      fld ''temperature_module_1_sensor_6'' 10 Int16 F0_1 u_degC,
      fld ''temperature_module_2_sensor_1'' 12 Int16 F0_1 u_degC,
      fld ''temperature_module_2_sensor_2'' 14 Int16 F0_1 u_degC,
      fld ''temperature_module_2_sensor_3'' 16 Int16 F0_1 u_degC,
      fld ''temperature_module_2_sensor_4'' 18 Int16 F0_1 u_degC,
      fld ''temperature_module_2_sensor_5'' 20 Int16 F0_1 u_degC,
      fld ''temperature_module_2_sensor_6'' 22 Int16 F0_1 u_degC,
      fld ''temperature_module_3_sensor_1'' 24 Int16 F0_1 u_degC,
      fld ''temperature_module_3_sensor_2'' 26 Int16 F0_1 u_degC,
      fld ''temperature_module_3_sensor_3'' 28 Int16 F0_1 u_degC,
      fld ''temperature_module_3_sensor_4'' 30 Int16 F0_1 u_degC,
      fld ''temperature_module_3_sensor_5'' 32 Int16 F0_1 u_degC,
      fld ''temperature_module_3_sensor_6'' 34 Int16 F0_1 u_degC,
      fld ''temperature_module_4_sensor_1'' 36 Int16 F0_1 u_degC,
      fld ''temperature_module_4_sensor_2'' 38 Int16 F0_1 u_degC,
      fld ''temperature_module_4_sensor_3'' 40 Int16 F0_1 u_degC,
      fld ''temperature_module_4_sensor_4'' 42 Int16 F0_1 u_degC,
      fld ''temperature_module_4_sensor_5'' 44 Int16 F0_1 u_degC,
      fld ''temperature_module_4_sensor_6'' 46 Int16 F0_1 u_degC,
      fld ''temperature_module_5_sensor_1'' 48 Int16 F0_1 u_degC,
      fld ''temperature_module_5_sensor_2'' 50 Int16 F0_1 u_degC,
      fld ''temperature_module_5_sensor_3'' 52 Int16 F0_1 u_degC,
      fld ''temperature_module_5_sensor_4'' 54 Int16 F0_1 u_degC,
      fld ''temperature_module_5_sensor_5'' 56 Int16 F0_1 u_degC,
      fld ''temperature_module_5_sensor_6'' 58 Int16 F0_1 u_degC]),
    (pkey 0x7F61 0x0010 0x0100, pd ''0x7F61'' [
      fld ''seconds_no'' 0 Uint32 F1 u_s,
      fld ''t_ambient'' 4 Uint32 F0_1 u_degC,
      fld ''t_flow_s1'' 8 Uint32 F0_1 u_degC,
      fld ''t_return_s2'' 12 Uint32 F0_1 u_degC,
      fld ''tsl'' 16 Uint32 F0_1 u_degC,
      fld ''tmax_temp_s5'' 20 Uint32 F0_1 u_degC,
      fld ''irradiation'' 24 Uint32 F0_1 u_W_m2,
      fld ''flow_rate_1'' 28 Uint32 F1 u_l_h,
      fld ''flow_rate_2'' 32 Uint32 F1 u_l_h,
      fld ''s6'' 36 Uint32 F0_1 u_degC,
      fld ''s7'' 40 Uint32 F0_1 u_degC,
      fld ''rated_current_1'' 44 Uint32 F0_01 u_mA,
      fld ''rated_current_2'' 48 Uint32 F0_01 u_mA,
      fld ''date_measured_values'' 52 Uint32 F1 '''',
      fld ''heat_quantity_1'' 56 Uint32 F0_01 u_kWh,
      fld ''heat_quantity_2'' 60 Uint32 F0_01 u_kWh,
      fld ''5_min_error_code'' 64 Uint32 F1 '''']),
    (pkey 0x7F62 0x0010 0x0100, pd ''0x7F62'' [
      fld ''date'' 0 Uint32 F1 '''',
      fld ''h_day'' 4 Uint32 F0_01 u_kWh_m2d,
      fld ''q_meas'' 8 Uint32 F0_001 u_kWh_m2d,
      fld ''q_est2'' 12 Uint32 F0_001 u_kWh_m2d,
      fld ''q_est'' 16 Uint32 F0_001 u_kWh_m2d,
      fld ''message'' 20 Uint32 F1 '''',
      fld ''dt_meas'' 24 Uint32 F0_01 u_h,
      fld ''dt_estimated2'' 28 Uint32 F0_01 u_h,
      fld ''dt_estimated'' 32 Uint32 F0_01 u_h,
      fld ''qutil_m'' 36 Uint32 F0_01 u_kWh_m2d,
      fld ''qutil_e2'' 40 Uint32 F0_01 u_kWh_m2d,
      fld ''qutil_e'' 44 Uint32 F0_01 u_kWh_m2d,
      fld ''qtv_e2'' 48 Uint32 F0_001 u_kWh_m2d,
      fld ''qtv_e'' 52 Uint32 F0_001 u_kWh_m2d,
      fld ''qkv_e2'' 56 Uint32 F0_001 u_kWh_m2d,
      fld ''qkv_e'' 60 Uint32 F0_001 u_kWh_m2d,
      fld ''qskv_e2'' 64 Uint32 F0_001 u_kWh_m2d,
      fld ''qskv_e'' 68 Uint32 F0_001 u_kWh_m2d,
      fld ''tset_day'' 72 Uint32 F0_01 u_degC])]"

definition generatedRegistry_39 :: "(uint64 \<times> PacketDef) list" where
  "generatedRegistry_39 = [
    (pkey 0x7F63 0x0010 0x0100, pd ''0x7F63'' [
      fld ''vload_day_vol2'' 0 Uint32 F0_1 u_l_m2d,
      fld ''qmeas2'' 4 Uint32 F0_001 u_kWh_m2d,
      fld ''day_error_code'' 8 Uint32 F1 '''']),
    (pkey 0x7F64 0x0010 0x0100, pd ''0x7F64'' [
      fld ''tcol_est'' 0 Uint32 F0_1 u_degC,
      fld ''flow_rate_est'' 4 Uint32 F1 u_l_h,
      fld ''iam'' 8 Uint32 F1 u_pct,
      fld ''diffuse_radiation'' 12 Uint32 F1 u_W_m2,
      fld ''incidence_angle'' 16 Uint32 F1 u_deg]),
    (pkey 0x7F65 0x0010 0x0100, pd ''0x7F65'' [
      fld ''t_ambient1s'' 0 Int16 F0_1 u_degC,
      fld ''t_flow_s11s'' 2 Int16 F0_1 u_degC,
      fld ''t_return_s21s'' 4 Int16 F0_1 u_degC,
      fld ''tsl1s'' 6 Int16 F0_1 u_degC,
      fld ''tmax_temp_s51s'' 8 Int16 F0_1 u_degC,
      fld ''irradiation1s'' 10 Int16 F0_1 u_W_m2,
      fld ''flow_rate11s'' 12 Uint32 F1 u_l_h,
      fld ''flow_rate21s'' 16 Uint32 F1 u_l_h,
      fld ''s61s'' 20 Int16 F0_1 u_degC,
      fld ''s71s'' 22 Int16 F0_1 u_degC,
      fld ''rated_current_11s'' 24 Int16 F0_01 u_mA,
      fld ''rated_current_21s'' 26 Int16 F0_01 u_mA,
      fld ''status_flag1s'' 36 Uint32 F1 '''']),
    (pkey 0x7F71 0x0010 0x0100, pd ''0x7F71'' [
      fld ''temperature_sensor_1'' 0 Int16 F0_1 u_degC,
      fld ''temperature_sensor_2'' 2 Int16 F0_1 u_degC,
      fld ''temperature_sensor_3'' 4 Int16 F0_1 u_degC,
      fld ''temperature_sensor_4'' 6 Int16 F0_1 u_degC,
      fld ''temperature_sensor_5'' 8 Int16 F0_1 u_degC,
      fld ''system_pressure'' 10 Int16 F0_01 u_bar,
      fld ''flow_rate'' 12 Int16 F1 u_l_h,
      fld ''pump_speed_relay_1'' 14 Uint8 F1 u_pct,
      fld ''system_message'' 15 Uint8 F1 '''',
      fld ''power'' 16 Uint32 F1 u_W,
      fld ''heat_quantity'' 20 Uint32 F1 u_Wh,
      fld ''date'' 24 Uint32 F1 '''',
      fld ''time'' 28 Int16 F1 '''',
      fld ''eff_minimum_speed'' 30 Uint8 F1 u_pct,
      fld ''debug1'' 32 Uint32 F1 '''',
      fld ''debug2'' 36 Uint32 F1 '''',
      fld ''debug3'' 40 Uint32 F1 '''',
      fld ''debug4'' 44 Uint32 F1 '''',
      fld ''debug5'' 48 Uint32 F1 '''',
      fld ''irradiation'' 52 Int16 F1 u_W_m2,
      fld ''cell_temperature'' 54 Int16 F0_1 u_degC])]"

definition generatedRegistry_part4 :: "(uint64 \<times> PacketDef) list" where
  "generatedRegistry_part4 =
     generatedRegistry_31 @
     generatedRegistry_32 @
     generatedRegistry_33 @
     generatedRegistry_34 @
     generatedRegistry_35 @
     generatedRegistry_36 @
     generatedRegistry_37 @
     generatedRegistry_38 @
     generatedRegistry_39"

lemmas part4_defs = generatedRegistry_part4_def
  generatedRegistry_31_def
  generatedRegistry_32_def
  generatedRegistry_33_def
  generatedRegistry_34_def
  generatedRegistry_35_def
  generatedRegistry_36_def
  generatedRegistry_37_def
  generatedRegistry_38_def
  generatedRegistry_39_def

lemma part4_entries: "list_all generated_entry generatedRegistry_part4"
  by (simp add: part4_defs table_check)

lemma part4_sources:
  "map entry_source generatedRegistry_part4 = [
    0x7352, 0x7411, 0x7421, 0x7422, 0x7428, 0x7441, 0x7442, 0x7511, 0x7512, 0x7513,
    0x7521, 0x7522, 0x7523, 0x7541, 0x7611, 0x7621, 0x7622, 0x7651, 0x7711, 0x7712,
    0x7721, 0x7722, 0x7729, 0x772A, 0x7731, 0x7751, 0x7761, 0x7762, 0x7774, 0x7821,
    0x7822, 0x7840, 0x7841, 0x7910, 0x7911, 0x7D04, 0x7E11, 0x7E12, 0x7F61, 0x7F62,
    0x7F63, 0x7F64, 0x7F65, 0x7F71]"
  by (simp add: part4_defs)

end
