(* ===== verification/DefaultRegistry.thy ===== *)
theory DefaultRegistry
  imports RegistryGen1 RegistryGen2 RegistryGen3 RegistryGen4
begin

text \<open>
  internal/vbus/registry_custom.go and the init functions: \<open>DefaultRegistry\<close> starts empty, the
  init of registry_custom.go fills in the custom entries and the init of registry_gen.go (later
  in file-name order) adds the generated entries whose key is still free. Go ranges over a map
  in an unspecified order; the entries are lists here and the lemmas show the order is immaterial.
\<close>

section \<open>The tables\<close>

definition c_degC :: string where "c_degC = [CHR 0xC2] @ [CHR 0xB0] @ ''C''"

definition customRegistry :: "(uint64 \<times> PacketDef) list" where
  "customRegistry = [
    (pkey 0x4278 0x0010 0x0100, pd ''DeltaSol BS2'' [
      fld ''temp_sensor1'' 0 Int16 F0_1 c_degC,
      fld ''temp_sensor2'' 2 Int16 F0_1 c_degC,
      fld ''temp_sensor3'' 4 Int16 F0_1 c_degC,
      fld ''temp_sensor4'' 6 Int16 F0_1 c_degC,
      fld ''pump_speed_1'' 8 Uint8 F1 ''%'',
      fld ''pump_speed_2'' 9 Uint8 F1 ''%'',
      fld ''relay_mask'' 10 Uint16 F1 '''',
      fld ''error_mask'' 12 Uint16 F1 '''',
      fld ''operating_hours_1'' 14 Uint32 F1 ''h'',
      fld ''operating_hours_2'' 18 Uint32 F1 ''h'',
      fld ''heat_quantity'' 22 Uint32 F1 ''Wh''])]"

definition generatedRegistry :: "(uint64 \<times> PacketDef) list" where
  "generatedRegistry = generatedRegistry_part1 @ generatedRegistry_part2 @
     generatedRegistry_part3 @ generatedRegistry_part4"

text \<open>The two \<open>init\<close> functions, over the order in which \<open>range\<close> delivers the entries.\<close>

definition initCustom :: "(uint64 \<times> PacketDef) list \<Rightarrow> Registry \<Rightarrow> Registry" where
  "initCustom entries reg = foldl (\<lambda>reg (k, v). reg(k \<mapsto> v)) reg entries"

definition initGenerated :: "(uint64 \<times> PacketDef) list \<Rightarrow> Registry \<Rightarrow> Registry" where
  "initGenerated entries reg =
     foldl (\<lambda>reg (k, v). if reg k = None then reg(k \<mapsto> v) else reg) reg entries"

definition DefaultRegistry :: Registry where
  "DefaultRegistry = initGenerated generatedRegistry (initCustom customRegistry Map.empty)"

section \<open>What the tables contain\<close>

lemma generated_entries: "list_all generated_entry generatedRegistry"
  by (simp add: generatedRegistry_def part1_entries part2_entries part3_entries part4_entries)

lemma generated_sources_ascending:
  "ascending (map (unat \<circ> entry_source) generatedRegistry)"
proof -
  have "ascending (map unat (map entry_source generatedRegistry))"
    by (simp add: generatedRegistry_def part1_sources part2_sources part3_sources part4_sources)
  then show ?thesis by simp
qed

lemma generated_keys_distinct: "distinct (map fst generatedRegistry)"
proof -
  have "distinct (map (unat \<circ> entry_source) generatedRegistry)"
    using ascending_distinct [OF generated_sources_ascending] by blast
  moreover have "unat \<circ> entry_source = (\<lambda>k. unat (ucast (drop_bit 32 k) :: uint16)) \<circ> fst"
    by (simp add: fun_eq_iff entry_source_def)
  ultimately have "distinct (map (\<lambda>k. unat (ucast (drop_bit 32 k) :: uint16)) (map fst generatedRegistry))"
    by (simp add: comp_assoc)
  then show ?thesis by (rule distinct_map [THEN iffD1, THEN conjunct1])
qed

lemma length_generatedRegistry: "length generatedRegistry = 238"
proof -
  have "length (map entry_source generatedRegistry) = 238"
    by (simp add: generatedRegistry_def part1_sources part2_sources part3_sources part4_sources
      del: length_map)
  then show ?thesis by simp
qed

section \<open>The merged registry\<close>

lemma initCustom_lookup:
  "distinct (map fst entries) \<Longrightarrow> initCustom entries reg k =
     (case map_of entries k of Some v \<Rightarrow> Some v | None \<Rightarrow> reg k)"
  using tbl.lookup_registers [of entries reg k] map_of_inject_set [of "rev entries" entries]
  by (simp add: initCustom_def tbl.registers_def rev_map [symmetric])

lemma initGenerated_lookup:
  "initGenerated entries reg k = (case reg k of Some v \<Rightarrow> Some v | None \<Rightarrow> map_of entries k)"
  using tbl.lookup_register_new [of entries reg k]
  by (simp add: initGenerated_def tbl.register_new_def)

lemma DefaultRegistry_lookup:
  "DefaultRegistry k =
     (case map_of customRegistry k of Some v \<Rightarrow> Some v | None \<Rightarrow> map_of generatedRegistry k)"
  by (simp add: DefaultRegistry_def initGenerated_lookup initCustom_lookup customRegistry_def
    split: option.split)

text \<open>The iteration order of the two \<open>range\<close> loops does not matter.\<close>

lemma init_order:
  assumes "distinct (map fst custom)" "set custom = set customRegistry"
    and "distinct (map fst generated)" "set generated = set generatedRegistry"
  shows "initGenerated generated (initCustom custom Map.empty) = DefaultRegistry"
proof -
  have "map_of custom = map_of customRegistry"
    using assms by (subst map_of_inject_set) (simp_all add: customRegistry_def)
  moreover have "map_of generated = map_of generatedRegistry"
    using assms generated_keys_distinct by (subst map_of_inject_set) simp_all
  ultimately show ?thesis
    by (auto simp: fun_eq_iff DefaultRegistry_lookup initGenerated_lookup
      initCustom_lookup [OF assms(1)] split: option.split)
qed

lemma field_ok_fld [simp]:
  "field_ok (fld n ofs t f u) \<longleftrightarrow> 0 \<le> ofs \<and> ofs < 2 ^ 62 \<and> (\<forall>n. t \<noteq> OtherType n)"
  by (simp add: field_ok_def fld_def)

lemma generated_field_ok: "generated_field fd \<Longrightarrow> field_ok fd"
  by (auto simp: generated_field_def field_ok_def)

text \<open>Every entry of the merged registry, by where it comes from.\<close>

lemma DefaultRegistry_cases:
  assumes "DefaultRegistry k = Some d"
  obtains (custom) "k = pkey 0x4278 0x0010 0x0100" "customRegistry = [(k, d)]"
    | (generated) "(k, d) \<in> set generatedRegistry" "generated_entry (k, d)"
      "k \<noteq> pkey 0x4278 0x0010 0x0100"
proof (cases "k = pkey 0x4278 0x0010 0x0100")
  case True
  with assms show ?thesis
    by (intro custom) (simp_all add: DefaultRegistry_lookup customRegistry_def)
next
  case False
  with assms have "map_of generatedRegistry k = Some d"
    by (simp add: DefaultRegistry_lookup customRegistry_def)
  then have "(k, d) \<in> set generatedRegistry" by (rule map_of_SomeD)
  moreover from this have "generated_entry (k, d)"
    using generated_entries by (simp add: list_all_iff)
  ultimately show ?thesis using False by (intro generated)
qed

lemma DefaultRegistry_ok [no_panic]: "registry_ok DefaultRegistry"
proof -
  have "packet_ok d" if "DefaultRegistry k = Some d" for k d
    using that
  proof (cases rule: DefaultRegistry_cases)
    case custom
    then show ?thesis by (auto simp: packet_ok_def customRegistry_def pd_def)
  next
    case generated
    then show ?thesis
      by (auto simp: packet_ok_def generated_entry_def list_all_iff intro: generated_field_ok)
  qed
  then show ?thesis by (auto simp: registry_ok_def ran_def)
qed

lemma DefaultRegistry_factor:
  assumes "DefaultRegistry k = Some d" "fd \<in> set (pd_Fields d)"
  shows "factor_ok (fd_Factor fd)"
  using assms(1)
proof (cases rule: DefaultRegistry_cases)
  case custom
  with assms(2) show ?thesis
    by (auto simp: customRegistry_def pd_def fld_def)
next
  case generated
  with assms(2) show ?thesis
    by (auto simp: generated_entry_def list_all_iff generated_field_def)
qed

text \<open>Only packets to the DFA with command 0x0100 are known.\<close>

lemma DefaultRegistry_address:
  "DefaultRegistry (pkey s dst c) = Some d \<Longrightarrow> dst = 0x0010 \<and> c = 0x0100"
  by (erule DefaultRegistry_cases) (auto simp: generated_entry_def)

section \<open>Published values\<close>

lemma bytes_value_bound: "0 \<le> bytes_value bs \<and> bytes_value bs < 256 ^ length bs"
proof (induction bs)
  case (Cons b bs)
  have "0 \<le> uint b" "uint b < 256" using uint_byte_bounds [of b] by simp_all
  moreover have "bytes_value (b # bs) = uint b + 256 * bytes_value bs" by (simp add: bytes_value_def)
  ultimately show ?case using Cons.IH by simp
qed (simp add: bytes_value_def)

lemma raw_reading_bound: "\<bar>raw_reading payload fd\<bar> < 2 ^ 32"
proof -
  let ?w = "field_width (fd_Type fd)"
  let ?bs = "take ?w (drop (nat (fd_Offset fd)) payload)"
  have "length ?bs \<le> ?w" by simp
  then have "(256::int) ^ length ?bs \<le> 256 ^ ?w" by (intro power_increasing) simp_all
  then have b: "0 \<le> bytes_value ?bs" "bytes_value ?bs < 256 ^ ?w"
    using bytes_value_bound [of ?bs] by linarith+
  show ?thesis
    by (cases "fd_Type fd") (use b in \<open>simp_all add: raw_reading_def Let_def abs_if\<close>)
qed

lemma finite_hundredths:
  assumes "0 \<le> N" "N < 2 ^ 53"
  shows "is_finite (rnd_real s (of_int N / 100))"
proof (cases "N = 0")
  case True
  then show ?thesis by (simp add: rnd_real_def is_finite_iff)
next
  case False
  with assms have N: "1 \<le> real_of_int N" "real_of_int N < 2 ^ 53" by (simp_all flip: of_int_power)
  then have "1 / 10 ^ 4 \<le> real_of_int N / 100" "real_of_int N / 100 < 2 ^ 53" by simp_all
  then show ?thesis
    using rnd_real_error [of "of_int N / 100" s] powi_tiny powi_huge
    by (auto simp: is_finite_iff)
qed

lemma field_value_nearest:
  assumes "factor_ok (fd_Factor fd)" "fd_Type fd \<noteq> Bit"
  shows "\<exists>D N. fd_Factor fd = f_lit 1 D \<and> D \<in> {1, 10, 100, 1000, 10000} \<and>
    field_value payload fd = rnd_real (raw_reading payload fd < 0) (of_int N / 100) \<and>
    2 * \<bar>D * N - 100 * \<bar>raw_reading payload fd\<bar>\<bar> \<le> D"
proof -
  obtain D where D: "fd_Factor fd = f_lit 1 D" "D \<in> {1, 10, 100, 1000, 10000}"
    using assms(1) by (auto simp: factor_ok_def)
  then have "0 < D" "D \<le> 10 ^ 4" by auto
  from scaleValue_nearest [OF this raw_reading_bound [of payload fd]] D assms(2) show ?thesis
    by (auto simp: field_value_def)
qed

lemma field_value_finite:
  assumes "factor_ok (fd_Factor fd)" "fd_Type fd \<noteq> Bit"
  shows "is_finite (field_value payload fd)"
proof -
  obtain D N where D: "D \<in> {1, 10, 100, 1000, 10000}"
    and v: "field_value payload fd = rnd_real (raw_reading payload fd < 0) (of_int N / 100)"
    and N: "2 * \<bar>D * N - 100 * \<bar>raw_reading payload fd\<bar>\<bar> \<le> D"
    using field_value_nearest [OF assms] by blast
  have near: "N = k" if "2 * \<bar>N - k\<bar> \<le> 1" for k using that by presburger
  have "0 \<le> N \<and> N < 2 ^ 53"
    using D N raw_reading_bound [of payload fd] near [of "100 * \<bar>raw_reading payload fd\<bar>"] by auto
  then show ?thesis unfolding v by (intro finite_hundredths) simp_all
qed

lemma DefaultRegistry_not_Bit:
  assumes "DefaultRegistry k = Some d" "fd \<in> set (pd_Fields d)"
  shows "fd_Type fd \<noteq> Bit"
  using assms(1)
proof (cases rule: DefaultRegistry_cases)
  case custom
  with assms(2) show ?thesis by (auto simp: customRegistry_def pd_def fld_def)
next
  case generated
  with assms(2) show ?thesis by (auto simp: generated_entry_def list_all_iff generated_field_def)
qed

lemma Decode_default:
  "Decode f DefaultRegistry = Some (name, tfs, True) \<longleftrightarrow>
    (\<exists>d. DefaultRegistry (pkey (Source f) (Destination f) (Command f)) = Some d \<and>
      name = pd_DeviceName d \<and>
      tfs = map (telemetry_of (Payload f)) (filter (fits (Payload f)) (pd_Fields d)))"
  by (auto simp: Decode_eq [OF DefaultRegistry_ok] split: option.split)

lemma Decode_finite:
  assumes "Decode f DefaultRegistry = Some (name, tfs, known)"
  shows "list_all (\<lambda>tf. is_finite (tf_Value tf)) tfs"
proof (cases known)
  case True
  with assms obtain d where d: "DefaultRegistry (pkey (Source f) (Destination f) (Command f)) = Some d"
    "tfs = map (telemetry_of (Payload f)) (filter (fits (Payload f)) (pd_Fields d))"
    by (auto simp: Decode_default)
  then show ?thesis
    using field_value_finite [OF DefaultRegistry_factor [OF d(1)] DefaultRegistry_not_Bit [OF d(1)]]
    by (auto simp: list_all_iff telemetry_of_def)
next
  case False
  with assms show ?thesis
    by (auto simp: Decode_eq [OF DefaultRegistry_ok] split: option.splits)
qed

end
