(* ===== verification/GoStrconv.thy ===== *)
theory GoStrconv
  imports Prelude
begin

text \<open>
  What the program uses of Go's strconv and strings packages: decimal numbers, \<open>Atoi\<close>,
  \<open>ParseBool\<close>, trimming, and the upper/lower hexadecimal formats.
\<close>

section \<open>Decimal digits\<close>

definition isDigit :: "char \<Rightarrow> bool" where
  "isDigit c \<longleftrightarrow> 48 \<le> (of_char c :: nat) \<and> (of_char c :: nat) \<le> 57"

definition digitVal :: "char \<Rightarrow> nat" where
  "digitVal c = of_char c - 48"

definition decDigit :: "nat \<Rightarrow> char" where
  "decDigit d = char_of (48 + d)"

lemma decDigit [simp]:
  "d < 10 \<Longrightarrow> isDigit (decDigit d)" "d < 10 \<Longrightarrow> digitVal (decDigit d) = d"
  by (simp_all add: isDigit_def digitVal_def decDigit_def)

fun dec :: "nat \<Rightarrow> string" where
  \<comment> \<open>the verb \<open>%d\<close> of a non-negative number\<close>
  "dec n = (if n < 10 then [decDigit n] else dec (n div 10) @ [decDigit (n mod 10)])"

declare dec.simps [simp del]

definition decInt :: "int \<Rightarrow> string" where
  "decInt n = (if n < 0 then ''-'' @ dec (nat (- n)) else dec (nat n))"

definition digitsVal :: "nat \<Rightarrow> string \<Rightarrow> nat" where
  "digitsVal x ds = foldl (\<lambda>x c. 10 * x + digitVal c) x ds"

lemma digitsVal_simps [simp]:
  "digitsVal x [] = x" "digitsVal x (c # cs) = digitsVal (10 * x + digitVal c) cs"
  "digitsVal x (cs @ [c]) = 10 * digitsVal x cs + digitVal c"
  by (simp_all add: digitsVal_def)

lemma dec_digits: "list_all isDigit (dec n) \<and> dec n \<noteq> [] \<and> digitsVal 0 (dec n) = n"
proof (induction n rule: dec.induct)
  case (1 n)
  then show ?case by (subst (1 2 3) dec.simps) simp
qed

lemma dec_inj [simp]: "dec m = dec n \<longleftrightarrow> m = n"
  by (metis dec_digits)

lemma digitsVal_mono: "x \<le> digitsVal x ds"
proof (induction ds arbitrary: x)
  case (Cons c cs)
  have "x \<le> 10 * x + digitVal c" by simp
  also have "\<dots> \<le> digitsVal (10 * x + digitVal c) cs" by (rule Cons.IH)
  finally show ?case by simp
qed simp

section \<open>strconv.Atoi and strconv.ParseBool\<close>

text \<open>On a 64-bit platform; \<open>None\<close> stands for the syntax and range errors.\<close>

definition splitSign :: "string \<Rightarrow> bool \<times> string" where
  "splitSign s =
     (case s of
        [] \<Rightarrow> (False, [])
      | c # cs \<Rightarrow> if c = CHR ''-'' then (True, cs) else if c = CHR ''+'' then (False, cs) else (False, s))"

definition Atoi :: "string \<Rightarrow> int option" where
  "Atoi s =
     (let (neg, ds) = splitSign s; n = digitsVal 0 ds
      in if ds = [] \<or> \<not> list_all isDigit ds then None
         else if neg then (if n \<le> 2 ^ 63 then Some (- int n) else None)
         else if n < 2 ^ 63 then Some (int n) else None)"

definition ParseBool :: "string \<Rightarrow> bool option" where
  "ParseBool s =
     (if s \<in> {''1'', ''t'', ''T'', ''true'', ''TRUE'', ''True''} then Some True
      else if s \<in> {''0'', ''f'', ''F'', ''false'', ''FALSE'', ''False''} then Some False
      else None)"

lemma digit_not_sign: "isDigit c \<Longrightarrow> c \<noteq> CHR ''-'' \<and> c \<noteq> CHR ''+'' \<and> c \<noteq> CHR ''.''"
  by (auto simp: isDigit_def)

lemma splitSign_dec [simp]: "splitSign (dec n) = (False, dec n)"
  using dec_digits [of n] by (cases "dec n") (auto simp: splitSign_def dest: digit_not_sign)

lemma Atoi_decInt:
  assumes "- (2 ^ 63) \<le> n" "n < 2 ^ 63"
  shows "Atoi (decInt n) = Some n"
proof (cases "n < 0")
  case True
  then have "splitSign (decInt n) = (True, dec (nat (- n)))"
    by (simp add: decInt_def splitSign_def)
  with True assms show ?thesis using dec_digits [of "nat (- n)"] by (simp add: Atoi_def Let_def)
next
  case False
  with assms show ?thesis using dec_digits [of "nat n"] by (simp add: Atoi_def decInt_def Let_def)
qed

lemma Atoi_range: "Atoi s = Some n \<Longrightarrow> - (2 ^ 63) \<le> n \<and> n < 2 ^ 63"
  by (auto simp: Atoi_def Let_def split: prod.splits if_splits)

section \<open>strings\<close>

definition trimRight :: "char \<Rightarrow> string \<Rightarrow> string" where
  \<comment> \<open>\<open>strings.TrimRight\<close> with a cutset of one ASCII character\<close>
  "trimRight c s = rev (dropWhile (\<lambda>x. x = c) (rev s))"

definition trimBoth :: "char \<Rightarrow> string \<Rightarrow> string" where
  "trimBoth c s = trimRight c (dropWhile (\<lambda>x. x = c) s)"

end
