(* ===== verification/GoTime.thy ===== *)
theory GoTime
  imports GoFloat GoStrconv
begin

text \<open>
  What the program uses of Go's time package: \<open>time.Duration\<close> as int64 nanoseconds,
  \<open>Duration.String\<close> and \<open>time.ParseDuration\<close> with its overflow checks and its binary64 fractions.
  The main fact is the round trip on which the persistence of PUBLISH_INTERVAL rests: every
  duration parses back from its own string.
\<close>

section \<open>Duration.String\<close>

type_synonym Duration = int  \<comment> \<open>int64 nanoseconds\<close>

definition Second :: Duration where
  "Second = 10 ^ 9"

text \<open>\<open>fmtFrac\<close>: the fraction of \<open>v / 10 ^ prec\<close> without trailing zeros, and the quotient.\<close>

fun fracLoop :: "nat \<Rightarrow> nat \<Rightarrow> bool \<Rightarrow> string \<Rightarrow> bool \<times> string \<times> nat" where
  "fracLoop v 0 print buf = (print, buf, v)"
| "fracLoop v (Suc i) print buf =
     (let digit = v mod 10; print = (print \<or> digit \<noteq> 0)
      in fracLoop (v div 10) i print (if print then decDigit digit # buf else buf))"

definition fmtFrac :: "nat \<Rightarrow> nat \<Rightarrow> string \<times> nat" where
  "fmtFrac v prec =
     (let (print, buf, v) = fracLoop v prec False []
      in (if print then CHR ''.'' # buf else buf, v))"

definition micro :: string where
  "micro = [CHR 0xC2, CHR 0xB5]"

definition durationBody :: "nat \<Rightarrow> string" where
  "durationBody u =
     (if u < 10 ^ 9 then
        if u = 0 then ''0s''
        else if u < 10 ^ 3 then dec u @ ''ns''
        else if u < 10 ^ 6 then (let (f, w) = fmtFrac u 3 in dec w @ f @ micro @ ''s'')
        else (let (f, w) = fmtFrac u 6 in dec w @ f @ ''ms'')
      else
        let (f, sec) = fmtFrac u 9;
            s = dec (sec mod 60) @ f @ ''s'';
            min = sec div 60
        in if 0 < min then
             let m = dec (min mod 60) @ ''m'' @ s; h = min div 60
             in if 0 < h then dec h @ ''h'' @ m else m
           else s)"

definition durationString :: "Duration \<Rightarrow> string" where
  "durationString d = (let body = durationBody (nat \<bar>d\<bar>) in if d < 0 then ''-'' @ body else body)"

section \<open>time.ParseDuration\<close>

fun leadingInt :: "nat \<Rightarrow> string \<Rightarrow> (nat \<times> string) option" where
  "leadingInt x [] = Some (x, [])"
| "leadingInt x (c # cs) =
     (if \<not> isDigit c then Some (x, c # cs)
      else if 2 ^ 63 div 10 < x then None
      else let x = x * 10 + digitVal c in if 2 ^ 63 < x then None else leadingInt x cs)"

fun leadingFraction :: "nat \<Rightarrow> float64 \<Rightarrow> bool \<Rightarrow> string \<Rightarrow> nat \<times> float64 \<times> string" where
  "leadingFraction x scale overflow [] = (x, scale, [])"
| "leadingFraction x scale overflow (c # cs) =
     (if \<not> isDigit c then (x, scale, c # cs)
      else if overflow then leadingFraction x scale overflow cs
      else if (2 ^ 63 - 1) div 10 < x then leadingFraction x scale True cs
      else let y = x * 10 + digitVal c
           in if 2 ^ 63 < y then leadingFraction x scale True cs
              else leadingFraction y (fmul scale (f_lit 10 1)) overflow cs)"

definition unitMap :: "string \<Rightarrow> nat option" where
  "unitMap u =
     (if u = ''ns'' then Some 1
      else if u = ''us'' \<or> u = micro @ ''s'' \<or> u = [CHR 0xCE, CHR 0xBC] @ ''s'' then Some (10 ^ 3)
      else if u = ''ms'' then Some (10 ^ 6)
      else if u = ''s'' then Some (10 ^ 9)
      else if u = ''m'' then Some (60 * 10 ^ 9)
      else if u = ''h'' then Some (3600 * 10 ^ 9)
      else None)"

definition f_trunc :: "float64 \<Rightarrow> nat" where
  \<comment> \<open>the conversion \<open>uint64(x)\<close> of a non-negative double in range\<close>
  "f_trunc x = (case x of
     Fin s m e \<Rightarrow> if 0 \<le> e then nat m * 2 ^ nat e else nat m div 2 ^ nat (- e)
   | _ \<Rightarrow> 0)"

definition unitChar :: "char \<Rightarrow> bool" where
  "unitChar c \<longleftrightarrow> c \<noteq> CHR ''.'' \<and> \<not> isDigit c"

text \<open>One element \<open>[0-9]*(\.[0-9]*)?[a-z]+\<close>: its nanoseconds and the rest of the input.\<close>

definition parseElem :: "string \<Rightarrow> (nat \<times> string) option" where
  "parseElem s =
     (if s = [] \<or> (hd s \<noteq> CHR ''.'' \<and> \<not> isDigit (hd s)) then None
      else do {
        (v, s1) \<leftarrow> leadingInt 0 s;
        let pre = (length s1 \<noteq> length s);
        let (f, scale, s2, post) =
          (if s1 \<noteq> [] \<and> hd s1 = CHR ''.''
           then let (f, scale, s2) = leadingFraction 0 (f_lit 1 1) False (tl s1)
                in (f, scale, s2, length s2 \<noteq> length (tl s1))
           else (0, f_lit 1 1, s1, False));
        if \<not> pre \<and> \<not> post then None
        else do {
          let u = takeWhile unitChar s2;
          let s3 = dropWhile unitChar s2;
          if u = [] then None
          else do {
            unit \<leftarrow> unitMap u;
            if 2 ^ 63 div unit < v then None
            else do {
              let v = v * unit;
              let v = (if 0 < f
                then v + f_trunc (fmul (f_of_int (int f)) (fdiv (f_of_int (int unit)) scale)) else v);
              if 0 < f \<and> 2 ^ 63 < v then None else Some (v, s3)
            }
          }
        }
      })"

lemma leadingInt_length: "leadingInt x s = Some (v, r) \<Longrightarrow> length r \<le> length s"
  by (induction x s rule: leadingInt.induct) (auto simp: Let_def split: if_splits)

lemma leadingFraction_length: "leadingFraction x sc ov s = (v, sc', r) \<Longrightarrow> length r \<le> length s"
  by (induction x sc ov s rule: leadingFraction.induct) (auto simp: Let_def split: if_splits)

lemma dropWhile_shorter: "takeWhile P xs \<noteq> [] \<Longrightarrow> length (dropWhile P xs) < length xs"
  by (cases xs) (auto intro: le_imp_less_Suc length_dropWhile_le split: if_splits)

lemma parseElem_shorter: "parseElem s = Some (v, r) \<Longrightarrow> length r < length s"
  by (auto simp: parseElem_def Let_def bind_eq_Some_conv split: if_splits prod.splits
      dest!: leadingInt_length leadingFraction_length dropWhile_shorter)

function parseLoop :: "nat \<Rightarrow> string \<Rightarrow> nat option" where
  "parseLoop d s =
     (if s = [] then Some d
      else case parseElem s of
          None \<Rightarrow> None
        | Some (v, r) \<Rightarrow>
            let d = (d + v) mod 2 ^ 64 in if 2 ^ 63 < d then None else parseLoop d r)"
  by pat_completeness auto
termination
  by (relation "measure (\<lambda>(d, s). length s)") (auto dest: parseElem_shorter)

declare parseLoop.simps [simp del]

definition ParseDuration :: "string \<Rightarrow> Duration option" where
  "ParseDuration s0 =
     (let (neg, s) = splitSign s0
      in if s = ''0'' then Some 0
         else if s = [] then None
         else do {
           d \<leftarrow> parseLoop 0 s;
           if neg then Some (wrap64 (- int d))
           else if 2 ^ 63 - 1 < d then None
           else Some (int d)
         })"

section \<open>Whole numbers among the doubles\<close>

definition whole :: "int \<Rightarrow> float64 \<Rightarrow> bool" where
  "whole n f \<longleftrightarrow> (\<exists>m e. f = Fin False m e \<and> 0 \<le> m \<and> of_int m * 2 powi e = real_of_int n)"

lemma whole_rnd:
  assumes "0 \<le> n" "n < 2 ^ 53"
  shows "whole n (rnd_real False (of_int n))"
proof (cases "n = 0")
  case True
  then show ?thesis by (simp add: whole_def rnd_real_def)
next
  case False
  with assms rnd_real_exact [of n False] show ?thesis by (force simp: whole_def)
qed

lemma whole_of_int: "0 \<le> n \<Longrightarrow> n < 2 ^ 53 \<Longrightarrow> whole n (f_of_int n)"
  using whole_rnd [of n] by (simp add: f_of_int_def rnd_rnd_real)

lemma whole_lit: "0 \<le> n \<Longrightarrow> n < 2 ^ 53 \<Longrightarrow> whole n (f_lit n 1)"
  using whole_rnd [of n] by (simp add: f_lit_real)

lemma whole_mult:
  assumes "whole a x" "whole b y" "0 \<le> a" "0 \<le> b" "a * b < 2 ^ 53"
  shows "whole (a * b) (fmul x y)"
proof -
  obtain m e where x: "x = Fin False m e" "0 \<le> m" "of_int m * 2 powi e = real_of_int a"
    using assms(1) by (auto simp: whole_def)
  obtain n f where y: "y = Fin False n f" "0 \<le> n" "of_int n * 2 powi f = real_of_int b"
    using assms(2) by (auto simp: whole_def)
  have "fmul x y = rnd_real False (of_int a * of_int b)"
    unfolding x(1) y(1) by (subst fmul_real [OF x(2) y(2)]) (simp only: x(3) y(3) simp_thms)
  also have "of_int a * of_int b = real_of_int (a * b)" by simp
  finally show ?thesis using whole_rnd [of "a * b"] assms by simp
qed

lemma whole_div:
  assumes "whole a x" "whole b y" "0 \<le> a" "0 < b" "b dvd a" "a < 2 ^ 53"
  shows "whole (a div b) (fdiv x y)"
proof -
  obtain m e where x: "x = Fin False m e" "0 \<le> m" "of_int m * 2 powi e = real_of_int a"
    using assms(1) by (auto simp: whole_def)
  obtain n f where y: "y = Fin False n f" "0 \<le> n" "of_int n * 2 powi f = real_of_int b"
    using assms(2) by (auto simp: whole_def)
  have "n \<noteq> 0" using y(3) assms(4) by auto
  with y(2) have n: "0 < n" by simp
  have "fdiv x y = rnd_real False (of_int a / of_int b)"
    unfolding x(1) y(1) by (subst fdiv_real [OF x(2) n]) (simp only: x(3) y(3) simp_thms)
  also have "of_int a / of_int b = real_of_int (a div b)"
    using assms(5) by (rule real_of_int_div [symmetric])
  finally show ?thesis
    using whole_rnd [of "a div b"] assms zdiv_mono2 [of a 1 b] by (simp add: pos_imp_zdiv_nonneg_iff)
qed

lemma whole_trunc:
  assumes "whole n f"
  shows "f_trunc f = nat n"
proof -
  obtain m e where f: "f = Fin False m e" "0 \<le> m" "of_int m * 2 powi e = real_of_int n"
    using assms by (auto simp: whole_def)
  show ?thesis
  proof (cases "0 \<le> e")
    case True
    with f(3) have "real_of_int (m * 2 ^ nat e) = of_int n" by (simp add: power_int_def)
    then have "m * 2 ^ nat e = n" by (simp only: of_int_eq_iff)
    then have "nat n = nat m * 2 ^ nat e" using f(2) by (auto simp: nat_mult_distrib nat_power_eq)
    with True f(1) show ?thesis by (simp add: f_trunc_def)
  next
    case False
    with f(3) have "real_of_int m = of_int (n * 2 ^ nat (- e))" by (simp add: power_int_def field_simps)
    then have m: "m = n * 2 ^ nat (- e)" by (simp only: of_int_eq_iff)
    with f(2) have "0 \<le> n" by (simp add: zero_le_mult_iff)
    with False f m show ?thesis by (simp add: f_trunc_def nat_mult_distrib nat_power_eq)
  qed
qed

section \<open>Reading printed numbers\<close>

lemma digitsVal_shift: "digitsVal x ds = x * 10 ^ length ds + digitsVal 0 ds"
proof (induction ds arbitrary: x)
  case (Cons c cs)
  have "digitsVal x (c # cs) = (10 * x + digitVal c) * 10 ^ length cs + digitsVal 0 cs"
    by (subst digitsVal_simps(2)) (rule Cons.IH)
  moreover have "digitsVal 0 (c # cs) = digitVal c * 10 ^ length cs + digitsVal 0 cs"
    by (subst digitsVal_simps(2)) (use Cons.IH [of "10 * 0 + digitVal c"] in simp)
  ultimately show ?case by (simp add: algebra_simps)
qed simp

definition stops :: "string \<Rightarrow> bool" where
  "stops rest \<longleftrightarrow> rest = [] \<or> \<not> isDigit (hd rest)"

lemma leadingInt_digits:
  "list_all isDigit ds \<Longrightarrow> digitsVal x ds \<le> 2 ^ 63 \<Longrightarrow> stops rest \<Longrightarrow>
    leadingInt x (ds @ rest) = Some (digitsVal x ds, rest)"
proof (induction ds arbitrary: x)
  case Nil
  then show ?case by (cases rest) (auto simp: stops_def)
next
  case (Cons c cs)
  have le: "10 * x + digitVal c \<le> 2 ^ 63"
    using Cons.prems(2) digitsVal_mono [of "10 * x + digitVal c" cs] by simp
  then have "\<not> 2 ^ 63 div 10 < x" by simp
  with Cons le show ?case by (simp add: mult.commute)
qed

lemma leadingFraction_digits:
  "list_all isDigit ds \<Longrightarrow> digitsVal x ds \<le> 10 ^ 9 \<Longrightarrow> whole S scale \<Longrightarrow> 0 \<le> S \<Longrightarrow>
    S * 10 ^ length ds < 2 ^ 53 \<Longrightarrow> stops rest \<Longrightarrow>
    \<exists>scale'. leadingFraction x scale False (ds @ rest) = (digitsVal x ds, scale', rest) \<and>
      whole (S * 10 ^ length ds) scale'"
proof (induction ds arbitrary: x S scale)
  case Nil
  then show ?case by (cases rest) (auto simp: stops_def)
next
  case (Cons c cs)
  have le: "10 * x + digitVal c \<le> 10 ^ 9"
    using Cons.prems(2) digitsVal_mono [of "10 * x + digitVal c" cs] by simp
  have "(1::int) \<le> 10 ^ length cs" by simp
  with Cons.prems(4) have "S * 10 * 1 \<le> S * 10 * 10 ^ length cs" by (intro mult_left_mono) simp_all
  with Cons.prems(5) have S: "S * 10 < 2 ^ 53" by simp
  have "whole (S * 10) (fmul scale (f_lit 10 1))"
    using Cons.prems S by (intro whole_mult whole_lit) simp_all
  with Cons.IH [of "10 * x + digitVal c" "S * 10" "fmul scale (f_lit 10 1)"] Cons.prems
  have "\<exists>scale'. leadingFraction (10 * x + digitVal c) (fmul scale (f_lit 10 1)) False (cs @ rest) =
      (digitsVal (10 * x + digitVal c) cs, scale', rest) \<and> whole (S * 10 ^ length (c # cs)) scale'"
    by (simp add: mult.assoc)
  with Cons.prems(1) le show ?case by (simp add: mult.commute [of x])
qed

lemma fracLoop_value:
  assumes "list_all isDigit buf" "length buf \<le> k" "p \<longleftrightarrow> buf \<noteq> []"
    and "digitsVal 0 buf * 10 ^ (k - length buf) = m"
  shows "\<exists>buf'. fracLoop v n p buf = (buf' \<noteq> [], buf', v div 10 ^ n) \<and> list_all isDigit buf' \<and>
    length buf' \<le> k + n \<and> digitsVal 0 buf' * 10 ^ (k + n - length buf') = m + 10 ^ k * (v mod 10 ^ n)"
  using assms
proof (induction n arbitrary: v k p buf m)
  case (Suc n)
  let ?d = "v mod 10" and ?q = "p \<or> v mod 10 \<noteq> 0"
  let ?buf = "if ?q then decDigit ?d # buf else buf"
  have d: "isDigit (decDigit ?d)" "digitVal (decDigit ?d) = ?d" by simp_all
  have "digitsVal 0 ?buf * 10 ^ (Suc k - length ?buf) = m + 10 ^ k * ?d"
  proof (cases ?q)
    case True
    have "10 ^ length buf * 10 ^ (k - length buf) = (10::nat) ^ k"
      using Suc.prems(2) by (simp flip: power_add)
    then have "?d * 10 ^ length buf * 10 ^ (k - length buf) = 10 ^ k * ?d"
      by (simp add: mult.assoc mult.commute)
    then show ?thesis
      using True Suc.prems(4) digitsVal_shift [of "?d" buf] by (simp add: algebra_simps)
  next
    case False
    with Suc.prems show ?thesis by auto
  qed
  then have "\<exists>buf'. fracLoop (v div 10) n ?q ?buf = (buf' \<noteq> [], buf', v div 10 div 10 ^ n) \<and>
      list_all isDigit buf' \<and> length buf' \<le> Suc k + n \<and>
      digitsVal 0 buf' * 10 ^ (Suc k + n - length buf') =
        m + 10 ^ k * ?d + 10 ^ Suc k * (v div 10 mod 10 ^ n)"
    using Suc.prems d by (intro Suc.IH) auto
  moreover have "10 ^ k * ?d + 10 ^ Suc k * (v div 10 mod 10 ^ n) = 10 ^ k * (v mod 10 ^ Suc n)"
    by (simp add: mod_mult2_eq algebra_simps)
  ultimately show ?case by (simp add: Let_def div_mult2_eq add.assoc)
qed auto

lemma fmtFrac_value:
  "\<exists>ds. fmtFrac v prec = (if ds = [] then [] else CHR ''.'' # ds, v div 10 ^ prec) \<and>
    list_all isDigit ds \<and> length ds \<le> prec \<and> digitsVal 0 ds * 10 ^ (prec - length ds) = v mod 10 ^ prec"
proof -
  obtain ds where ds: "fracLoop v prec False [] = (ds \<noteq> [], ds, v div 10 ^ prec)"
    "list_all isDigit ds" "length ds \<le> prec" "digitsVal 0 ds * 10 ^ (prec - length ds) = v mod 10 ^ prec"
    using fracLoop_value [of "[]" 0 False 0 v prec] by auto
  then have "fmtFrac v prec = (if ds = [] then [] else CHR ''.'' # ds, v div 10 ^ prec)"
    by (simp add: fmtFrac_def)
  with ds show ?thesis by blast
qed

section \<open>Every duration parses back from its string\<close>

definition unit_ends :: "string \<Rightarrow> bool" where
  "unit_ends rest \<longleftrightarrow> rest = [] \<or> \<not> unitChar (hd rest)"

definition unit_str :: "string \<Rightarrow> bool" where
  "unit_str u \<longleftrightarrow> u \<noteq> [] \<and> list_all unitChar u"

lemma take_unit:
  "unit_str u \<Longrightarrow> unit_ends rest \<Longrightarrow>
    takeWhile unitChar (u @ rest) = u \<and> dropWhile unitChar (u @ rest) = rest"
  by (cases rest) (auto simp: unit_str_def unit_ends_def list_all_iff takeWhile_append2 dropWhile_append2)

lemma unit_str_hd: "unit_str u \<Longrightarrow> stops (u @ rest) \<and> u @ rest \<noteq> [] \<and> hd (u @ rest) \<noteq> CHR ''.''"
  by (cases u) (auto simp: unit_str_def stops_def unitChar_def)

lemma dec_hd: "dec n @ s \<noteq> []" "isDigit (hd (dec n @ s))"
  using dec_digits [of n] by (cases "dec n"; simp)+

lemma leadingInt_dec: "n \<le> 2 ^ 63 \<Longrightarrow> stops rest \<Longrightarrow> leadingInt 0 (dec n @ rest) = Some (n, rest)"
  using leadingInt_digits [of "dec n" 0 rest] dec_digits [of n] by simp

lemma div_bound: "0 < (b :: nat) \<Longrightarrow> a * b \<le> c \<Longrightarrow> \<not> c div b < a"
  by (simp add: less_eq_div_iff_mult_less_eq not_less)

lemma le_mult_pos: "0 < (b :: nat) \<Longrightarrow> a * b \<le> c \<Longrightarrow> a \<le> c"
  by (cases b) simp_all

lemma parseElem_whole:
  assumes "unitMap u = Some unit" "0 < unit" "unit_str u" "unit_ends rest" "v * unit \<le> 2 ^ 63"
  shows "parseElem (dec v @ u @ rest) = Some (v * unit, rest)"
proof -
  have v: "v \<le> 2 ^ 63" using assms(2,5) by (rule le_mult_pos)
  have "dec v \<noteq> []" using dec_digits [of v] by simp
  then show ?thesis
    using assms leadingInt_dec [OF v, of "u @ rest"] unit_str_hd [OF assms(3), of rest] dec_hd [of v "u @ rest"]
      take_unit [OF assms(3,4)] div_bound [OF assms(2,5)]
    by (simp add: parseElem_def Let_def unit_str_def)
qed

lemma parseElem_frac:
  assumes U: "unitMap u = Some (10 ^ prec)" "unit_str u" "unit_ends rest"
    and prec: "prec \<le> 9" and n: "n \<le> 2 ^ 63" and fw: "fmtFrac n prec = (f, w)"
  shows "parseElem (dec w @ f @ u @ rest) = Some (n, rest)"
proof -
  obtain ds where ds: "f = (if ds = [] then [] else CHR ''.'' # ds)" "w = n div 10 ^ prec"
    "list_all isDigit ds" "length ds \<le> prec"
    and frac: "digitsVal 0 ds * 10 ^ (prec - length ds) = n mod 10 ^ prec"
    using fmtFrac_value [of n prec] fw by auto
  have unit: "(0::nat) < 10 ^ prec" by simp
  have total: "w * 10 ^ prec + n mod 10 ^ prec = n" unfolding ds(2) by (rule div_mult_mod_eq)
  then have w: "w * 10 ^ prec \<le> 2 ^ 63" using n by simp
  show ?thesis
  proof (cases "ds = []")
    case True
    with frac total have "w * 10 ^ prec = n" by simp
    with True ds(1) parseElem_whole [OF U(1) unit U(2,3) w] show ?thesis by simp
  next
    case False
    have ten: "(10::nat) ^ (prec - length ds) \<le> 10 ^ prec" "(10::nat) ^ prec \<le> 10 ^ 9"
      using prec by (intro power_increasing; simp)+
    have F: "digitsVal 0 ds * 10 ^ (prec - length ds) < 10 ^ 9"
      unfolding frac using mod_less_divisor [OF unit, of n] ten(2) by (rule less_le_trans)
    have "digitsVal 0 ds \<le> digitsVal 0 ds * 10 ^ (prec - length ds)"
      by (rule le_mult_pos [OF _ order_refl]) simp
    then have F1: "digitsVal 0 ds < 10 ^ 9" using F by (rule le_less_trans)
    have "(10::int) ^ length ds \<le> 10 ^ 9" using ds(4) prec by (intro power_increasing) simp_all
    then have len: "(1::int) * 10 ^ length ds < 2 ^ 53" by simp
    obtain scale where scale: "leadingFraction 0 (f_lit 1 1) False (ds @ u @ rest) =
        (digitsVal 0 ds, scale, u @ rest)" "whole (1 * 10 ^ length ds) scale"
      using leadingFraction_digits [OF ds(3), of 0 1 "f_lit 1 1" "u @ rest"] F1 whole_lit [of 1] len
        unit_str_hd [OF U(2)] by auto
    have P: "(10::int) ^ prec = 10 ^ length ds * 10 ^ (prec - length ds)"
      using ds(4) by (simp flip: power_add)
    have "whole (10 ^ prec div 10 ^ length ds) (fdiv (f_of_int (int (10 ^ prec))) scale)"
      using scale(2) whole_of_int [of "10 ^ prec"] power_increasing [of prec 9 "10::int"] prec
      by (intro whole_div) (simp_all add: P)
    then have "whole (10 ^ (prec - length ds)) (fdiv (f_of_int (int (10 ^ prec))) scale)"
      by (simp add: P)
    moreover have "int (digitsVal 0 ds * 10 ^ (prec - length ds)) < int (10 ^ 9)"
      using F by (simp only: of_nat_less_iff)
    ultimately have "whole (int (digitsVal 0 ds) * 10 ^ (prec - length ds))
        (fmul (f_of_int (int (digitsVal 0 ds))) (fdiv (f_of_int (int (10 ^ prec))) scale))"
      using F1 by (intro whole_mult whole_of_int) simp_all
    then have "whole (int (n mod 10 ^ prec))
        (fmul (f_of_int (int (digitsVal 0 ds))) (fdiv (f_of_int (int (10 ^ prec))) scale))"
      by (simp only: frac [symmetric]) simp
    then have trunc: "f_trunc (fmul (f_of_int (int (digitsVal 0 ds))) (fdiv (f_of_int (int (10 ^ prec))) scale))
        = n mod 10 ^ prec"
      by (simp only: whole_trunc nat_int)
    have w63: "w \<le> 2 ^ 63" using unit w by (rule le_mult_pos)
    have "dec w \<noteq> []" using dec_digits [of w] by simp
    moreover have "leadingInt 0 (dec w @ CHR ''.'' # ds @ u @ rest) = Some (w, CHR ''.'' # ds @ u @ rest)"
      by (rule leadingInt_dec [OF w63]) (simp add: stops_def isDigit_def)
    moreover have "digitsVal 0 ds = 0 \<Longrightarrow> w * 10 ^ prec = n" using frac total by simp
    ultimately show ?thesis
      using False U(1) dec_hd [of w "CHR ''.'' # ds @ u @ rest"] take_unit [OF U(2,3)] div_bound [OF unit w]
        scale(1) trunc total n U(2)
      by (simp add: parseElem_def Let_def unit_str_def ds(1))
  qed
qed

lemma fracLoop_cong:
  "v mod 10 ^ n = v' mod 10 ^ n \<Longrightarrow>
    fst (fracLoop v n p buf) = fst (fracLoop v' n p buf) \<and>
    fst (snd (fracLoop v n p buf)) = fst (snd (fracLoop v' n p buf))"
proof (induction n arbitrary: v v' p buf)
  case (Suc n)
  have "v mod 10 = v mod 10 ^ Suc n mod 10" "v' mod 10 = v' mod 10 ^ Suc n mod 10"
    by (simp_all add: mod_mod_cancel)
  then have d: "v mod 10 = v' mod 10" using Suc.prems by simp
  have "v mod 10 ^ Suc n = 10 * (v div 10 mod 10 ^ n) + v mod 10"
    "v' mod 10 ^ Suc n = 10 * (v' div 10 mod 10 ^ n) + v' mod 10"
    by (simp_all add: mod_mult2_eq)
  with Suc.prems d have "v div 10 mod 10 ^ n = v' div 10 mod 10 ^ n" by simp
  from Suc.IH [OF this] d show ?case by (simp add: Let_def)
qed simp

lemma fmtFrac_cong:
  assumes "fmtFrac v prec = (f, w)" "v mod 10 ^ prec = v' mod 10 ^ prec"
  shows "fmtFrac v' prec = (f, v' div 10 ^ prec)" "w = v div 10 ^ prec"
proof -
  have "fst (fmtFrac v prec) = fst (fmtFrac v' prec)"
    using fracLoop_cong [OF assms(2), of False "[]"]
    by (cases "fracLoop v prec False []"; cases "fracLoop v' prec False []") (simp add: fmtFrac_def)
  moreover have "snd (fmtFrac x prec) = x div 10 ^ prec" for x
    using fmtFrac_value [of x prec] by auto
  ultimately show "fmtFrac v' prec = (f, v' div 10 ^ prec)" "w = v div 10 ^ prec"
    using assms(1) by (simp_all add: prod_eq_iff)
qed

lemma unitMap_known [simp]:
  "unitMap ''ns'' = Some 1" "unitMap (micro @ ''s'') = Some (10 ^ 3)" "unitMap ''ms'' = Some (10 ^ 6)"
  "unitMap ''s'' = Some (10 ^ 9)" "unitMap ''m'' = Some (60 * 10 ^ 9)" "unitMap ''h'' = Some (3600 * 10 ^ 9)"
  by (simp_all add: unitMap_def micro_def)

lemma unit_str_known [simp]:
  "unit_str ''ns''" "unit_str (micro @ ''s'')" "unit_str ''ms''" "unit_str ''s''" "unit_str ''m''"
  "unit_str ''h''"
  by (simp_all add: unit_str_def unitChar_def isDigit_def micro_def)

lemma unit_ends_dec [simp]: "unit_ends []" "unit_ends (dec n @ s)"
  using dec_hd [of n s] by (simp_all add: unit_ends_def unitChar_def)

lemma parseLoop_end [simp]: "parseLoop d [] = Some d"
  by (subst parseLoop.simps) simp

lemma parseLoop_step:
  assumes "parseElem s = Some (v, r)" "d + v \<le> 2 ^ 63"
  shows "parseLoop d s = parseLoop (d + v) r"
proof -
  have "s \<noteq> []" using assms(1) by (auto simp: parseElem_def)
  moreover have "(d + v) mod 2 ^ 64 = d + v" using assms(2) by simp
  ultimately show ?thesis using assms by (subst parseLoop.simps) (simp add: Let_def)
qed

lemma parse_seconds:
  assumes n: "n \<le> 2 ^ 63" and fw: "fmtFrac n 9 = (f, sec)"
  shows "parseElem (dec (sec mod 60) @ f @ ''s'') = Some (n mod (60 * 10 ^ 9), [])"
proof -
  have m: "n mod (60 * 10 ^ 9) mod 10 ^ 9 = n mod 10 ^ 9" by (simp add: mod_mod_cancel)
  have "fmtFrac (n mod (60 * 10 ^ 9)) 9 = (f, n mod (60 * 10 ^ 9) div 10 ^ 9)" "sec = n div 10 ^ 9"
    using fmtFrac_cong [OF fw m [symmetric]] by simp_all
  moreover have "n mod (60 * 10 ^ 9) div 10 ^ 9 = n div 10 ^ 9 mod 60"
    using mod_mult2_eq [of n "10 ^ 9" 60] by (simp add: mult.commute)
  moreover have "n mod (60 * 10 ^ 9) \<le> 2 ^ 63"
    using mod_less_eq_dividend [of n "60 * 10 ^ 9"] n by linarith
  ultimately show ?thesis
    using parseElem_frac [of "''s''" 9 "[]" "n mod (60 * 10 ^ 9)" f "sec mod 60"] by simp
qed

lemma dec_0: "dec 0 = ''0''"
  by code_simp

lemma parse_body:
  assumes u: "u \<le> 2 ^ 63"
  shows "parseLoop 0 (durationBody u) = Some u"
proof (cases "u < 10 ^ 9")
  case True
  consider "u = 0" | "0 < u" "u < 10 ^ 3" | "10 ^ 3 \<le> u" "u < 10 ^ 6" | "10 ^ 6 \<le> u" by linarith
  then show ?thesis
  proof cases
    case 1
    have "parseElem (dec 0 @ ''s'' @ []) = Some (0 * 10 ^ 9, [])" by (rule parseElem_whole) simp_all
    with 1 show ?thesis using parseLoop_step [of "''0s''" 0 "[]" 0] 
      by (simp add: durationBody_def dec_0)
  next
    case 2
    have "parseElem (dec u @ ''ns'' @ []) = Some (u * 1, [])" using u by (intro parseElem_whole) simp_all
    with 2 True u show ?thesis using parseLoop_step [of "dec u @ ''ns''" u "[]" 0]
      by (simp add: durationBody_def)
  next
    case 3
    obtain f w where fw: "fmtFrac u 3 = (f, w)" by fastforce
    have "parseElem (dec w @ f @ (micro @ ''s'') @ []) = Some (u, [])"
      using u fw by (intro parseElem_frac) simp_all
    with 3 True fw u show ?thesis using parseLoop_step [of "dec w @ f @ micro @ ''s''" u "[]" 0]
      by (simp add: durationBody_def)
  next
    case 4
    obtain f w where fw: "fmtFrac u 6 = (f, w)" by fastforce
    have "parseElem (dec w @ f @ ''ms'' @ []) = Some (u, [])"
      using u fw by (intro parseElem_frac) simp_all
    with 4 True fw u show ?thesis using parseLoop_step [of "dec w @ f @ ''ms''" u "[]" 0]
      by (simp add: durationBody_def)
  qed
next
  case False
  obtain f sec where fw: "fmtFrac u 9 = (f, sec)" by fastforce
  have sec: "sec = u div 10 ^ 9" using fmtFrac_cong(2) [OF fw refl] .
  let ?s = "dec (sec mod 60) @ f @ ''s''" and ?min = "sec div 60"
  let ?ns = "u mod (60 * 10 ^ 9)"
  have s: "parseElem ?s = Some (?ns, [])" using parse_seconds [OF u fw] .
  have min: "?min * (60 * 10 ^ 9) + ?ns = u"
    using div_mult_mod_eq [of u "60 * 10 ^ 9"] by (simp add: sec div_mult2_eq [symmetric] mult.commute)
  have split: "?min = ?min div 60 * 60 + ?min mod 60" by simp
  have m: "parseElem (dec (?min mod 60) @ ''m'' @ ?s) = Some (?min mod 60 * (60 * 10 ^ 9), ?s)"
    using min u split by (intro parseElem_whole) simp_all
  have h: "parseElem (dec (?min div 60) @ ''h'' @ dec (?min mod 60) @ ''m'' @ ?s) =
      Some (?min div 60 * (3600 * 10 ^ 9), dec (?min mod 60) @ ''m'' @ ?s)"
    using min u split by (intro parseElem_whole) simp_all
  have total: "?min div 60 * (3600 * 10 ^ 9) + ?min mod 60 * (60 * 10 ^ 9) + ?ns = u"
  proof -
    have "q * (3600 * 10 ^ 9) + r * (60 * 10 ^ 9) = (q * 60 + r) * (60 * 10 ^ 9)" for q r :: nat
      by simp
    then show ?thesis by (simp only: div_mult_mod_eq min)
  qed
  have ms: "parseLoop d (dec (?min mod 60) @ ''m'' @ ?s) = Some (d + ?min mod 60 * (60 * 10 ^ 9) + ?ns)"
    if "d + ?min mod 60 * (60 * 10 ^ 9) + ?ns \<le> 2 ^ 63" for d
  proof -
    have "d + ?min mod 60 * (60 * 10 ^ 9) \<le> 2 ^ 63" using that by linarith
    from parseLoop_step [OF m this] parseLoop_step [OF s that] show ?thesis by (simp only: parseLoop_end)
  qed
  show ?thesis
  proof (cases "0 < ?min")
    case True
    show ?thesis
    proof (cases "0 < ?min div 60")
      case True
      have "parseLoop 0 (dec (?min div 60) @ ''h'' @ dec (?min mod 60) @ ''m'' @ ?s) = Some u"
        using parseLoop_step [OF h, of 0] ms [of "?min div 60 * (3600 * 10 ^ 9)"] total u
        by (simp only: add_0)
      with True \<open>0 < ?min\<close> False fw show ?thesis by (simp add: durationBody_def Let_def)
    next
      case no_hours: False
      then have "?min div 60 = 0" by simp
      then have "parseLoop 0 (dec (?min mod 60) @ ''m'' @ ?s) = Some u"
        using total u ms [of 0] by (simp only: mult_zero_left add_0)
      with no_hours True False fw show ?thesis by (simp add: durationBody_def Let_def)
    qed
  next
    case no_minutes: False
    with min have "?ns = u" by simp
    then have "parseLoop 0 ?s = Some u"
      using parseLoop_step [OF s, of 0] u by (simp only: add_0 parseLoop_end)
    with no_minutes False fw show ?thesis by (simp add: durationBody_def Let_def)
  qed
qed

lemma durationBody_hd: "\<exists>c cs. durationBody u = c # cs \<and> isDigit c \<and> cs \<noteq> []"
proof -
  have "\<exists>c cs. dec n @ s = c # cs \<and> isDigit c \<and> cs \<noteq> []" if "s \<noteq> []" for n s
    using dec_digits [of n] that by (cases "dec n") auto
  then show ?thesis
    by (auto simp: durationBody_def Let_def isDigit_def split: prod.split)
qed

theorem ParseDuration_String:
  assumes "- (2 ^ 63) \<le> d" "d < 2 ^ 63"
  shows "ParseDuration (durationString d) = Some d"
proof -
  define u where "u = nat \<bar>d\<bar>"
  then have u: "u \<le> 2 ^ 63" "d < 0 \<Longrightarrow> wrap64 (- int u) = d" "\<not> d < 0 \<Longrightarrow> int u = d"
    using assms by simp_all
  obtain c cs where b: "durationBody u = c # cs" "isDigit c" "cs \<noteq> []"
    using durationBody_hd by blast
  then have sign: "c \<noteq> CHR ''-''" "c \<noteq> CHR ''+''" using digit_not_sign by blast+
  have "splitSign (durationString d) = (d < 0, c # cs)"
    using sign by (simp add: durationString_def splitSign_def b Let_def flip: u_def)
  moreover have "\<not> d < 0 \<Longrightarrow> \<not> 2 ^ 63 - 1 < u" using assms(2) u(3) by force
  ultimately show ?thesis
    using parse_body [OF u(1)] b u assms by (simp add: ParseDuration_def)
qed

lemma ParseDuration_range: "ParseDuration s = Some d \<Longrightarrow> - (2 ^ 63) \<le> d \<and> d < 2 ^ 63"
  using wrap64_range
  by (auto simp: ParseDuration_def Let_def bind_eq_Some_conv split: prod.splits if_splits)

end
