(* ===== verification/GoUtf8.thy ===== *)
theory GoUtf8
  imports Prelude
begin

text \<open>
  Strings as the program's text functions see them: ranging over a Go string decodes UTF-8 runes,
  an invalid byte counting as U+FFFD. \<open>validUTF8\<close> is what encoding/json makes of a string. The
  Unicode tables beyond ASCII are a parameter.
\<close>

section \<open>Decoding and encoding runes\<close>

definition between :: "nat \<Rightarrow> nat \<Rightarrow> nat \<Rightarrow> bool" where
  "between lo hi c \<longleftrightarrow> lo \<le> c \<and> c \<le> hi"

definition cont :: "nat \<Rightarrow> bool" where
  "cont c \<longleftrightarrow> between 0x80 0xBF c"

text \<open>The first rune of a non-empty byte sequence and its width, \<open>utf8.DecodeRuneInString\<close>.\<close>

definition decodeBytes :: "nat list \<Rightarrow> nat \<times> nat" where
  "decodeBytes bs =
     (case bs of
        [] \<Rightarrow> (0xFFFD, 0)
      | b0 # r1 \<Rightarrow>
          if b0 < 0x80 then (b0, 1)
          else case r1 of
            [] \<Rightarrow> (0xFFFD, 1)
          | b1 # r2 \<Rightarrow>
              if between 0xC2 0xDF b0 \<and> cont b1 then ((b0 - 0xC0) * 64 + (b1 - 0x80), 2)
              else case r2 of
                [] \<Rightarrow> (0xFFFD, 1)
              | b2 # r3 \<Rightarrow>
                  if between 0xE0 0xEF b0 \<and> cont b2 \<and>
                     between (if b0 = 0xE0 then 0xA0 else 0x80) (if b0 = 0xED then 0x9F else 0xBF) b1
                  then ((b0 - 0xE0) * 4096 + (b1 - 0x80) * 64 + (b2 - 0x80), 3)
                  else case r3 of
                    [] \<Rightarrow> (0xFFFD, 1)
                  | b3 # r4 \<Rightarrow>
                      if between 0xF0 0xF4 b0 \<and> cont b2 \<and> cont b3 \<and>
                         between (if b0 = 0xF0 then 0x90 else 0x80) (if b0 = 0xF4 then 0x8F else 0xBF) b1
                      then ((b0 - 0xF0) * 262144 + (b1 - 0x80) * 4096 + (b2 - 0x80) * 64 + (b3 - 0x80), 4)
                      else (0xFFFD, 1))"

lemma decodeBytes_width: "bs \<noteq> [] \<Longrightarrow> 0 < snd (decodeBytes bs)"
  by (auto simp: decodeBytes_def split: list.split)

function runeList :: "nat list \<Rightarrow> nat list" where
  "runeList bs =
     (if bs = [] then [] else fst (decodeBytes bs) # runeList (drop (snd (decodeBytes bs)) bs))"
  by pat_completeness auto
termination
  by (relation "measure length") (simp_all add: decodeBytes_width)

declare runeList.simps [simp del]

definition runes :: "string \<Rightarrow> nat list" where
  \<comment> \<open>the runes a \<open>range\<close> loop over the string delivers\<close>
  "runes s = runeList (map of_char s)"

definition encodeBytes :: "nat \<Rightarrow> nat list" where
  "encodeBytes r =
     (if r < 0x80 then [r]
      else if r < 0x800 then [0xC0 + r div 64, 0x80 + r mod 64]
      else if r < 0x10000 then [0xE0 + r div 4096, 0x80 + r div 64 mod 64, 0x80 + r mod 64]
      else [0xF0 + r div 262144, 0x80 + r div 4096 mod 64, 0x80 + r div 64 mod 64, 0x80 + r mod 64])"

definition encodeRune :: "nat \<Rightarrow> string" where
  \<comment> \<open>\<open>utf8.EncodeRune\<close> of a Unicode scalar value\<close>
  "encodeRune r = map char_of (encodeBytes r)"

definition validUTF8 :: "string \<Rightarrow> string" where
  \<comment> \<open>every invalid byte replaced by U+FFFD\<close>
  "validUTF8 s = concat (map encodeRune (runes s))"

section \<open>Character classes\<close>

text \<open>The tables of package unicode for the code points from 128 on.\<close>

record unicode =
  uLower :: "nat \<Rightarrow> nat"
  uLetter :: "nat \<Rightarrow> bool"
  uDigit :: "nat \<Rightarrow> bool"

definition runeLower :: "unicode \<Rightarrow> nat \<Rightarrow> nat" where
  "runeLower u r = (if r < 128 then if between 65 90 r then r + 32 else r else uLower u r)"

definition isLetter :: "unicode \<Rightarrow> nat \<Rightarrow> bool" where
  "isLetter u r = (if r < 128 then between 65 90 r \<or> between 97 122 r else uLetter u r)"

definition isDigitRune :: "unicode \<Rightarrow> nat \<Rightarrow> bool" where
  "isDigitRune u r = (if r < 128 then between 48 57 r else uDigit u r)"

definition ToLower :: "unicode \<Rightarrow> string \<Rightarrow> string" where
  "ToLower u s = concat (map (\<lambda>r. encodeRune (runeLower u r)) (runes s))"

section \<open>ASCII strings\<close>

definition ascii :: "string \<Rightarrow> bool" where
  "ascii s \<longleftrightarrow> list_all (\<lambda>c. (of_char c :: nat) < 128) s"

lemma decodeBytes_ascii: "b < 128 \<Longrightarrow> decodeBytes (b # bs) = (b, 1)"
  by (simp add: decodeBytes_def)

lemma runeList_ascii: "list_all (\<lambda>b. b < 128) bs \<Longrightarrow> runeList bs = bs"
  by (induction bs) (subst runeList.simps, simp add: decodeBytes_ascii)+

lemma runes_ascii: "ascii s \<Longrightarrow> runes s = map of_char s"
  by (simp add: runes_def ascii_def runeList_ascii list_all_iff)

lemma encodeRune_ascii: "r < 128 \<Longrightarrow> encodeRune r = [char_of r]"
  by (simp add: encodeRune_def encodeBytes_def)

lemma validUTF8_ascii [simp]: "ascii s \<Longrightarrow> validUTF8 s = s"
  by (induction s) (auto simp: validUTF8_def runes_ascii encodeRune_ascii ascii_def)

lemma ascii_simps [simp]:
  "ascii []" "ascii (c # s) \<longleftrightarrow> (of_char c :: nat) < 128 \<and> ascii s"
  "ascii (s @ t) \<longleftrightarrow> ascii s \<and> ascii t"
  by (auto simp: ascii_def)

section \<open>Re-encoding decoded runes\<close>

definition scalar :: "nat \<Rightarrow> bool" where
  "scalar r \<longleftrightarrow> r < 0xD800 \<or> 0xE000 \<le> r \<and> r < 0x110000"

lemma scalar_three:
  "i \<le> 15 \<Longrightarrow> i = 13 \<longrightarrow> j \<le> 31 \<Longrightarrow> j \<le> 63 \<Longrightarrow> k \<le> 63 \<Longrightarrow> scalar (i * 4096 + j * 64 + k)"
  by (cases "i < 13"; cases "i = 13") (auto simp: scalar_def)

lemma scalar_four:
  "i \<le> 4 \<Longrightarrow> i = 0 \<longrightarrow> 16 \<le> j \<Longrightarrow> i = 4 \<longrightarrow> j \<le> 15 \<Longrightarrow> j \<le> 63 \<Longrightarrow> k \<le> 63 \<Longrightarrow> l \<le> 63 \<Longrightarrow>
    scalar (i * 262144 + j * 4096 + k * 64 + l)"
  by (cases "i = 0"; cases "i = 4") (auto simp: scalar_def)

lemma scalar_split:
  "(P \<Longrightarrow> scalar (fst x)) \<Longrightarrow> (\<not> P \<Longrightarrow> scalar (fst y)) \<Longrightarrow> scalar (fst (if P then x else y))"
  "scalar (fst z) \<Longrightarrow> (\<And>b bs'. scalar (fst (f b bs'))) \<Longrightarrow>
    scalar (fst (case bs of [] \<Rightarrow> z | b # bs' \<Rightarrow> f b bs'))"
  by (simp_all split: list.split)

lemma decodeBytes_scalar: "scalar (fst (decodeBytes bs))"
proof (cases bs)
  case Nil
  then show ?thesis by (simp add: decodeBytes_def scalar_def)
next
  case (Cons b0 r1)
  have repl: "scalar 0xFFFD" by (simp add: scalar_def)
  have two: "between 0xC2 0xDF b0 \<Longrightarrow> cont b1 \<Longrightarrow> scalar ((b0 - 0xC0) * 64 + (b1 - 0x80))" for b1
    by (auto simp: between_def cont_def scalar_def)
  have three: "scalar ((b0 - 0xE0) * 4096 + (b1 - 0x80) * 64 + (b2 - 0x80))"
    if "between 0xE0 0xEF b0" "cont b2"
      "between (if b0 = 0xE0 then 0xA0 else 0x80) (if b0 = 0xED then 0x9F else 0xBF) b1" for b1 b2
  proof (rule scalar_three)
    show "b0 - 0xE0 \<le> 15" "b0 - 0xE0 = 13 \<longrightarrow> b1 - 0x80 \<le> 31" "b1 - 0x80 \<le> 63" "b2 - 0x80 \<le> 63"
      using that by (auto simp: between_def cont_def split: if_splits)
  qed
  have four: "scalar ((b0 - 0xF0) * 262144 + (b1 - 0x80) * 4096 + (b2 - 0x80) * 64 + (b3 - 0x80))"
    if "between 0xF0 0xF4 b0" "cont b2" "cont b3"
      "between (if b0 = 0xF0 then 0x90 else 0x80) (if b0 = 0xF4 then 0x8F else 0xBF) b1" for b1 b2 b3
  proof (rule scalar_four)
    show "b0 - 0xF0 \<le> 4" "b0 - 0xF0 = 0 \<longrightarrow> 16 \<le> b1 - 0x80" "b0 - 0xF0 = 4 \<longrightarrow> b1 - 0x80 \<le> 15"
      "b1 - 0x80 \<le> 63" "b2 - 0x80 \<le> 63" "b3 - 0x80 \<le> 63"
      using that by (auto simp: between_def cont_def split: if_splits)
  qed
  have one: "b0 < 0x80 \<Longrightarrow> scalar b0" by (simp add: scalar_def)
  show ?thesis
    unfolding Cons decodeBytes_def list.case
    by (intro scalar_split; simp only: fst_conv repl; blast intro: one two three four)
qed

lemma decode_shapes:
  "2 \<le> a \<Longrightarrow> a < 32 \<Longrightarrow> x < 64 \<Longrightarrow>
    decodeBytes ((0xC0 + a) # (0x80 + x) # rest) = (a * 64 + x, 2)"
  "a < 16 \<Longrightarrow> a = 0 \<longrightarrow> 32 \<le> y \<Longrightarrow> a = 13 \<longrightarrow> y \<le> 31 \<Longrightarrow> y < 64 \<Longrightarrow> x < 64 \<Longrightarrow>
    decodeBytes ((0xE0 + a) # (0x80 + y) # (0x80 + x) # rest) = (a * 4096 + y * 64 + x, 3)"
  "a \<le> 4 \<Longrightarrow> a = 0 \<longrightarrow> 16 \<le> z \<Longrightarrow> a = 4 \<longrightarrow> z \<le> 15 \<Longrightarrow> z < 64 \<Longrightarrow> y < 64 \<Longrightarrow> x < 64 \<Longrightarrow>
    decodeBytes ((0xF0 + a) # (0x80 + z) # (0x80 + y) # (0x80 + x) # rest) =
      (a * 262144 + z * 4096 + y * 64 + x, 4)"
  by (simp_all add: decodeBytes_def between_def cont_def)

lemma base64_digits:
  fixes r :: nat
  shows "r = r div 64 * 64 + r mod 64"
    "r = r div 4096 * 4096 + r div 64 mod 64 * 64 + r mod 64"
    "r = r div 262144 * 262144 + r div 4096 mod 64 * 4096 + r div 64 mod 64 * 64 + r mod 64"
proof -
  have d: "r div 4096 = r div 64 div 64" "r div 262144 = r div 64 div 64 div 64"
    by (simp_all add: div_mult2_eq [symmetric])
  have "r div 64 = 64 * (r div 64 div 64) + r div 64 mod 64"
    "r div 64 div 64 = 64 * (r div 64 div 64 div 64) + r div 64 div 64 mod 64"
    "r = 64 * (r div 64) + r mod 64"
    by simp_all
  then show "r = r div 64 * 64 + r mod 64"
    "r = r div 4096 * 4096 + r div 64 mod 64 * 64 + r mod 64"
    "r = r div 262144 * 262144 + r div 4096 mod 64 * 4096 + r div 64 mod 64 * 64 + r mod 64"
    unfolding d by linarith+
qed

lemma decode_encode: "scalar r \<Longrightarrow> decodeBytes (encodeBytes r @ rest) = (r, length (encodeBytes r))"
proof -
  assume r: "scalar r"
  note digits = base64_digits [of r]
  consider "r < 0x80" | "0x80 \<le> r" "r < 0x800" | "0x800 \<le> r" "r < 0x10000" | "0x10000 \<le> r" by linarith
  then show ?thesis
  proof cases
    case 1
    then show ?thesis by (simp add: encodeBytes_def decodeBytes_def)
  next
    case 2
    have "decodeBytes ((0xC0 + r div 64) # (0x80 + r mod 64) # rest) = (r div 64 * 64 + r mod 64, 2)"
      using 2 by (intro decode_shapes) simp_all
    with 2 show ?thesis by (simp add: encodeBytes_def)
  next
    case 3
    have "r div 4096 = 0 \<longrightarrow> 32 \<le> r div 64 mod 64" "r div 4096 = 13 \<longrightarrow> r div 64 mod 64 \<le> 31"
      using digits(2) 3 r by (auto simp: scalar_def)
    then have "decodeBytes ((0xE0 + r div 4096) # (0x80 + r div 64 mod 64) # (0x80 + r mod 64) # rest) =
        (r div 4096 * 4096 + r div 64 mod 64 * 64 + r mod 64, 3)"
      using 3 by (intro decode_shapes) simp_all
    with 3 show ?thesis by (simp only: digits(2) [symmetric]) (simp add: encodeBytes_def)
  next
    case 4
    have "r < 0x110000" using r by (auto simp: scalar_def)
    then have "r div 262144 \<le> 4" by simp
    moreover have "r div 262144 = 0 \<longrightarrow> 16 \<le> r div 4096 mod 64" "r div 262144 = 4 \<longrightarrow> r div 4096 mod 64 \<le> 15"
      using digits(3) 4 \<open>r < 0x110000\<close> by auto
    ultimately have "decodeBytes ((0xF0 + r div 262144) # (0x80 + r div 4096 mod 64) # (0x80 + r div 64 mod 64)
          # (0x80 + r mod 64) # rest) =
        (r div 262144 * 262144 + r div 4096 mod 64 * 4096 + r div 64 mod 64 * 64 + r mod 64, 4)"
      by (intro decode_shapes) simp_all
    with 4 show ?thesis by (simp only: digits(3) [symmetric]) (simp add: encodeBytes_def)
  qed
qed

lemma encodeBytes_nonempty [simp]: "encodeBytes r \<noteq> []"
  by (simp add: encodeBytes_def)

lemma runeList_encode: "list_all scalar rs \<Longrightarrow> runeList (concat (map encodeBytes rs)) = rs"
  by (induction rs) (simp add: runeList.simps, subst runeList.simps, simp add: decode_encode)

lemma runeList_scalar: "list_all scalar (runeList bs)"
  by (induction bs rule: runeList.induct) (subst runeList.simps, simp add: decodeBytes_scalar)

lemma encodeBytes_byte: "scalar r \<Longrightarrow> list_all (\<lambda>b. b < 256) (encodeBytes r)"
  by (auto simp: encodeBytes_def scalar_def)

lemma validUTF8_idem [simp]: "validUTF8 (validUTF8 s) = validUTF8 s"
proof -
  have sc: "list_all scalar (runes s)" by (simp add: runes_def runeList_scalar)
  then have "map (of_char \<circ> char_of) (encodeBytes r) = encodeBytes r" if "r \<in> set (runes s)" for r
    using that encodeBytes_byte [of r] by (intro map_idI) (auto simp: list_all_iff)
  then have "map of_char (validUTF8 s) = concat (map encodeBytes (runes s))"
    by (simp add: validUTF8_def encodeRune_def map_concat comp_def cong: map_cong)
  then have "runes (validUTF8 s) = runes s"
    by (simp add: runes_def [of "validUTF8 s"] runeList_encode [OF sc])
  then show ?thesis by (simp add: validUTF8_def [of "validUTF8 s"]) (simp add: validUTF8_def)
qed
end
