(* ===== verification/GoJson.thy ===== *)
theory GoJson
  imports GoStrconv GoUtf8
begin

text \<open>
  What the program uses of encoding/json when it reads: JSON values as trees (the text layer is
  not modelled; a text that is no JSON is the value None of its readers), and the decoding of an
  object into a struct. Keys match field names up to case folding, null leaves a plain field
  alone, and a value of the wrong kind is an error.
\<close>

datatype json =
    JNull
  | JBool bool
  | JNum string  \<comment> \<open>the number literal as written\<close>
  | JStr string
  | JArr "json list"
  | JObj "(string \<times> json) list"

section \<open>Scalars\<close>

definition decStr :: "json \<Rightarrow> string \<Rightarrow> string option" where
  "decStr v cur = (case v of JStr s \<Rightarrow> Some (validUTF8 s) | JNull \<Rightarrow> Some cur | _ \<Rightarrow> None)"

definition decIntField :: "json \<Rightarrow> int \<Rightarrow> int option" where
  "decIntField v cur = (case v of JNum l \<Rightarrow> Atoi l | JNull \<Rightarrow> Some cur | _ \<Rightarrow> None)"

definition decBool :: "json \<Rightarrow> bool \<Rightarrow> bool option" where
  "decBool v cur = (case v of JBool b \<Rightarrow> Some b | JNull \<Rightarrow> Some cur | _ \<Rightarrow> None)"

definition decBoolPtr :: "json \<Rightarrow> bool option option" where
  "decBoolPtr v = (case v of JBool b \<Rightarrow> Some (Some b) | JNull \<Rightarrow> Some None | _ \<Rightarrow> None)"

definition ParseByte :: "string \<Rightarrow> byte option" where
  \<comment> \<open>\<open>strconv.ParseUint\<close> and the range check of a uint8 field\<close>
  "ParseByte l =
     (if l = [] \<or> \<not> list_all isDigit l \<or> 256 \<le> digitsVal 0 l then None
      else Some (word_of_nat (digitsVal 0 l)))"

definition decBytePtr :: "json \<Rightarrow> byte option option" where
  "decBytePtr v = (case v of JNum l \<Rightarrow> map_option Some (ParseByte l) | JNull \<Rightarrow> Some None | _ \<Rightarrow> None)"

lemma ParseByte_dec [simp]: "ParseByte (dec (unat b)) = Some b"
  using dec_digits [of "unat b"] unat_byte_less [of b] by (simp add: ParseByte_def not_le del: unat_byte_less)

section \<open>Objects\<close>

text \<open>Case folding of an object key: ASCII letters, and the two runes that fold to ASCII.\<close>

definition foldRune :: "nat \<Rightarrow> nat" where
  "foldRune r =
     (if between 65 90 r then r + 32 else if r = 0x17F then 115 else if r = 0x212A then 107 else r)"

definition foldKey :: "string \<Rightarrow> nat list" where
  "foldKey k = map foldRune (runes k)"

definition keyIs :: "string \<Rightarrow> string \<Rightarrow> bool" where
  "keyIs name k \<longleftrightarrow> foldKey k = foldKey name"

text \<open>Decoding into a struct, given how one member changes it; null leaves the struct alone.\<close>

fun decodeMembers :: "(string \<Rightarrow> json \<Rightarrow> 'a \<Rightarrow> 'a option) \<Rightarrow> (string \<times> json) list \<Rightarrow> 'a \<Rightarrow> 'a option" where
  "decodeMembers field [] s = Some s"
| "decodeMembers field ((k, v) # kvs) s = do { s' \<leftarrow> field k v s; decodeMembers field kvs s' }"

definition decodeStruct :: "(string \<Rightarrow> json \<Rightarrow> 'a \<Rightarrow> 'a option) \<Rightarrow> json \<Rightarrow> 'a \<Rightarrow> 'a option" where
  "decodeStruct field v s =
     (case v of JNull \<Rightarrow> Some s | JObj kvs \<Rightarrow> decodeMembers field kvs s | _ \<Rightarrow> None)"

lemma decodeMembers_append [simp]:
  "decodeMembers field (xs @ ys) s = do { s' \<leftarrow> decodeMembers field xs s; decodeMembers field ys s' }"
  by (induction field xs s rule: decodeMembers.induct) (simp_all split: bind_splits)

lemma decodeMembers_inv:
  assumes "\<And>k v s s'. field k v s = Some s' \<Longrightarrow> P s \<Longrightarrow> P s'"
  shows "decodeMembers field kvs s = Some s' \<Longrightarrow> P s \<Longrightarrow> P s'"
proof (induction kvs arbitrary: s)
  case (Cons kv kvs)
  obtain k v where kv: "kv = (k, v)" by (cases kv)
  with Cons.prems(1) obtain y where y: "field k v s = Some y" "decodeMembers field kvs y = Some s'"
    by (auto simp: bind_eq_Some_conv)
  from Cons.IH [OF y(2) assms [OF y(1) Cons.prems(2)]] show ?case .
qed simp

section \<open>Members written with omitempty\<close>

definition optMember :: "bool \<Rightarrow> string \<Rightarrow> json \<Rightarrow> (string \<times> json) list" where
  "optMember present k v = (if present then [(k, v)] else [])"

lemma decode_optMember:
  "(present \<Longrightarrow> field k v s = Some s') \<Longrightarrow> (\<not> present \<Longrightarrow> s = s') \<Longrightarrow>
    decodeMembers field (optMember present k v) s = Some s'"
  by (simp add: optMember_def)

end
