(* ===== verification/Config.thy ===== *)
theory Config
  imports GoTime GoJson
begin

text \<open>
  internal/config: the configuration read from the environment (config.go), and the form of it that
  store.go saves: the struct \<open>persisted\<close> with its JSON document.
\<close>

section \<open>config.go\<close>

record Config =
  c_SerialPort :: string
  c_BaudRate :: int
  c_MQTTBroker :: string
  c_MQTTTopicPrefix :: string
  c_MQTTUser :: string
  c_MQTTPass :: string
  c_MQTTRetain :: bool
  c_MQTTQOS :: byte
  c_PublishInterval :: Duration
  c_LogLevel :: string
  c_LogFormat :: string
  c_MQTTHADiscovery :: bool
  c_MQTTHADiscoveryPrefix :: string
  c_WebAddr :: string
  c_WebUser :: string
  c_WebPass :: string
  c_ConfigFile :: string

text \<open>\<open>os.Getenv\<close>: the empty string when the variable is not set.\<close>

type_synonym environ = "string \<Rightarrow> string"

definition env :: "environ \<Rightarrow> string \<Rightarrow> string \<Rightarrow> string" where
  "env getenv key d = (let v = getenv key in if v \<noteq> [] then v else d)"

definition envInt :: "environ \<Rightarrow> string \<Rightarrow> int \<Rightarrow> int" where
  "envInt getenv key d =
     (let v = getenv key in
      if v \<noteq> [] then (case Atoi v of Some i \<Rightarrow> i | None \<Rightarrow> d) else d)"

definition envBool :: "environ \<Rightarrow> string \<Rightarrow> bool \<Rightarrow> bool" where
  "envBool getenv key d =
     (let v = getenv key in
      if v \<noteq> [] then (case ParseBool v of Some b \<Rightarrow> b | None \<Rightarrow> d) else d)"

definition envDuration :: "environ \<Rightarrow> string \<Rightarrow> Duration \<Rightarrow> Duration" where
  "envDuration getenv key d =
     (let v = getenv key in
      if v \<noteq> [] then (case ParseDuration v of Some x \<Rightarrow> x | None \<Rightarrow> d) else d)"

definition Load :: "environ \<Rightarrow> Config" where
  "Load getenv = \<lparr>
     c_SerialPort = env getenv ''SERIAL_PORT'' [],
     c_BaudRate = envInt getenv ''SERIAL_BAUD'' 9600,
     c_MQTTBroker = env getenv ''MQTT_BROKER'' ''tcp://localhost:1883'',
     c_MQTTTopicPrefix = env getenv ''MQTT_TOPIC_PREFIX'' ''vbus'',
     c_MQTTUser = env getenv ''MQTT_USER'' [],
     c_MQTTPass = env getenv ''MQTT_PASS'' [],
     c_MQTTRetain = envBool getenv ''MQTT_RETAIN'' True,
     c_MQTTQOS = word_of_int (envInt getenv ''MQTT_QOS'' 0),
     c_PublishInterval = envDuration getenv ''PUBLISH_INTERVAL'' (30 * Second),
     c_LogLevel = env getenv ''LOG_LEVEL'' ''info'',
     c_LogFormat = env getenv ''LOG_FORMAT'' ''json'',
     c_MQTTHADiscovery = envBool getenv ''MQTT_HA_DISCOVERY'' False,
     c_MQTTHADiscoveryPrefix = env getenv ''MQTT_HA_DISCOVERY_PREFIX'' ''homeassistant'',
     c_WebAddr = env getenv ''WEB_ADDR'' '':8080'',
     c_WebUser = env getenv ''WEB_USER'' [],
     c_WebPass = env getenv ''WEB_PASS'' [],
     c_ConfigFile = env getenv ''CONFIG_FILE'' ''/data/config.json''\<rparr>"

section \<open>The saved form\<close>

record persisted =
  p_SerialPort :: string
  p_BaudRate :: int
  p_MQTTBroker :: string
  p_MQTTTopicPrefix :: string
  p_MQTTUser :: string
  p_MQTTPass :: string
  p_MQTTRetain :: "bool option"
  p_MQTTQOS :: "byte option"
  p_PublishInterval :: string
  p_LogLevel :: string
  p_LogFormat :: string

definition zero_persisted :: persisted where
  "zero_persisted = \<lparr>p_SerialPort = [], p_BaudRate = 0, p_MQTTBroker = [], p_MQTTTopicPrefix = [],
     p_MQTTUser = [], p_MQTTPass = [], p_MQTTRetain = None, p_MQTTQOS = None,
     p_PublishInterval = [], p_LogLevel = [], p_LogFormat = []\<rparr>"

text \<open>The json tags of \<open>persisted\<close>: decoding one member, and the members json.Marshal writes.\<close>

definition persistedField :: "string \<Rightarrow> json \<Rightarrow> persisted \<Rightarrow> persisted option" where
  "persistedField k v p =
     (if keyIs ''serial_port'' k then map_option (\<lambda>x. p\<lparr>p_SerialPort := x\<rparr>) (decStr v (p_SerialPort p))
      else if keyIs ''baud_rate'' k then map_option (\<lambda>x. p\<lparr>p_BaudRate := x\<rparr>) (decIntField v (p_BaudRate p))
      else if keyIs ''mqtt_broker'' k then map_option (\<lambda>x. p\<lparr>p_MQTTBroker := x\<rparr>) (decStr v (p_MQTTBroker p))
      else if keyIs ''mqtt_topic_prefix'' k
        then map_option (\<lambda>x. p\<lparr>p_MQTTTopicPrefix := x\<rparr>) (decStr v (p_MQTTTopicPrefix p))
      else if keyIs ''mqtt_user'' k then map_option (\<lambda>x. p\<lparr>p_MQTTUser := x\<rparr>) (decStr v (p_MQTTUser p))
      else if keyIs ''mqtt_pass'' k then map_option (\<lambda>x. p\<lparr>p_MQTTPass := x\<rparr>) (decStr v (p_MQTTPass p))
      else if keyIs ''mqtt_retain'' k then map_option (\<lambda>x. p\<lparr>p_MQTTRetain := x\<rparr>) (decBoolPtr v)
      else if keyIs ''mqtt_qos'' k then map_option (\<lambda>x. p\<lparr>p_MQTTQOS := x\<rparr>) (decBytePtr v)
      else if keyIs ''publish_interval'' k
        then map_option (\<lambda>x. p\<lparr>p_PublishInterval := x\<rparr>) (decStr v (p_PublishInterval p))
      else if keyIs ''log_level'' k then map_option (\<lambda>x. p\<lparr>p_LogLevel := x\<rparr>) (decStr v (p_LogLevel p))
      else if keyIs ''log_format'' k then map_option (\<lambda>x. p\<lparr>p_LogFormat := x\<rparr>) (decStr v (p_LogFormat p))
      else Some p)"

definition strMember :: "string \<Rightarrow> string \<Rightarrow> (string \<times> json) list" where
  \<comment> \<open>a string field tagged omitempty\<close>
  "strMember k s = optMember (s \<noteq> []) k (JStr (validUTF8 s))"

definition marshalPersisted :: "persisted \<Rightarrow> json" where
  "marshalPersisted p = JObj (
     strMember ''serial_port'' (p_SerialPort p) @
     optMember (p_BaudRate p \<noteq> 0) ''baud_rate'' (JNum (decInt (p_BaudRate p))) @
     strMember ''mqtt_broker'' (p_MQTTBroker p) @
     strMember ''mqtt_topic_prefix'' (p_MQTTTopicPrefix p) @
     strMember ''mqtt_user'' (p_MQTTUser p) @
     strMember ''mqtt_pass'' (p_MQTTPass p) @
     (case p_MQTTRetain p of Some b \<Rightarrow> [(''mqtt_retain'', JBool b)] | None \<Rightarrow> []) @
     (case p_MQTTQOS p of Some b \<Rightarrow> [(''mqtt_qos'', JNum (dec (unat b)))] | None \<Rightarrow> []) @
     strMember ''publish_interval'' (p_PublishInterval p) @
     strMember ''log_level'' (p_LogLevel p) @
     strMember ''log_format'' (p_LogFormat p))"

section \<open>A saved form reads back\<close>

lemma persisted_keys [simp]:
  "foldKey ''serial_port'' = map of_char ''serial_port''" "foldKey ''baud_rate'' = map of_char ''baud_rate''"
  "foldKey ''mqtt_broker'' = map of_char ''mqtt_broker''"
  "foldKey ''mqtt_topic_prefix'' = map of_char ''mqtt_topic_prefix''"
  "foldKey ''mqtt_user'' = map of_char ''mqtt_user''" "foldKey ''mqtt_pass'' = map of_char ''mqtt_pass''"
  "foldKey ''mqtt_retain'' = map of_char ''mqtt_retain''" "foldKey ''mqtt_qos'' = map of_char ''mqtt_qos''"
  "foldKey ''publish_interval'' = map of_char ''publish_interval''"
  "foldKey ''log_level'' = map of_char ''log_level''" "foldKey ''log_format'' = map of_char ''log_format''"
  by (simp_all add: foldKey_def runes_ascii ascii_def foldRune_def between_def)

definition utf8_ok :: "string \<Rightarrow> bool" where
  "utf8_ok s \<longleftrightarrow> validUTF8 s = s"

definition persisted_ok :: "persisted \<Rightarrow> bool" where
  "persisted_ok p \<longleftrightarrow> - (2 ^ 63) \<le> p_BaudRate p \<and> p_BaudRate p < 2 ^ 63 \<and>
     list_all utf8_ok [p_SerialPort p, p_MQTTBroker p, p_MQTTTopicPrefix p, p_MQTTUser p, p_MQTTPass p,
       p_PublishInterval p, p_LogLevel p, p_LogFormat p]"

lemma persistedField_known:
  "persistedField ''serial_port'' v p = map_option (\<lambda>x. p\<lparr>p_SerialPort := x\<rparr>) (decStr v (p_SerialPort p))"
  "persistedField ''baud_rate'' v p = map_option (\<lambda>x. p\<lparr>p_BaudRate := x\<rparr>) (decIntField v (p_BaudRate p))"
  "persistedField ''mqtt_broker'' v p = map_option (\<lambda>x. p\<lparr>p_MQTTBroker := x\<rparr>) (decStr v (p_MQTTBroker p))"
  "persistedField ''mqtt_topic_prefix'' v p =
     map_option (\<lambda>x. p\<lparr>p_MQTTTopicPrefix := x\<rparr>) (decStr v (p_MQTTTopicPrefix p))"
  "persistedField ''mqtt_user'' v p = map_option (\<lambda>x. p\<lparr>p_MQTTUser := x\<rparr>) (decStr v (p_MQTTUser p))"
  "persistedField ''mqtt_pass'' v p = map_option (\<lambda>x. p\<lparr>p_MQTTPass := x\<rparr>) (decStr v (p_MQTTPass p))"
  "persistedField ''mqtt_retain'' v p = map_option (\<lambda>x. p\<lparr>p_MQTTRetain := x\<rparr>) (decBoolPtr v)"
  "persistedField ''mqtt_qos'' v p = map_option (\<lambda>x. p\<lparr>p_MQTTQOS := x\<rparr>) (decBytePtr v)"
  "persistedField ''publish_interval'' v p =
     map_option (\<lambda>x. p\<lparr>p_PublishInterval := x\<rparr>) (decStr v (p_PublishInterval p))"
  "persistedField ''log_level'' v p = map_option (\<lambda>x. p\<lparr>p_LogLevel := x\<rparr>) (decStr v (p_LogLevel p))"
  "persistedField ''log_format'' v p = map_option (\<lambda>x. p\<lparr>p_LogFormat := x\<rparr>) (decStr v (p_LogFormat p))"
  by (simp_all add: persistedField_def keyIs_def)

lemma decode_strMember:
  "utf8_ok s \<Longrightarrow> p_SerialPort q = [] \<Longrightarrow>
     decodeMembers persistedField (strMember ''serial_port'' s) q = Some (q\<lparr>p_SerialPort := s\<rparr>)"
  "utf8_ok s \<Longrightarrow> p_MQTTBroker q = [] \<Longrightarrow>
     decodeMembers persistedField (strMember ''mqtt_broker'' s) q = Some (q\<lparr>p_MQTTBroker := s\<rparr>)"
  "utf8_ok s \<Longrightarrow> p_MQTTTopicPrefix q = [] \<Longrightarrow>
     decodeMembers persistedField (strMember ''mqtt_topic_prefix'' s) q = Some (q\<lparr>p_MQTTTopicPrefix := s\<rparr>)"
  "utf8_ok s \<Longrightarrow> p_MQTTUser q = [] \<Longrightarrow>
     decodeMembers persistedField (strMember ''mqtt_user'' s) q = Some (q\<lparr>p_MQTTUser := s\<rparr>)"
  "utf8_ok s \<Longrightarrow> p_MQTTPass q = [] \<Longrightarrow>
     decodeMembers persistedField (strMember ''mqtt_pass'' s) q = Some (q\<lparr>p_MQTTPass := s\<rparr>)"
  "utf8_ok s \<Longrightarrow> p_PublishInterval q = [] \<Longrightarrow>
     decodeMembers persistedField (strMember ''publish_interval'' s) q = Some (q\<lparr>p_PublishInterval := s\<rparr>)"
  "utf8_ok s \<Longrightarrow> p_LogLevel q = [] \<Longrightarrow>
     decodeMembers persistedField (strMember ''log_level'' s) q = Some (q\<lparr>p_LogLevel := s\<rparr>)"
  "utf8_ok s \<Longrightarrow> p_LogFormat q = [] \<Longrightarrow>
     decodeMembers persistedField (strMember ''log_format'' s) q = Some (q\<lparr>p_LogFormat := s\<rparr>)"
  by (cases q; auto simp: strMember_def optMember_def persistedField_known decStr_def utf8_ok_def)+

lemma decode_marshal:
  assumes "persisted_ok p"
  shows "decodeStruct persistedField (marshalPersisted p) zero_persisted = Some p"
proof -
  obtain s1 b s2 s3 s4 s5 r q s6 s7 s8 where p: "p = \<lparr>p_SerialPort = s1, p_BaudRate = b, p_MQTTBroker = s2,
    p_MQTTTopicPrefix = s3, p_MQTTUser = s4, p_MQTTPass = s5, p_MQTTRetain = r, p_MQTTQOS = q,
    p_PublishInterval = s6, p_LogLevel = s7, p_LogFormat = s8\<rparr>" by (cases p)
  have baud: "decodeMembers persistedField (optMember (b \<noteq> 0) ''baud_rate'' (JNum (decInt b))) q =
      Some (q\<lparr>p_BaudRate := b\<rparr>)" if "p_BaudRate q = 0" for q
    using that assms
    by (intro decode_optMember) (simp_all add: persistedField_known decIntField_def Atoi_decInt p persisted_ok_def)
  have retain: "decodeMembers persistedField
      (case r of Some b \<Rightarrow> [(''mqtt_retain'', JBool b)] | None \<Rightarrow> []) x = Some (x\<lparr>p_MQTTRetain := r\<rparr>)"
    if "p_MQTTRetain x = None" for x
    using that by (cases r) (simp_all add: persistedField_known decBoolPtr_def)
  have qos: "decodeMembers persistedField
      (case q of Some b \<Rightarrow> [(''mqtt_qos'', JNum (dec (unat b)))] | None \<Rightarrow> []) x = Some (x\<lparr>p_MQTTQOS := q\<rparr>)"
    if "p_MQTTQOS x = None" for x
    using that by (cases q) (simp_all add: persistedField_known decBytePtr_def)
  show ?thesis
    using assms
    by (simp add: marshalPersisted_def decodeStruct_def p persisted_ok_def zero_persisted_def
       baud retain qos decode_strMember)
qed
end
