(* ===== verification/Store.thy ===== *)
theory Store
  imports Config
begin

text \<open>
  internal/config/store.go for one caller at a time: the store record, the file system it saves to
  (contents by path, with the failure of each call given from outside), \<open>loadFile\<close>, \<open>saveFile\<close>,
  \<open>NewStore\<close>, \<open>Get\<close>, \<open>Version\<close> and \<open>Update\<close>.
\<close>

section \<open>State and file system\<close>

record Store =
  s_cfg :: Config
  s_path :: string
  s_version :: uint64  \<comment> \<open>\<open>atomic.Uint64\<close>, which wraps\<close>

datatype content = JsonText json | OtherText

type_synonym files = "string \<rightharpoonup> content"

text \<open>How the calls to package os turn out; after a failed WriteFile the file is whatever it is.\<close>

record os_calls =
  read_fails :: bool
  mkdir_fails :: bool
  write_fails :: bool
  write_leaves :: "content option"
  rename_fails :: bool

datatype store_error = ReadFailed | BadJson | MkdirFailed | WriteFailed | RenameFailed

section \<open>Operations\<close>

definition overlay :: "persisted \<Rightarrow> Config \<Rightarrow> Config" where
  \<comment> \<open>the assignments of \<open>loadFile\<close>\<close>
  "overlay p c0 =
     (let c1 = (if p_SerialPort p \<noteq> [] then c0\<lparr>c_SerialPort := p_SerialPort p\<rparr> else c0);
          c2 = (if p_BaudRate p \<noteq> 0 then c1\<lparr>c_BaudRate := p_BaudRate p\<rparr> else c1);
          c3 = (if p_MQTTBroker p \<noteq> [] then c2\<lparr>c_MQTTBroker := p_MQTTBroker p\<rparr> else c2);
          c4 = (if p_MQTTTopicPrefix p \<noteq> [] then c3\<lparr>c_MQTTTopicPrefix := p_MQTTTopicPrefix p\<rparr> else c3);
          c5 = (if p_MQTTUser p \<noteq> [] then c4\<lparr>c_MQTTUser := p_MQTTUser p\<rparr> else c4);
          c6 = (if p_MQTTPass p \<noteq> [] then c5\<lparr>c_MQTTPass := p_MQTTPass p\<rparr> else c5);
          c7 = (case p_MQTTRetain p of Some b \<Rightarrow> c6\<lparr>c_MQTTRetain := b\<rparr> | None \<Rightarrow> c6);
          c8 = (case p_MQTTQOS p of Some q \<Rightarrow> c7\<lparr>c_MQTTQOS := q\<rparr> | None \<Rightarrow> c7);
          c9 = (if p_PublishInterval p \<noteq> []
                then (case ParseDuration (p_PublishInterval p) of
                        Some d \<Rightarrow> c8\<lparr>c_PublishInterval := d\<rparr> | None \<Rightarrow> c8)
                else c8);
          c10 = (if p_LogLevel p \<noteq> [] then c9\<lparr>c_LogLevel := p_LogLevel p\<rparr> else c9)
      in if p_LogFormat p \<noteq> [] then c10\<lparr>c_LogFormat := p_LogFormat p\<rparr> else c10)"

definition loadFile :: "os_calls \<Rightarrow> files \<Rightarrow> Store \<Rightarrow> store_error option \<times> Store" where
  "loadFile os fs s =
     (if read_fails os then (Some ReadFailed, s)
      else case fs (s_path s) of
        None \<Rightarrow> (None, s)
      | Some OtherText \<Rightarrow> (Some BadJson, s)
      | Some (JsonText j) \<Rightarrow>
          (case decodeStruct persistedField j zero_persisted of
             None \<Rightarrow> (Some BadJson, s)
           | Some p \<Rightarrow> (None, s\<lparr>s_cfg := overlay p (s_cfg s)\<rparr>)))"

definition toPersisted :: "Config \<Rightarrow> persisted" where
  "toPersisted c = \<lparr>p_SerialPort = c_SerialPort c, p_BaudRate = c_BaudRate c,
     p_MQTTBroker = c_MQTTBroker c, p_MQTTTopicPrefix = c_MQTTTopicPrefix c,
     p_MQTTUser = c_MQTTUser c, p_MQTTPass = c_MQTTPass c,
     p_MQTTRetain = Some (c_MQTTRetain c), p_MQTTQOS = Some (c_MQTTQOS c),
     p_PublishInterval = durationString (c_PublishInterval c),
     p_LogLevel = c_LogLevel c, p_LogFormat = c_LogFormat c\<rparr>"

definition saveFile :: "os_calls \<Rightarrow> files \<Rightarrow> Store \<Rightarrow> store_error option \<times> files" where
  "saveFile os fs s =
     (let data = JsonText (marshalPersisted (toPersisted (s_cfg s)));
          tmp = s_path s @ ''.tmp''
      in if mkdir_fails os then (Some MkdirFailed, fs)
         else if write_fails os then (Some WriteFailed, fs(tmp := write_leaves os))
         else if rename_fails os then (Some RenameFailed, fs(tmp \<mapsto> data))
         else (None, (fs(tmp := None))(s_path s \<mapsto> data)))"

definition NewStore :: "environ \<Rightarrow> os_calls \<Rightarrow> files \<Rightarrow> string \<Rightarrow> Store" where
  "NewStore getenv os fs path =
     (let s = \<lparr>s_cfg = Load getenv, s_path = path, s_version = 0\<rparr>
      in if path \<noteq> [] then snd (loadFile os fs s) else s)"

definition Get :: "Store \<Rightarrow> Config" where
  "Get s = s_cfg s"

definition Version :: "Store \<Rightarrow> uint64" where
  "Version s = s_version s"

text \<open>\<open>Update\<close>: the section under the lock, the increment, and the save behind both.\<close>

definition updateLocked :: "(Config \<Rightarrow> Config) \<Rightarrow> Store \<Rightarrow> Store" where
  "updateLocked fn s = s\<lparr>s_cfg := fn (s_cfg s)\<rparr>"

definition addVersion :: "Store \<Rightarrow> Store" where
  "addVersion s = s\<lparr>s_version := s_version s + 1\<rparr>"

definition Update ::
  "(Config \<Rightarrow> Config) \<Rightarrow> os_calls \<Rightarrow> files \<Rightarrow> Store \<Rightarrow> store_error option \<times> Store \<times> files" where
  "Update fn os fs s =
     (let s = updateLocked fn s;
          s = addVersion s
      in if s_path s \<noteq> []
         then (let (err, fs) = saveFile os fs s in (err, s, fs))
         else (None, s, fs))"

declare updateLocked_def [simp] addVersion_def [simp]

section \<open>What survives a restart\<close>

text \<open>The configuration a new process starts with when \<open>c\<close> was saved: fields that are empty or zero
  fall back to the environment, and the fields without a saved form always come from it.\<close>

definition restored :: "Config \<Rightarrow> Config \<Rightarrow> Config" where
  "restored c e = (let nonempty = (\<lambda>x y. if x \<noteq> [] then x else y) in e\<lparr>
     c_SerialPort := nonempty (c_SerialPort c) (c_SerialPort e),
     c_BaudRate := (if c_BaudRate c \<noteq> 0 then c_BaudRate c else c_BaudRate e),
     c_MQTTBroker := nonempty (c_MQTTBroker c) (c_MQTTBroker e),
     c_MQTTTopicPrefix := nonempty (c_MQTTTopicPrefix c) (c_MQTTTopicPrefix e),
     c_MQTTUser := nonempty (c_MQTTUser c) (c_MQTTUser e),
     c_MQTTPass := nonempty (c_MQTTPass c) (c_MQTTPass e),
     c_MQTTRetain := c_MQTTRetain c, c_MQTTQOS := c_MQTTQOS c,
     c_PublishInterval := c_PublishInterval c,
     c_LogLevel := nonempty (c_LogLevel c) (c_LogLevel e),
     c_LogFormat := nonempty (c_LogFormat c) (c_LogFormat e)\<rparr>)"

definition config_ok :: "Config \<Rightarrow> bool" where
  \<comment> \<open>int and int64 in range, strings valid UTF-8\<close>
  "config_ok c \<longleftrightarrow> - (2 ^ 63) \<le> c_BaudRate c \<and> c_BaudRate c < 2 ^ 63 \<and>
     - (2 ^ 63) \<le> c_PublishInterval c \<and> c_PublishInterval c < 2 ^ 63 \<and>
     list_all utf8_ok [c_SerialPort c, c_MQTTBroker c, c_MQTTTopicPrefix c, c_MQTTUser c, c_MQTTPass c,
       c_LogLevel c, c_LogFormat c]"

lemma runeList_ascii_append:
  "list_all (\<lambda>b. b < 128) as \<Longrightarrow> runeList (as @ bs) = as @ runeList bs"
  by (induction as) (simp, subst runeList.simps, simp add: decodeBytes_ascii)

lemma utf8_ok_prefix:
  assumes "ascii a" "utf8_ok b"
  shows "utf8_ok (a @ b)"
proof -
  have "list_all (\<lambda>b. b < 128) (map of_char a :: nat list)"
    using assms(1) by (simp add: ascii_def list_all_iff)
  then have "runes (a @ b) = map of_char a @ runes b"
    by (simp add: runes_def runeList_ascii_append)
  moreover have "concat (map encodeRune (map of_char a)) = a"
    using assms(1) validUTF8_ascii [of a] by (simp add: validUTF8_def runes_ascii)
  ultimately show ?thesis using assms(2) by (simp add: utf8_ok_def validUTF8_def)
qed

lemma utf8_ok_ascii [simp]: "ascii s \<Longrightarrow> utf8_ok s"
  by (simp add: utf8_ok_def)

lemma utf8_ok_micro: "utf8_ok (micro @ ''s'')"
  unfolding utf8_ok_def micro_def by code_simp

lemma ascii_digits: "list_all isDigit ds \<Longrightarrow> ascii ds"
  by (auto simp: ascii_def isDigit_def list_all_iff)

lemma ascii_dec [simp]: "ascii (dec n)"
  using dec_digits [of n] by (simp add: ascii_digits)

lemma ascii_fmtFrac: "fmtFrac v prec = (f, w) \<Longrightarrow> ascii f"
  using fmtFrac_value [of v prec] ascii_digits by (auto simp: ascii_def split: if_splits)

lemma utf8_ok_durationBody: "utf8_ok (durationBody u)"
proof (cases "10 ^ 3 \<le> u \<and> u < 10 ^ 6")
  case True
  obtain f w where fw: "fmtFrac u 3 = (f, w)" by fastforce
  with True have "durationBody u = (dec w @ f) @ micro @ ''s''" by (simp add: durationBody_def)
  then show ?thesis
    using ascii_fmtFrac [OF fw] by (simp only:) (intro utf8_ok_prefix utf8_ok_micro, simp)
next
  case False
  obtain f w g v where fw: "fmtFrac u 6 = (f, w)" "fmtFrac u 9 = (g, v)" by fastforce
  from False have "ascii (durationBody u)"
    by (auto simp: durationBody_def Let_def fw ascii_fmtFrac [OF fw(1)] ascii_fmtFrac [OF fw(2)])
  then show ?thesis by simp
qed

lemma utf8_ok_durationString: "utf8_ok (durationString d)"
  using utf8_ok_prefix [of "''-''", OF _ utf8_ok_durationBody] utf8_ok_durationBody
  by (simp add: durationString_def Let_def)

lemma durationString_nonempty [simp]: "durationString d \<noteq> []"
  using durationBody_hd [of "nat \<bar>d\<bar>"] by (auto simp: durationString_def Let_def)

lemma saved_reads_back:
  assumes "config_ok c"
  shows "decodeStruct persistedField (marshalPersisted (toPersisted c)) zero_persisted = Some (toPersisted c)"
  using assms utf8_ok_durationString [of "c_PublishInterval c"]
  by (intro decode_marshal) (simp add: config_ok_def persisted_ok_def toPersisted_def)

lemma overlay_toPersisted:
  assumes "config_ok c"
  shows "overlay (toPersisted c) e = restored c e"
  using assms
  by (cases e) (simp add: overlay_def toPersisted_def restored_def Let_def config_ok_def ParseDuration_String)

lemma saveFile_ok_iff:
  "fst (saveFile os fs s) = None \<longleftrightarrow> \<not> mkdir_fails os \<and> \<not> write_fails os \<and> \<not> rename_fails os"
  by (simp add: saveFile_def Let_def)

lemma saveFile_atomic:
  "snd (saveFile os fs s) (s_path s) =
     (if fst (saveFile os fs s) = None then Some (JsonText (marshalPersisted (toPersisted (s_cfg s))))
      else fs (s_path s))"
  by (simp add: saveFile_def Let_def)

lemma restart:
  assumes "Update fn os fs s = (None, s', fs')" "s_path s \<noteq> []" "config_ok (fn (s_cfg s))" "\<not> read_fails os'"
  shows "Get (NewStore getenv os' fs' (s_path s)) = restored (Get s') (Load getenv)"
proof -
  let ?s = "s\<lparr>s_cfg := fn (s_cfg s), s_version := s_version s + 1\<rparr>"
  have up: "saveFile os fs ?s = (None, fs')" "s' = ?s"
    using assms(1,2) by (simp_all add: Update_def Let_def split: prod.splits)
  then have "fs' (s_path s) = Some (JsonText (marshalPersisted (toPersisted (fn (s_cfg s)))))"
    using saveFile_atomic [of os fs ?s] by simp
  then show ?thesis
    using assms(2-4) up(2)
    by (simp add: NewStore_def loadFile_def Get_def saved_reads_back overlay_toPersisted)
qed

section \<open>Versions as numbers of updates\<close>

text \<open>\<open>v\<close> is the counter after some of \<open>m\<close> updates, and if it was all of them, then \<open>P\<close>.\<close>

definition as_of :: "nat \<Rightarrow> uint64 \<Rightarrow> bool \<Rightarrow> bool" where
  "as_of m v P \<longleftrightarrow> (\<exists>n \<le> m. v = of_nat n \<and> (n = m \<longrightarrow> P))"

lemma as_of_now: "P \<Longrightarrow> as_of m (of_nat m) P"
  by (auto simp: as_of_def)

lemma as_of_weaken: "as_of m v P \<Longrightarrow> (P \<Longrightarrow> Q) \<Longrightarrow> as_of m v Q"
  by (auto simp: as_of_def)

lemma as_of_update: "as_of m v P \<Longrightarrow> as_of (Suc m) v Q"
  unfolding as_of_def by (metis Suc_n_not_le_n le_SucI)

lemma as_of_last:
  assumes "as_of m v P" "m < 2 ^ 64" "v = of_nat m"
  shows P
proof -
  from assms(1) obtain n where n: "n \<le> m" "v = of_nat n" "n = m \<longrightarrow> P" by (auto simp: as_of_def)
  have "unat v = n" using n(1,2) assms(2) by (simp add: unat_of_nat)
  moreover have "unat v = m" using assms(2,3) by (simp add: unat_of_nat)
  ultimately show P using n(3) by simp
qed

section \<open>The interface of a versioned cell\<close>

text \<open>
  What the clients of the store rely on: reading back what an update wrote, and a counter that
  tells them whether anything was updated since they looked.
\<close>

locale versioned_cell =
  fixes get :: "'s \<Rightarrow> 'c" and version :: "'s \<Rightarrow> uint64" and update :: "('c \<Rightarrow> 'c) \<Rightarrow> 's \<Rightarrow> 's"
  assumes get_update: "get (update f s) = f (get s)"
    and version_update: "version (update f s) = version s + 1"
begin

definition updates :: "('c \<Rightarrow> 'c) list \<Rightarrow> 's \<Rightarrow> 's" where
  "updates fns s = foldl (\<lambda>s f. update f s) s fns"

lemma version_updates: "version (updates fns s) = version s + word_of_nat (length fns)"
  unfolding updates_def by (induction fns arbitrary: s) (simp_all add: version_update)

lemma get_updates: "get (updates fns s) = foldl (\<lambda>c f. f c) (get s) fns"
  unfolding updates_def by (induction fns arbitrary: s) (simp_all add: get_update)

lemma same_version:
  assumes "length fns < 2 ^ 64" "version (updates fns s) = version s"
  shows "fns = []"
proof -
  have "(word_of_nat (length fns) :: uint64) = 0" using assms(2) by (simp add: version_updates)
  then have "2 ^ 64 dvd length fns" by (simp add: word_of_nat_eq_0_iff)
  with assms(1) show ?thesis by (auto dest: dvd_imp_le)
qed

end

interpretation store: versioned_cell Get Version "\<lambda>fn s. fst (snd (Update fn os fs s))" for os fs
  by unfold_locales (simp_all add: Get_def Version_def Update_def Let_def split: prod.split)

end
