(* ===== verification/StoreRace.thy ===== *)
theory StoreRace
  imports Store
begin

text \<open>
  Several goroutines on one store: \<open>Update\<close> is a sequence of steps (the critical section, the
  atomic increment, the snapshot of \<open>saveFile\<close>, opening and truncating the shared temporary file,
  writing it, renaming it) that other updates and the main loop's \<open>Version\<close>/\<open>Get\<close> pair
  interleave with. A file is a directory entry pointing to an inode, as renaming an open file
  requires. The counter is the wrapping 64-bit one of the code; \<open>w_updates\<close> counts the increments and is no
  part of the program.
\<close>

section \<open>Steps\<close>

datatype upc =
    Idle
  | Applied  \<comment> \<open>after the critical section\<close>
  | Bumped  \<comment> \<open>after \<open>version.Add(1)\<close>\<close>
  | Snapped Config  \<comment> \<open>after the read section of \<open>saveFile\<close>\<close>
  | Opened Config nat  \<comment> \<open>inside \<open>os.WriteFile\<close>: the inode is open and truncated\<close>
  | Filled
  | Done bool  \<comment> \<open>\<open>Update\<close> returned, with or without an error\<close>

text \<open>The main loop: \<open>ver := store.Version(); cfg = store.Get()\<close>, then work with both.\<close>

datatype mpc = Fresh | GotVersion uint64 | Running uint64 Config

record world =
  w_cfg :: Config
  w_version :: uint64  \<comment> \<open>\<open>atomic.Uint64\<close>\<close>
  w_updates :: nat
  w_thread :: "nat \<Rightarrow> upc"
  w_tmp :: "nat option"
  w_file :: "nat option"
  w_data :: "nat \<Rightarrow> Config option"  \<comment> \<open>inode contents; None is an empty file\<close>
  w_next :: nat
  w_main :: mpc

inductive race_step :: "world \<Rightarrow> world \<Rightarrow> bool" where
  apply_fn: "w_thread w i = Idle \<Longrightarrow>
    race_step w (w\<lparr>w_cfg := fn (w_cfg w), w_thread := (w_thread w)(i := Applied)\<rparr>)"
| bump: "w_thread w i = Applied \<Longrightarrow>
    race_step w (w\<lparr>w_version := w_version w + 1, w_updates := Suc (w_updates w),
      w_thread := (w_thread w)(i := Bumped)\<rparr>)"
| snapshot: "w_thread w i = Bumped \<Longrightarrow>
    race_step w (w\<lparr>w_thread := (w_thread w)(i := Snapped (w_cfg w))\<rparr>)"
| open_old: "w_thread w i = Snapped c \<Longrightarrow> w_tmp w = Some n \<Longrightarrow>
    race_step w (w\<lparr>w_data := (w_data w)(n := None), w_thread := (w_thread w)(i := Opened c n)\<rparr>)"
| open_new: "w_thread w i = Snapped c \<Longrightarrow> w_tmp w = None \<Longrightarrow>
    race_step w (w\<lparr>w_tmp := Some (w_next w), w_next := Suc (w_next w),
      w_data := (w_data w)(w_next w := None), w_thread := (w_thread w)(i := Opened c (w_next w))\<rparr>)"
| fill: "w_thread w i = Opened c n \<Longrightarrow>
    race_step w (w\<lparr>w_data := (w_data w)(n := Some c), w_thread := (w_thread w)(i := Filled)\<rparr>)"
| rename_ok: "w_thread w i = Filled \<Longrightarrow> w_tmp w = Some n \<Longrightarrow>
    race_step w (w\<lparr>w_file := Some n, w_tmp := None, w_thread := (w_thread w)(i := Done True)\<rparr>)"
| rename_missing: "w_thread w i = Filled \<Longrightarrow> w_tmp w = None \<Longrightarrow>
    race_step w (w\<lparr>w_thread := (w_thread w)(i := Done False)\<rparr>)"
| main_version: "race_step w (w\<lparr>w_main := GotVersion (w_version w)\<rparr>)"
| main_get: "w_main w = GotVersion v \<Longrightarrow> race_step w (w\<lparr>w_main := Running v (w_cfg w)\<rparr>)"

inductive_cases race_stepE: "race_step w w'"

definition race_init :: "Config \<Rightarrow> world" where
  \<comment> \<open>a process that has just read its configuration from the file (inode 0)\<close>
  "race_init c = \<lparr>w_cfg = c, w_version = 0, w_updates = 0, w_thread = (\<lambda>_. Idle), w_tmp = None, w_file = Some 0,
     w_data = (\<lambda>_. None)(0 := Some c), w_next = 1, w_main = Fresh\<rparr>"

inductive race_reach :: "Config \<Rightarrow> world \<Rightarrow> bool" for c where
  reach_init: "race_reach c (race_init c)"
| reach_step: "race_reach c w \<Longrightarrow> race_step w w' \<Longrightarrow> race_reach c w'"

section \<open>Reading the version first loses no update\<close>

definition main_current :: "world \<Rightarrow> bool" where
  "main_current w \<longleftrightarrow> w_version w = of_nat (w_updates w) \<and>
     (case w_main w of
        Fresh \<Rightarrow> True
      | GotVersion v \<Rightarrow> as_of (w_updates w) v True
      | Running v c \<Rightarrow> as_of (w_updates w) v (w_cfg w = c \<or> (\<exists>i. w_thread w i = Applied)))"

lemma main_current_step:
  assumes "race_step w w'" "main_current w"
  shows "main_current w'"
proof -
  have same: "main_current w'" if "w_version w' = w_version w" "w_updates w' = w_updates w" "w_main w' = w_main w"
    "\<forall>c. w_cfg w = c \<or> (\<exists>i. w_thread w i = Applied) \<longrightarrow> w_cfg w' = c \<or> (\<exists>i. w_thread w' i = Applied)"
    using assms(2) that by (auto simp: main_current_def split: mpc.split) (erule as_of_weaken; blast)
  show ?thesis
    using assms(1)
  proof (cases rule: race_step.cases)
    case (apply_fn i fn)
    then have "w_thread w' i = Applied" by simp
    then show ?thesis using apply_fn by (intro same) auto
  next
    case (bump i)
    then show ?thesis
      using assms(2) by (auto simp: main_current_def intro: as_of_update split: mpc.splits)
  next
    case main_version
    then show ?thesis using assms(2) by (auto simp: main_current_def intro: as_of_now)
  next
    case (main_get v)
    then show ?thesis using assms(2) by (auto simp: main_current_def elim: as_of_weaken)
  qed (rule same; simp; metis upc.distinct)+
qed

lemma main_current_reach: "race_reach c w \<Longrightarrow> main_current w"
proof (induction rule: race_reach.induct)
  case reach_init
  show ?case by (simp add: main_current_def race_init_def)
next
  case (reach_step w w')
  then show ?case using main_current_step by blast
qed

lemma main_current_counted:
  assumes "race_reach c w" "w_main w = Running v c'" "w_version w = v" "w_updates w < 2 ^ 64"
    and "\<forall>i. w_thread w i \<noteq> Applied"
  shows "w_cfg w = c'"
  using main_current_reach [OF assms(1)] assms(2,3,5) as_of_last [OF _ assms(4)]
  by (auto simp: main_current_def)

section \<open>Two concurrent updates\<close>

text \<open>
  The threads 0 and 1 store \<open>a\<close> and \<open>b\<close>. First both snapshot before either writes and thread 0
  writes last; then thread 1 opens the temporary file just before thread 0 renames it.
\<close>

definition put :: "Config \<Rightarrow> nat \<Rightarrow> world \<Rightarrow> world" where
  "put c i w = w\<lparr>w_cfg := c, w_version := w_version w + 1, w_updates := Suc (w_updates w),
     w_thread := (w_thread w)(i := Snapped c)\<rparr>"

lemma reach_put: "race_reach c w \<Longrightarrow> w_thread w i = Idle \<Longrightarrow> race_reach c (put a i w)"
proof -
  assume w: "race_reach c w" "w_thread w i = Idle"
  let ?w1 = "w\<lparr>w_cfg := a, w_thread := (w_thread w)(i := Applied)\<rparr>"
  let ?w2 = "?w1\<lparr>w_version := w_version ?w1 + 1, w_updates := Suc (w_updates ?w1), w_thread := (w_thread ?w1)(i := Bumped)\<rparr>"
  have "race_reach c ?w1" using reach_step [OF w(1) apply_fn [OF w(2), of "\<lambda>_. a"]] .
  then have "race_reach c ?w2" by (rule reach_step) (rule bump, simp)
  then have "race_reach c (?w2\<lparr>w_thread := (w_thread ?w2)(i := Snapped (w_cfg ?w2))\<rparr>)"
    by (rule reach_step) (rule snapshot, simp)
  then show ?thesis by (simp add: put_def)
qed

definition saved :: "Config \<Rightarrow> nat \<Rightarrow> world \<Rightarrow> world" where
  "saved c i w = w\<lparr>w_next := Suc (w_next w), w_data := (w_data w)(w_next w := Some c),
     w_file := Some (w_next w), w_tmp := None, w_thread := (w_thread w)(i := Done True)\<rparr>"

lemma reach_saved:
  assumes w: "race_reach c w" and i: "w_thread w i = Snapped a" "w_tmp w = None"
  shows "race_reach c (saved a i w)"
proof -
  let ?w1 = "w\<lparr>w_tmp := Some (w_next w), w_next := Suc (w_next w),
      w_data := (w_data w)(w_next w := None), w_thread := (w_thread w)(i := Opened a (w_next w))\<rparr>"
  let ?w2 = "?w1\<lparr>w_data := (w_data ?w1)(w_next w := Some a), w_thread := (w_thread ?w1)(i := Filled)\<rparr>"
  have "race_reach c ?w1" using reach_step [OF w open_new [OF i]] .
  then have "race_reach c ?w2" by (rule reach_step) (rule fill, simp)
  then have "race_reach c (?w2\<lparr>w_file := Some (w_next w), w_tmp := None,
      w_thread := (w_thread ?w2)(i := Done True)\<rparr>)"
    by (rule reach_step) (rule rename_ok, simp_all)
  then show ?thesis by (simp add: saved_def)
qed

lemma both_snapped: "race_reach c (put b 1 (put a 0 (race_init c)))"
  by (intro reach_put reach_init) (simp_all add: put_def race_init_def)

lemma stale_file:
  "\<exists>w n. race_reach c w \<and> w_thread w 0 = Done True \<and> w_thread w 1 = Done True \<and>
    w_cfg w = b \<and> w_file w = Some n \<and> w_data w n = Some a"
proof -
  let ?w = "put b 1 (put a 0 (race_init c))"
  have "race_reach c (saved a 0 (saved b 1 ?w))"
    using both_snapped by (intro reach_saved) (simp_all add: saved_def put_def race_init_def)
  then show ?thesis
    by (intro exI [of _ "saved a 0 (saved b 1 ?w)"] exI [of _ 2])
      (simp add: saved_def put_def race_init_def numeral_2_eq_2)
qed

lemma torn_file:
  "\<exists>w n. race_reach c w \<and> w_thread w 0 = Done True \<and> w_file w = Some n \<and> w_data w n = None"
proof -
  let ?w0 = "put b 1 (put a 0 (race_init c))"
  let ?w1 = "?w0\<lparr>w_tmp := Some 1, w_next := 2, w_data := (w_data ?w0)(1 := None),
      w_thread := (w_thread ?w0)(0 := Opened a 1)\<rparr>"
  let ?w2 = "?w1\<lparr>w_data := (w_data ?w1)(1 := Some a), w_thread := (w_thread ?w1)(0 := Filled)\<rparr>"
  let ?w3 = "?w2\<lparr>w_data := (w_data ?w2)(1 := None), w_thread := (w_thread ?w2)(1 := Opened b 1)\<rparr>"
  let ?w4 = "?w3\<lparr>w_file := Some 1, w_tmp := None, w_thread := (w_thread ?w3)(0 := Done True)\<rparr>"
  have "race_step ?w0 ?w1"
    using open_new [of ?w0 0 a] by (simp add: put_def race_init_def numeral_2_eq_2)
  with both_snapped have "race_reach c ?w1" by (rule reach_step)
  then have "race_reach c ?w2" by (rule reach_step) (rule fill, simp)
  then have "race_reach c ?w3" by (rule reach_step) (rule open_old, simp_all add: put_def)
  then have "race_reach c ?w4" by (rule reach_step) (rule rename_ok, simp_all)
  then show ?thesis by (intro exI [of _ ?w4] exI [of _ 1]) simp
qed

end
