(* ===== verification/Status.thy ===== *)
theory Status
  imports GoTime
begin

text \<open>
  internal/status/status.go: the runtime status shared by the bridge loop and the web handlers.
  Every operation runs under the lock, and \<open>SetDevices\<close> and \<open>Snapshot\<close> copy the slice, so values
  are all there is to model. Times are nanoseconds since Go's zero time.
\<close>

section \<open>Seconds of a duration\<close>

fun fadd :: "float64 \<Rightarrow> float64 \<Rightarrow> float64" where
  \<comment> \<open>float64 addition; the only sums are of non-negative values\<close>
  "fadd (Fin s m e) (Fin t n f) =
     (let k = min e f;
          v = (if s then - m else m) * 2 ^ nat (e - k) + (if t then - n else n) * 2 ^ nat (f - k);
          (p, q) = scaled \<bar>v\<bar> 1 (- k)
      in rnd (v < 0 \<or> v = 0 \<and> s \<and> t) p q)"
| "fadd (FInf s) (FInf t) = (if s = t then FInf s else FNaN)"
| "fadd (FInf s) (Fin t n f) = FInf s"
| "fadd (Fin s m e) (FInf t) = FInf t"
| "fadd _ _ = FNaN"

definition durationSeconds :: "Duration \<Rightarrow> float64" where
  \<comment> \<open>\<open>Duration.Seconds\<close> of a non-negative duration\<close>
  "durationSeconds d =
     fadd (f_of_int (d div Second)) (fdiv (f_of_int (d mod Second)) (f_lit (10 ^ 9) 1))"

section \<open>The status\<close>

type_synonym Time = int

record Status =
  st_mqttConnected :: bool
  st_lastPublish :: Time
  st_devices :: "string list"
  st_startTime :: Time

record Snapshot =
  sn_MQTTConnected :: bool
  sn_LastPublish :: Time
  sn_Devices :: "string list"
  sn_UptimeSeconds :: int

definition New :: "Time \<Rightarrow> Status" where
  "New now = \<lparr>st_mqttConnected = False, st_lastPublish = 0, st_devices = [], st_startTime = now\<rparr>"

definition SetMQTTConnected :: "bool \<Rightarrow> Status \<Rightarrow> Status" where
  "SetMQTTConnected v s = s\<lparr>st_mqttConnected := v\<rparr>"

definition SetLastPublish :: "Time \<Rightarrow> Status \<Rightarrow> Status" where
  "SetLastPublish t s = s\<lparr>st_lastPublish := t\<rparr>"

definition SetDevices :: "string list \<Rightarrow> Status \<Rightarrow> Status" where
  "SetDevices devices s = s\<lparr>st_devices := devices\<rparr>"

definition Snapshot :: "Time \<Rightarrow> Status \<Rightarrow> Snapshot" where
  "Snapshot now s = \<lparr>sn_MQTTConnected = st_mqttConnected s, sn_LastPublish = st_lastPublish s,
     sn_Devices = st_devices s,
     sn_UptimeSeconds = int (f_trunc (durationSeconds (now - st_startTime s)))\<rparr>"

text \<open>The operations act on separate fields: the last value set is the one a snapshot shows.\<close>

lemma Snapshot_after [simp]:
  "sn_MQTTConnected (Snapshot now (SetMQTTConnected v s)) = v"
  "sn_LastPublish (Snapshot now (SetLastPublish t s)) = t"
  "sn_Devices (Snapshot now (SetDevices ds s)) = ds"
  by (simp_all add: Snapshot_def SetMQTTConnected_def SetLastPublish_def SetDevices_def)

end
