(* ===== verification/Web.thy ===== *)
theory Web
  imports Store Status
begin

text \<open>
  internal/web/server.go: the settings server. A request is its method, its (cleaned) path, the
  credentials \<open>r.BasicAuth\<close> finds and its body; a handler maps it and the state it may change (the
  store and the file system) to a response. The HTTP transport is net/http's and not modelled.
\<close>

section \<open>Data\<close>

record configDTO =
  d_SerialPort :: string
  d_BaudRate :: int
  d_MQTTBroker :: string
  d_MQTTTopicPrefix :: string
  d_MQTTUser :: string
  d_MQTTPass :: string
  d_MQTTRetain :: bool
  d_MQTTQOS :: int
  d_PublishInterval :: string
  d_LogLevel :: string
  d_LogFormat :: string

definition zero_dto :: configDTO where
  "zero_dto = \<lparr>d_SerialPort = [], d_BaudRate = 0, d_MQTTBroker = [], d_MQTTTopicPrefix = [],
     d_MQTTUser = [], d_MQTTPass = [], d_MQTTRetain = False, d_MQTTQOS = 0, d_PublishInterval = [],
     d_LogLevel = [], d_LogFormat = []\<rparr>"

record Server =
  srv_version :: string
  srv_webUser :: string
  srv_webPass :: string

datatype web_error =
    Unauthorized | InvalidJson | BadInterval | BadQos | BadLogLevel | BadLogFormat
  | SaveFailed store_error

datatype body =
    UiHtml
  | HealthJson string
  | ConfigJson configDTO
  | StatusJson Snapshot
  | OkJson
  | ErrorText web_error
  | MuxError  \<comment> \<open>the 404 and 405 pages of net/http\<close>

record response =
  r_code :: nat
  r_body :: body

record request =
  rq_method :: string
  rq_path :: string
  rq_auth :: "(string \<times> string) option"  \<comment> \<open>what \<open>BasicAuth\<close> parses from the header\<close>
  rq_body :: "json option"  \<comment> \<open>None: no JSON value\<close>
  rq_os :: os_calls  \<comment> \<open>how the file system answers a save during this request\<close>

record backend =
  b_store :: Store
  b_files :: files

text \<open>The json tags of \<open>configDTO\<close>.\<close>

definition dtoField :: "string \<Rightarrow> json \<Rightarrow> configDTO \<Rightarrow> configDTO option" where
  "dtoField k v d =
     (if keyIs ''serial_port'' k then map_option (\<lambda>x. d\<lparr>d_SerialPort := x\<rparr>) (decStr v (d_SerialPort d))
      else if keyIs ''baud_rate'' k then map_option (\<lambda>x. d\<lparr>d_BaudRate := x\<rparr>) (decIntField v (d_BaudRate d))
      else if keyIs ''mqtt_broker'' k then map_option (\<lambda>x. d\<lparr>d_MQTTBroker := x\<rparr>) (decStr v (d_MQTTBroker d))
      else if keyIs ''mqtt_topic_prefix'' k
        then map_option (\<lambda>x. d\<lparr>d_MQTTTopicPrefix := x\<rparr>) (decStr v (d_MQTTTopicPrefix d))
      else if keyIs ''mqtt_user'' k then map_option (\<lambda>x. d\<lparr>d_MQTTUser := x\<rparr>) (decStr v (d_MQTTUser d))
      else if keyIs ''mqtt_pass'' k then map_option (\<lambda>x. d\<lparr>d_MQTTPass := x\<rparr>) (decStr v (d_MQTTPass d))
      else if keyIs ''mqtt_retain'' k then map_option (\<lambda>x. d\<lparr>d_MQTTRetain := x\<rparr>) (decBool v (d_MQTTRetain d))
      else if keyIs ''mqtt_qos'' k then map_option (\<lambda>x. d\<lparr>d_MQTTQOS := x\<rparr>) (decIntField v (d_MQTTQOS d))
      else if keyIs ''publish_interval'' k
        then map_option (\<lambda>x. d\<lparr>d_PublishInterval := x\<rparr>) (decStr v (d_PublishInterval d))
      else if keyIs ''log_level'' k then map_option (\<lambda>x. d\<lparr>d_LogLevel := x\<rparr>) (decStr v (d_LogLevel d))
      else if keyIs ''log_format'' k then map_option (\<lambda>x. d\<lparr>d_LogFormat := x\<rparr>) (decStr v (d_LogFormat d))
      else Some d)"

definition marshalDTO :: "configDTO \<Rightarrow> json" where
  "marshalDTO d = JObj [
     (''serial_port'', JStr (validUTF8 (d_SerialPort d))),
     (''baud_rate'', JNum (decInt (d_BaudRate d))),
     (''mqtt_broker'', JStr (validUTF8 (d_MQTTBroker d))),
     (''mqtt_topic_prefix'', JStr (validUTF8 (d_MQTTTopicPrefix d))),
     (''mqtt_user'', JStr (validUTF8 (d_MQTTUser d))),
     (''mqtt_pass'', JStr (validUTF8 (d_MQTTPass d))),
     (''mqtt_retain'', JBool (d_MQTTRetain d)),
     (''mqtt_qos'', JNum (decInt (d_MQTTQOS d))),
     (''publish_interval'', JStr (validUTF8 (d_PublishInterval d))),
     (''log_level'', JStr (validUTF8 (d_LogLevel d))),
     (''log_format'', JStr (validUTF8 (d_LogFormat d)))]"

section \<open>Handlers\<close>

definition newServer :: "Store \<Rightarrow> string \<Rightarrow> Server" where
  "newServer store version = (let cfg = Get store in
     \<lparr>srv_version = version, srv_webUser = c_WebUser cfg, srv_webPass = c_WebPass cfg\<rparr>)"

definition handleGetConfig :: "Store \<Rightarrow> response" where
  "handleGetConfig store =
     (let cfg = Get store;
          dto = \<lparr>d_SerialPort = c_SerialPort cfg, d_BaudRate = c_BaudRate cfg,
            d_MQTTBroker = c_MQTTBroker cfg, d_MQTTTopicPrefix = c_MQTTTopicPrefix cfg,
            d_MQTTUser = c_MQTTUser cfg, d_MQTTPass = [], d_MQTTRetain = c_MQTTRetain cfg,
            d_MQTTQOS = uint (c_MQTTQOS cfg),
            d_PublishInterval = durationString (c_PublishInterval cfg),
            d_LogLevel = c_LogLevel cfg, d_LogFormat = c_LogFormat cfg\<rparr>;
          dto = (if c_MQTTPass cfg \<noteq> [] then dto\<lparr>d_MQTTPass := ''****''\<rparr> else dto)
      in \<lparr>r_code = 200, r_body = ConfigJson dto\<rparr>)"

definition applyDTO :: "configDTO \<Rightarrow> Duration \<Rightarrow> Config \<Rightarrow> Config" where
  \<comment> \<open>the function \<open>handlePutConfig\<close> passes to \<open>Update\<close>\<close>
  "applyDTO dto interval c =
     (let c = c\<lparr>c_SerialPort := d_SerialPort dto, c_BaudRate := d_BaudRate dto,
            c_MQTTBroker := d_MQTTBroker dto, c_MQTTTopicPrefix := d_MQTTTopicPrefix dto,
            c_MQTTUser := d_MQTTUser dto\<rparr>;
          c = (if d_MQTTPass dto \<noteq> [] \<and> d_MQTTPass dto \<noteq> ''****''
               then c\<lparr>c_MQTTPass := d_MQTTPass dto\<rparr> else c)
      in c\<lparr>c_MQTTRetain := d_MQTTRetain dto, c_MQTTQOS := word_of_int (d_MQTTQOS dto),
           c_PublishInterval := interval, c_LogLevel := d_LogLevel dto,
           c_LogFormat := d_LogFormat dto\<rparr>)"

definition bad :: "web_error \<Rightarrow> response" where
  "bad e = \<lparr>r_code = 400, r_body = ErrorText e\<rparr>"

definition checkPut :: "request \<Rightarrow> web_error + configDTO \<times> Duration" where
  \<comment> \<open>decoding the body and the checks, up to the call of \<open>Update\<close>\<close>
  "checkPut r =
     (case (case rq_body r of None \<Rightarrow> None | Some j \<Rightarrow> decodeStruct dtoField j zero_dto) of
        None \<Rightarrow> Inl InvalidJson
      | Some dto \<Rightarrow>
          (case ParseDuration (d_PublishInterval dto) of
             None \<Rightarrow> Inl BadInterval
           | Some interval \<Rightarrow>
               if interval < Second then Inl BadInterval
               else if d_MQTTQOS dto < 0 \<or> 2 < d_MQTTQOS dto then Inl BadQos
               else if d_LogLevel dto \<notin> {''debug'', ''info'', ''warn'', ''error''} then Inl BadLogLevel
               else if d_LogFormat dto \<notin> {''json'', ''text''} then Inl BadLogFormat
               else Inr (dto, interval)))"

definition handlePutConfig :: "request \<Rightarrow> backend \<Rightarrow> response \<times> backend" where
  "handlePutConfig r b =
     (case checkPut r of
        Inl e \<Rightarrow> (bad e, b)
      | Inr (dto, interval) \<Rightarrow>
          (let (err, store, fs) = Update (applyDTO dto interval) (rq_os r) (b_files b) (b_store b);
               b = \<lparr>b_store = store, b_files = fs\<rparr>
           in case err of
                Some e \<Rightarrow> (\<lparr>r_code = 500, r_body = ErrorText (SaveFailed e)\<rparr>, b)
              | None \<Rightarrow> (\<lparr>r_code = 200, r_body = OkJson\<rparr>, b)))"

definition handleUI :: response where
  "handleUI = \<lparr>r_code = 200, r_body = UiHtml\<rparr>"

definition handleHealth :: "Server \<Rightarrow> response" where
  "handleHealth s = \<lparr>r_code = 200, r_body = HealthJson (srv_version s)\<rparr>"

definition handleGetStatus :: "Time \<Rightarrow> Status \<Rightarrow> response" where
  "handleGetStatus now st = \<lparr>r_code = 200, r_body = StatusJson (Snapshot now st)\<rparr>"

section \<open>Authentication and routing\<close>

definition basicAuth ::
  "Server \<Rightarrow> (request \<Rightarrow> backend \<Rightarrow> response \<times> backend) \<Rightarrow> request \<Rightarrow> backend \<Rightarrow> response \<times> backend" where
  "basicAuth s h =
     (if srv_webUser s = [] then h
      else (\<lambda>r b.
        let (u, p, ok) = (case rq_auth r of Some (u, p) \<Rightarrow> (u, p, True) | None \<Rightarrow> ([], [], False));
            userMatch = (u = srv_webUser s);
            passMatch = (p = srv_webPass s)
        in if \<not> ok \<or> \<not> userMatch \<or> \<not> passMatch
           then (\<lparr>r_code = 401, r_body = ErrorText Unauthorized\<rparr>, b)
           else h r b))"

text \<open>
  The routes of \<open>Start\<close>; a GET pattern also matches HEAD. \<open>now\<close> and the status belong to
  \<open>handleGetStatus\<close>.
\<close>

definition serve :: "Server \<Rightarrow> Time \<Rightarrow> Status \<Rightarrow> request \<Rightarrow> backend \<Rightarrow> response \<times> backend" where
  "serve s now st r b =
     (let get = (rq_method r = ''GET'' \<or> rq_method r = ''HEAD''); put = (rq_method r = ''PUT'')
      in if rq_path r = ''/'' then
           if get then basicAuth s (\<lambda>r b. (handleUI, b)) r b
           else (\<lparr>r_code = 405, r_body = MuxError\<rparr>, b)
         else if rq_path r = ''/health'' then
           if get then (handleHealth s, b)
           else (\<lparr>r_code = 405, r_body = MuxError\<rparr>, b)
         else if rq_path r = ''/api/config'' then
           if get then basicAuth s (\<lambda>r b. (handleGetConfig (b_store b), b)) r b
           else if put then basicAuth s handlePutConfig r b
           else (\<lparr>r_code = 405, r_body = MuxError\<rparr>, b)
         else if rq_path r = ''/api/status'' then
           if get then basicAuth s (\<lambda>r b. (handleGetStatus now st, b)) r b
           else (\<lparr>r_code = 405, r_body = MuxError\<rparr>, b)
         else (\<lparr>r_code = 404, r_body = MuxError\<rparr>, b))"

section \<open>What a PUT accepts\<close>

definition valid_config :: "Config \<Rightarrow> bool" where
  "valid_config c \<longleftrightarrow> Second \<le> c_PublishInterval c \<and> c_PublishInterval c < 2 ^ 63 \<and>
     uint (c_MQTTQOS c) \<le> 2 \<and> c_LogLevel c \<in> {''debug'', ''info'', ''warn'', ''error''} \<and>
     c_LogFormat c \<in> {''json'', ''text''}"

definition accepted :: "json \<Rightarrow> configDTO \<Rightarrow> Duration \<Rightarrow> bool" where
  "accepted j dto interval \<longleftrightarrow> decodeStruct dtoField j zero_dto = Some dto \<and>
     ParseDuration (d_PublishInterval dto) = Some interval \<and> Second \<le> interval \<and>
     0 \<le> d_MQTTQOS dto \<and> d_MQTTQOS dto \<le> 2 \<and>
     d_LogLevel dto \<in> {''debug'', ''info'', ''warn'', ''error''} \<and> d_LogFormat dto \<in> {''json'', ''text''}"

definition put_reply :: "store_error option \<Rightarrow> response" where
  "put_reply err = (case err of
     Some e \<Rightarrow> \<lparr>r_code = 500, r_body = ErrorText (SaveFailed e)\<rparr>
   | None \<Rightarrow> \<lparr>r_code = 200, r_body = OkJson\<rparr>)"

lemma checkPut_accepted: "checkPut r = Inr (dto, iv) \<longleftrightarrow> (\<exists>j. rq_body r = Some j \<and> accepted j dto iv)"
  by (auto simp: checkPut_def accepted_def split: option.splits if_splits)

lemma put_accepted:
  assumes "rq_body r = Some j" "accepted j dto interval"
  shows "handlePutConfig r b =
    (let (err, store, fs) = Update (applyDTO dto interval) (rq_os r) (b_files b) (b_store b)
     in (put_reply err, \<lparr>b_store = store, b_files = fs\<rparr>))"
proof -
  have "checkPut r = Inr (dto, interval)" using assms checkPut_accepted by blast
  then show ?thesis by (simp add: handlePutConfig_def put_reply_def Let_def split: prod.split option.split)
qed

lemma put_rejected:
  assumes "\<And>j dto interval. rq_body r = Some j \<Longrightarrow> \<not> accepted j dto interval"
  shows "\<exists>e. \<forall>b. handlePutConfig r b = (bad e, b)"
proof (cases "checkPut r")
  case (Inl e)
  then show ?thesis by (auto simp: handlePutConfig_def)
next
  case (Inr x)
  then obtain dto iv where "checkPut r = Inr (dto, iv)" by (cases x) simp
  with assms show ?thesis using checkPut_accepted by blast
qed

lemma applyDTO_valid:
  assumes "accepted j dto interval"
  shows "valid_config (applyDTO dto interval c)"
proof -
  have "interval < 2 ^ 63"
    using assms ParseDuration_range by (auto simp: accepted_def)
  moreover have "uint (word_of_int (d_MQTTQOS dto) :: byte) = d_MQTTQOS dto"
    using assms by (simp add: accepted_def unsigned_of_int take_bit_eq_mod)
  ultimately show ?thesis
    using assms by (simp add: accepted_def valid_config_def applyDTO_def Let_def)
qed

lemma Update_store:
  "fst (snd (Update fn os fs s)) = s\<lparr>s_cfg := fn (s_cfg s), s_version := s_version s + 1\<rparr>"
  by (simp add: Update_def Let_def split: prod.split)

lemma put_get_cases:
  "Get (b_store (snd (handlePutConfig r b))) = Get (b_store b) \<or>
    (\<exists>j dto iv. rq_body r = Some j \<and> accepted j dto iv \<and>
      Get (b_store (snd (handlePutConfig r b))) = applyDTO dto iv (Get (b_store b)))"
proof (cases "\<exists>j dto interval. rq_body r = Some j \<and> accepted j dto interval")
  case True
  then obtain j dto iv where ok: "rq_body r = Some j" "accepted j dto iv" by blast
  have "Get (b_store (snd (handlePutConfig r b))) = applyDTO dto iv (Get (b_store b))"
    using Update_store [of "applyDTO dto iv" "rq_os r" "b_files b" "b_store b"]
    by (auto simp: put_accepted [OF ok] Get_def split: prod.split)
  with ok show ?thesis by blast
next
  case False
  with put_rejected [of r] show ?thesis by auto
qed

lemma put_valid:
  "valid_config (Get (b_store b)) \<Longrightarrow> valid_config (Get (b_store (snd (handlePutConfig r b))))"
  using put_get_cases [of r b] applyDTO_valid by auto

text \<open>Every other route leaves the store and the files alone.\<close>

lemma serve_put_only:
  "snd (serve s now st r b) = b \<or>
    rq_method r = ''PUT'' \<and> rq_path r = ''/api/config'' \<and>
    (srv_webUser s = [] \<or> rq_auth r = Some (srv_webUser s, srv_webPass s)) \<and>
    serve s now st r b = handlePutConfig r b"
  by (auto simp: serve_def basicAuth_def Let_def split: option.split prod.split)

lemma serve_valid:
  "valid_config (Get (b_store b)) \<Longrightarrow> valid_config (Get (b_store (snd (serve s now st r b))))"
  using serve_put_only [of s now st r b] put_valid by auto

text \<open>Which requests call \<open>Update\<close>, and with what; \<open>serve\<close> hands the others to code that changes nothing.\<close>

definition put_request :: "Server \<Rightarrow> request \<Rightarrow> (Config \<Rightarrow> Config) option" where
  "put_request s r =
     (if rq_method r = ''PUT'' \<and> rq_path r = ''/api/config'' \<and>
         (srv_webUser s = [] \<or> rq_auth r = Some (srv_webUser s, srv_webPass s))
      then (case checkPut r of Inl e \<Rightarrow> None | Inr (dto, interval) \<Rightarrow> Some (applyDTO dto interval))
      else None)"

lemma serve_put_request:
  "put_request s r = Some fn \<Longrightarrow> serve s now st r b =
     (let (err, store, fs) = Update fn (rq_os r) (b_files b) (b_store b)
      in (put_reply err, \<lparr>b_store = store, b_files = fs\<rparr>))"
  by (auto simp: put_request_def serve_def basicAuth_def handlePutConfig_def put_reply_def Let_def
      split: if_splits sum.splits prod.splits option.split)

lemma serve_no_put: "put_request s r = None \<Longrightarrow> snd (serve s now st r b) = b"
  using serve_put_only [of s now st r b]
  by (auto simp: put_request_def handlePutConfig_def split: if_splits sum.splits prod.splits)

section \<open>Authentication\<close>

definition protected :: "request \<Rightarrow> bool" where
  \<comment> \<open>the routes behind basic authentication\<close>
  "protected r \<longleftrightarrow>
     (rq_method r \<in> {''GET'', ''HEAD''} \<and> rq_path r \<in> {''/'', ''/api/config'', ''/api/status''}) \<or>
     (rq_method r = ''PUT'' \<and> rq_path r = ''/api/config'')"

lemma serve_unauthorized:
  assumes "protected r" "srv_webUser s \<noteq> []" "rq_auth r \<noteq> Some (srv_webUser s, srv_webPass s)"
  shows "serve s now st r b = (\<lparr>r_code = 401, r_body = ErrorText Unauthorized\<rparr>, b)"
  using assms
  by (auto simp: protected_def serve_def basicAuth_def Let_def split: option.split prod.split)

text \<open>Behind the check the server is the one without credentials.\<close>

lemma serve_authorized:
  assumes "protected r \<longrightarrow> srv_webUser s = [] \<or> rq_auth r = Some (srv_webUser s, srv_webPass s)"
  shows "serve s now st r b = serve (s\<lparr>srv_webUser := []\<rparr>) now st r b"
  using assms
  by (auto simp: protected_def serve_def basicAuth_def handleHealth_def Let_def split: option.split prod.split)

section \<open>The MQTT password stays inside\<close>

definition same_but_pass :: "Config \<Rightarrow> Config \<Rightarrow> bool" where
  "same_but_pass c c' \<longleftrightarrow> c\<lparr>c_MQTTPass := []\<rparr> = c'\<lparr>c_MQTTPass := []\<rparr> \<and>
     (c_MQTTPass c = [] \<longleftrightarrow> c_MQTTPass c' = [])"

definition same_backend :: "backend \<Rightarrow> backend \<Rightarrow> bool" where
  "same_backend b b' \<longleftrightarrow> same_but_pass (Get (b_store b)) (Get (b_store b')) \<and>
     s_path (b_store b) = s_path (b_store b')"

lemma same_but_pass_fields:
  assumes "same_but_pass c c'"
  shows "\<exists>p. c' = c\<lparr>c_MQTTPass := p\<rparr> \<and> (p = [] \<longleftrightarrow> c_MQTTPass c = [])"
  using assms by (intro exI [of _ "c_MQTTPass c'"]; cases c; cases c') (auto simp: same_but_pass_def)

lemma same_get:
  assumes "same_but_pass (Get s) (Get s')"
  shows "handleGetConfig s = handleGetConfig s'"
  using same_but_pass_fields [OF assms] by (auto simp: handleGetConfig_def Let_def)

lemma same_apply:
  assumes "same_but_pass c c'"
  shows "same_but_pass (applyDTO dto iv c) (applyDTO dto iv c')"
  using same_but_pass_fields [OF assms]
  by (cases c) (auto simp: applyDTO_def Let_def same_but_pass_def)

lemma Update_error:
  "fst (Update fn os fs s) =
     (if s_path s = [] then None else if mkdir_fails os then Some MkdirFailed
      else if write_fails os then Some WriteFailed else if rename_fails os then Some RenameFailed else None)"
  by (simp add: Update_def saveFile_def Let_def)

lemma same_put:
  assumes "same_backend b b'"
  shows "fst (handlePutConfig r b) = fst (handlePutConfig r b') \<and>
    same_backend (snd (handlePutConfig r b)) (snd (handlePutConfig r b'))"
proof (cases "\<exists>j dto interval. rq_body r = Some j \<and> accepted j dto interval")
  case True
  then obtain j dto iv where ok: "rq_body r = Some j" "accepted j dto iv" by blast
  let ?up = "\<lambda>b. Update (applyDTO dto iv) (rq_os r) (b_files b) (b_store b)"
  have put: "handlePutConfig r b = (put_reply (fst (?up b)), \<lparr>b_store = fst (snd (?up b)), b_files = snd (snd (?up b))\<rparr>)"
    for b by (simp add: put_accepted [OF ok] split: prod.split)
  have "fst (?up b) = fst (?up b')"
    using assms by (simp add: Update_error same_backend_def)
  moreover have "same_but_pass (applyDTO dto iv (s_cfg (b_store b))) (applyDTO dto iv (s_cfg (b_store b')))"
    using assms by (intro same_apply) (simp add: same_backend_def Get_def)
  ultimately show ?thesis
    using assms by (simp add: put same_backend_def Update_store Get_def)
next
  case False
  then obtain e where "handlePutConfig r b = (bad e, b)" "handlePutConfig r b' = (bad e, b')"
    using put_rejected [of r] by blast
  then show ?thesis using assms by simp
qed

text \<open>A session: requests served one after the other, each at its time and with the status then.\<close>

fun session :: "Server \<Rightarrow> (Time \<times> Status \<times> request) list \<Rightarrow> backend \<Rightarrow> response list" where
  "session s [] b = []"
| "session s ((now, st, r) # rs) b = (let (resp, b') = serve s now st r b in resp # session s rs b')"

lemma same_serve:
  assumes "same_backend b b'"
  shows "fst (serve s now st r b) = fst (serve s now st r b') \<and>
    same_backend (snd (serve s now st r b)) (snd (serve s now st r b'))"
  using assms same_put [OF assms, of r] same_get [of "b_store b" "b_store b'"]
  by (auto simp: serve_def basicAuth_def Let_def same_backend_def split: option.split prod.split)

lemma same_session: "same_backend b b' \<Longrightarrow> session s rs b = session s rs b'"
proof (induction rs arbitrary: b b')
  case (Cons q rs)
  obtain now st r where q: "q = (now, st, r)" by (cases q)
  from same_serve [OF Cons.prems, of s now st r] Cons.IH show ?case
    by (auto simp: q split: prod.split)
qed simp

section \<open>Sending back what GET returned\<close>

definition dto_ok :: "configDTO \<Rightarrow> bool" where
  "dto_ok d \<longleftrightarrow> - (2 ^ 63) \<le> d_BaudRate d \<and> d_BaudRate d < 2 ^ 63 \<and>
     - (2 ^ 63) \<le> d_MQTTQOS d \<and> d_MQTTQOS d < 2 ^ 63 \<and>
     list_all utf8_ok [d_SerialPort d, d_MQTTBroker d, d_MQTTTopicPrefix d, d_MQTTUser d, d_MQTTPass d,
       d_PublishInterval d, d_LogLevel d, d_LogFormat d]"

lemma decStr_ok: "utf8_ok s \<Longrightarrow> decStr (JStr (validUTF8 s)) cur = Some s"
  by (simp add: decStr_def utf8_ok_def)

lemma decode_marshalDTO: "dto_ok d \<Longrightarrow> decodeStruct dtoField (marshalDTO d) zero_dto = Some d"
  by (cases d) (simp add: decodeStruct_def marshalDTO_def dtoField_def keyIs_def decStr_ok dto_ok_def
    decIntField_def decBool_def Atoi_decInt zero_dto_def)

lemma get_dto:
  assumes "handleGetConfig s = \<lparr>r_code = 200, r_body = ConfigJson dto\<rparr>"
    and "valid_config (Get s)" "config_ok (Get s)"
  shows "accepted (marshalDTO dto) dto (c_PublishInterval (Get s))"
    "applyDTO dto (c_PublishInterval (Get s)) (Get s) = Get s"
proof -
  let ?c = "Get s"
  have dto: "dto = \<lparr>d_SerialPort = c_SerialPort ?c, d_BaudRate = c_BaudRate ?c,
      d_MQTTBroker = c_MQTTBroker ?c, d_MQTTTopicPrefix = c_MQTTTopicPrefix ?c,
      d_MQTTUser = c_MQTTUser ?c, d_MQTTPass = (if c_MQTTPass ?c \<noteq> [] then ''****'' else []),
      d_MQTTRetain = c_MQTTRetain ?c, d_MQTTQOS = uint (c_MQTTQOS ?c),
      d_PublishInterval = durationString (c_PublishInterval ?c),
      d_LogLevel = c_LogLevel ?c, d_LogFormat = c_LogFormat ?c\<rparr>"
    using assms(1) by (auto simp: handleGetConfig_def Let_def split: if_splits)
  have "uint (c_MQTTQOS ?c) < 256" using uint_byte_bounds by blast
  moreover have "- (2 ^ 63) \<le> uint (c_MQTTQOS ?c)" by (rule order_trans [of _ 0]) simp_all
  ultimately have "dto_ok dto"
    using assms(3) utf8_ok_durationString [of "c_PublishInterval ?c"]
    by (simp add: dto dto_ok_def config_ok_def)
  then show "accepted (marshalDTO dto) dto (c_PublishInterval ?c)"
    using assms(2,3) decode_marshalDTO [of dto]
    by (simp add: accepted_def valid_config_def config_ok_def dto ParseDuration_String)
  show "applyDTO dto (c_PublishInterval ?c) ?c = ?c"
    by (simp add: dto applyDTO_def Let_def)
qed

lemma get_then_put:
  assumes "handleGetConfig (b_store b) = \<lparr>r_code = 200, r_body = ConfigJson dto\<rparr>"
    and "valid_config (Get (b_store b))" "config_ok (Get (b_store b))"
    and "rq_body r = Some (marshalDTO dto)"
  shows "Get (b_store (snd (handlePutConfig r b))) = Get (b_store b) \<and>
    r_code (fst (handlePutConfig r b)) \<in> {200, 500}"
proof -
  note dto = get_dto [OF assms(1-3)]
  show ?thesis
    unfolding put_accepted [OF assms(4) dto(1)]
    using dto(2) Update_store [of "applyDTO dto (c_PublishInterval (Get (b_store b)))" "rq_os r" "b_files b" "b_store b"]
    by (auto simp: put_reply_def Get_def split: prod.split option.split)
qed

section \<open>What a PUT cannot do\<close>

text \<open>Neither the empty string nor four asterisks can become the MQTT password.\<close>

lemma put_keeps_password:
  assumes "c_MQTTPass (Get (b_store b)) \<noteq> c_MQTTPass (Get (b_store (snd (handlePutConfig r b))))"
  shows "c_MQTTPass (Get (b_store (snd (handlePutConfig r b)))) \<notin> {[], ''****''}"
  using assms put_get_cases [of r b] by (auto simp: applyDTO_def Let_def split: if_splits)

text \<open>A failed save is reported, and the new settings are in force all the same.\<close>

lemma put_save_failed:
  assumes "rq_body r = Some j" "accepted j dto interval" "s_path (b_store b) \<noteq> []" "write_fails (rq_os r)"
  shows "r_code (fst (handlePutConfig r b)) = 500 \<and>
    Get (b_store (snd (handlePutConfig r b))) = applyDTO dto interval (Get (b_store b)) \<and>
    Version (b_store (snd (handlePutConfig r b))) = Version (b_store b) + 1 \<and>
    b_files (snd (handlePutConfig r b)) (s_path (b_store b)) = b_files b (s_path (b_store b))"
  using assms
  by (simp add: put_accepted Update_def saveFile_def Let_def put_reply_def Get_def Version_def)

section \<open>Settings stay storable\<close>

lemma decStr_utf8: "decStr v cur = Some s \<Longrightarrow> utf8_ok cur \<Longrightarrow> utf8_ok s"
  by (auto simp: decStr_def utf8_ok_def split: json.splits)

lemma decIntField_range:
  "decIntField v cur = Some n \<Longrightarrow> - (2 ^ 63) \<le> cur \<Longrightarrow> cur < 2 ^ 63 \<Longrightarrow> - (2 ^ 63) \<le> n \<and> n < 2 ^ 63"
  using Atoi_range by (auto simp: decIntField_def split: json.splits)

lemma dtoField_ok: "dtoField k v d = Some d' \<Longrightarrow> dto_ok d \<Longrightarrow> dto_ok d'"
  by (auto simp: dtoField_def dto_ok_def split: if_splits dest: decStr_utf8 decIntField_range)

lemma decoded_dto_ok: "decodeStruct dtoField j zero_dto = Some d \<Longrightarrow> dto_ok d"
  using decodeMembers_inv [of dtoField dto_ok, OF dtoField_ok]
  by (auto simp: decodeStruct_def zero_dto_def dto_ok_def split: json.splits)

lemma applyDTO_ok:
  assumes "accepted j dto iv" "config_ok c"
  shows "config_ok (applyDTO dto iv c)"
proof -
  have "dto_ok dto" "- (2 ^ 63) \<le> iv" "iv < 2 ^ 63"
    using assms(1) decoded_dto_ok ParseDuration_range by (auto simp: accepted_def)
  with assms(2) show ?thesis by (simp add: applyDTO_def Let_def config_ok_def dto_ok_def)
qed

lemma put_config_ok:
  "config_ok (Get (b_store b)) \<Longrightarrow> config_ok (Get (b_store (snd (handlePutConfig r b))))"
  using put_get_cases [of r b] applyDTO_ok by auto

lemma put_unchanged:
  assumes "\<And>j dto iv. rq_body r = Some j \<Longrightarrow> \<not> accepted j dto iv"
  shows "snd (handlePutConfig r b) = b \<and> r_code (fst (handlePutConfig r b)) = 400"
proof -
  obtain e where "\<forall>b. handlePutConfig r b = (bad e, b)" using put_rejected [OF assms] by blast
  then show ?thesis by (simp add: bad_def)
qed

lemma put_accepted_result:
  assumes "rq_body r = Some j" "accepted j dto iv"
  shows "Get (b_store (snd (handlePutConfig r b))) = applyDTO dto iv (Get (b_store b)) \<and>
    Version (b_store (snd (handlePutConfig r b))) = Version (b_store b) + 1 \<and>
    r_code (fst (handlePutConfig r b)) \<in> {200, 500}"
  using Update_store [of "applyDTO dto iv" "rq_os r" "b_files b" "b_store b"]
  by (auto simp: put_accepted [OF assms] put_reply_def Get_def Version_def split: prod.split option.split)

text \<open>All of an accepted PUT, against the document sent and not the assignments of the handler.\<close>

definition save_succeeds :: "os_calls \<Rightarrow> bool" where
  "save_succeeds os \<longleftrightarrow> \<not> mkdir_fails os \<and> \<not> write_fails os \<and> \<not> rename_fails os"

lemma qos_byte: "0 \<le> q \<Longrightarrow> q \<le> 2 \<Longrightarrow> uint (word_of_int q :: byte) = q"
  by (simp add: unsigned_of_int take_bit_eq_mod)

lemma put_shows:
  assumes "rq_body r = Some j" "accepted j dto iv" "b' = snd (handlePutConfig r b)"
  shows "handleGetConfig (b_store b') = \<lparr>r_code = 200, r_body = ConfigJson (dto\<lparr>
      d_MQTTPass := (if c_MQTTPass (Get (b_store b')) = [] then [] else ''****''),
      d_PublishInterval := durationString iv\<rparr>)\<rparr>"
    and "c_MQTTPass (Get (b_store b')) =
      (if d_MQTTPass dto \<in> {[], ''****''} then c_MQTTPass (Get (b_store b)) else d_MQTTPass dto)"
proof -
  have g: "Get (b_store b') = applyDTO dto iv (Get (b_store b))"
    using put_accepted_result [OF assms(1,2)] assms(3) by simp
  show "handleGetConfig (b_store b') = \<lparr>r_code = 200, r_body = ConfigJson (dto\<lparr>
      d_MQTTPass := (if c_MQTTPass (Get (b_store b')) = [] then [] else ''****''),
      d_PublishInterval := durationString iv\<rparr>)\<rparr>"
    using assms(2) qos_byte [of "d_MQTTQOS dto"]
    by (cases dto) (auto simp: handleGetConfig_def g applyDTO_def Let_def accepted_def)
  show "c_MQTTPass (Get (b_store b')) =
      (if d_MQTTPass dto \<in> {[], ''****''} then c_MQTTPass (Get (b_store b)) else d_MQTTPass dto)"
    by (simp add: g applyDTO_def Let_def)
qed

text \<open>The settings the web API neither shows nor sets.\<close>

definition hidden_settings :: "Config \<Rightarrow> bool \<times> string list" where
  "hidden_settings c = (c_MQTTHADiscovery c,
     [c_MQTTHADiscoveryPrefix c, c_WebAddr c, c_WebUser c, c_WebPass c, c_ConfigFile c])"

lemma put_hidden: "hidden_settings (Get (b_store (snd (handlePutConfig r b)))) = hidden_settings (Get (b_store b))"
proof -
  have "hidden_settings (applyDTO dto iv c) = hidden_settings c" for dto iv c
    by (simp add: hidden_settings_def applyDTO_def Let_def)
  then show ?thesis using put_get_cases [of r b] by metis
qed

lemma put_saves:
  assumes "rq_body r = Some j" "accepted j dto iv" "b' = snd (handlePutConfig r b)"
  shows "Version (b_store b') = Version (b_store b) + 1"
    and "r_code (fst (handlePutConfig r b)) =
      (if s_path (b_store b) = [] \<or> save_succeeds (rq_os r) then 200 else 500)"
    and "s_path (b_store b) \<noteq> [] \<Longrightarrow> b_files b' (s_path (b_store b)) =
      (if save_succeeds (rq_os r) then Some (JsonText (marshalPersisted (toPersisted (Get (b_store b')))))
       else b_files b (s_path (b_store b)))"
  using assms(3)
  by (auto simp: put_accepted [OF assms(1,2)] Update_def saveFile_def save_succeeds_def put_reply_def Get_def
      Version_def Let_def)

end
