(* ===== verification/Mqtt.thy ===== *)
theory Mqtt
  imports Store Registry
begin

text \<open>
  internal/mqtt/client.go: what the client hands to the paho library, and its discovery cache. The
  library itself is outside: whether it is connected and how a publish ends are arguments of the
  operations. JSON bodies are kept as the structs they are marshalled from; marshalling fails
  exactly on a NaN or an infinity.
\<close>

section \<open>Data\<close>

record Payload =
  m_Device :: string
  m_Source :: string
  m_Timestamp :: int
  m_Fields :: "string \<rightharpoonup> float64"
  m_Units :: "string \<rightharpoonup> string"  \<comment> \<open>omitted when empty\<close>

record haDiscoveryPayload =
  h_Name :: string
  h_StateTopic :: string
  h_ValueTemplate :: string
  h_UniqueID :: string
  h_UnitOfMeasurement :: string
  h_DeviceClass :: string
  h_StateClass :: string
  h_Identifiers :: "string list"
  h_DeviceName :: string

datatype msg_body = StateMsg Payload | ConfigMsg haDiscoveryPayload

record message =
  msg_topic :: string
  msg_qos :: byte
  msg_retain :: bool
  msg_content :: msg_body

text \<open>How a token ends: \<open>WaitTimeout\<close> and \<open>Error\<close>.\<close>

datatype outcome = Delivered | TimedOut | Refused

datatype publish_error = MarshalError | PublishTimeout string | PublishRefused

record Client =
  cl_discovered :: "string set"

record clientOptions =
  o_Broker :: string
  o_ClientID :: string
  o_AutoReconnect :: bool
  o_MaxReconnectInterval :: Duration
  o_ConnectRetry :: bool
  o_ConnectRetryInterval :: Duration
  o_Username :: string
  o_Password :: string

section \<open>Construction and connection events\<close>

definition newOptions :: "Config \<Rightarrow> clientOptions" where
  "newOptions cfg =
     (let opts = \<lparr>o_Broker = c_MQTTBroker cfg, o_ClientID = ''vbus2mqtt'', o_AutoReconnect = True,
            o_MaxReconnectInterval = 30 * Second, o_ConnectRetry = True,
            o_ConnectRetryInterval = 5 * Second, o_Username = [], o_Password = []\<rparr>
      in if c_MQTTUser cfg \<noteq> []
         then opts\<lparr>o_Username := c_MQTTUser cfg, o_Password := c_MQTTPass cfg\<rparr> else opts)"

definition newClient :: Client where
  "newClient = \<lparr>cl_discovered = {}\<rparr>"

definition onConnect :: "Client \<Rightarrow> Client" where
  "onConnect c = c\<lparr>cl_discovered := {}\<rparr>"

section \<open>Discovery\<close>

definition haClassFromUnit :: "string \<Rightarrow> string \<times> string" where
  "haClassFromUnit unit =
     (if unit = [CHR 0xC2, CHR 0xB0] @ ''C'' \<or> unit = ''K'' then (''temperature'', ''measurement'')
      else if unit = ''W'' \<or> unit = ''kW'' then (''power'', ''measurement'')
      else if unit = ''Wh'' \<or> unit = ''kWh'' then (''energy'', ''total_increasing'')
      else if unit = ''V'' then (''voltage'', ''measurement'')
      else if unit = ''bar'' then (''pressure'', ''measurement'')
      else if unit = ''l/h'' then (''volume_flow_rate'', ''measurement'')
      else ([], ''measurement''))"

definition fieldSlug :: "unicode \<Rightarrow> string \<Rightarrow> string" where
  "fieldSlug u name =
     trimBoth CHR ''_''
       (concat (map (\<lambda>r. if isLetter u r \<or> isDigitRune u r then encodeRune r else ''_'')
         (runes (ToLower u name))))"

definition cacheKey :: "uint16 \<Rightarrow> string \<Rightarrow> string" where
  "cacheKey src name = fmt04X src @ ''/'' @ name"

definition uniqueID :: "unicode \<Rightarrow> uint16 \<Rightarrow> string \<Rightarrow> string" where
  "uniqueID u src name = ''vbus2mqtt_'' @ ToLower u (fmt04X src) @ ''_'' @ fieldSlug u name"

definition discoveryMsg :: "unicode \<Rightarrow> Config \<Rightarrow> uint16 \<Rightarrow> string \<Rightarrow> TelemetryField \<Rightarrow> message" where
  "discoveryMsg u cfg src deviceName f =
     (let srcHex = fmt04X src;
          stateTopic = c_MQTTTopicPrefix cfg @ ''/'' @ srcHex;
          deviceID = ''vbus2mqtt_'' @ ToLower u srcHex;
          (dc, sc) = haClassFromUnit (tf_Unit f);
          uid = uniqueID u src (tf_Name f)
      in \<lparr>msg_topic = c_MQTTHADiscoveryPrefix cfg @ ''/sensor/'' @ uid @ ''/config'',
          msg_qos = 0, msg_retain = True,
          msg_content = ConfigMsg
            \<lparr>h_Name = deviceName @ '' '' @ tf_Name f, h_StateTopic = stateTopic,
             h_ValueTemplate = ''{{ value_json.fields.'' @ tf_Name f @ '' }}'', h_UniqueID = uid,
             h_UnitOfMeasurement = tf_Unit f, h_DeviceClass = dc, h_StateClass = sc,
             h_Identifiers = [deviceID], h_DeviceName = deviceName\<rparr>\<rparr>)"

text \<open>
  The loop of \<open>publishDiscovery\<close>: the new cache and the messages handed to the library; their
  outcome only changes the log.
\<close>

fun publishDiscovery ::
  "unicode \<Rightarrow> Config \<Rightarrow> uint16 \<Rightarrow> string \<Rightarrow> TelemetryField list \<Rightarrow> string set \<Rightarrow> message list \<Rightarrow>
     string set \<times> message list" where
  "publishDiscovery u cfg src dev [] disc out = (disc, out)"
| "publishDiscovery u cfg src dev (f # fs) disc out =
     (if cacheKey src (tf_Name f) \<in> disc then publishDiscovery u cfg src dev fs disc out
      else publishDiscovery u cfg src dev fs (insert (cacheKey src (tf_Name f)) disc)
             (out @ [discoveryMsg u cfg src dev f]))"

section \<open>Publish\<close>

definition setField :: "TelemetryField \<Rightarrow> Payload \<Rightarrow> Payload" where
  "setField f p =
     (let p = p\<lparr>m_Fields := (m_Fields p)(tf_Name f \<mapsto> tf_Value f)\<rparr>
      in if tf_Unit f \<noteq> [] then p\<lparr>m_Units := (m_Units p)(tf_Name f \<mapsto> tf_Unit f)\<rparr> else p)"

definition statePayload :: "uint16 \<Rightarrow> string \<Rightarrow> TelemetryField list \<Rightarrow> int \<Rightarrow> Payload" where
  "statePayload src device fs now =
     foldl (\<lambda>p f. setField f p)
       \<lparr>m_Device = device, m_Source = ''0x'' @ fmt04X src, m_Timestamp = now,
        m_Fields = Map.empty, m_Units = Map.empty\<rparr> fs"

definition marshals :: "TelemetryField list \<Rightarrow> Payload \<Rightarrow> bool" where
  \<comment> \<open>\<open>json.Marshal\<close> succeeds; the keys of the field map are among the names\<close>
  "marshals fs p \<longleftrightarrow>
     list_all (\<lambda>f. case m_Fields p (tf_Name f) of Some v \<Rightarrow> is_finite v | None \<Rightarrow> True) fs"

definition sendError :: "string \<Rightarrow> outcome \<Rightarrow> publish_error option" where
  "sendError topic result = (case result of Delivered \<Rightarrow> None
     | TimedOut \<Rightarrow> Some (PublishTimeout topic) | Refused \<Rightarrow> Some PublishRefused)"

definition Publish ::
  "unicode \<Rightarrow> bool \<Rightarrow> outcome \<Rightarrow> int \<Rightarrow> Config \<Rightarrow> uint16 \<Rightarrow> string \<Rightarrow> TelemetryField list \<Rightarrow> Client \<Rightarrow>
     publish_error option \<times> Client \<times> message list" where
  "Publish u isConnected result now cfg src device fs c =
     (if \<not> isConnected then (None, c, [])
      else
        let (disc, out) =
              (if c_MQTTHADiscovery cfg
               then publishDiscovery u cfg src device fs (cl_discovered c) []
               else (cl_discovered c, []));
            c = c\<lparr>cl_discovered := disc\<rparr>;
            p = statePayload src device fs now
        in if \<not> marshals fs p then (Some MarshalError, c, out)
           else
             let topic = c_MQTTTopicPrefix cfg @ ''/'' @ fmt04X src;
                 msg = \<lparr>msg_topic = topic, msg_qos = c_MQTTQOS cfg, msg_retain = c_MQTTRetain cfg,
                   msg_content = StateMsg p\<rparr>
             in (sendError topic result, c, out @ [msg]))"

section \<open>Discovery announces every field once\<close>

lemma publishDiscovery_cache:
  "fst (publishDiscovery u cfg src dev fs disc out) = disc \<union> (\<lambda>f. cacheKey src (tf_Name f)) ` set fs"
  by (induction u cfg src dev fs disc out rule: publishDiscovery.induct) auto

lemma publishDiscovery_out:
  "\<exists>ms. snd (publishDiscovery u cfg src dev fs disc out) = out @ ms \<and>
    length ms = card ((\<lambda>f. cacheKey src (tf_Name f)) ` set fs - disc) \<and>
    list_all (\<lambda>m. \<exists>f \<in> set fs. m = discoveryMsg u cfg src dev f \<and> cacheKey src (tf_Name f) \<notin> disc) ms"
proof (induction fs arbitrary: disc out)
  case (Cons f fs)
  let ?key = "\<lambda>f. cacheKey src (tf_Name f)"
  show ?case
  proof (cases "?key f \<in> disc")
    case True
    from Cons.IH [of disc out] obtain ms where
      "snd (publishDiscovery u cfg src dev fs disc out) = out @ ms"
      "length ms = card (?key ` set fs - disc)"
      "list_all (\<lambda>m. \<exists>f \<in> set fs. m = discoveryMsg u cfg src dev f \<and> ?key f \<notin> disc) ms" by blast
    moreover have "?key ` set (f # fs) - disc = ?key ` set fs - disc" using True by auto
    ultimately show ?thesis using True by (intro exI [of _ ms]) (auto simp: list_all_iff)
  next
    case False
    from Cons.IH [of "insert (?key f) disc" "out @ [discoveryMsg u cfg src dev f]"] obtain ms where
      ms: "snd (publishDiscovery u cfg src dev fs (insert (?key f) disc) (out @ [discoveryMsg u cfg src dev f]))
        = (out @ [discoveryMsg u cfg src dev f]) @ ms"
      "length ms = card (?key ` set fs - insert (?key f) disc)"
      "list_all (\<lambda>m. \<exists>g \<in> set fs. m = discoveryMsg u cfg src dev g \<and> ?key g \<notin> insert (?key f) disc) ms"
      by blast
    have "?key ` set (f # fs) - disc = insert (?key f) (?key ` set fs - insert (?key f) disc)"
      using False by auto
    then have "card (?key ` set (f # fs) - disc) = Suc (card (?key ` set fs - insert (?key f) disc))"
      by simp
    with ms False show ?thesis
      by (intro exI [of _ "discoveryMsg u cfg src dev f # ms"]) (auto simp: list_all_iff)
  qed
qed simp

text \<open>What the client has announced is not announced again.\<close>

lemma publishDiscovery_known:
  "(\<lambda>f. cacheKey src (tf_Name f)) ` set fs \<subseteq> disc \<Longrightarrow>
    publishDiscovery u cfg src dev fs disc out = (disc, out)"
  by (induction fs) auto

lemma cacheKey_inj [simp]: "cacheKey s n = cacheKey s' n' \<longleftrightarrow> s = s' \<and> n = n'"
  unfolding cacheKey_def by (subst append_eq_append_conv) auto

section \<open>The state message\<close>

lemma statePayload_fields:
  "m_Fields (statePayload src dev fs now) n = map_of (rev (map (\<lambda>f. (tf_Name f, tf_Value f)) fs)) n"
  "m_Units (statePayload src dev fs now) n =
     map_of (rev (map (\<lambda>f. (tf_Name f, tf_Unit f)) (filter (\<lambda>f. tf_Unit f \<noteq> []) fs))) n"
proof -
  have "m_Fields (foldl (\<lambda>p f. setField f p) p fs) n =
      (m_Fields p ++ map_of (rev (map (\<lambda>f. (tf_Name f, tf_Value f)) fs))) n \<and>
    m_Units (foldl (\<lambda>p f. setField f p) p fs) n =
      (m_Units p ++ map_of (rev (map (\<lambda>f. (tf_Name f, tf_Unit f)) (filter (\<lambda>f. tf_Unit f \<noteq> []) fs)))) n"
    for p
    by (induction fs arbitrary: p) (auto simp: setField_def Let_def map_add_def split: option.splits)
  then show "m_Fields (statePayload src dev fs now) n = map_of (rev (map (\<lambda>f. (tf_Name f, tf_Value f)) fs)) n"
    "m_Units (statePayload src dev fs now) n =
       map_of (rev (map (\<lambda>f. (tf_Name f, tf_Unit f)) (filter (\<lambda>f. tf_Unit f \<noteq> []) fs))) n"
    by (simp_all add: statePayload_def)
qed

lemma marshals_finite:
  assumes "list_all (\<lambda>f. is_finite (tf_Value f)) fs"
  shows "marshals gs (statePayload src dev fs now)"
proof -
  have "is_finite v" if "m_Fields (statePayload src dev fs now) n = Some v" for n v
  proof -
    from that have "(n, v) \<in> set (map (\<lambda>f. (tf_Name f, tf_Value f)) fs)"
      unfolding statePayload_fields by (auto dest: map_of_SomeD)
    with assms show ?thesis by (auto simp: list_all_iff)
  qed
  then show ?thesis by (auto simp: marshals_def list_all_iff split: option.split)
qed

definition stateMsg :: "Config \<Rightarrow> uint16 \<Rightarrow> string \<Rightarrow> TelemetryField list \<Rightarrow> int \<Rightarrow> message" where
  "stateMsg cfg src device fs now = \<lparr>msg_topic = c_MQTTTopicPrefix cfg @ ''/'' @ fmt04X src,
     msg_qos = c_MQTTQOS cfg, msg_retain = c_MQTTRetain cfg,
     msg_content = StateMsg (statePayload src device fs now)\<rparr>"

lemma Publish_state:
  assumes "list_all (\<lambda>f. is_finite (tf_Value f)) fs"
  shows "\<exists>c' ms. Publish u True result now cfg src device fs c =
      (sendError (msg_topic (stateMsg cfg src device fs now)) result, c', ms @ [stateMsg cfg src device fs now]) \<and>
    list_all (\<lambda>m. \<exists>f \<in> set fs. m = discoveryMsg u cfg src device f) ms \<and>
    (\<not> c_MQTTHADiscovery cfg \<longrightarrow> ms = [])"
proof -
  obtain disc out where d: "publishDiscovery u cfg src device fs (cl_discovered c) [] = (disc, out)"
    by fastforce
  with publishDiscovery_out [of u cfg src device fs "cl_discovered c" "[]"]
  have "list_all (\<lambda>m. \<exists>f \<in> set fs. m = discoveryMsg u cfg src device f) out"
    by (auto simp: list_all_iff)
  then show ?thesis
    by (simp add: Publish_def Let_def marshals_finite [OF assms] d stateMsg_def)
qed

section \<open>A run of the client\<close>

datatype client_event =
    Reconnected
  | Published bool outcome int Config uint16 string "TelemetryField list"

definition client_step :: "unicode \<Rightarrow> client_event \<Rightarrow> Client \<Rightarrow> Client \<times> message list" where
  "client_step u e c = (case e of
     Reconnected \<Rightarrow> (onConnect c, [])
   | Published isConnected result now cfg src device fs \<Rightarrow>
       snd (Publish u isConnected result now cfg src device fs c))"

fun client_run :: "unicode \<Rightarrow> client_event list \<Rightarrow> Client \<Rightarrow> Client \<times> message list" where
  "client_run u [] c = (c, [])"
| "client_run u (e # es) c =
     (let (c', out) = client_step u e c; (c'', out') = client_run u es c' in (c'', out @ out'))"

fun is_config :: "msg_body \<Rightarrow> bool" where
  "is_config (ConfigMsg h) \<longleftrightarrow> True"
| "is_config (StateMsg p) \<longleftrightarrow> False"

definition config_count :: "message list \<Rightarrow> nat" where
  "config_count ms = length (filter (\<lambda>m. is_config (msg_content m)) ms)"

lemma config_count_simps [simp]:
  "config_count [] = 0" "config_count (xs @ ys) = config_count xs + config_count ys"
  by (simp_all add: config_count_def)

lemma config_count_discovery:
  "list_all (\<lambda>m. \<exists>f \<in> A. m = discoveryMsg u cfg src dev f \<and> P f) ms \<Longrightarrow> config_count ms = length ms"
  by (induction ms) (auto simp: config_count_def discoveryMsg_def Let_def split: prod.split)

lemma Publish_discovers:
  assumes "Publish u isConnected result now cfg src device fs c = (err, c', out)"
  shows "finite (cl_discovered c') = finite (cl_discovered c) \<and> cl_discovered c \<subseteq> cl_discovered c' \<and>
    config_count out = card (cl_discovered c' - cl_discovered c)"
proof -
  let ?disc = "cl_discovered c" and ?keys = "(\<lambda>f. cacheKey src (tf_Name f)) ` set fs"
  obtain ms where ms: "snd (publishDiscovery u cfg src device fs ?disc []) = ms"
    "length ms = card (?keys - ?disc)" "config_count ms = length ms"
    using publishDiscovery_out [of u cfg src device fs ?disc "[]"] config_count_discovery by fastforce
  have d: "publishDiscovery u cfg src device fs ?disc [] = (?disc \<union> ?keys, ms)"
    using publishDiscovery_cache [of u cfg src device fs ?disc "[]"] ms(1)
    by (simp add: prod_eq_iff)
  have "?disc \<union> ?keys - ?disc = ?keys - ?disc" by auto
  with ms assms show ?thesis
    by (auto simp: Publish_def Let_def d config_count_def split: if_splits)
qed

lemma client_run_discovers:
  "Reconnected \<notin> set es \<Longrightarrow> client_run u es c = (c', out) \<Longrightarrow> finite (cl_discovered c) \<Longrightarrow>
    cl_discovered c \<subseteq> cl_discovered c' \<and> finite (cl_discovered c') \<and>
    config_count out = card (cl_discovered c' - cl_discovered c)"
proof (induction es arbitrary: c out)
  case (Cons e es)
  then obtain isConnected result now cfg src dev fs where
    e: "e = Published isConnected result now cfg src dev fs" by (cases e) auto
  obtain err c1 out1 where p: "Publish u isConnected result now cfg src dev fs c = (err, c1, out1)"
    by (metis prod_cases3)
  obtain out2 where r: "client_run u es c1 = (c', out2)" and out: "out = out1 @ out2"
    using Cons.prems(2) by (auto simp: e client_step_def p split: prod.splits)
  note d1 = Publish_discovers [OF p]
  have d2: "cl_discovered c1 \<subseteq> cl_discovered c' \<and> finite (cl_discovered c') \<and>
      config_count out2 = card (cl_discovered c' - cl_discovered c1)"
    using Cons.prems d1 r by (intro Cons.IH) auto
  have "cl_discovered c' - cl_discovered c =
      (cl_discovered c1 - cl_discovered c) \<union> (cl_discovered c' - cl_discovered c1)"
    using d1 d2 by blast
  moreover have "card \<dots> = card (cl_discovered c1 - cl_discovered c) + card (cl_discovered c' - cl_discovered c1)"
    using d1 d2 Cons.prems(3) by (intro card_Un_disjoint) auto
  ultimately show ?case using d1 d2 out by auto
qed simp
section \<open>Slugs and unique ids\<close>

definition topic_char :: "char \<Rightarrow> bool" where
  \<comment> \<open>a letter or digit, an underscore, or a byte of a non-ASCII rune\<close>
  "topic_char c \<longleftrightarrow> (let n = (of_char c :: nat) in
     between 48 57 n \<or> between 65 90 n \<or> between 97 122 n \<or> n = 95 \<or> 128 \<le> n)"

lemma encodeBytes_high: "128 \<le> r \<Longrightarrow> b \<in> set (encodeBytes r) \<Longrightarrow> 128 \<le> b"
  by (auto simp: encodeBytes_def split: if_splits)

lemma encodeRune_topic:
  assumes "scalar r" "isLetter u r \<or> isDigitRune u r" "c \<in> set (encodeRune r)"
  shows "topic_char c"
proof (cases "r < 128")
  case True
  with assms(2,3) show ?thesis
    by (auto simp: encodeRune_ascii topic_char_def Let_def isLetter_def isDigitRune_def between_def)
next
  case False
  from assms(3) obtain b where b: "b \<in> set (encodeBytes r)" "c = char_of b"
    by (auto simp: encodeRune_def)
  with False encodeBytes_high [of r b] encodeBytes_byte [OF assms(1)] show ?thesis
    by (auto simp: topic_char_def Let_def list_all_iff)
qed

lemma set_trimBoth: "set (trimBoth c s) \<subseteq> set s"
  by (auto simp: trimBoth_def trimRight_def dest!: set_dropWhileD)

lemma fieldSlug_topic: "list_all topic_char (fieldSlug u name)"
proof -
  have "topic_char c" if r: "r \<in> set (runes s)" and
    c: "c \<in> set (if isLetter u r \<or> isDigitRune u r then encodeRune r else ''_'')" for c r s
  proof -
    have "scalar r" using r runeList_scalar [of "map of_char s"] by (auto simp: runes_def list_all_iff)
    with c encodeRune_topic show ?thesis by (auto simp: topic_char_def split: if_splits)
  qed
  then have "list_all topic_char
      (concat (map (\<lambda>r. if isLetter u r \<or> isDigitRune u r then encodeRune r else ''_'') (runes (ToLower u name))))"
    by (force simp: list_all_iff)
  then show ?thesis
    using set_trimBoth unfolding fieldSlug_def list_all_iff by blast
qed

definition hexLower :: "nat \<Rightarrow> char" where
  "hexLower d = (''0123456789abcdef'') ! d"

lemma ToLower_ascii: "ascii s \<Longrightarrow> ToLower u s = map (\<lambda>c. char_of (runeLower u (of_char c))) s"
proof -
  assume s: "ascii s"
  have "runeLower u (of_char c) < 128" if "c \<in> set s" for c
    using s that by (auto simp: runeLower_def ascii_def list_all_iff between_def)
  then have "map (\<lambda>r. encodeRune (runeLower u r)) (map of_char s) =
      map (\<lambda>c. [char_of (runeLower u (of_char c))]) s"
    by (simp add: encodeRune_ascii)
  then have "ToLower u s = concat (map (\<lambda>c. [char_of (runeLower u (of_char c))]) s)"
    using s by (simp only: ToLower_def runes_ascii)
  then show ?thesis by (simp only: concat_map_singleton)
qed

lemma less16_cases: "(d::nat) < 16 \<Longrightarrow> d \<in> set [0..<16]"
  by simp

lemma lower_hexDigit: "d < 16 \<Longrightarrow> char_of (runeLower u (of_char (hexDigit d))) = hexLower d"
proof -
  have "\<forall>d \<in> set [0..<16]. char_of (runeLower u (of_char (hexDigit d))) = hexLower d"
    by (simp add: upt_rec hexDigit_def hexLower_def runeLower_def between_def
      flip: of_char_eq_iff [where 'a = nat])
  then show "d < 16 \<Longrightarrow> char_of (runeLower u (of_char (hexDigit d))) = hexLower d" by simp
qed

lemma ascii_hexDigit: "d < 16 \<Longrightarrow> (of_char (hexDigit d) :: nat) < 128"
proof -
  have "\<forall>d \<in> set [0..<16]. (of_char (hexDigit d) :: nat) < 128"
    by (simp add: upt_rec hexDigit_def)
  then show "d < 16 \<Longrightarrow> (of_char (hexDigit d) :: nat) < 128" by simp
qed

lemma hexLower_inj: "a < 16 \<Longrightarrow> b < 16 \<Longrightarrow> hexLower a = hexLower b \<longleftrightarrow> a = b"
  unfolding hexLower_def by (rule nth_eq_iff_index_eq) simp_all

lemma lower_fmt04X:
  "ToLower u (fmt04X x) = (let n = unat x in
     [hexLower (n div 4096 mod 16), hexLower (n div 256 mod 16), hexLower (n div 16 mod 16), hexLower (n mod 16)])"
  by (subst ToLower_ascii) (simp_all add: fmt04X_def Let_def ascii_hexDigit lower_hexDigit)

lemma lower_fmt04X_inj: "ToLower u (fmt04X x) = ToLower u (fmt04X y) \<longleftrightarrow> x = y"
proof
  assume "ToLower u (fmt04X x) = ToLower u (fmt04X y)"
  then have "unat x div 4096 mod 16 = unat y div 4096 mod 16 \<and> unat x div 256 mod 16 = unat y div 256 mod 16 \<and>
      unat x div 16 mod 16 = unat y div 16 mod 16 \<and> unat x mod 16 = unat y mod 16"
    by (simp add: lower_fmt04X Let_def hexLower_inj)
  then have "fmt04X x = fmt04X y" by (simp add: fmt04X_def Let_def del: fmt04X_inj)
  then show "x = y" by simp
qed simp

lemma uniqueID_inj:
  "uniqueID u s n = uniqueID u s' n' \<longleftrightarrow> s = s' \<and> fieldSlug u n = fieldSlug u n'"
proof -
  have "length (ToLower u (fmt04X x)) = 4" for x by (simp add: lower_fmt04X Let_def)
  then show ?thesis
    using lower_fmt04X_inj [of u s s'] by (auto simp: uniqueID_def)
qed

section \<open>Device classes\<close>

lemma spaced_no_class:
  assumes "u = [] \<or> u = ''%'' \<or> hd u = CHR '' ''"
  shows "haClassFromUnit u = ([], ''measurement'')"
proof -
  have "u = [] \<or> u = ''%'' \<or> (\<exists>v. u = CHR '' '' # v)"
    using assms by (cases u) simp_all
  then show ?thesis by (elim disjE exE) (simp_all add: haClassFromUnit_def)
qed

lemma topic_char_plain: "topic_char c \<Longrightarrow> c \<notin> {CHR ''+'', CHR ''#'', CHR ''/''}"
  by (auto simp: topic_char_def Let_def between_def)

section \<open>What a run announces\<close>

fun announces :: "client_event \<Rightarrow> (uint16 \<times> string) set" where
  \<comment> \<open>the fields a publish has to announce, by source and name\<close>
  "announces Reconnected = {}"
| "announces (Published isConnected result now cfg src device fs) =
     (if isConnected \<and> c_MQTTHADiscovery cfg then (\<lambda>f. (src, tf_Name f)) ` set fs else {})"

abbreviation keys_of :: "(uint16 \<times> string) set \<Rightarrow> string set" where
  "keys_of A \<equiv> (\<lambda>(s, n). cacheKey s n) ` A"

lemma key_in_keys_of [simp]: "cacheKey s n \<in> keys_of A \<longleftrightarrow> (s, n) \<in> A"
  by force

lemma card_keys_of: "card (keys_of A) = card A"
  by (rule card_image) (auto simp: inj_on_def)

lemma Publish_cache:
  "cl_discovered (fst (snd (Publish u isConnected result now cfg src device fs c))) =
     cl_discovered c \<union> keys_of (announces (Published isConnected result now cfg src device fs))"
  using publishDiscovery_cache [of u cfg src device fs "cl_discovered c" "[]"]
  by (auto simp: Publish_def Let_def image_iff split: prod.split)

lemma client_run_cache:
  "Reconnected \<notin> set es \<Longrightarrow>
    cl_discovered (fst (client_run u es c)) = cl_discovered c \<union> keys_of (\<Union> (announces ` set es))"
proof (induction es arbitrary: c)
  case (Cons e es)
  then obtain isConnected result now cfg src dev fs where
    e: "e = Published isConnected result now cfg src dev fs" by (cases e) auto
  then have "fst (client_run u (e # es) c) =
      fst (client_run u es (fst (snd (Publish u isConnected result now cfg src dev fs c))))"
    by (simp add: client_step_def split: prod.split)
  with Cons e show ?case by (simp add: Publish_cache Un_assoc image_Un)
qed simp

text \<open>A message that announces the field \<open>name\<close> of \<open>src\<close>, by what Home Assistant reads: the topic
  the values come from and the member of the payload.\<close>

definition announcement :: "uint16 \<Rightarrow> string \<Rightarrow> message \<Rightarrow> bool" where
  "announcement src name m \<longleftrightarrow>
     (case msg_content m of
        StateMsg p \<Rightarrow> False
      | ConfigMsg h \<Rightarrow> h_ValueTemplate h = ''{{ value_json.fields.'' @ name @ '' }}'' \<and>
          drop (length (h_StateTopic h) - 5) (h_StateTopic h) = ''/'' @ fmt04X src)"

lemma announcement_discovery:
  "announcement src name (discoveryMsg u cfg s dev f) \<longleftrightarrow> s = src \<and> tf_Name f = name"
proof -
  have "drop (length (p @ ''/'' @ fmt04X s) - 5) (p @ ''/'' @ fmt04X s) = ''/'' @ fmt04X s" for p
    by simp
  then show ?thesis by (auto simp: announcement_def discoveryMsg_def Let_def split: prod.split)
qed

lemma publishDiscovery_announces:
  "length (filter (announcement s n) (snd (publishDiscovery u cfg src dev fs disc out))) =
     length (filter (announcement s n) out) +
     (if cacheKey s n \<in> (\<lambda>f. cacheKey src (tf_Name f)) ` set fs - disc then 1 else 0)"
  by (induction u cfg src dev fs disc out rule: publishDiscovery.induct)
    (auto simp: announcement_discovery)

lemma Publish_announces:
  assumes "Publish u isConnected result now cfg src device fs c = (err, c', out)"
  shows "length (filter (announcement s n) out) =
    (if cacheKey s n \<in> cl_discovered c' - cl_discovered c then 1 else 0)"
proof -
  obtain disc ms where d: "publishDiscovery u cfg src device fs (cl_discovered c) [] = (disc, ms)" by fastforce
  have "disc = cl_discovered c \<union> (\<lambda>f. cacheKey src (tf_Name f)) ` set fs"
    using publishDiscovery_cache [of u cfg src device fs "cl_discovered c" "[]"] d by simp
  moreover have "length (filter (announcement s n) ms) =
      (if cacheKey s n \<in> (\<lambda>f. cacheKey src (tf_Name f)) ` set fs - cl_discovered c then 1 else 0)"
    using publishDiscovery_announces [of s n u cfg src device fs "cl_discovered c" "[]"] d by simp
  ultimately show ?thesis
    using assms by (auto simp: Publish_def Let_def d announcement_def split: if_splits)
qed

lemma client_run_announces:
  "Reconnected \<notin> set es \<Longrightarrow> client_run u es c = (c', out) \<Longrightarrow>
    cl_discovered c \<subseteq> cl_discovered c' \<and> length (filter (announcement s n) out) =
      (if cacheKey s n \<in> cl_discovered c' - cl_discovered c then 1 else 0)"
proof (induction es arbitrary: c out)
  case (Cons e es)
  then obtain isConnected result now cfg src dev fs where
    e: "e = Published isConnected result now cfg src dev fs" by (cases e) auto
  obtain err c1 out1 where p: "Publish u isConnected result now cfg src dev fs c = (err, c1, out1)"
    by (metis prod_cases3)
  obtain out2 where r: "client_run u es c1 = (c', out2)" and out: "out = out1 @ out2"
    using Cons.prems(2) by (auto simp: e client_step_def p split: prod.splits)
  have "cl_discovered c \<subseteq> cl_discovered c1"
    using Publish_cache [of u isConnected result now cfg src dev fs c] p by simp
  with Publish_announces [OF p, of s n] Cons.IH [of c1 out2] Cons.prems(1) r out show ?case by auto
qed simp

end
