(* ===== verification/Device.thy ===== *)
theory Device
  imports Config "HOL-Library.List_Lexorder" "HOL-Library.Char_ord"
begin

text \<open>
  internal/device/device.go: finding and opening the serial port. The serial library, the glob and
  the ports it hands out are outside: their answers are arguments, and the set of open handles is
  the state.
\<close>

section \<open>Data\<close>

record Device =
  dv_port :: nat  \<comment> \<open>the handle of the serial library\<close>
  dv_path :: string

datatype parity = NoParity | OtherParity

datatype stop_bits = OneStopBit | OtherStopBits

record serial_mode =
  sm_BaudRate :: int
  sm_DataBits :: int
  sm_Parity :: parity
  sm_StopBits :: stop_bits

text \<open>The answers of \<open>filepath.Glob\<close> (sorted or not), \<open>serial.Open\<close> and \<open>SetReadTimeout\<close>.\<close>

record serial_env =
  se_glob :: "string \<Rightarrow> string list"
  se_open :: "string \<Rightarrow> serial_mode \<Rightarrow> nat option"
  se_set_timeout :: "nat \<Rightarrow> Duration \<Rightarrow> bool"

datatype device_error = NoUsbDevice | OpenFailed string | TimeoutFailed string

section \<open>Operations\<close>

definition Detect :: "(string \<Rightarrow> string list) \<Rightarrow> device_error + string" where
  "Detect glob =
     (let patterns = [''/dev/ttyUSB*'', ''/dev/ttyACM*''];
          found = foldl (\<lambda>found pat. found @ glob pat) [] patterns
      in if length found = 0 then Inl NoUsbDevice
         else Inr (hd (sort found)))"

definition Close :: "Device \<Rightarrow> nat set \<Rightarrow> nat set" where
  "Close d ports = ports - {dv_port d}"

definition Open :: "serial_env \<Rightarrow> Config \<Rightarrow> nat set \<Rightarrow> (device_error + Device) \<times> nat set" where
  "Open e cfg ports =
     (let port = c_SerialPort cfg
      in case (if port = [] then Detect (se_glob e) else Inr port) of
           Inl err \<Rightarrow> (Inl err, ports)
         | Inr port \<Rightarrow>
             (let mode = \<lparr>sm_BaudRate = c_BaudRate cfg, sm_DataBits = 8, sm_Parity = NoParity,
                    sm_StopBits = OneStopBit\<rparr>
              in case se_open e port mode of
                   None \<Rightarrow> (Inl (OpenFailed port), ports)
                 | Some p \<Rightarrow>
                     (let ports = insert p ports
                      in if \<not> se_set_timeout e p Second then (Inl (TimeoutFailed port), ports - {p})
                         else (Inr \<lparr>dv_port = p, dv_path = port\<rparr>, ports))))"

definition Path :: "Device \<Rightarrow> string" where
  "Path d = dv_path d"

section \<open>Which device is found\<close>

lemma hd_sort: "xs \<noteq> [] \<Longrightarrow> hd (sort xs) \<in> set xs \<and> (\<forall>x \<in> set xs. hd (sort xs) \<le> x)"
proof -
  assume "xs \<noteq> []"
  then obtain y ys where s: "sort xs = y # ys" by (cases "sort xs") (auto dest: arg_cong [of _ _ length])
  then have "sorted (y # ys)" "set (y # ys) = set xs" by (metis sorted_sort, metis set_sort)
  with s show ?thesis by auto
qed

lemma Detect_least:
  "Detect glob = Inr p \<longleftrightarrow>
     p \<in> set (glob ''/dev/ttyUSB*'') \<union> set (glob ''/dev/ttyACM*'') \<and>
     (\<forall>q \<in> set (glob ''/dev/ttyUSB*'') \<union> set (glob ''/dev/ttyACM*''). p \<le> q)"
  using hd_sort [of "glob ''/dev/ttyUSB*'' @ glob ''/dev/ttyACM*''"]
  by (auto simp: Detect_def Let_def intro: order.antisym)

lemma acm_before_usb: "''/dev/ttyACM'' @ a \<le> ''/dev/ttyUSB'' @ b"
  by (simp add: less_eq_char_def less_char_def)

text \<open>Modems come first: \<open>ttyACM\<close> sorts before \<open>ttyUSB\<close>.\<close>

lemma Detect_prefers_acm:
  assumes "\<forall>p \<in> set (glob ''/dev/ttyUSB*''). \<exists>r. p = ''/dev/ttyUSB'' @ r"
    and "\<forall>p \<in> set (glob ''/dev/ttyACM*''). \<exists>r. p = ''/dev/ttyACM'' @ r"
    and "glob ''/dev/ttyACM*'' \<noteq> []" "Detect glob = Inr p"
  shows "p \<in> set (glob ''/dev/ttyACM*'')"
proof (rule ccontr)
  assume n: "p \<notin> set (glob ''/dev/ttyACM*'')"
  obtain a where a: "''/dev/ttyACM'' @ a \<in> set (glob ''/dev/ttyACM*'')"
    using assms(2,3) by (metis list.set_intros(1) neq_Nil_conv)
  from n assms(1,4) obtain b where b: "p = ''/dev/ttyUSB'' @ b" by (auto simp: Detect_least)
  have "p \<le> ''/dev/ttyACM'' @ a" using a assms(4) by (auto simp: Detect_least)
  then have "p = ''/dev/ttyACM'' @ a" unfolding b using acm_before_usb by (metis order.antisym)
  then show False by (simp add: b)
qed

section \<open>No handle is lost\<close>

lemma Open_handles:
  assumes "Open e cfg ports = (r, ports')" "\<forall>p m h. se_open e p m = Some h \<longrightarrow> h \<notin> ports"
  shows "case r of Inl err \<Rightarrow> ports' = ports | Inr d \<Rightarrow> ports' = insert (dv_port d) ports \<and> dv_port d \<notin> ports"
  using assms by (auto simp: Open_def Let_def split: sum.splits option.splits if_splits)

lemma Open_path:
  assumes "Open e cfg ports = (Inr d, ports')"
  shows "if c_SerialPort cfg = [] then Detect (se_glob e) = Inr (Path d) else Path d = c_SerialPort cfg"
  using assms by (auto simp: Open_def Let_def Path_def split: sum.splits option.splits if_splits)

lemma Open_port:
  assumes "Open e cfg ports = (Inr d, ports')"
  shows "se_open e (Path d) \<lparr>sm_BaudRate = c_BaudRate cfg, sm_DataBits = 8, sm_Parity = NoParity,
      sm_StopBits = OneStopBit\<rparr> = Some (dv_port d) \<and> se_set_timeout e (dv_port d) Second"
  using assms by (auto simp: Open_def Let_def Path_def split: sum.splits option.splits if_splits)

lemma Close_Open: "dv_port d \<notin> ports \<Longrightarrow> Close d (insert (dv_port d) ports) = ports"
  by (simp add: Close_def)

end
