(* ===== verification/ReadLoop.thy ===== *)
theory ReadLoop
  imports DefaultRegistry Encoder Mqtt Status Device "HOL-Library.AList" "HOL-Library.Multiset"
begin

text \<open>
  cmd/vbus2mqtt/main.go, \<open>readLoop\<close>: bytes from the serial port go through the parser and the
  registry into the accumulator, which is published every \<open>PublishInterval\<close>. One record, a turn,
  holds what the loop meets in one iteration: the context, the store, the port, the clock, the order
  in which \<open>range\<close> visits the accumulator and, for each \<open>Publish\<close>, what the MQTT library does.
\<close>

section \<open>The accumulator\<close>

record accumulator =
  a_device :: string
  a_fields :: "TelemetryField list"

type_synonym accum = "(uint16 \<times> accumulator) list"

fun accumulate :: "Frame list \<Rightarrow> accum \<Rightarrow> accum option" where
  \<comment> \<open>the loop over the frames of one read; None is a panic inside \<open>Decode\<close>\<close>
  "accumulate [] accum = Some accum"
| "accumulate (f # fs) accum =
     (case Decode f DefaultRegistry of
        None \<Rightarrow> None
      | Some (deviceName, tfs, known) \<Rightarrow>
          if \<not> known then accumulate fs accum
          else accumulate fs (AList.update (Source f) \<lparr>a_device = deviceName, a_fields = tfs\<rparr> accum))"

section \<open>A turn of the loop\<close>

datatype read_error = EOF | PortError | OtherReadError

definition isPortError :: "read_error \<Rightarrow> bool" where
  "isPortError e \<longleftrightarrow> e = PortError"

text \<open>How a call of \<open>Publish\<close> goes: whether the connect handler ran since the last one, the
  configuration \<open>Publish\<close> gets from the store, and the answers of the library.\<close>

record publish_env =
  pe_reconnected :: bool
  pe_connected :: bool
  pe_cfg :: Config
  pe_unix :: int
  pe_result :: outcome

record turn =
  t_done :: bool  \<comment> \<open>\<open>ctx.Err() != nil\<close>\<close>
  t_version :: uint64
  t_read :: "read_error + byte list"
  t_cfg :: Config
  t_clock :: Time  \<comment> \<open>when the interval is tested\<close>
  t_rank :: "uint16 \<Rightarrow> nat"  \<comment> \<open>the order of the iteration over the map\<close>
  t_publish :: "uint16 \<Rightarrow> publish_env"
  t_now :: Time  \<comment> \<open>after the publishing\<close>
  t_connected :: bool

record loop =
  l_parser :: Parser
  l_accum :: accum
  l_lastPublish :: Time
  l_client :: Client
  l_status :: Status

datatype loop_exit = CtxDone | ConfigChanged | SerialRead read_error | ReadFailed read_error | Panicked

definition Since :: "Time \<Rightarrow> Time \<Rightarrow> Duration" where
  \<comment> \<open>\<open>time.Since\<close> saturates\<close>
  "Since now t = max (- (2 ^ 63)) (min (2 ^ 63 - 1) (now - t))"

definition receive :: "byte list \<Rightarrow> loop \<Rightarrow> loop option" where
  \<comment> \<open>\<open>if n > 0\<close>: feed the parser and keep what it delivers\<close>
  "receive data l =
     (if data \<noteq> [] then
        (case Feed (l_parser l) data of
           None \<Rightarrow> None
         | Some (frames, p) \<Rightarrow>
             (case accumulate frames (l_accum l) of
                None \<Rightarrow> None
              | Some accum \<Rightarrow> Some (l\<lparr>l_parser := p, l_accum := accum\<rparr>)))
      else Some l)"

fun publishAll ::
  "unicode \<Rightarrow> (uint16 \<Rightarrow> publish_env) \<Rightarrow> accum \<Rightarrow> Client \<Rightarrow> string list \<Rightarrow> message list \<Rightarrow>
     Client \<times> string list \<times> message list" where
  "publishAll u pub [] c names out = (c, names, out)"
| "publishAll u pub ((src, a) # as) c names out =
     (let e = pub src;
          c = (if pe_reconnected e then onConnect c else c);
          (err, c, ms) = Publish u (pe_connected e) (pe_result e) (pe_unix e) (pe_cfg e) src
                           (a_device a) (a_fields a) c
      in publishAll u pub as c (names @ [a_device a]) (out @ ms))"

definition range_order :: "(uint16 \<Rightarrow> nat) \<Rightarrow> accum \<Rightarrow> accum" where
  "range_order rank accum = sort_key (\<lambda>(src, a). rank src) accum"

definition publishRound :: "unicode \<Rightarrow> turn \<Rightarrow> loop \<Rightarrow> loop \<times> message list" where
  "publishRound u t l =
     (let (c, deviceNames, ms) =
            publishAll u (t_publish t) (range_order (t_rank t) (l_accum l)) (l_client l) [] [];
          now = t_now t;
          st = SetLastPublish now (l_status l);
          st = SetDevices deviceNames st;
          st = SetMQTTConnected (t_connected t) st
      in (l\<lparr>l_client := c, l_status := st, l_lastPublish := now\<rparr>, ms))"

definition publish_due :: "turn \<Rightarrow> loop \<Rightarrow> bool" where
  "publish_due t l \<longleftrightarrow>
     c_PublishInterval (t_cfg t) \<le> Since (t_clock t) (l_lastPublish l) \<and> 0 < length (l_accum l)"

definition loop_turn :: "unicode \<Rightarrow> uint64 \<Rightarrow> turn \<Rightarrow> loop \<Rightarrow> loop_exit option \<times> loop \<times> message list" where
  "loop_turn u startVer t l =
     (if t_done t then (Some CtxDone, l, [])
      else if t_version t \<noteq> startVer then (Some ConfigChanged, l, [])
      else case t_read t of
             Inl err \<Rightarrow> (Some (if err = EOF \<or> isPortError err then SerialRead err else ReadFailed err), l, [])
           | Inr data \<Rightarrow>
               (case receive data l of
                  None \<Rightarrow> (Some Panicked, l, [])
                | Some l \<Rightarrow>
                    if publish_due t l then (let (l, ms) = publishRound u t l in (None, l, ms))
                    else (None, l, [])))"

text \<open>The loop over the turns the world supplies; with no exit so far the answer is None.\<close>

fun loop_turns :: "unicode \<Rightarrow> uint64 \<Rightarrow> turn list \<Rightarrow> loop \<Rightarrow> loop_exit option \<times> loop \<times> message list" where
  "loop_turns u startVer [] l = (None, l, [])"
| "loop_turns u startVer (t # ts) l =
     (case loop_turn u startVer t l of
        (Some e, l, ms) \<Rightarrow> (Some e, l, ms)
      | (None, l, ms) \<Rightarrow> (let (e, l, ms') = loop_turns u startVer ts l in (e, l, ms @ ms')))"

definition loop_start :: "Time \<Rightarrow> Client \<Rightarrow> Status \<Rightarrow> loop" where
  "loop_start now c st = \<lparr>l_parser = NewParser, l_accum = [], l_lastPublish = now, l_client = c, l_status = st\<rparr>"

definition readLoop ::
  "unicode \<Rightarrow> uint64 \<Rightarrow> Time \<Rightarrow> turn list \<Rightarrow> Client \<Rightarrow> Status \<Rightarrow> loop_exit option \<times> loop \<times> message list" where
  "readLoop u startVer now ts c st = loop_turns u startVer ts (loop_start now c st)"

section \<open>What the accumulator holds\<close>

text \<open>The entry a frame contributes, if the registry knows it, and the last entry of each source.\<close>

definition entry_of :: "Frame \<Rightarrow> (uint16 \<times> accumulator) option" where
  "entry_of f = (case Decode f DefaultRegistry of
     Some (dev, tfs, True) \<Rightarrow> Some (Source f, \<lparr>a_device = dev, a_fields = tfs\<rparr>) | _ \<Rightarrow> None)"

definition latest :: "Frame list \<Rightarrow> uint16 \<rightharpoonup> accumulator" where
  "latest fs = map_of (rev (List.map_filter entry_of fs))"

lemma latest_Nil [simp]: "latest [] = Map.empty"
  by (simp add: latest_def List.map_filter_def)

lemma latest_append: "latest (fs @ gs) = latest fs ++ latest gs"
  by (simp add: latest_def List.map_filter_def)

lemma latest_single:
  "latest [f] = (case entry_of f of None \<Rightarrow> Map.empty | Some (s, a) \<Rightarrow> [s \<mapsto> a])"
  by (auto simp: latest_def List.map_filter_def split: option.split)

lemma latest_Cons: "latest (f # fs) = latest [f] ++ latest fs"
  using latest_append [of "[f]" fs] by simp

definition accum_ok :: "accum \<Rightarrow> bool" where
  \<comment> \<open>one entry per source, of finite values\<close>
  "accum_ok accum \<longleftrightarrow> distinct (map fst accum) \<and>
     list_all (\<lambda>(s, a). list_all (\<lambda>tf. is_finite (tf_Value tf)) (a_fields a)) accum"

lemma accum_ok_Nil [simp]: "accum_ok []"
  by (simp add: accum_ok_def)

lemma accum_ok_update:
  assumes "accum_ok accum" "list_all (\<lambda>tf. is_finite (tf_Value tf)) (a_fields a)"
  shows "accum_ok (AList.update s a accum)"
proof -
  have "set (AList.update s a accum) \<subseteq> insert (s, a) (set accum)"
    by (induction accum) auto
  then show ?thesis
    using assms distinct_update [of accum s a] by (fastforce simp: accum_ok_def list_all_iff)
qed

lemma accumulate_latest:
  assumes "accum_ok accum"
  shows "\<exists>accum'. accumulate fs accum = Some accum' \<and> accum_ok accum' \<and>
    map_of accum' = map_of accum ++ latest fs"
  using assms
proof (induction fs arbitrary: accum)
  case (Cons f fs)
  obtain dev tfs known where d: "Decode f DefaultRegistry = Some (dev, tfs, known)"
    using Decode_no_panic [OF DefaultRegistry_ok, of f] by (metis option.exhaust prod_cases3)
  show ?case
  proof (cases known)
    case False
    with Cons.IH [OF Cons.prems] d show ?thesis
      by (simp add: latest_Cons [of f fs] latest_single entry_of_def)
  next
    case True
    let ?a = "\<lparr>a_device = dev, a_fields = tfs\<rparr>"
    from Cons.IH [OF accum_ok_update [OF Cons.prems, of ?a "Source f"]] Decode_finite [OF d]
    obtain accum' where "accumulate fs (AList.update (Source f) ?a accum) = Some accum'" "accum_ok accum'"
      "map_of accum' = map_of (AList.update (Source f) ?a accum) ++ latest fs" by auto
    with d True show ?thesis
      by (auto simp: latest_Cons [of f fs] latest_single entry_of_def update_conv')
  qed
qed simp

section \<open>Receiving\<close>

text \<open>The state after the bytes \<open>bs\<close>: the parser has consumed them and the accumulator holds the
  last entry of each source among the frames they carry.\<close>

definition heard :: "byte list \<Rightarrow> loop \<Rightarrow> bool" where
  "heard bs l \<longleftrightarrow> (\<exists>fs. Feed NewParser bs = Some (fs, l_parser l) \<and> map_of (l_accum l) = latest fs) \<and>
     accum_ok (l_accum l)"

lemma heard_start: "heard [] (loop_start now c st)"
  using Feed_Nil [of NewParser] by (auto simp: heard_def loop_start_def)

lemma heard_receive:
  assumes "heard bs l"
  shows "\<exists>l'. receive data l = Some l' \<and> heard (bs @ data) l' \<and>
    l_lastPublish l' = l_lastPublish l \<and> l_client l' = l_client l \<and> l_status l' = l_status l"
proof (cases "data = []")
  case True
  with assms show ?thesis by (simp add: receive_def)
next
  case False
  from assms obtain fs where fs: "Feed NewParser bs = Some (fs, l_parser l)"
    "map_of (l_accum l) = latest fs" "accum_ok (l_accum l)" by (auto simp: heard_def)
  obtain gs p where gs: "Feed (l_parser l) data = Some (gs, p)" using Feed_total by blast
  from accumulate_latest [OF fs(3), of gs] obtain accum' where
    a: "accumulate gs (l_accum l) = Some accum'" "accum_ok accum'" "map_of accum' = latest (fs @ gs)"
    by (auto simp: fs(2) latest_append)
  have "Feed NewParser (bs @ data) = Some (fs @ gs, p)"
    using Feed_append [of NewParser bs data] fs(1) gs by simp
  with False gs a show ?thesis by (simp add: receive_def heard_def)
qed

lemma receive_no_panic: "heard bs l \<Longrightarrow> receive data l \<noteq> None"
  using heard_receive by fastforce

section \<open>Publishing\<close>

definition state_messages :: "message list \<Rightarrow> message list" where
  "state_messages ms = filter (\<lambda>m. \<not> is_config (msg_content m)) ms"

lemma state_messages_simps [simp]:
  "state_messages [] = []" "state_messages (xs @ ys) = state_messages xs @ state_messages ys"
  by (simp_all add: state_messages_def)

definition state_of :: "(uint16 \<Rightarrow> publish_env) \<Rightarrow> uint16 \<times> accumulator \<Rightarrow> message" where
  \<comment> \<open>the state message of an accumulator entry\<close>
  "state_of pub = (\<lambda>(src, a).
     stateMsg (pe_cfg (pub src)) src (a_device a) (a_fields a) (pe_unix (pub src)))"

lemma Publish_state_messages:
  assumes "list_all (\<lambda>f. is_finite (tf_Value f)) fs" "Publish u isConnected result now cfg src dev fs c = (err, c', ms)"
  shows "state_messages ms = (if isConnected then [stateMsg cfg src dev fs now] else [])"
proof (cases isConnected)
  case True
  from Publish_state [OF assms(1), of u result now cfg src dev c] True assms(2)
  obtain ds where "ms = ds @ [stateMsg cfg src dev fs now]"
    "list_all (\<lambda>m. \<exists>f \<in> set fs. m = discoveryMsg u cfg src dev f) ds" by auto
  moreover from this(2) have "state_messages ds = []"
    by (auto simp: state_messages_def list_all_iff discoveryMsg_def Let_def filter_empty_conv split: prod.split)
  ultimately show ?thesis using True by (simp add: state_messages_def stateMsg_def)
next
  case False
  with assms(2) show ?thesis by (simp add: Publish_def)
qed

lemma publishAll_messages:
  assumes "list_all (\<lambda>(s, a). list_all (\<lambda>tf. is_finite (tf_Value tf)) (a_fields a)) as"
  shows "\<exists>c' ms. publishAll u pub as c names out = (c', names @ map (\<lambda>(s, a). a_device a) as, out @ ms) \<and>
    state_messages ms = map (state_of pub) (filter (\<lambda>(s, a). pe_connected (pub s)) as)"
  using assms
proof (induction as arbitrary: c names out)
  case (Cons sa as)
  obtain src a where sa: "sa = (src, a)" by (cases sa)
  let ?c = "if pe_reconnected (pub src) then onConnect c else c"
  obtain err c1 ms where p: "Publish u (pe_connected (pub src)) (pe_result (pub src)) (pe_unix (pub src))
    (pe_cfg (pub src)) src (a_device a) (a_fields a) ?c = (err, c1, ms)" by (metis prod_cases3)
  from Cons.prems have "list_all (\<lambda>tf. is_finite (tf_Value tf)) (a_fields a)" by (simp add: sa)
  note st = Publish_state_messages [OF this p]
  from Cons.IH [of c1 "names @ [a_device a]" "out @ ms"] Cons.prems obtain c' ms' where
    "publishAll u pub as c1 (names @ [a_device a]) (out @ ms) =
       (c', names @ a_device a # map (\<lambda>(s, a). a_device a) as, out @ ms @ ms')"
    "state_messages ms' = map (state_of pub) (filter (\<lambda>(s, a). pe_connected (pub s)) as)"
    by (auto simp: sa)
  then show ?case
    by (intro exI [of _ c'] exI [of _ "ms @ ms'"]) (simp add: sa p st Let_def state_of_def)
qed simp

lemma set_range_order [simp]: "set (range_order rank accum) = set accum"
  by (simp add: range_order_def)

lemma mset_range_order [simp]: "mset (range_order rank accum) = mset accum"
  by (simp add: range_order_def)

lemma publishRound_messages:
  assumes "accum_ok (l_accum l)" "publishRound u t l = (l', ms)"
  shows "state_messages ms = map (state_of (t_publish t))
      (filter (\<lambda>(s, a). pe_connected (t_publish t s)) (range_order (t_rank t) (l_accum l))) \<and>
    l_parser l' = l_parser l \<and> l_accum l' = l_accum l \<and> l_lastPublish l' = t_now t \<and>
    st_lastPublish (l_status l') = t_now t \<and> st_mqttConnected (l_status l') = t_connected t \<and>
    mset (st_devices (l_status l')) = mset (map (\<lambda>(s, a). a_device a) (l_accum l))"
proof -
  have "list_all (\<lambda>(s, a). list_all (\<lambda>tf. is_finite (tf_Value tf)) (a_fields a)) (range_order (t_rank t) (l_accum l))"
    using assms(1) by (simp add: accum_ok_def list_all_iff)
  from publishAll_messages [OF this, of u "t_publish t" "l_client l" "[]" "[]"] assms(2) show ?thesis
    by (auto simp: publishRound_def Let_def SetLastPublish_def SetDevices_def SetMQTTConnected_def)
qed

section \<open>One turn\<close>

definition received :: "turn \<Rightarrow> byte list" where
  "received t = (case t_read t of Inr data \<Rightarrow> data | Inl err \<Rightarrow> [])"

lemma heard_cong: "l_parser l' = l_parser l \<Longrightarrow> l_accum l' = l_accum l \<Longrightarrow> heard bs l' \<longleftrightarrow> heard bs l"
  by (simp add: heard_def)

lemma loop_turn_runs:
  assumes "heard bs l" "loop_turn u v t l = (None, l', ms)"
  shows "heard (bs @ received t) l' \<and> \<not> t_done t \<and> t_version t = v \<and> t_read t = Inr (received t)"
proof -
  from assms(2) obtain data where d: "\<not> t_done t" "t_version t = v" "t_read t = Inr data"
    by (auto simp: loop_turn_def split: if_splits sum.splits)
  from heard_receive [OF assms(1), of data] obtain l1 where l1: "receive data l = Some l1" "heard (bs @ data) l1"
    by blast
  obtain l2 ms2 where p: "publishRound u t l1 = (l2, ms2)" by fastforce
  have "accum_ok (l_accum l1)" using l1(2) by (simp add: heard_def)
  from publishRound_messages [OF this p] have "heard (bs @ data) l2"
    using l1(2) by (subst heard_cong [of _ l1]) simp_all
  with assms(2) d l1 p show ?thesis
    by (auto simp: loop_turn_def received_def split: if_splits)
qed

lemma loop_turn_exits:
  assumes "heard bs l" "loop_turn u v t l = (Some e, l', ms)"
  shows "l' = l \<and> ms = [] \<and> e \<noteq> Panicked \<and> (e = ConfigChanged \<longleftrightarrow> \<not> t_done t \<and> t_version t \<noteq> v)"
  using assms(2)
  by (auto simp: loop_turn_def receive_no_panic [OF assms(1)] split: if_splits sum.splits option.splits prod.splits)

lemma loop_turn_publishes:
  assumes "heard bs l" "\<not> t_done t" "t_version t = v" "t_read t = Inr data"
    and "c_PublishInterval (t_cfg t) \<le> Since (t_clock t) (l_lastPublish l)"
  shows "\<exists>l' ms. loop_turn u v t l = (None, l', ms) \<and>
    (\<forall>fs p. Feed NewParser (bs @ data) = Some (fs, p) \<longrightarrow>
      set (state_messages ms) = {state_of (t_publish t) (s, a) |s a. latest fs s = Some a \<and> pe_connected (t_publish t s)})"
proof -
  from heard_receive [OF assms(1), of data] obtain l1 where l1: "receive data l = Some l1" "heard (bs @ data) l1"
    "l_lastPublish l1 = l_lastPublish l" by blast
  then obtain fs p where fs: "Feed NewParser (bs @ data) = Some (fs, p)" "map_of (l_accum l1) = latest fs"
    and ok: "accum_ok (l_accum l1)" by (auto simp: heard_def)
  have d: "distinct (map fst (l_accum l1))" using ok by (simp add: accum_ok_def)
  obtain l2 ms2 where r: "publishRound u t l1 = (l2, ms2)" by fastforce
  have "set (state_messages ms2) =
      state_of (t_publish t) ` {e \<in> set (l_accum l1). pe_connected (t_publish t (fst e))}"
    using publishRound_messages [OF ok r] by (simp add: case_prod_beta)
  moreover have "set (l_accum l1) = {(s, a). latest fs s = Some a}"
    using map_of_eq_Some_iff [OF d] by (auto simp flip: fs(2))
  then have "{e \<in> set (l_accum l1). pe_connected (t_publish t (fst e))} =
      {(s, a). latest fs s = Some a \<and> pe_connected (t_publish t s)}" by auto
  moreover have "state_of (t_publish t) ` {(s, a). latest fs s = Some a \<and> pe_connected (t_publish t s)} =
      {state_of (t_publish t) (s, a) |s a. latest fs s = Some a \<and> pe_connected (t_publish t s)}" by blast
  ultimately have sm: "set (state_messages ms2) =
      {state_of (t_publish t) (s, a) |s a. latest fs s = Some a \<and> pe_connected (t_publish t s)}"
    by (simp only:)
  show ?thesis
  proof (cases "l_accum l1 = []")
    case True
    then have "latest fs = Map.empty" using fs(2) by simp
    with True l1 assms(2-4) fs show ?thesis by (simp add: loop_turn_def publish_due_def)
  next
    case False
    with l1 assms(2-5) r sm fs show ?thesis by (simp add: loop_turn_def publish_due_def)
  qed
qed

section \<open>Runs of the loop\<close>

lemma loop_turns_append:
  "loop_turns u v (ts @ ts') l =
     (case loop_turns u v ts l of
        (Some e, l, ms) \<Rightarrow> (Some e, l, ms)
      | (None, l, ms) \<Rightarrow> (let (e, l, ms') = loop_turns u v ts' l in (e, l, ms @ ms')))"
  by (induction ts arbitrary: l) (simp_all add: Let_def split: prod.split option.split)

lemma loop_turns_snoc:
  "loop_turns u v ts l = (None, l', ms) \<Longrightarrow>
     loop_turns u v (ts @ [t]) l = (let (e, l'', ms') = loop_turn u v t l' in (e, l'', ms @ ms'))"
  by (simp add: loop_turns_append Let_def split: prod.split option.split)

lemma loop_turns_runs:
  "heard bs l \<Longrightarrow> loop_turns u v ts l = (None, l', ms) \<Longrightarrow>
     heard (bs @ concat (map received ts)) l' \<and> list_all (\<lambda>t. t_version t = v) ts"
proof (induction ts arbitrary: bs l ms)
  case (Cons t ts)
  from Cons.prems(2) obtain l1 ms1 ms2 where
    t: "loop_turn u v t l = (None, l1, ms1)" and ts: "loop_turns u v ts l1 = (None, l', ms2)"
    by (auto simp: Let_def split: prod.splits option.splits)
  from loop_turn_runs [OF Cons.prems(1) t] have "heard (bs @ received t) l1" "t_version t = v" by blast+
  with Cons.IH [of "bs @ received t", OF _ ts] show ?case by simp
qed simp

text \<open>A loop that has ended did so in some turn, in the state and with the messages before it.\<close>

lemma loop_turns_ends:
  "heard bs l \<Longrightarrow> loop_turns u v ts l = (Some e, l', ms) \<Longrightarrow>
     \<exists>k < length ts. loop_turns u v (take k ts) l = (None, l', ms) \<and> loop_turn u v (ts ! k) l' = (Some e, l', [])"
proof (induction ts arbitrary: bs l ms)
  case (Cons t ts)
  obtain r l1 ms1 where t: "loop_turn u v t l = (r, l1, ms1)" by (metis prod_cases3)
  show ?case
  proof (cases r)
    case None
    with Cons.prems(2) t obtain ms2 where ts: "loop_turns u v ts l1 = (Some e, l', ms2)" "ms = ms1 @ ms2"
      by (auto simp: Let_def split: prod.splits)
    from loop_turn_runs [OF Cons.prems(1)] t None have "heard (bs @ received t) l1" by simp
    from Cons.IH [OF this ts(1)] obtain k where "k < length ts"
      "loop_turns u v (take k ts) l1 = (None, l', ms2)" "loop_turn u v (ts ! k) l' = (Some e, l', [])" by blast
    with t None ts(2) show ?thesis by (intro exI [of _ "Suc k"]) simp
  next
    case (Some e')
    with Cons.prems(2) t loop_turn_exits [OF Cons.prems(1), of u v t e' l1 ms1] show ?thesis
      by (intro exI [of _ 0]) auto
  qed
qed simp

lemma readLoop_heard:
  "readLoop u v now ts c st = (None, l, ms) \<Longrightarrow> heard (concat (map received ts)) l"
  using loop_turns_runs [OF heard_start] by (fastforce simp: readLoop_def)

section \<open>Exits\<close>

text \<open>The loop never panics; it ends with \<open>errConfigChanged\<close> only in a turn that sees a new version,
  and in such a turn at the latest it ends.\<close>

lemma readLoop_exit:
  assumes "readLoop u v now ts c st = (Some e, l, ms)"
  shows "e \<noteq> Panicked \<and> (\<exists>k < length ts. readLoop u v now (take k ts) c st = (None, l, ms) \<and>
    (e = ConfigChanged \<longleftrightarrow> \<not> t_done (ts ! k) \<and> t_version (ts ! k) \<noteq> v))"
proof -
  from loop_turns_ends [OF heard_start assms [unfolded readLoop_def]] obtain k where k: "k < length ts"
    "loop_turns u v (take k ts) (loop_start now c st) = (None, l, ms)" "loop_turn u v (ts ! k) l = (Some e, l, [])"
    by blast
  from loop_turns_runs [OF heard_start k(2)] have "heard (concat (map received (take k ts))) l" by simp
  from loop_turn_exits [OF this k(3)] k(1,2) show ?thesis by (auto simp: readLoop_def)
qed

lemma readLoop_notices:
  assumes "k < length ts" "t_version (ts ! k) \<noteq> v"
  shows "fst (readLoop u v now ts c st) \<noteq> None \<and>
    readLoop u v now ts c st = readLoop u v now (take (Suc k) ts) c st"
proof -
  have "fst (loop_turns u v (take (Suc k) ts) (loop_start now c st)) \<noteq> None"
  proof
    assume "fst (loop_turns u v (take (Suc k) ts) (loop_start now c st)) = None"
    then obtain l ms where "loop_turns u v (take (Suc k) ts) (loop_start now c st) = (None, l, ms)"
      by (metis prod.collapse)
    from loop_turns_runs [OF heard_start this] assms(1) have "t_version (ts ! k) = v"
      by (simp add: list_all_iff take_Suc_conv_app_nth)
    with assms(2) show False by simp
  qed
  then obtain e l ms where e: "loop_turns u v (take (Suc k) ts) (loop_start now c st) = (Some e, l, ms)"
    by (metis option.exhaust prod.collapse)
  have "loop_turns u v ts (loop_start now c st) = (Some e, l, ms)"
    using loop_turns_append [of u v "take (Suc k) ts" "drop (Suc k) ts"] e by simp
  with e show ?thesis by (simp add: readLoop_def)
qed

section \<open>Telegrams become messages\<close>

lemma readLoop_publishes:
  assumes "readLoop u v now ts c st = (None, l, ms)"
    and "\<not> t_done t" "t_version t = v" "t_read t = Inr data"
    and "c_PublishInterval (t_cfg t) \<le> Since (t_clock t) (l_lastPublish l)"
    and "Feed NewParser (concat (map received ts) @ data) = Some (fs, p)"
  shows "\<exists>l' ms'. readLoop u v now (ts @ [t]) c st = (None, l', ms @ ms') \<and>
    set (state_messages ms') =
      {state_of (t_publish t) (s, a) |s a. latest fs s = Some a \<and> pe_connected (t_publish t s)}"
proof -
  from loop_turn_publishes [OF readLoop_heard [OF assms(1)] assms(2-5), of u] assms(6)
  obtain l' ms' where t: "loop_turn u v t l = (None, l', ms')"
    "set (state_messages ms') =
      {state_of (t_publish t) (s, a) |s a. latest fs s = Some a \<and> pe_connected (t_publish t s)}"
    by (elim exE conjE allE impE) simp_all
  have "readLoop u v now (ts @ [t]) c st = (None, l', ms @ ms')"
    using loop_turns_snoc [OF assms(1) [unfolded readLoop_def], of t] t(1) by (simp add: readLoop_def)
  with t(2) show ?thesis by blast
qed

text \<open>From the wire to the broker: the telegrams on the line, cut into reads in any way.\<close>

lemma readLoop_telegrams:
  assumes "list_all sendable tel" "concat (map received (ts @ [t])) = transmit tel"
    and "readLoop u v now ts c st = (None, l, ms)"
    and "\<not> t_done t" "t_version t = v" "t_read t = Inr data"
    and "c_PublishInterval (t_cfg t) \<le> Since (t_clock t) (l_lastPublish l)"
  shows "\<exists>l' ms'. readLoop u v now (ts @ [t]) c st = (None, l', ms @ ms') \<and>
    set (state_messages ms') =
      {state_of (t_publish t) (s, a) |s a. latest (sent_frames tel) s = Some a \<and> pe_connected (t_publish t s)}"
proof -
  have "concat (map received ts) @ data = transmit tel"
    using assms(2,6) by (simp add: received_def)
  then have "Feed NewParser (concat (map received ts) @ data) = Some (sent_frames tel, NewParser)"
    using Feed_transmit [OF assms(1)] by (simp only:)
  from readLoop_publishes [OF assms(3-7) this] show ?thesis .
qed

section \<open>How often a source is reported\<close>

definition reports :: "uint16 \<Rightarrow> message list \<Rightarrow> message list" where
  "reports src ms = filter (\<lambda>m. case msg_content m of
     StateMsg p \<Rightarrow> m_Source p = ''0x'' @ fmt04X src | ConfigMsg h \<Rightarrow> False) ms"

lemma reports_append [simp]: "reports src [] = []" "reports src (xs @ ys) = reports src xs @ reports src ys"
  by (simp_all add: reports_def)

lemma reports_state: "reports src ms = reports src (state_messages ms)"
  by (induction ms) (auto simp: reports_def state_messages_def split: msg_body.split)

lemma m_Source_statePayload [simp]: "m_Source (statePayload src dev fs now) = ''0x'' @ fmt04X src"
proof -
  have "m_Source (foldl (\<lambda>p f. setField f p) p fs) = m_Source p" for p
    by (induction fs arbitrary: p) (simp_all add: setField_def Let_def)
  then show ?thesis by (simp add: statePayload_def)
qed

lemma reports_state_of:
  "reports src (map (state_of pub) es) = map (state_of pub) (filter (\<lambda>e. fst e = src) es)"
  by (induction es) (auto simp: reports_def state_of_def stateMsg_def)

lemma filter_key_once: "distinct (map fst es) \<Longrightarrow> length (filter (\<lambda>e. fst e = k) es) \<le> 1"
proof (induction es)
  case (Cons e es)
  have "filter (\<lambda>e'. fst e' = k) es = []" if "fst e = k"
    using Cons.prems that by (auto simp: filter_empty_conv rev_image_eqI)
  with Cons show ?case by auto
qed simp

lemma publishRound_reports:
  assumes "accum_ok (l_accum l)" "publishRound u t l = (l', ms)"
  shows "length (reports src ms) \<le> 1"
proof -
  let ?es = "filter (\<lambda>(s, a). pe_connected (t_publish t s)) (range_order (t_rank t) (l_accum l))"
  have "mset (map fst (range_order (t_rank t) (l_accum l))) = mset (map fst (l_accum l))" by simp
  then have "distinct (map fst (range_order (t_rank t) (l_accum l)))"
    using assms(1) mset_eq_imp_distinct_iff unfolding accum_ok_def by blast
  then have "length (filter (\<lambda>e. fst e = src) ?es) \<le> 1"
    by (intro filter_key_once distinct_map_filter)
  then show ?thesis
    using publishRound_messages [OF assms] by (simp add: reports_state [of src ms] reports_state_of)
qed

lemma Since_due: "0 < d \<Longrightarrow> d \<le> Since now t \<Longrightarrow> t + d \<le> now"
  by (auto simp: Since_def max_def min_def split: if_splits)

lemma loop_turn_rate:
  assumes "heard bs l" "loop_turn u v t l = (None, l', ms)"
    and "0 < d" "d \<le> c_PublishInterval (t_cfg t)" "t_clock t \<le> t_now t"
  shows "l_lastPublish l + d * int (length (reports src ms)) \<le> l_lastPublish l'"
proof -
  from loop_turn_runs [OF assms(1,2)] have t: "\<not> t_done t" "t_version t = v" "t_read t = Inr (received t)"
    by blast+
  from heard_receive [OF assms(1), of "received t"] obtain l1 where l1: "receive (received t) l = Some l1"
    "accum_ok (l_accum l1)" "l_lastPublish l1 = l_lastPublish l" by (auto simp: heard_def)
  show ?thesis
  proof (cases "publish_due t l1")
    case True
    obtain l2 ms2 where p: "publishRound u t l1 = (l2, ms2)" by fastforce
    with True assms(2) t l1(1) have eq: "l' = l2" "ms = ms2" by (simp_all add: loop_turn_def)
    have "l_lastPublish l + d \<le> t_now t"
      using True assms(3-5) l1(3) Since_due [of d "t_clock t" "l_lastPublish l"] by (simp add: publish_due_def)
    moreover have "l_lastPublish l' = t_now t" using publishRound_messages [OF l1(2) p] eq by simp
    moreover have "d * int (length (reports src ms)) \<le> d * 1"
      using publishRound_reports [OF l1(2) p, of src] assms(3) eq by (intro mult_left_mono) auto
    ultimately show ?thesis by simp
  next
    case False
    with assms(2) t l1 show ?thesis by (auto simp: loop_turn_def)
  qed
qed

lemma loop_turns_rate:
  assumes "0 < d" "list_all (\<lambda>t. d \<le> c_PublishInterval (t_cfg t) \<and> t_clock t \<le> t_now t) ts"
  shows "heard bs l \<Longrightarrow> loop_turns u v ts l = (e, l', ms) \<Longrightarrow>
    l_lastPublish l + d * int (length (reports src ms)) \<le> l_lastPublish l'"
  using assms(2)
proof (induction ts arbitrary: bs l ms)
  case (Cons t ts)
  obtain r l1 ms1 where t: "loop_turn u v t l = (r, l1, ms1)" by (metis prod_cases3)
  show ?case
  proof (cases r)
    case None
    with Cons.prems(2) t obtain ms2 where ts: "loop_turns u v ts l1 = (e, l', ms2)" "ms = ms1 @ ms2"
      by (auto simp: Let_def split: prod.splits)
    note t' = t [unfolded None]
    from loop_turn_runs [OF Cons.prems(1) t'] have "heard (bs @ received t) l1" by blast
    from Cons.IH [OF this ts(1)] Cons.prems(3)
    have "l_lastPublish l1 + d * int (length (reports src ms2)) \<le> l_lastPublish l'" by simp
    moreover from loop_turn_rate [OF Cons.prems(1) t' assms(1)] Cons.prems(3)
    have "l_lastPublish l + d * int (length (reports src ms1)) \<le> l_lastPublish l1" by simp
    ultimately show ?thesis by (simp add: ts(2) algebra_simps)
  next
    case (Some e')
    with loop_turn_exits [OF Cons.prems(1)] t Cons.prems(2) show ?thesis by fastforce
  qed
qed simp

lemma readLoop_rate:
  assumes "0 < d" "list_all (\<lambda>t. d \<le> c_PublishInterval (t_cfg t) \<and> t_clock t \<le> t_now t) ts"
    and "readLoop u v now ts c st = (e, l, ms)"
  shows "d * int (length (reports src ms)) \<le> l_lastPublish l - now"
  using loop_turns_rate [OF assms(1,2) heard_start assms(3) [unfolded readLoop_def]]
  by (simp add: loop_start_def algebra_simps)

end
