(* ===== verification/Logging.thy ===== *)
theory Logging
  imports Store
begin

text \<open>
  cmd/vbus2mqtt/dynamic_log.go and the log helpers of main.go. The handlers of log/slog are outside:
  they are values of a type \<open>'h\<close> with the operations passed in.
\<close>

section \<open>Log levels\<close>

datatype level = LevelDebug | LevelInfo | LevelWarn | LevelError

definition setLogLevel :: "string \<Rightarrow> level" where
  \<comment> \<open>what the level variable is set to\<close>
  "setLogLevel l =
     (if l = ''debug'' then LevelDebug
      else if l = ''warn'' then LevelWarn
      else if l = ''error'' then LevelError
      else LevelInfo)"

section \<open>The dynamic handler\<close>

record 'h dynamicHandler =
  dh_json :: 'h
  dh_text :: 'h

definition newDynamicHandler :: "'h \<Rightarrow> 'h \<Rightarrow> 'h dynamicHandler" where
  \<comment> \<open>from what \<open>slog.NewJSONHandler\<close> and \<open>slog.NewTextHandler\<close> return\<close>
  "newDynamicHandler j t = \<lparr>dh_json = j, dh_text = t\<rparr>"

definition active :: "Store \<Rightarrow> 'h dynamicHandler \<Rightarrow> 'h" where
  "active store h = (if c_LogFormat (Get store) = ''text'' then dh_text h else dh_json h)"

definition Enabled :: "('h \<Rightarrow> level \<Rightarrow> bool) \<Rightarrow> Store \<Rightarrow> 'h dynamicHandler \<Rightarrow> level \<Rightarrow> bool" where
  "Enabled enabled store h l = enabled (active store h) l"

definition Handle :: "('h \<Rightarrow> 'r \<Rightarrow> 'e) \<Rightarrow> Store \<Rightarrow> 'h dynamicHandler \<Rightarrow> 'r \<Rightarrow> 'e" where
  "Handle handle store h r = handle (active store h) r"

definition WithAttrs :: "('a \<Rightarrow> 'h \<Rightarrow> 'h) \<Rightarrow> 'a \<Rightarrow> 'h dynamicHandler \<Rightarrow> 'h dynamicHandler" where
  "WithAttrs withAttrs attrs h = \<lparr>dh_json = withAttrs attrs (dh_json h), dh_text = withAttrs attrs (dh_text h)\<rparr>"

definition WithGroup :: "(string \<Rightarrow> 'h \<Rightarrow> 'h) \<Rightarrow> string \<Rightarrow> 'h dynamicHandler \<Rightarrow> 'h dynamicHandler" where
  "WithGroup withGroup name h = \<lparr>dh_json = withGroup name (dh_json h), dh_text = withGroup name (dh_text h)\<rparr>"

definition buildLogger :: "'h \<Rightarrow> 'h \<Rightarrow> Store \<Rightarrow> level \<times> 'h dynamicHandler" where
  "buildLogger j t store = (setLogLevel (c_LogLevel (Get store)), newDynamicHandler j t)"

text \<open>
  The interface the rest of slog sees: a handler is what it hands records to. A derived logger
  follows a later change of the format as well, because both handlers were derived.
\<close>

locale handler_front =
  fixes front :: "'s \<Rightarrow> 'd \<Rightarrow> 'h" and derive :: "('h \<Rightarrow> 'h) \<Rightarrow> 'd \<Rightarrow> 'd"
  assumes front_derive: "front s (derive f d) = f (front s d)"
begin

lemma front_derives: "front s (foldr derive fs d) = foldr (\<lambda>f. f) fs (front s d)"
  by (induction fs) (simp_all add: front_derive)

end

definition derived :: "('h \<Rightarrow> 'h) \<Rightarrow> 'h dynamicHandler \<Rightarrow> 'h dynamicHandler" where
  "derived f h = \<lparr>dh_json = f (dh_json h), dh_text = f (dh_text h)\<rparr>"

interpretation dynamic: handler_front active derived
  by unfold_locales (simp add: active_def derived_def)

lemma derived_ops:
  "WithAttrs wa attrs = derived (wa attrs)" "WithGroup wg name = derived (wg name)"
  by (simp_all add: WithAttrs_def WithGroup_def derived_def fun_eq_iff)

end
