(* ===== verification/Bridge.thy ===== *)
theory Bridge
  imports ReadLoop Logging Web
begin

text \<open>
  cmd/vbus2mqtt/main.go: the whole process as a transition system. \<open>main_step\<close> is the main goroutine,
  statement by statement where another goroutine can come between
  (the library calls of \<open>Connect\<close>, \<open>Open\<close>, \<open>Close\<close> and \<open>Disconnect\<close> count as one); \<open>env_step\<close> are the web handlers,
  the log-level watcher and the signal. A turn of \<open>readLoop\<close> is one step, with the context and the
  version it tests taken from the state and everything it meets later left open, so that other
  goroutines may act during the turn. An \<open>Update\<close> is three steps: the section under the lock, the
  increment, the save (which StoreRace takes apart further); any number of them may be under way.
  \<open>br_updates\<close> counts the increments; it is no part of the program.
\<close>

section \<open>States\<close>

datatype pc =
    Outer
  | GotVer uint64  \<comment> \<open>after \<open>ver := store.Version()\<close>\<close>
  | GotCfg uint64 Config  \<comment> \<open>after \<open>cfg = store.Get()\<close>\<close>
  | Inner uint64 Config Client
  | Reading uint64 Config Device loop
  | Closing uint64 Config Device Client  \<comment> \<open>\<open>readLoop\<close> has returned, and not \<open>errConfigChanged\<close>\<close>
  | Pausing uint64 Config Client Duration  \<comment> \<open>inside \<open>waitOrDone\<close>\<close>
  | Leaving
  | Stopped
  | Crashed

record bridge =
  br_back :: backend
  br_status :: Status
  br_level :: level
  br_lastVer :: uint64  \<comment> \<open>\<open>lastVer\<close> of \<open>watchLogLevel\<close>\<close>
  br_pending :: bool  \<comment> \<open>it has seen a new version and not yet set the level\<close>
  br_cancelled :: bool
  br_ports :: "nat set"
  br_pc :: pc
  br_mqtt :: "clientOptions option"  \<comment> \<open>the MQTT client of the session, by what it was made with\<close>
  br_out :: "message list"
  br_applied :: nat  \<comment> \<open>calls of \<open>Update\<close> between the lock and the increment\<close>
  br_saving :: nat  \<comment> \<open>calls of \<open>Update\<close> behind the increment\<close>
  br_updates :: nat

abbreviation br_store :: "bridge \<Rightarrow> Store" where
  "br_store s \<equiv> b_store (br_back s)"

definition main_start :: "environ \<Rightarrow> os_calls \<Rightarrow> files \<Rightarrow> Time \<Rightarrow> bridge" where
  "main_start getenv os fs now =
     (let store = NewStore getenv os fs (c_ConfigFile (Load getenv));
          (lv, h) = buildLogger () () store
      in \<lparr>br_back = \<lparr>b_store = store, b_files = fs\<rparr>, br_status = New now, br_level = lv,
           br_lastVer = 0, br_pending = False, br_cancelled = False, br_ports = {}, br_pc = Outer,
           br_mqtt = None, br_out = [], br_applied = 0, br_saving = 0, br_updates = 0\<rparr>)"

section \<open>The main goroutine\<close>

text \<open>
  \<open>u\<close> are the Unicode tables, \<open>e\<close> the serial library (which never hands out an open handle), \<open>b\<close> and
  \<open>now\<close> what \<open>IsConnected\<close> and the clock say, \<open>t\<close> the turn of the read loop.
\<close>

inductive main_step :: "unicode \<Rightarrow> bridge \<Rightarrow> bridge \<Rightarrow> bool" for u where
  outer_done: "br_pc s = Outer \<Longrightarrow> br_cancelled s \<Longrightarrow> main_step u s (s\<lparr>br_pc := Stopped\<rparr>)"
| outer_version: "br_pc s = Outer \<Longrightarrow> \<not> br_cancelled s \<Longrightarrow>
    main_step u s (s\<lparr>br_pc := GotVer (Version (br_store s))\<rparr>)"
| outer_get: "br_pc s = GotVer ver \<Longrightarrow>
    main_step u s (s\<lparr>br_pc := GotCfg ver (Get (br_store s))\<rparr>)"
| outer_connect: "br_pc s = GotCfg ver cfg \<Longrightarrow>
    main_step u s (s\<lparr>br_pc := Inner ver cfg newClient,
      br_mqtt := Some (newOptions (Get (br_store s))), br_status := SetMQTTConnected b (br_status s)\<rparr>)"
| inner_done: "br_pc s = Inner ver cfg c \<Longrightarrow> br_cancelled s \<or> Version (br_store s) \<noteq> ver \<Longrightarrow>
    main_step u s (s\<lparr>br_pc := Leaving\<rparr>)"
| inner_no_device: "br_pc s = Inner ver cfg c \<Longrightarrow> \<not> br_cancelled s \<Longrightarrow> Version (br_store s) = ver \<Longrightarrow>
    (\<forall>p m h. se_open e p m = Some h \<longrightarrow> h \<notin> br_ports s) \<Longrightarrow>
    Open e cfg (br_ports s) = (Inl err, ports) \<Longrightarrow>
    main_step u s (s\<lparr>br_pc := Pausing ver cfg c (5 * Second), br_ports := ports\<rparr>)"
| inner_device: "br_pc s = Inner ver cfg c \<Longrightarrow> \<not> br_cancelled s \<Longrightarrow> Version (br_store s) = ver \<Longrightarrow>
    (\<forall>p m h. se_open e p m = Some h \<longrightarrow> h \<notin> br_ports s) \<Longrightarrow>
    Open e cfg (br_ports s) = (Inr dev, ports) \<Longrightarrow>
    main_step u s (s\<lparr>br_pc := Reading ver cfg dev (loop_start now c (br_status s)), br_ports := ports\<rparr>)"
| read_turn: "br_pc s = Reading ver cfg dev l \<Longrightarrow> t_done t = br_cancelled s \<Longrightarrow>
    t_version t = Version (br_store s) \<Longrightarrow> loop_turn u ver t l = (None, l', ms) \<Longrightarrow>
    main_step u s (s\<lparr>br_pc := Reading ver cfg dev l', br_status := l_status l', br_out := br_out s @ ms\<rparr>)"
| read_changed: "br_pc s = Reading ver cfg dev l \<Longrightarrow> t_done t = br_cancelled s \<Longrightarrow>
    t_version t = Version (br_store s) \<Longrightarrow> loop_turn u ver t l = (Some ConfigChanged, l', ms) \<Longrightarrow>
    main_step u s (s\<lparr>br_pc := Leaving, br_ports := Close dev (br_ports s)\<rparr>)"
| read_ended: "br_pc s = Reading ver cfg dev l \<Longrightarrow> t_done t = br_cancelled s \<Longrightarrow>
    t_version t = Version (br_store s) \<Longrightarrow> loop_turn u ver t l = (Some x, l', ms) \<Longrightarrow>
    x \<notin> {ConfigChanged, Panicked} \<Longrightarrow>
    main_step u s (s\<lparr>br_pc := Closing ver cfg dev (l_client l')\<rparr>)"
| close_device: "br_pc s = Closing ver cfg dev c \<Longrightarrow>
    main_step u s (s\<lparr>br_ports := Close dev (br_ports s),
      br_pc := (if \<not> br_cancelled s \<and> Version (br_store s) = ver then Pausing ver cfg c (3 * Second)
                else Inner ver cfg c)\<rparr>)"
| read_panics: "br_pc s = Reading ver cfg dev l \<Longrightarrow> t_done t = br_cancelled s \<Longrightarrow>
    t_version t = Version (br_store s) \<Longrightarrow> loop_turn u ver t l = (Some Panicked, l', ms) \<Longrightarrow>
    main_step u s (s\<lparr>br_pc := Crashed\<rparr>)"
| pause_over: "br_pc s = Pausing ver cfg c d \<Longrightarrow> main_step u s (s\<lparr>br_pc := Inner ver cfg c\<rparr>)"
| leave: "br_pc s = Leaving \<Longrightarrow>
    main_step u s (s\<lparr>br_pc := Outer, br_mqtt := None, br_status := SetMQTTConnected False (br_status s)\<rparr>)"

inductive_cases main_stepE: "main_step u s s'"

section \<open>The other goroutines\<close>

inductive env_step :: "Server \<Rightarrow> bridge \<Rightarrow> bridge \<Rightarrow> bool" for srv where
  request: "put_request srv r = None \<Longrightarrow> serve srv now (br_status s) r (br_back s) = (resp, b) \<Longrightarrow>
    env_step srv s (s\<lparr>br_back := b\<rparr>)"
| put_locked: "put_request srv r = Some fn \<Longrightarrow>
    env_step srv s (s\<lparr>br_back := (br_back s)\<lparr>b_store := updateLocked fn (br_store s)\<rparr>,
      br_applied := Suc (br_applied s)\<rparr>)"
| put_counted: "br_applied s = Suc n \<Longrightarrow>
    env_step srv s (s\<lparr>br_back := (br_back s)\<lparr>b_store := addVersion (br_store s)\<rparr>,
      br_applied := n, br_saving := Suc (br_saving s), br_updates := Suc (br_updates s)\<rparr>)"
| put_saved: "br_saving s = Suc n \<Longrightarrow>
    env_step srv s (s\<lparr>br_back := (br_back s)\<lparr>b_files := (if s_path (br_store s) = [] then b_files (br_back s)
        else snd (saveFile os (b_files (br_back s)) (br_store s)))\<rparr>, br_saving := n\<rparr>)"
| watch_version: "\<not> br_pending s \<Longrightarrow> Version (br_store s) \<noteq> br_lastVer s \<Longrightarrow>
    env_step srv s (s\<lparr>br_lastVer := Version (br_store s), br_pending := True\<rparr>)"
| watch_set: "br_pending s \<Longrightarrow>
    env_step srv s (s\<lparr>br_level := setLogLevel (c_LogLevel (Get (br_store s))), br_pending := False\<rparr>)"
| signal: "env_step srv s (s\<lparr>br_cancelled := True\<rparr>)"

inductive_cases env_stepE: "env_step srv s s'"

inductive bridge_reach :: "unicode \<Rightarrow> Server \<Rightarrow> bridge \<Rightarrow> bridge \<Rightarrow> bool" for u srv s0 where
  br_init: "bridge_reach u srv s0 s0"
| br_main: "bridge_reach u srv s0 s \<Longrightarrow> main_step u s s' \<Longrightarrow> bridge_reach u srv s0 s'"
| br_env: "bridge_reach u srv s0 s \<Longrightarrow> env_step srv s s' \<Longrightarrow> bridge_reach u srv s0 s'"

text \<open>The way into a session, in one piece.\<close>

lemma reach_session:
  assumes "bridge_reach u srv s0 s" "br_pc s = Outer" "\<not> br_cancelled s"
  shows "bridge_reach u srv s0 (s\<lparr>br_pc := Inner (Version (br_store s)) (Get (br_store s)) newClient,
    br_mqtt := Some (newOptions (Get (br_store s))), br_status := SetMQTTConnected b (br_status s)\<rparr>)"
proof -
  let ?v = "s\<lparr>br_pc := GotVer (Version (br_store s))\<rparr>"
  let ?c = "s\<lparr>br_pc := GotCfg (Version (br_store s)) (Get (br_store s))\<rparr>"
  have "bridge_reach u srv s0 ?v" using br_main [OF assms(1) outer_version [OF assms(2,3)]] .
  then have "bridge_reach u srv s0 ?c" using br_main outer_get [of ?v "Version (br_store s)" u] by fastforce
  then show ?thesis
    using br_main outer_connect [of ?c "Version (br_store s)" "Get (br_store s)" u b] by fastforce
qed

section \<open>Handles, panics and the status\<close>

definition open_ports :: "pc \<Rightarrow> nat set" where
  "open_ports p = (case p of Reading ver cfg dev l \<Rightarrow> {dv_port dev}
     | Closing ver cfg dev c \<Rightarrow> {dv_port dev} | _ \<Rightarrow> {})"

definition in_session :: "pc \<Rightarrow> bool" where
  \<comment> \<open>between \<open>mqttclient.New\<close> and \<open>Disconnect\<close>\<close>
  "in_session p = (case p of Inner ver cfg c \<Rightarrow> True | Reading ver cfg dev l \<Rightarrow> True
     | Closing ver cfg dev c \<Rightarrow> True | Pausing ver cfg c d \<Rightarrow> True | Leaving \<Rightarrow> True | _ \<Rightarrow> False)"

definition resources_ok :: "bridge \<Rightarrow> bool" where
  "resources_ok s \<longleftrightarrow> br_ports s = open_ports (br_pc s) \<and> br_pc s \<noteq> Crashed \<and>
     (br_mqtt s \<noteq> None \<longleftrightarrow> in_session (br_pc s)) \<and>
     (\<not> in_session (br_pc s) \<longrightarrow> \<not> st_mqttConnected (br_status s)) \<and>
     (\<forall>ver cfg dev l. br_pc s = Reading ver cfg dev l \<longrightarrow> l_status l = br_status s \<and> (\<exists>bs. heard bs l))"

lemma SetMQTTConnected_simp [simp]: "st_mqttConnected (SetMQTTConnected b st) = b"
  by (simp add: SetMQTTConnected_def)

lemma loop_start_status [simp]: "l_status (loop_start now c st) = st"
  by (simp add: loop_start_def)

lemma resources_ok_main:
  assumes "main_step u s s'" "resources_ok s"
  shows "resources_ok s'"
  using assms
proof (cases rule: main_step.cases)
  case (inner_no_device ver cfg c e err ports)
  with assms(2) Open_handles [of e cfg "br_ports s" "Inl err" ports] show ?thesis
    by (simp add: resources_ok_def open_ports_def in_session_def)
next
  case (inner_device ver cfg c e dev ports now)
  with assms(2) Open_handles [of e cfg "br_ports s" "Inr dev" ports] heard_start show ?thesis
    by (auto simp: resources_ok_def open_ports_def in_session_def)
next
  case (read_turn ver cfg dev l t l' ms)
  from assms(2) read_turn(2) obtain bs where "heard bs l" by (auto simp: resources_ok_def)
  from loop_turn_runs [OF this read_turn(5)] assms(2) read_turn show ?thesis
    by (auto simp: resources_ok_def open_ports_def in_session_def)
next
  case (read_panics ver cfg dev l t l' ms)
  from assms(2) read_panics(2) obtain bs where "heard bs l" by (auto simp: resources_ok_def)
  from loop_turn_exits [OF this read_panics(5)] show ?thesis by simp
qed (auto simp: resources_ok_def open_ports_def in_session_def Close_def)

lemma resources_ok_env: "env_step srv s s' \<Longrightarrow> resources_ok s \<Longrightarrow> resources_ok s'"
  by (erule env_stepE) (auto simp: resources_ok_def)

lemma resources_ok_start: "resources_ok (main_start getenv os fs now)"
  by (simp add: main_start_def resources_ok_def open_ports_def in_session_def Let_def New_def split: prod.split)

lemma bridge_reach_inv [consumes 1, case_names start main env]:
  assumes "bridge_reach u srv s0 s" "P s0" "\<And>s s'. main_step u s s' \<Longrightarrow> P s \<Longrightarrow> P s'"
    and "\<And>s s'. env_step srv s s' \<Longrightarrow> P s \<Longrightarrow> P s'"
  shows "P s"
  using assms by (induction rule: bridge_reach.induct) blast+

lemma reach_resources_ok: "bridge_reach u srv (main_start getenv os fs now) s \<Longrightarrow> resources_ok s"
  by (induction rule: bridge_reach_inv) (blast intro: resources_ok_start resources_ok_main resources_ok_env)+

section \<open>The session and the store\<close>

definition updates_ok :: "bridge \<Rightarrow> bool" where
  "updates_ok s \<longleftrightarrow> Version (br_store s) = of_nat (br_updates s)"

definition unless_newer :: "bridge \<Rightarrow> uint64 \<Rightarrow> bool \<Rightarrow> bool" where
  \<comment> \<open>\<open>P\<close>, unless there is an update behind \<open>ver\<close>, counted or about to be\<close>
  "unless_newer s ver P \<longleftrightarrow> as_of (br_updates s) ver (br_applied s = 0 \<longrightarrow> P)"

definition session_ok :: "bridge \<Rightarrow> bool" where
  "session_ok s \<longleftrightarrow> (let now = Get (br_store s); mqtt = (br_mqtt s = Some (newOptions now)) in
     case br_pc s of
       GotVer ver \<Rightarrow> unless_newer s ver True
     | GotCfg ver cfg \<Rightarrow> unless_newer s ver (cfg = now)
     | Inner ver cfg c \<Rightarrow> unless_newer s ver (cfg = now \<and> mqtt)
     | Reading ver cfg dev l \<Rightarrow> unless_newer s ver (cfg = now \<and> mqtt)
     | Closing ver cfg dev c \<Rightarrow> unless_newer s ver (cfg = now \<and> mqtt)
     | Pausing ver cfg c d \<Rightarrow> unless_newer s ver (cfg = now \<and> mqtt)
     | _ \<Rightarrow> True)"

definition watch_ok :: "bridge \<Rightarrow> bool" where
  "watch_ok s \<longleftrightarrow> unless_newer s (br_lastVer s)
     (br_pending s \<or> br_level s = setLogLevel (c_LogLevel (Get (br_store s))))"

definition coherent :: "bridge \<Rightarrow> bool" where
  "coherent s \<longleftrightarrow> updates_ok s \<and> session_ok s \<and> watch_ok s"

lemma session_ok_cong:
  "br_pc s' = br_pc s \<Longrightarrow> br_store s' = br_store s \<Longrightarrow> br_mqtt s' = br_mqtt s \<Longrightarrow> br_updates s' = br_updates s \<Longrightarrow>
    br_applied s' = br_applied s \<Longrightarrow> session_ok s' \<longleftrightarrow> session_ok s"
  by (cases "br_pc s") (simp_all add: session_ok_def unless_newer_def Let_def)

lemma unless_newer_weaken: "unless_newer s ver P \<Longrightarrow> (P \<Longrightarrow> Q) \<Longrightarrow> unless_newer s ver Q"
  by (auto simp: unless_newer_def elim: as_of_weaken)

lemma unless_newer_locked:
  "unless_newer s ver P \<Longrightarrow> br_updates s' = br_updates s \<Longrightarrow> br_applied s' = Suc n \<Longrightarrow> unless_newer s' ver Q"
  by (auto simp: unless_newer_def elim: as_of_weaken)

lemma unless_newer_counted: "unless_newer s ver P \<Longrightarrow> br_updates s' = Suc (br_updates s) \<Longrightarrow> unless_newer s' ver Q"
  by (auto simp: unless_newer_def intro: as_of_update)

lemma unless_newer_last:
  assumes "unless_newer s ver P" "updates_ok s" "br_updates s < 2 ^ 64" "Version (br_store s) = ver" "br_applied s = 0"
  shows P
  using as_of_last [OF assms(1) [unfolded unless_newer_def] assms(3)] assms(2,4,5) by (simp add: updates_ok_def)

text \<open>The main goroutine leaves the store to the others.\<close>

lemma main_same:
  assumes "main_step u s s'"
  shows "br_back s' = br_back s" "br_updates s' = br_updates s" "br_applied s' = br_applied s"
    "br_lastVer s' = br_lastVer s" "br_pending s' = br_pending s" "br_level s' = br_level s"
    "br_cancelled s' = br_cancelled s"
  using assms by (cases rule: main_step.cases; simp)+

lemma coherent_main:
  assumes "main_step u s s'" "coherent s"
  shows "coherent s'"
proof -
  have "updates_ok s'" "watch_ok s'"
    using assms(2) by (simp_all add: main_same [OF assms(1)] coherent_def updates_ok_def watch_ok_def unless_newer_def)
  moreover have "session_ok s'"
    using assms(1)
  proof (cases rule: main_step.cases)
    case outer_version
    then show ?thesis
      using assms(2) by (auto simp: session_ok_def coherent_def unless_newer_def updates_ok_def intro: as_of_now)
  next
    case (outer_get ver)
    then show ?thesis
      using assms(2) by (auto simp: session_ok_def coherent_def unless_newer_def elim: as_of_weaken)
  next
    case (outer_connect ver cfg b)
    then show ?thesis
      using assms(2) by (auto simp: session_ok_def coherent_def unless_newer_def elim: as_of_weaken)
  qed (use assms(2) in \<open>auto simp: session_ok_def coherent_def unless_newer_def\<close>)
  ultimately show ?thesis by (simp add: coherent_def)
qed

lemma coherent_env:
  assumes "env_step srv s s'" "coherent s"
  shows "coherent s'"
proof -
  have old: "updates_ok s" "session_ok s" "watch_ok s" using assms(2) by (simp_all add: coherent_def)
  have locked: "coherent s'" if "br_updates s' = br_updates s" "br_applied s' = Suc n" "br_pc s' = br_pc s"
    "br_lastVer s' = br_lastVer s" "Version (br_store s') = Version (br_store s)" for n
    using old that unless_newer_locked [OF _ that(1,2)]
    by (cases "br_pc s") (auto simp: coherent_def session_ok_def watch_ok_def updates_ok_def Let_def)
  have counted: "coherent s'" if "br_updates s' = Suc (br_updates s)" "br_pc s' = br_pc s"
    "br_lastVer s' = br_lastVer s" "Version (br_store s') = Version (br_store s) + 1"
    using old that unless_newer_counted [OF _ that(1)]
    by (cases "br_pc s") (auto simp: coherent_def session_ok_def watch_ok_def updates_ok_def Let_def)
  show ?thesis
    using assms(1)
  proof (cases rule: env_step.cases)
    case (request r now resp b)
    have "b = br_back s" using serve_no_put [OF request(2)] request(3) by (metis snd_conv)
    with request assms(2) show ?thesis by simp
  next
    case (put_locked r fn)
    then show ?thesis by (intro locked) (simp_all add: Version_def)
  next
    case (put_counted n)
    then show ?thesis by (intro counted) (simp_all add: Version_def)
  next
    case (put_saved n os)
    with old session_ok_cong [of s' s] show ?thesis
      by (auto simp: coherent_def updates_ok_def watch_ok_def unless_newer_def)
  next
    case watch_version
    with old session_ok_cong [of s' s] show ?thesis
      by (auto simp: coherent_def updates_ok_def watch_ok_def unless_newer_def intro: as_of_now)
  next
    case watch_set
    with old session_ok_cong [of s' s] show ?thesis
      by (auto simp: coherent_def updates_ok_def watch_ok_def unless_newer_def elim: as_of_weaken)
  next
    case signal
    with old session_ok_cong [of s' s] show ?thesis
      by (auto simp: coherent_def updates_ok_def watch_ok_def unless_newer_def)
  qed
qed

lemma coherent_start: "coherent (main_start getenv os fs now)"
proof -
  have "Version (NewStore getenv os fs p) = 0" for p
    by (simp add: NewStore_def loadFile_def Version_def Let_def split: option.split content.split)
  then show ?thesis
    by (simp add: main_start_def coherent_def updates_ok_def session_ok_def watch_ok_def unless_newer_def as_of_def
      buildLogger_def Let_def)
qed

lemma reach_coherent: "bridge_reach u srv (main_start getenv os fs now) s \<Longrightarrow> coherent s"
  by (induction rule: bridge_reach_inv) (blast intro: coherent_start coherent_main coherent_env)+

section \<open>Shutdown\<close>

text \<open>How many steps of the main goroutine are left once the context is cancelled.\<close>

fun steps_left :: "pc \<Rightarrow> nat" where
  "steps_left Stopped = 0"
| "steps_left Crashed = 0"
| "steps_left Outer = 1"
| "steps_left Leaving = 2"
| "steps_left (Inner ver cfg c) = 3"
| "steps_left (Closing ver cfg dev c) = 4"
| "steps_left (Reading ver cfg dev l) = 5"
| "steps_left (Pausing ver cfg c d) = 4"
| "steps_left (GotCfg ver cfg) = 4"
| "steps_left (GotVer ver) = 5"

lemma steps_left_max: "steps_left p \<le> 5"
  by (cases p) simp_all

lemma cancelled_turn: "t_done t \<Longrightarrow> loop_turn u v t l = (Some CtxDone, l, [])"
  by (simp add: loop_turn_def)

lemma cancelled_main: "main_step u s s' \<Longrightarrow> br_cancelled s \<Longrightarrow>
    br_cancelled s' \<and> steps_left (br_pc s') < steps_left (br_pc s)"
  by (erule main_stepE) (auto simp: cancelled_turn)

lemma cancelled_env: "env_step srv s s' \<Longrightarrow> br_cancelled s \<Longrightarrow> br_cancelled s' \<and> br_pc s' = br_pc s"
  by (erule env_stepE) auto

inductive main_steps :: "unicode \<Rightarrow> Server \<Rightarrow> nat \<Rightarrow> bridge \<Rightarrow> bridge \<Rightarrow> bool" for u srv where
  \<comment> \<open>\<open>n\<close> steps of the main goroutine, with any steps of the others between them\<close>
  none: "main_steps u srv 0 s s"
| main: "main_steps u srv n s s' \<Longrightarrow> main_step u s' s'' \<Longrightarrow> main_steps u srv (Suc n) s s''"
| other: "main_steps u srv n s s' \<Longrightarrow> env_step srv s' s'' \<Longrightarrow> main_steps u srv n s s''"

lemma main_steps_reach: "main_steps u srv n s s' \<Longrightarrow> bridge_reach u srv s0 s \<Longrightarrow> bridge_reach u srv s0 s'"
  by (induction rule: main_steps.induct) (auto intro: br_main br_env)

lemma cancelled_steps: "main_steps u srv n s s' \<Longrightarrow> br_cancelled s \<Longrightarrow>
    br_cancelled s' \<and> n + steps_left (br_pc s') \<le> steps_left (br_pc s)"
proof (induction rule: main_steps.induct)
  case (main n s s' s'')
  with cancelled_main [OF main(2)] show ?case by simp
next
  case (other n s s' s'')
  with cancelled_env [OF other(2)] show ?case by simp
qed simp

text \<open>Until it has stopped, the main goroutine has a step.\<close>

definition no_glob :: serial_env where
  "no_glob = \<lparr>se_glob = (\<lambda>_. []), se_open = (\<lambda>_ _. None), se_set_timeout = (\<lambda>_ _. True)\<rparr>"

lemma Open_no_glob: "\<exists>err. Open no_glob cfg ports = (Inl err, ports)"
  by (simp add: Open_def no_glob_def Detect_def Let_def)

lemma failing_turn: "\<exists>t :: turn. t_done t = d \<and> t_version t = v \<and> t_read t = Inl EOF"
proof -
  fix t0 :: turn
  show ?thesis by (rule exI [of _ "t0\<lparr>t_done := d, t_version := v, t_read := Inl EOF\<rparr>"]) simp
qed

lemma loop_turn_fails: "t_read t = Inl err \<Longrightarrow> \<exists>x. loop_turn u v t l = (Some x, l, []) \<and> x \<noteq> Panicked"
  by (simp add: loop_turn_def)

lemma main_progress:
  assumes "resources_ok s" "br_pc s \<noteq> Stopped"
  shows "\<exists>s'. main_step u s s'"
proof (cases "br_pc s")
  case Outer
  then show ?thesis using outer_done outer_version by blast
next
  case (Inner ver cfg c)
  obtain err where o: "Open no_glob cfg (br_ports s) = (Inl err, br_ports s)" using Open_no_glob by blast
  have "\<forall>p m h. se_open no_glob p m = Some h \<longrightarrow> h \<notin> br_ports s" by (simp add: no_glob_def)
  with o show ?thesis
    using inner_done [OF Inner] inner_no_device [OF Inner] by blast
next
  case (Reading ver cfg dev l)
  obtain t :: turn where t: "t_done t = br_cancelled s" "t_version t = Version (br_store s)" "t_read t = Inl EOF"
    using failing_turn by blast
  from loop_turn_fails [OF t(3), of u ver l] obtain x where x: "loop_turn u ver t l = (Some x, l, [])" "x \<noteq> Panicked"
    by blast
  show ?thesis
  proof (cases "x = ConfigChanged")
    case True
    from read_changed [OF Reading t(1,2) x(1) [unfolded True]] show ?thesis by (rule exI)
  next
    case False
    with x(2) have "x \<notin> {ConfigChanged, Panicked}" by simp
    from read_ended [OF Reading t(1,2) x(1) this] show ?thesis by (rule exI)
  qed
next
  case Crashed
  with assms(1) show ?thesis by (simp add: resources_ok_def)
qed (use assms(2) in \<open>auto intro: outer_get outer_connect close_device pause_over leave\<close>)

section \<open>New settings are adopted\<close>

definition current :: "bridge \<Rightarrow> bool" where
  \<comment> \<open>a session that runs with the settings of the store, client included\<close>
  "current s \<longleftrightarrow> (\<exists>ver cfg. ((\<exists>c. br_pc s = Inner ver cfg c) \<or> (\<exists>dev l. br_pc s = Reading ver cfg dev l) \<or>
       (\<exists>dev c. br_pc s = Closing ver cfg dev c) \<or>
       (\<exists>c d. br_pc s = Pausing ver cfg c d)) \<and>
     ver = Version (br_store s) \<and> cfg = Get (br_store s) \<and> br_mqtt s = Some (newOptions (Get (br_store s))))"

text \<open>How many steps of the main goroutine a session with the current version is away.\<close>

fun lag :: "uint64 \<Rightarrow> pc \<Rightarrow> nat" where
  "lag v (Inner ver cfg c) = (if ver = v then 0 else 5)"
| "lag v (Reading ver cfg dev l) = (if ver = v then 0 else 6)"
| "lag v (Closing ver cfg dev c) = (if ver = v then 0 else 6)"
| "lag v (Pausing ver cfg c d) = (if ver = v then 0 else 6)"
| "lag v Leaving = 4"
| "lag v Outer = 3"
| "lag v (GotVer ver) = (if ver = v then 2 else 7)"
| "lag v (GotCfg ver cfg) = (if ver = v then 1 else 6)"
| "lag v Stopped = 0"
| "lag v Crashed = 0"

lemma lag_max: "lag v p \<le> 7"
  by (cases p) simp_all

lemma lag_main:
  assumes "main_step u s s'" "resources_ok s" "\<not> br_cancelled s" "br_pc s \<noteq> Stopped"
  shows "\<not> br_cancelled s' \<and> br_pc s' \<noteq> Stopped \<and> br_back s' = br_back s \<and> br_updates s' = br_updates s \<and>
    lag (Version (br_store s)) (br_pc s') \<le> lag (Version (br_store s)) (br_pc s) - 1"
  using assms(1)
proof (cases rule: main_step.cases)
  case (read_changed ver cfg dev l t l' ms)
  from assms(2) read_changed(2) obtain bs where "heard bs l" by (auto simp: resources_ok_def)
  from loop_turn_exits [OF this read_changed(5)] read_changed assms(3,4) show ?thesis by auto
next
  case (read_turn ver cfg dev l t l' ms)
  from assms(2) read_turn(2) obtain bs where "heard bs l" by (auto simp: resources_ok_def)
  from loop_turn_runs [OF this read_turn(5)] read_turn assms(3,4) show ?thesis by auto
next
  case (read_ended ver cfg dev l t x l' ms)
  then have "ver = Version (br_store s)" using assms(3) by (auto simp: loop_turn_def split: if_splits)
  with read_ended assms(3) show ?thesis by simp
qed (use assms(3,4) in auto)

lemma lag_current:
  assumes "coherent s" "resources_ok s" "br_updates s < 2 ^ 64" "br_applied s = 0"
    and "lag (Version (br_store s)) (br_pc s) = 0" "br_pc s \<noteq> Stopped"
  shows "current s"
proof -
  have u: "updates_ok s" "session_ok s" using assms(1) by (simp_all add: coherent_def)
  note now = unless_newer_last [OF _ u(1) assms(3) _ assms(4)]
  show ?thesis
    using assms(2,5,6) u(2) now [of "Version (br_store s)"]
    by (cases "br_pc s") (auto simp: current_def session_ok_def resources_ok_def Let_def split: if_splits)
qed

text \<open>A run of the main goroutine in which others act but no update gets to its lock.\<close>

lemma updates_mono:
  "main_steps u srv n s s' \<Longrightarrow> br_updates s \<le> br_updates s' \<and>
    br_updates s + br_applied s \<le> br_updates s' + br_applied s'"
proof (induction rule: main_steps.induct)
  case (main n s s' s'')
  then show ?case by (simp add: main_same [OF main(2)])
next
  case (other n s s' s'')
  from other(2) other.IH show ?case by (cases rule: env_step.cases) auto
qed simp

lemma env_quiet:
  assumes "env_step srv s s'" "br_updates s' = br_updates s" "br_applied s = 0" "br_applied s' = 0"
  shows "br_store s' = br_store s \<and> br_pc s' = br_pc s"
  using assms(1)
proof (cases rule: env_step.cases)
  case (request r now resp b)
  then show ?thesis using serve_no_put [OF request(2), of now "br_status s" "br_back s"] by simp
qed (use assms(2-4) in auto)

lemma quiet_steps:
  assumes "main_steps u srv n s s'" "br_updates s' = br_updates s" "br_applied s' = 0" "\<not> br_cancelled s'"
    and "resources_ok s" "br_pc s \<noteq> Stopped"
  shows "br_store s' = br_store s \<and> br_pc s' \<noteq> Stopped \<and> resources_ok s' \<and>
    lag (Version (br_store s)) (br_pc s') \<le> lag (Version (br_store s)) (br_pc s) - n"
  using assms
proof (induction rule: main_steps.induct)
  case (main n s s' s'')
  then have ih: "br_store s' = br_store s" "br_pc s' \<noteq> Stopped" "resources_ok s'" "\<not> br_cancelled s'"
    "lag (Version (br_store s)) (br_pc s') \<le> lag (Version (br_store s)) (br_pc s) - n"
    by (simp_all add: main_same [OF main(2)])
  from lag_main [OF main(2) ih(3,4,2)] ih resources_ok_main [OF main(2) ih(3)] show ?case by auto
next
  case (other n s s' s'')
  have "br_updates s \<le> br_updates s'" "br_updates s' \<le> br_updates s''"
    "br_updates s' + br_applied s' \<le> br_updates s'' + br_applied s''"
    using updates_mono [OF other(1)] updates_mono [OF main_steps.other [OF main_steps.none other(2)]] by simp_all
  then have q: "br_updates s' = br_updates s" "br_applied s' = 0" "br_updates s'' = br_updates s'"
    using other.prems(1,2) by simp_all
  have "\<not> br_cancelled s'" using other(2) other.prems(3) cancelled_env by blast
  with other.IH q other.prems have ih: "br_store s' = br_store s" "br_pc s' \<noteq> Stopped" "resources_ok s'"
    "lag (Version (br_store s)) (br_pc s') \<le> lag (Version (br_store s)) (br_pc s) - n" by blast+
  from env_quiet [OF other(2) q(3,2) other.prems(2)] ih resources_ok_env [OF other(2) ih(3)] show ?case by simp
qed simp

lemma main_runs:
  assumes "resources_ok s" "\<not> br_cancelled s" "br_pc s \<noteq> Stopped"
  shows "\<exists>s'. (main_step u ^^ n) s s' \<and> resources_ok s' \<and> \<not> br_cancelled s' \<and> br_pc s' \<noteq> Stopped"
proof (induction n)
  case (Suc n)
  then obtain y where y: "(main_step u ^^ n) s y" "resources_ok y" "\<not> br_cancelled y" "br_pc y \<noteq> Stopped"
    by blast
  from main_progress [OF y(2,4)] obtain z where z: "main_step u y z" by blast
  from lag_main [OF z y(2,3,4)] resources_ok_main [OF z y(2)] y(1) z show ?case by auto
qed (use assms in auto)

lemma adopts_settings:
  assumes "bridge_reach u srv (main_start getenv os fs now) s" "br_pc s \<noteq> Stopped" "br_updates s < 2 ^ 64"
    and "main_steps u srv n s s'" "7 \<le> n"
    and "br_updates s' = br_updates s" "br_applied s' = 0" "\<not> br_cancelled s'"
  shows "current s' \<and> br_store s' = br_store s"
proof -
  have ok: "resources_ok s" "coherent s'"
    using reach_resources_ok [OF assms(1)] reach_coherent [OF main_steps_reach [OF assms(4,1)]] by blast+
  from quiet_steps [OF assms(4,6-8) ok(1) assms(2)]
  have *: "br_store s' = br_store s" "br_pc s' \<noteq> Stopped" "resources_ok s'"
    "lag (Version (br_store s)) (br_pc s') \<le> lag (Version (br_store s)) (br_pc s) - n" by blast+
  then have "lag (Version (br_store s')) (br_pc s') = 0"
    using lag_max [of "Version (br_store s)" "br_pc s"] assms(5) by simp
  with lag_current [OF ok(2) *(3) _ assms(7) _ *(2)] *(1) assms(3,6) show ?thesis by simp
qed

lemma main_steps_power: "(main_step u ^^ n) s s' \<Longrightarrow> main_steps u srv n s s'"
proof (induction n arbitrary: s')
  case (Suc n)
  then obtain y where "(main_step u ^^ n) s y" "main_step u y s'" by auto
  then show ?case using Suc.IH main_steps.main by blast
qed (simp add: main_steps.none)

lemma main_same_power: "(main_step u ^^ n) s s' \<Longrightarrow> br_updates s' = br_updates s \<and> br_applied s' = br_applied s"
proof (induction n arbitrary: s')
  case (Suc n)
  then obtain y where "(main_step u ^^ n) s y" "main_step u y s'" by auto
  then show ?case using Suc.IH main_same(2,3) by metis
qed simp

section \<open>The log level follows\<close>

lemma watch_settled:
  assumes "bridge_reach u srv (main_start getenv os fs now) s" "br_updates s < 2 ^ 64" "br_applied s = 0"
    and "\<not> br_pending s" "br_lastVer s = Version (br_store s)"
  shows "br_level s = setLogLevel (c_LogLevel (Get (br_store s)))"
proof -
  have "updates_ok s" "watch_ok s" using reach_coherent [OF assms(1)] by (simp_all add: coherent_def)
  from unless_newer_last [OF this(2) [unfolded watch_ok_def] this(1) assms(2) _ assms(3)] assms(4,5)
  show ?thesis by simp
qed

end
