(* ===== verification/VsfFile.thy ===== *)
theory VsfFile
  imports Registry GoUtf8 GoStrconv
begin

text \<open>
  cmd/gen-registry/main.go, first half: reading the binary VSF specification. A slice or index out
  of range is the value None (a panic), an error return is \<open>Inl\<close>. All offsets come from int32
  fields, so the 64-bit sums cannot wrap and are plain integers. A program that reads a file whose
  counts exceed its memory is not told apart from one that succeeds.
\<close>

section \<open>VSF structures\<close>

record vsPart =
  vp_offset :: uint32
  vp_bitPos :: int  \<comment> \<open>int8\<close>
  vp_mask :: byte
  vp_isSigned :: bool
  vp_factor :: float64
  vp_rawFactor :: int  \<comment> \<open>int64\<close>

record vsField =
  vf_name :: string
  vf_unitText :: string
  vf_precision :: int  \<comment> \<open>int32\<close>
  vf_typeID :: int  \<comment> \<open>int32\<close>
  vf_parts :: "vsPart list"

record vsPacket =
  vk_dst :: uint16
  vk_dstMask :: uint16
  vk_src :: uint16
  vk_srcMask :: uint16
  vk_cmd :: uint16
  vk_name :: string
  vk_fields :: "vsField list"

record vsf =
  vs_texts :: "string list"
  vs_packets :: "vsPacket list"

datatype vsf_error = FileTooShort | SpecOutOfRange

section \<open>Reading numbers\<close>

definition u16 :: "byte list \<Rightarrow> int \<Rightarrow> uint16 option" where
  "u16 b off = do { s \<leftarrow> sliceFrom b off; leUint16 s }"

definition u32 :: "byte list \<Rightarrow> int \<Rightarrow> uint32 option" where
  "u32 b off = do { s \<leftarrow> sliceFrom b off; leUint32 s }"

definition i32 :: "byte list \<Rightarrow> int \<Rightarrow> int option" where
  "i32 b off = map_option sint (u32 b off)"

definition leUint64 :: "byte list \<Rightarrow> uint64 option" where
  "leUint64 b = do {
     lo \<leftarrow> leUint32 b; s \<leftarrow> sliceFrom b 4; hi \<leftarrow> leUint32 s;
     Some (push_bit 32 (ucast hi) OR ucast lo)
   }"

section \<open>Loops\<close>

text \<open>\<open>for i := range n\<close> collecting a value or panicking in each iteration; no iteration for a
  negative \<open>n\<close>. \<open>make\<close> of a slice with a negative length or capacity panics.\<close>

fun collect :: "('a \<Rightarrow> 'b option) \<Rightarrow> 'a list \<Rightarrow> 'b list option" where
  "collect f [] = Some []"
| "collect f (x # xs) = do { y \<leftarrow> f x; ys \<leftarrow> collect f xs; Some (y # ys) }"

definition range_int :: "(int \<Rightarrow> 'b option) \<Rightarrow> int \<Rightarrow> 'b list option" where
  "range_int f n = collect (\<lambda>i. f (int i)) [0..<nat n]"

definition make_range :: "(int \<Rightarrow> 'b option) \<Rightarrow> int \<Rightarrow> 'b list option" where
  "make_range f n = (if n < 0 then None else range_int f n)"

section \<open>Texts\<close>

text \<open>The loop \<open>for end < len(data) && data[end] != 0\<close> from a non-negative start.\<close>

function text_end :: "byte list \<Rightarrow> nat \<Rightarrow> nat" where
  "text_end data e = (if e < length data \<and> data ! e \<noteq> 0 then text_end data (Suc e) else e)"
  by auto
termination by (relation "measure (\<lambda>(data, e). length data - e)") auto

declare text_end.simps [simp del]

definition bytes_string :: "byte list \<Rightarrow> string" where
  "bytes_string bs = map (\<lambda>b. char_of (unat b)) bs"

definition text_at :: "nat \<Rightarrow> byte list \<Rightarrow> int \<Rightarrow> string option" where
  \<comment> \<open>\<open>string(data[strOff:end])\<close>, where the bound of the slice is the capacity of \<open>data\<close>\<close>
  "text_at capacity data strOff =
     (if strOff < 0 then None
      else let i = nat strOff; e = text_end data i
      in if capacity < e then None else Some (bytes_string (take (e - i) (drop i data))))"

definition resolveText :: "string list \<Rightarrow> int \<Rightarrow> string" where
  "resolveText texts idx =
     (if idx < 0 \<or> int (length texts) \<le> idx then [] else texts ! nat idx)"

definition resolveLT :: "byte list \<Rightarrow> string list \<Rightarrow> int \<Rightarrow> int \<Rightarrow> string option" where
  "resolveLT data texts ltTableOff ltIdx =
     (if ltIdx < 0 \<or> ltTableOff = 0 then Some []
      else do { en \<leftarrow> i32 data (ltTableOff + ltIdx * 0x0C); Some (resolveText texts en) })"

definition resolveUnit :: "string list \<Rightarrow> (int \<rightharpoonup> int) \<Rightarrow> int \<Rightarrow> string" where
  "resolveUnit texts units uid = (case units uid of Some t \<Rightarrow> resolveText texts t | None \<Rightarrow> [])"

section \<open>Parts, fields, packets\<close>

definition parsePart :: "byte list \<Rightarrow> int \<Rightarrow> vsPart option" where
  "parsePart data ptOff = do {
     offset \<leftarrow> u32 data ptOff;
     bitPos \<leftarrow> indexZ data (ptOff + 4);
     mask \<leftarrow> indexZ data (ptOff + 5);
     signed \<leftarrow> indexZ data (ptOff + 6);
     s \<leftarrow> sliceFrom data (ptOff + 8);
     rawFactor \<leftarrow> map_option sint (leUint64 s);
     Some \<lparr>vp_offset = offset, vp_bitPos = sint bitPos, vp_mask = mask, vp_isSigned = (signed \<noteq> 0),
       vp_factor = fmul (f_of_int rawFactor) (f_lit 1 (10 ^ 9)), vp_rawFactor = rawFactor\<rparr>
   }"

definition parseField ::
  "byte list \<Rightarrow> string list \<Rightarrow> int \<Rightarrow> (int \<rightharpoonup> int) \<Rightarrow> int \<Rightarrow> int \<Rightarrow> vsField option" where
  "parseField data texts ltTableOff units fieldTableOff j =
     (let fOff = fieldTableOff + j * 0x1C
      in do {
        nameIdx \<leftarrow> i32 data (fOff + 0x04);
        unitID \<leftarrow> i32 data (fOff + 0x08);
        precision \<leftarrow> i32 data (fOff + 0x0C);
        typeID \<leftarrow> i32 data (fOff + 0x10);
        partCount \<leftarrow> i32 data (fOff + 0x14);
        partTableOff \<leftarrow> i32 data (fOff + 0x18);
        name \<leftarrow> resolveLT data texts ltTableOff nameIdx;
        parts \<leftarrow> make_range (\<lambda>k. parsePart data (partTableOff + k * 0x10)) partCount;
        Some \<lparr>vf_name = (if name = [] then ''field_'' @ decInt j else name),
          vf_unitText = resolveUnit texts units unitID, vf_precision = precision, vf_typeID = typeID,
          vf_parts = parts\<rparr>
      })"

definition parsePacket ::
  "byte list \<Rightarrow> string list \<Rightarrow> int \<Rightarrow> (int \<rightharpoonup> int) \<Rightarrow> int \<Rightarrow> int \<Rightarrow> vsPacket option" where
  "parsePacket data texts ltTableOff units pkTableOff i =
     (let pOff = pkTableOff + i * 0x14
      in do {
        dst \<leftarrow> u16 data pOff;
        dstMask \<leftarrow> u16 data (pOff + 2);
        src \<leftarrow> u16 data (pOff + 4);
        srcMask \<leftarrow> u16 data (pOff + 6);
        cmd \<leftarrow> u16 data (pOff + 8);
        fieldCount \<leftarrow> i32 data (pOff + 0x0C);
        fieldTableOff \<leftarrow> i32 data (pOff + 0x10);
        vfs \<leftarrow> make_range (parseField data texts ltTableOff units fieldTableOff) fieldCount;
        Some \<lparr>vk_dst = dst, vk_dstMask = dstMask, vk_src = src, vk_srcMask = srcMask, vk_cmd = cmd,
          vk_name = ''0x'' @ fmt04X src, vk_fields = vfs\<rparr>
      })"

definition parseUnits :: "byte list \<Rightarrow> int \<Rightarrow> int \<Rightarrow> (int \<rightharpoonup> int) option" where
  \<comment> \<open>the loop that fills the map; a later record of the same id replaces the earlier\<close>
  "parseUnits data unitTableOff unitCount = do {
     kvs \<leftarrow> range_int (\<lambda>i. do {
       uid \<leftarrow> i32 data (unitTableOff + i * 0x10);
       t \<leftarrow> i32 data (unitTableOff + i * 0x10 + 0x0C);
       Some (uid, t) }) unitCount;
     Some (map_of (rev kvs))
   }"

definition parseVSF :: "nat \<Rightarrow> byte list \<Rightarrow> (vsf_error + vsf) option" where
  \<comment> \<open>\<open>capacity\<close> is that of the slice \<open>os.ReadFile\<close> returned\<close>
  "parseVSF capacity data =
     (if length data < 0x10 then Some (Inl FileTooShort)
      else do {
        specOff \<leftarrow> i32 data 0x0C;
        if int (length data) < specOff + 0x2C then Some (Inl SpecOutOfRange)
        else do {
          textCount \<leftarrow> i32 data (specOff + 0x04);
          textTableOff \<leftarrow> i32 data (specOff + 0x08);
          ltCount \<leftarrow> i32 data (specOff + 0x0C);
          ltTableOff \<leftarrow> i32 data (specOff + 0x10);
          unitCount \<leftarrow> i32 data (specOff + 0x14);
          unitTableOff \<leftarrow> i32 data (specOff + 0x18);
          pkCount \<leftarrow> i32 data (specOff + 0x24);
          pkTableOff \<leftarrow> i32 data (specOff + 0x28);
          texts \<leftarrow> make_range (\<lambda>i. do {
            strOff \<leftarrow> i32 data (textTableOff + i * 4);
            text_at capacity data strOff }) textCount;
          units \<leftarrow> parseUnits data unitTableOff unitCount;
          packets \<leftarrow> make_range (parsePacket data texts ltTableOff units pkTableOff) pkCount;
          Some (Inr \<lparr>vs_texts = texts, vs_packets = packets\<rparr>)
        }
      })"

section \<open>Reading a malformed file\<close>

text \<open>The bound that is checked is an upper one: a negative offset of the specification block passes it
  and the next read panics.\<close>

lemma sliceFrom_negative: "i < 0 \<Longrightarrow> sliceFrom xs i = None"
  by (simp add: sliceFrom_def)

lemma i32_negative: "i < 0 \<Longrightarrow> i32 b i = None"
  by (simp add: i32_def u32_def sliceFrom_negative)

lemma parseVSF_negative:
  assumes "0x10 \<le> length data" "i32 data 0x0C = Some specOff" "specOff < - 4" "specOff + 0x2C \<le> int (length data)"
  shows "parseVSF capacity data = None"
proof -
  have "i32 data (specOff + 4) = None" using assms(3) by (intro i32_negative) simp
  then show ?thesis using assms by (simp add: parseVSF_def)
qed

lemma parseVSF_errors:
  "parseVSF capacity data = Some (Inl FileTooShort) \<longleftrightarrow> length data < 0x10"
  "parseVSF capacity data = Some (Inl SpecOutOfRange) \<longleftrightarrow>
     0x10 \<le> length data \<and> (\<exists>ofs. i32 data 0x0C = Some ofs \<and> int (length data) < ofs + 0x2C)"
  by (auto simp: parseVSF_def bind_eq_Some_conv split: if_splits)

lemma text_end_bounds: "e \<le> text_end data e \<and> (e \<le> length data \<longrightarrow> text_end data e \<le> length data) \<and>
    (\<forall>i. e \<le> i \<and> i < text_end data e \<longrightarrow> i < length data \<and> data ! i \<noteq> 0)"
proof (induction data e rule: text_end.induct)
  case (1 data e)
  show ?case
  proof (cases "e < length data \<and> data ! e \<noteq> 0")
    case True
    then have te: "text_end data e = text_end data (Suc e)" by (subst text_end.simps) simp
    from 1 True have ih: "Suc e \<le> text_end data (Suc e)" "text_end data (Suc e) \<le> length data"
      "\<And>i. Suc e \<le> i \<Longrightarrow> i < text_end data (Suc e) \<Longrightarrow> i < length data \<and> data ! i \<noteq> 0" by auto
    have "i < length data \<and> data ! i \<noteq> 0" if "e \<le> i" "i < text_end data (Suc e)" for i
      using that True ih(3) [of i] by (cases "i = e") auto
    with ih(1,2) show ?thesis unfolding te by auto
  next
    case False
    then have "text_end data e = e" by (subst text_end.simps) (simp only: if_False)
    then show ?thesis by auto
  qed
qed

lemma text_at_no_nul:
  assumes "text_at capacity data off = Some s"
  shows "CHR 0x00 \<notin> set s"
proof
  assume "CHR 0x00 \<in> set s"
  let ?i = "nat off" and ?e = "text_end data (nat off)"
  from assms have s: "s = bytes_string (take (?e - ?i) (drop ?i data))"
    by (auto simp: text_at_def Let_def split: if_splits)
  with \<open>CHR 0x00 \<in> set s\<close> obtain b where b: "b \<in> set (take (?e - ?i) (drop ?i data))" "char_of (unat b) = CHR 0x00"
    by (auto simp: bytes_string_def)
  from b(1) obtain k where k: "k < ?e - ?i" "k < length data - ?i" "b = data ! (?i + k)"
    by (auto simp: in_set_conv_nth)
  with text_end_bounds [of ?i data] have "b \<noteq> 0" by auto
  moreover have "of_char (char_of (unat b) :: char) = unat b" by simp
  ultimately show False using b(2) by (simp add: unat_eq_0)
qed

end
