(* ===== verification/GenRegistry.thy ===== *)
theory GenRegistry
  imports VsfFile DefaultRegistry Mqtt
begin

text \<open>
  cmd/gen-registry/main.go, second half: from the VSF structures to the source text of
  registry_gen.go. Outside are \<open>go/format\<close>, the tables of package unicode, and \<open>math.Log10\<close>, whose
  rounded result for a factor without a literal of its own is an argument.
\<close>

section \<open>Field layout\<close>

definition Pow10 :: "int \<Rightarrow> float64" where
  \<comment> \<open>\<open>math.Pow10\<close>: two tables of 32 steps\<close>
  "Pow10 n =
     (let k = nat \<bar>n\<bar> in
      if 0 \<le> n \<and> n \<le> 308 then fmul (f_lit (10 ^ (32 * (k div 32))) 1) (f_lit (10 ^ (k mod 32)) 1)
      else if - 323 \<le> n \<and> n \<le> 0 then fdiv (f_lit 1 (10 ^ (32 * (k div 32)))) (f_lit (10 ^ (k mod 32)) 1)
      else if n > 0 then FInf False else f_of_int 0)"

definition four_factors :: "int list" where
  "four_factors = [1, 256, 65536, 16777216]"

definition mapField :: "vsField \<Rightarrow> (FieldType \<times> uint32 \<times> float64) option" where
  \<comment> \<open>None: not ok\<close>
  "mapField f =
     (let scale = Pow10 (- vf_precision f) in
      case vf_parts f of
        [] \<Rightarrow> None
      | [p0] \<Rightarrow>
          if vp_bitPos p0 \<noteq> 0 \<or> vp_mask p0 = 0 then None
          else if vp_mask p0 \<noteq> 0xFF then None
          else if vp_isSigned p0 then Some (Int16, vp_offset p0, scale)
          else Some (Uint8, vp_offset p0, scale)
      | [p0, p1] \<Rightarrow>
          if vp_rawFactor p0 \<noteq> 1 \<or> vp_rawFactor p1 \<noteq> 256 then None
          else if vp_mask p0 \<noteq> 0xFF \<or> vp_mask p1 \<noteq> 0xFF then None
          else if vp_isSigned p1 then Some (Int16, vp_offset p0, scale)
          else Some (Uint16, vp_offset p0, scale)
      | [p0, p1, p2, p3] \<Rightarrow>
          if list_all2 (\<lambda>p e. vp_rawFactor p = e \<and> vp_mask p = 0xFF) [p0, p1, p2, p3] four_factors
          then Some (Uint32, vp_offset p0, scale) else None
      | _ \<Rightarrow> None)"

section \<open>Names and literals\<close>

fun fieldName_loop :: "unicode \<Rightarrow> nat list \<Rightarrow> nat \<Rightarrow> string \<Rightarrow> string" where
  \<comment> \<open>\<open>prev\<close> and what is written so far\<close>
  "fieldName_loop u [] prev b = b"
| "fieldName_loop u (r # rs) prev b =
     (if isLetter u r \<or> isDigitRune u r then fieldName_loop u rs r (b @ encodeRune r)
      else if r = 32 \<or> r = 45 \<or> r = 47 then
        (if prev \<noteq> 95 then fieldName_loop u rs 95 (b @ encodeRune 95) else fieldName_loop u rs prev b)
      else fieldName_loop u rs prev b)"

definition toGoFieldName :: "unicode \<Rightarrow> string \<Rightarrow> string" where
  "toGoFieldName u s =
     (let result = trimRight CHR ''_'' (fieldName_loop u (runes (ToLower u s)) 95 [])
      in if result = [] then ''field'' else result)"

definition factorLit :: "(float64 \<Rightarrow> int) \<Rightarrow> float64 \<Rightarrow> string" where
  \<comment> \<open>\<open>log10\<close> is \<open>int(math.Round(math.Log10(f)))\<close>\<close>
  "factorLit log10 f =
     (if f = f_lit 1 1 then ''1.0''
      else if f = f_lit 1 10 then ''0.1''
      else if f = f_lit 1 100 then ''0.01''
      else if f = f_lit 1 1000 then ''0.001''
      else ''math.Pow10('' @ decInt (log10 f) @ '')'')"

fun type_name :: "FieldType \<Rightarrow> string" where
  \<comment> \<open>the strings \<open>mapField\<close> returns for the types\<close>
  "type_name Int16 = ''Int16''"
| "type_name Uint8 = ''Uint8''"
| "type_name Uint16 = ''Uint16''"
| "type_name Uint32 = ''Uint32''"
| "type_name _ = []"

section \<open>The generated text\<close>

text \<open>What stays outside: the tables, \<open>%q\<close>, \<open>math.Log10\<close> and \<open>format.Source\<close>.\<close>

record gen_env =
  ge_unicode :: unicode
  ge_quote :: "string \<Rightarrow> string"
  ge_log10 :: "float64 \<Rightarrow> int"
  ge_format :: "string \<Rightarrow> string option"

definition nl :: char where "nl = CHR 0x0A"
definition tab :: char where "tab = CHR 0x09"
definition dq :: char where "dq = CHR 0x22"

definition gen_head :: string where
  "gen_head = concat (map (\<lambda>l. l @ [nl])
     [''// Code generated by cmd/gen-registry. DO NOT EDIT.'',
      ''// Source: tools/vbus_specification.vsf (Daniel Wippermann resol-vbus)'',
      ''// Regenerate: go run ./cmd/gen-registry tools/vbus_specification.vsf'',
      [], ''package vbus'', [], ''import '' @ [dq] @ ''math'' @ [dq], [],
      ''func init() {'',
      [tab] @ ''for k, v := range generatedRegistry {'',
      [tab, tab] @ ''if _, exists := DefaultRegistry[k]; !exists {'',
      [tab, tab, tab] @ ''DefaultRegistry[k] = v'',
      [tab, tab] @ ''}'', [tab] @ ''}'', ''}'', [],
      ''var generatedRegistry = Registry{''])"

definition fieldLine :: "gen_env \<Rightarrow> vsField \<Rightarrow> string option" where
  "fieldLine e f =
     (case mapField f of
        None \<Rightarrow> None
      | Some (ft, offset, factor) \<Rightarrow>
          Some ([tab, tab, tab] @ ''{Name: '' @ ge_quote e (toGoFieldName (ge_unicode e) (vf_name f)) @
            '', Offset: '' @ dec (unat offset) @ '', Type: '' @ type_name ft @
            '', Factor: '' @ factorLit (ge_log10 e) factor @
            '', Unit: '' @ ge_quote e (vf_unitText f) @ ''},''))"

definition packet_selected :: "vsPacket \<Rightarrow> bool" where
  \<comment> \<open>the three \<open>continue\<close>s before the field loop\<close>
  "packet_selected pk \<longleftrightarrow> vk_fields pk \<noteq> [] \<and> vk_dst pk = 0x0010 \<and> vk_cmd pk = 0x0100 \<and>
     vk_srcMask pk = 0xFFFF \<and> vk_dstMask pk = 0xFFFF"

definition packetText :: "gen_env \<Rightarrow> vsPacket \<Rightarrow> string" where
  "packetText e pk =
     (if \<not> packet_selected pk then []
      else let fieldLines = List.map_filter (fieldLine e) (vk_fields pk)
      in if fieldLines = [] then []
      else [tab] @ ''// '' @ vk_name pk @ '' src=0x'' @ fmt04X (vk_src pk) @ '' dst=0x'' @ fmt04X (vk_dst pk) @
             '' cmd=0x'' @ fmt04X (vk_cmd pk) @ [nl] @
           [tab] @ ''pkey(0x'' @ fmt04X (vk_src pk) @ '', 0x'' @ fmt04X (vk_dst pk) @ '', 0x'' @
             fmt04X (vk_cmd pk) @ ''): {'' @ [nl] @
           [tab, tab] @ ''DeviceName: '' @ ge_quote e (vk_name pk) @ '','' @ [nl] @
           [tab, tab] @ ''Fields: []FieldDef{'' @ [nl] @
           concat (map (\<lambda>l. l @ [nl]) fieldLines) @
           [tab, tab] @ ''},'' @ [nl] @ [tab] @ ''},'' @ [nl])"

fun starts_with :: "string \<Rightarrow> string \<Rightarrow> bool" where
  "starts_with [] s = True"
| "starts_with (c # cs) [] = False"
| "starts_with (c # cs) (d # ds) = (c = d \<and> starts_with cs ds)"

fun contains :: "string \<Rightarrow> string \<Rightarrow> bool" where
  "contains [] sub = (sub = [])"
| "contains (c # cs) sub = (starts_with sub (c # cs) \<or> contains cs sub)"

fun replaceFirst :: "string \<Rightarrow> string \<Rightarrow> string \<Rightarrow> string" where
  "replaceFirst [] old new = (if old = [] then new else [])"
| "replaceFirst (c # cs) old new =
     (if starts_with old (c # cs) then new @ drop (length old) (c # cs) else c # replaceFirst cs old new)"

definition generate :: "gen_env \<Rightarrow> vsf \<Rightarrow> string option" where
  "generate e spec =
     (let src = gen_head @ concat (map (packetText e) (vs_packets spec)) @ ''}'' @ [nl];
          src = (if \<not> contains src ''math.''
                 then replaceFirst src ([nl] @ ''import '' @ [dq] @ ''math'' @ [dq, nl]) [nl] else src)
      in ge_format e src)"

section \<open>The command\<close>

text \<open>\<open>main\<close>: the arguments, the file with its contents and the capacity of the slice, and whether
  writing works; the result is the fatal message or what was written, None for a panic.\<close>

datatype gen_exit =
    GenUsage | GenReadFailed | GenParseFailed vsf_error | GenFormatFailed | GenWriteFailed | Wrote string nat

definition gen_main ::
  "gen_env \<Rightarrow> string list \<Rightarrow> (string \<rightharpoonup> nat \<times> byte list) \<Rightarrow> bool \<Rightarrow> gen_exit option" where
  "gen_main e args readFile writes =
     (if length args < 2 then Some GenUsage
      else case readFile (args ! 1) of
        None \<Rightarrow> Some GenReadFailed
      | Some (capacity, data) \<Rightarrow>
          (case parseVSF capacity data of
             None \<Rightarrow> None
           | Some (Inl err) \<Rightarrow> Some (GenParseFailed err)
           | Some (Inr spec) \<Rightarrow>
               (case generate e spec of
                  None \<Rightarrow> Some GenFormatFailed
                | Some src \<Rightarrow> if \<not> writes then Some GenWriteFailed
                    else Some (Wrote src (length (vs_packets spec))))))"

section \<open>The layout reads what the specification means\<close>

text \<open>
  The value of a VSF field: each part is a byte of the payload, signed if the part says so,
  weighted by its factor. A layout the registry can express: one unsigned byte, or two or four
  consecutive ones of which only the second of two may be signed.
\<close>

definition part_value :: "byte list \<Rightarrow> vsPart \<Rightarrow> int" where
  "part_value payload p = (let b = payload ! unat (vp_offset p)
     in vp_rawFactor p * (if vp_isSigned p then sint b else uint b))"

definition vsf_reading :: "byte list \<Rightarrow> vsPart list \<Rightarrow> int" where
  "vsf_reading payload ps = sum_list (map (part_value payload) ps)"

definition consecutive :: "vsPart list \<Rightarrow> bool" where
  "consecutive ps \<longleftrightarrow>
     (\<forall>i < length ps. unat (vp_offset (ps ! i)) = unat (vp_offset (ps ! 0)) + i)"

definition expressible :: "vsPart list \<Rightarrow> bool" where
  "expressible ps \<longleftrightarrow> consecutive ps \<and>
     (case ps of [p0] \<Rightarrow> vp_rawFactor p0 = 1 \<and> \<not> vp_isSigned p0
      | [p0, p1] \<Rightarrow> \<not> vp_isSigned p0
      | _ \<Rightarrow> list_all (\<lambda>p. \<not> vp_isSigned p) ps)"

lemma mapField_cases:
  assumes "mapField f = Some (ft, ofs, scale)"
  shows "(\<exists>p. vf_parts f = [p] \<and> vp_bitPos p = 0 \<and> vp_mask p = 0xFF \<and> ofs = vp_offset p \<and>
            ft = (if vp_isSigned p then Int16 else Uint8)) \<or>
         (\<exists>p q. vf_parts f = [p, q] \<and> vp_rawFactor p = 1 \<and> vp_rawFactor q = 256 \<and> vp_mask p = 0xFF \<and>
            vp_mask q = 0xFF \<and> ofs = vp_offset p \<and> ft = (if vp_isSigned q then Int16 else Uint16)) \<or>
         (\<exists>p q r s. vf_parts f = [p, q, r, s] \<and> map vp_rawFactor [p, q, r, s] = four_factors \<and>
            ofs = vp_offset p \<and> ft = Uint32)"
  using assms
  by (auto simp: mapField_def Let_def four_factors_def split: list.splits if_splits)

lemma sint_byte: "sint (b :: byte) = (if uint b < 128 then uint b else uint b - 256)"
proof -
  have "uint b div 128 = (if uint b < 128 then 0 else 1)"
    using uint_byte_bounds [of b] int_div_pos_eq [of "uint b" 128 1 "uint b - 128"]
    by (simp add: div_pos_pos_trivial)
  then have b: "bit (uint b) 7 \<longleftrightarrow> \<not> uint b < 128" by (simp add: bit_iff_odd)
  have "sint b = signed_take_bit 7 (uint b)" by (simp add: sint_uint)
  then show ?thesis
    using b uint_byte_bounds [of b]
    by (simp add: signed_take_bit_eq_take_bit_minus take_bit_eq_mod)
qed

lemma take_drop_bytes:
  "k + 1 \<le> length xs \<Longrightarrow> take 1 (drop k xs) = [xs ! k]"
  "k + 2 \<le> length xs \<Longrightarrow> take 2 (drop k xs) = [xs ! k, xs ! (k + 1)]"
  "k + 4 \<le> length xs \<Longrightarrow> take 4 (drop k xs) = [xs ! k, xs ! (k + 1), xs ! (k + 2), xs ! (k + 3)]"
  using take_drop_nths [of k 1 xs] take_drop_nths [of k 2 xs] take_drop_nths [of k 4 xs]
  by (simp_all add: upt_rec eval_nat_numeral)

lemma consecutive_simps:
  "consecutive [p, q] \<longleftrightarrow> unat (vp_offset q) = unat (vp_offset p) + 1"
  "consecutive [p, q, r, s] \<longleftrightarrow> unat (vp_offset q) = unat (vp_offset p) + 1 \<and>
     unat (vp_offset r) = unat (vp_offset p) + 2 \<and> unat (vp_offset s) = unat (vp_offset p) + 3"
  by (auto simp: consecutive_def less_Suc_eq eval_nat_numeral)

text \<open>What each type reads, byte by byte.\<close>

lemma reading_Uint8:
  "k + 1 \<le> length payload \<Longrightarrow> raw_reading payload (fld n (int k) Uint8 sc un) = uint (payload ! k)"
  using take_drop_bytes(1) [of k payload] by (simp add: raw_reading_def fld_def bytes_value_def)

lemma reading_Uint16:
  "k + 2 \<le> length payload \<Longrightarrow> raw_reading payload (fld n (int k) Uint16 sc un) =
     uint (payload ! k) + 256 * uint (payload ! (k + 1))"
  using take_drop_bytes(2) [of k payload] by (simp add: raw_reading_def fld_def bytes_value_def)

lemma reading_Int16:
  assumes "k + 2 \<le> length payload"
  shows "raw_reading payload (fld n (int k) Int16 sc un) =
     uint (payload ! k) + 256 * sint (payload ! (k + 1))"
proof -
  have split: "(if a + 256 * b < 2 ^ 15 then a + 256 * b else a + 256 * b - 2 ^ 16) =
      a + 256 * (if b < 128 then b else b - 256)" if "0 \<le> a" "a < 256" for a b :: int
    using that by simp
  have "raw_reading payload (fld n (int k) Int16 sc un) =
      (let n = uint (payload ! k) + 256 * uint (payload ! (k + 1)) in if n < 2 ^ 15 then n else n - 2 ^ 16)"
    using take_drop_bytes(2) [of k payload] assms by (simp add: raw_reading_def fld_def bytes_value_def)
  then show ?thesis
    using split [of "uint (payload ! k)" "uint (payload ! (k + 1))"] uint_byte_bounds [of "payload ! k"]
    by (simp only: Let_def sint_byte)
qed

lemma reading_Uint32:
  "k + 4 \<le> length payload \<Longrightarrow> raw_reading payload (fld n (int k) Uint32 sc un) =
     uint (payload ! k) + 256 * uint (payload ! (k + 1)) + 65536 * uint (payload ! (k + 2)) +
     16777216 * uint (payload ! (k + 3))"
  using take_drop_bytes(3) [of k payload] by (simp add: raw_reading_def fld_def bytes_value_def)

lemma mapField_reads:
  assumes "mapField f = Some (ft, ofs, scale)" "expressible (vf_parts f)"
    and "unat ofs + length (vf_parts f) \<le> length payload"
  shows "raw_reading payload (fld n (int (unat ofs)) ft sc un) = vsf_reading payload (vf_parts f)"
  using mapField_cases [OF assms(1)]
proof (elim disjE exE conjE)
  fix p assume p: "vf_parts f = [p]" "ofs = vp_offset p" "ft = (if vp_isSigned p then Int16 else Uint8)"
  then have ft: "ft = Uint8" and k: "unat ofs + 1 \<le> length payload"
    using assms(2,3) by (simp_all add: expressible_def)
  show ?thesis
    unfolding ft reading_Uint8 [OF k] using p assms(2) by (simp add: expressible_def vsf_reading_def part_value_def)
next
  fix p q assume pq: "vf_parts f = [p, q]" "vp_rawFactor p = 1" "vp_rawFactor q = 256" "ofs = vp_offset p"
    "ft = (if vp_isSigned q then Int16 else Uint16)"
  then have o: "unat (vp_offset q) = unat ofs + 1" "\<not> vp_isSigned p" and k: "unat ofs + 2 \<le> length payload"
    using assms(2,3) by (simp_all add: expressible_def consecutive_simps)
  show ?thesis
    unfolding pq(5) using pq o reading_Uint16 [OF k] reading_Int16 [OF k]
    by (simp add: vsf_reading_def part_value_def)
next
  fix p q r s assume p: "vf_parts f = [p, q, r, s]" "map vp_rawFactor [p, q, r, s] = four_factors"
    "ofs = vp_offset p" "ft = Uint32"
  then have o: "unat (vp_offset q) = unat ofs + 1" "unat (vp_offset r) = unat ofs + 2"
    "unat (vp_offset s) = unat ofs + 3" "\<not> vp_isSigned p" "\<not> vp_isSigned q" "\<not> vp_isSigned r" "\<not> vp_isSigned s"
    and k: "unat ofs + 4 \<le> length payload"
    using assms(2,3) by (simp_all add: expressible_def consecutive_simps)
  show ?thesis
    unfolding p(4) reading_Uint32 [OF k] using p o
    by (simp add: vsf_reading_def part_value_def four_factors_def)
qed

text \<open>What it does with the others: a signed byte reads its neighbour as well, and four signed bytes
  lose their sign.\<close>

lemma signed_byte_reads_two:
  assumes "vf_parts f = [p]" "vp_isSigned p" "vp_rawFactor p = 1" "mapField f = Some (ft, ofs, scale)"
    and "unat ofs + 2 \<le> length payload"
  shows "ft = Int16 \<and>
    (raw_reading payload (fld n (int (unat ofs)) ft sc un) = vsf_reading payload (vf_parts f) \<longleftrightarrow>
      uint (payload ! (unat ofs + 1)) = (if uint (payload ! unat ofs) < 128 then 0 else 255))"
proof -
  have f: "ofs = vp_offset p" "ft = Int16" using mapField_cases [OF assms(4)] assms(1,2) by auto
  have bytes: "a + 256 * (if b < 128 then b else b - 256) = (if a < 128 then a else a - 256) \<longleftrightarrow>
      b = (if a < 128 then 0 else 255)" if "0 \<le> a" "a < 256" "0 \<le> b" "b < 256" for a b :: int
    using that by (cases "a < 128"; cases "b < 128") simp_all
  have "vsf_reading payload (vf_parts f) = sint (payload ! unat ofs)"
    using assms(1-3) f by (simp add: vsf_reading_def part_value_def)
  then show ?thesis
    unfolding f(2) reading_Int16 [OF assms(5)] sint_byte
    using bytes [of "uint (payload ! unat ofs)" "uint (payload ! (unat ofs + 1))"]
      uint_byte_bounds [of "payload ! unat ofs"] uint_byte_bounds [of "payload ! (unat ofs + 1)"]
    by (simp only: simp_thms)
qed

lemma signed_word_wraps:
  assumes "vf_parts f = [p, q, r, s]" "consecutive [p, q, r, s]" "vp_isSigned s"
    and "\<not> vp_isSigned p" "\<not> vp_isSigned q" "\<not> vp_isSigned r" "mapField f = Some (ft, ofs, scale)"
    and "unat ofs + 4 \<le> length payload"
  shows "ft = Uint32 \<and>
    raw_reading payload (fld n (int (unat ofs)) ft sc un) = vsf_reading payload (vf_parts f) mod 2 ^ 32"
proof -
  have f: "ofs = vp_offset p" "ft = Uint32" "map vp_rawFactor [p, q, r, s] = four_factors"
    using mapField_cases [OF assms(7)] assms(1) by auto
  let ?b = "\<lambda>i. uint (payload ! (unat ofs + i))"
  have v: "vsf_reading payload (vf_parts f) =
      uint (payload ! unat ofs) + 256 * ?b 1 + 65536 * ?b 2 + 16777216 * sint (payload ! (unat ofs + 3))"
    using assms(1-6) f by (simp add: vsf_reading_def part_value_def four_factors_def Let_def consecutive_simps)
  have bytes: "a + 256 * b + 65536 * c + 16777216 * d =
      (a + 256 * b + 65536 * c + 16777216 * (if d < 128 then d else d - 256)) mod 2 ^ 32"
    if "0 \<le> a" "a < 256" "0 \<le> b" "b < 256" "0 \<le> c" "c < 256" "0 \<le> d" "d < 256" for a b c d :: int
  proof -
    let ?n = "a + 256 * b + 65536 * c + 16777216 * d"
    have n: "?n mod 2 ^ 32 = ?n" by (rule mod_pos_pos_trivial) (use that in simp_all)
    have m: "a + 256 * b + 65536 * c + 16777216 * (d - 256) = ?n - 2 ^ 32" by simp
    show ?thesis
    proof (cases "d < 128")
      case True
      then show ?thesis using n by (simp only: if_True)
    next
      case False
      then show ?thesis using n by (simp only: if_False m minus_mod_self2)
    qed
  qed
  have b: "0 \<le> uint (x :: byte)" "uint x < 256" for x using uint_byte_bounds [of x] by blast+
  show ?thesis
    unfolding f(2) v reading_Uint32 [OF assms(8)] sint_byte
    using bytes [OF b(1,2) b(1,2) b(1,2) b(1,2)] by (simp only: simp_thms)
qed

section \<open>The registry a text stands for\<close>

definition field_entry :: "unicode \<Rightarrow> vsField \<Rightarrow> FieldDef option" where
  "field_entry u f = map_option (\<lambda>(ft, ofs, factor).
     fld (toGoFieldName u (vf_name f)) (int (unat ofs)) ft factor (vf_unitText f)) (mapField f)"

definition broadcast :: "vsPacket \<Rightarrow> bool" where
  \<comment> \<open>sent to the address 0x0010 with command 0x0100, by exactly one source\<close>
  "broadcast pk \<longleftrightarrow> vk_dst pk = 0x0010 \<and> vk_dstMask pk = 0xFFFF \<and> vk_srcMask pk = 0xFFFF \<and> vk_cmd pk = 0x0100"

definition packet_entry :: "unicode \<Rightarrow> vsPacket \<Rightarrow> (uint64 \<times> PacketDef) option" where
  "packet_entry u pk =
     (let fds = List.map_filter (field_entry u) (vk_fields pk)
      in if broadcast pk \<and> fds \<noteq> []
         then Some (pkey (vk_src pk) (vk_dst pk) (vk_cmd pk), pd (vk_name pk) fds) else None)"

definition entries :: "unicode \<Rightarrow> vsf \<Rightarrow> (uint64 \<times> PacketDef) list" where
  "entries u spec = List.map_filter (packet_entry u) (vs_packets spec)"

text \<open>A field and a packet in the syntax of the table.\<close>

definition render_field :: "gen_env \<Rightarrow> FieldDef \<Rightarrow> string" where
  "render_field e fd = [tab, tab, tab] @ ''{Name: '' @ ge_quote e (fd_Name fd) @
     '', Offset: '' @ dec (nat (fd_Offset fd)) @ '', Type: '' @ type_name (fd_Type fd) @
     '', Factor: '' @ factorLit (ge_log10 e) (fd_Factor fd) @
     '', Unit: '' @ ge_quote e (fd_Unit fd) @ ''},''"

definition render_packet :: "gen_env \<Rightarrow> uint64 \<times> PacketDef \<Rightarrow> string" where
  "render_packet e = (\<lambda>(k, d).
     let key = fmt04X (ucast (drop_bit 32 k)) @ '', 0x'' @ fmt04X (ucast (drop_bit 16 k)) @ '', 0x'' @ fmt04X (ucast k)
     in [tab] @ ''// '' @ pd_DeviceName d @ '' src=0x'' @ fmt04X (ucast (drop_bit 32 k)) @
          '' dst=0x'' @ fmt04X (ucast (drop_bit 16 k)) @ '' cmd=0x'' @ fmt04X (ucast k) @ [nl] @
        [tab] @ ''pkey(0x'' @ key @ ''): {'' @ [nl] @
        [tab, tab] @ ''DeviceName: '' @ ge_quote e (pd_DeviceName d) @ '','' @ [nl] @
        [tab, tab] @ ''Fields: []FieldDef{'' @ [nl] @
        concat (map (\<lambda>fd. render_field e fd @ [nl]) (pd_Fields d)) @
        [tab, tab] @ ''},'' @ [nl] @ [tab] @ ''},'' @ [nl])"

lemma fieldLine_renders: "fieldLine e f = map_option (render_field e) (field_entry (ge_unicode e) f)"
  by (simp add: fieldLine_def field_entry_def render_field_def fld_def split: option.split prod.split)

lemma map_filter_map_option:
  "List.map_filter (\<lambda>x. map_option g (f x)) xs = map g (List.map_filter f xs)"
  by (induction xs) (simp_all add: List.map_filter_simps split: option.split)

lemma fieldLines_render:
  "List.map_filter (fieldLine e) fs = map (render_field e) (List.map_filter (field_entry (ge_unicode e)) fs)"
  unfolding fieldLine_renders by (rule map_filter_map_option)

lemma map_filter_some: "List.map_filter f xs \<noteq> [] \<Longrightarrow> xs \<noteq> []"
  by (auto simp: List.map_filter_simps)

lemma packetText_renders:
  "packetText e pk = (case packet_entry (ge_unicode e) pk of None \<Rightarrow> [] | Some en \<Rightarrow> render_packet e en)"
  using map_filter_some [of "field_entry (ge_unicode e)" "vk_fields pk"]
  by (auto simp: packetText_def packet_entry_def packet_selected_def broadcast_def fieldLines_render
      render_packet_def pkey_parts pd_def Let_def comp_def)

lemma packets_render:
  "concat (map (packetText e) pks) =
     concat (map (render_packet e) (List.map_filter (packet_entry (ge_unicode e)) pks))"
  by (induction pks) (simp_all add: packetText_renders List.map_filter_simps split: option.split)

lemma generate_renders:
  "generate e spec =
     (let src = gen_head @ concat (map (render_packet e) (entries (ge_unicode e) spec)) @ ''}'' @ [nl]
      in ge_format e (if contains src ''math.'' then src
           else replaceFirst src ([nl] @ ''import '' @ [dq] @ ''math'' @ [dq, nl]) [nl]))"
  by (simp add: generate_def packets_render entries_def Let_def)

section \<open>What every generated table satisfies\<close>

lemma map_filter_set: "y \<in> set (List.map_filter f xs) \<longleftrightarrow> (\<exists>x \<in> set xs. f x = Some y)"
  by (induction xs) (auto simp: List.map_filter_simps split: option.split)

lemma toGoFieldName_nonempty: "toGoFieldName u s \<noteq> []"
  by (simp add: toGoFieldName_def Let_def)

lemma field_entry_ok:
  assumes "field_entry u f = Some fd"
  shows "0 \<le> fd_Offset fd \<and> fd_Offset fd < 2 ^ 32 \<and> fd_Type fd \<in> {Int16, Uint8, Uint16, Uint32} \<and>
    fd_BitIndex fd = 0 \<and> fd_Name fd \<noteq> []"
proof -
  from assms obtain ft ofs scale where m: "mapField f = Some (ft, ofs, scale)"
    "fd = fld (toGoFieldName u (vf_name f)) (int (unat ofs)) ft scale (vf_unitText f)"
    by (auto simp: field_entry_def)
  have "ft \<in> {Int16, Uint8, Uint16, Uint32}" using mapField_cases [OF m(1)] by (auto split: if_splits)
  moreover have "uint ofs < 2 ^ 32" using unsigned_less [of ofs, where 'a = int] by simp
  ultimately show ?thesis using m(2) toGoFieldName_nonempty by (simp add: fld_def)
qed

lemma packet_entry_ok:
  assumes "packet_entry u pk = Some (k, d)"
  shows "k = pkey (vk_src pk) 0x0010 0x0100 \<and> pd_Fields d \<noteq> [] \<and> pd_DeviceName d = vk_name pk \<and> packet_ok d"
proof -
  let ?fds = "List.map_filter (field_entry u) (vk_fields pk)"
  have d: "broadcast pk" "?fds \<noteq> []" "d = pd (vk_name pk) ?fds" "k = pkey (vk_src pk) (vk_dst pk) (vk_cmd pk)"
    using assms by (auto simp: packet_entry_def Let_def split: if_splits)
  have "field_ok fd" if "fd \<in> set ?fds" for fd
    using that field_entry_ok [of u _ fd] by (fastforce simp: map_filter_set field_ok_def)
  then show ?thesis using d by (auto simp: broadcast_def pd_def packet_ok_def list_all_iff)
qed

lemma entries_ok: "(k, d) \<in> set (entries u spec) \<Longrightarrow> packet_ok d"
  using packet_entry_ok by (auto simp: entries_def map_filter_set)

lemma generated_registry_ok:
  assumes "set gen \<subseteq> set (entries u spec)"
  shows "registry_ok (initGenerated gen (initCustom customRegistry Map.empty))"
proof -
  have "packet_ok d" if "initGenerated gen (initCustom customRegistry Map.empty) k = Some d" for k d
  proof (cases "initCustom customRegistry Map.empty k")
    case None
    with that have "(k, d) \<in> set gen" by (auto simp: initGenerated_lookup dest: map_of_SomeD)
    with assms entries_ok show ?thesis by blast
  next
    case (Some d')
    with that have "DefaultRegistry k = Some d" by (simp add: initGenerated_lookup DefaultRegistry_def)
    with DefaultRegistry_ok show ?thesis by (auto simp: registry_ok_def ran_def)
  qed
  then show ?thesis by (auto simp: registry_ok_def ran_def)
qed

section \<open>Field names\<close>

fun no_double :: "string \<Rightarrow> bool" where
  "no_double (c # d # cs) \<longleftrightarrow> \<not> (c = CHR ''_'' \<and> d = CHR ''_'') \<and> no_double (d # cs)"
| "no_double [c] \<longleftrightarrow> True"
| "no_double [] \<longleftrightarrow> True"

definition name_char :: "char \<Rightarrow> bool" where
  \<comment> \<open>an ASCII digit, a lower-case ASCII letter or an underscore\<close>
  "name_char c \<longleftrightarrow> (let n = (of_char c :: nat) in between 48 57 n \<or> between 97 122 n \<or> n = 95)"

lemma no_double_append:
  "no_double (xs @ ys) \<longleftrightarrow> no_double xs \<and> no_double ys \<and>
     (xs = [] \<or> ys = [] \<or> \<not> (last xs = CHR ''_'' \<and> hd ys = CHR ''_''))"
proof (induction xs rule: no_double.induct)
  case (1 c d cs)
  then show ?case by auto
next
  case (2 c)
  then show ?case by (cases ys) auto
qed simp

text \<open>What the loop has written: no underscore first, none twice, and \<open>prev\<close> tells the last one.\<close>

definition written :: "nat \<Rightarrow> string \<Rightarrow> bool" where
  "written prev b \<longleftrightarrow> no_double b \<and> (b \<noteq> [] \<longrightarrow> hd b \<noteq> CHR ''_'') \<and>
     (prev \<noteq> 95 \<longrightarrow> b \<noteq> [] \<and> last b \<noteq> CHR ''_'')"

lemma underscore: "char_of (95 :: nat) = CHR ''_''"
proof -
  have "(of_char CHR ''_'' :: nat) = 95" by simp
  then show ?thesis by (metis char_of_char)
qed

lemma encodeRune_95: "encodeRune 95 = ''_''"
  by (simp add: encodeRune_ascii underscore)

lemma encodeRune_plain:
  assumes "scalar r" "r \<noteq> 95"
  shows "CHR ''_'' \<notin> set (encodeRune r) \<and> encodeRune r \<noteq> []"
proof (cases "r < 128")
  case True
  then have "of_char (char_of r :: char) = r" by simp
  moreover have "(of_char CHR ''_'' :: nat) = 95" by simp
  ultimately have "CHR ''_'' \<noteq> char_of r" using assms(2) by metis
  with True show ?thesis by (simp add: encodeRune_ascii)
next
  case False
  have "128 \<le> b \<and> b < 256" if "b \<in> set (encodeBytes r)" for b
    using that False encodeBytes_high [of r b] encodeBytes_byte [OF assms(1)] by (auto simp: list_all_iff)
  then have "char_of b \<noteq> CHR ''_''" if b: "b \<in> set (encodeBytes r)" for b
  proof -
    have "128 \<le> b" "b < 256" using b \<open>\<And>b. b \<in> set (encodeBytes r) \<Longrightarrow> 128 \<le> b \<and> b < 256\<close> by blast+
    then have "of_char (char_of b :: char) = b" by simp
    moreover have "(of_char CHR ''_'' :: nat) = 95" by simp
    ultimately show ?thesis using \<open>128 \<le> b\<close> by force
  qed
  then show ?thesis by (force simp: encodeRune_def)
qed

lemma no_underscore_no_double: "CHR ''_'' \<notin> set xs \<Longrightarrow> no_double xs"
  by (induction xs rule: no_double.induct) auto

lemma written_loop:
  "list_all scalar rs \<Longrightarrow> written prev b \<Longrightarrow> \<exists>prev'. written prev' (fieldName_loop u rs prev b)"
proof (induction rs arbitrary: prev b)
  case (Cons r rs)
  have sr: "scalar r" "list_all scalar rs" using Cons.prems(1) by simp_all
  consider "isLetter u r \<or> isDigitRune u r" | "\<not> (isLetter u r \<or> isDigitRune u r)" "r = 32 \<or> r = 45 \<or> r = 47" "prev \<noteq> 95"
    | "fieldName_loop u (r # rs) prev b = fieldName_loop u rs prev b"
    by (metis fieldName_loop.simps(2))
  then show ?case
  proof cases
    case 1
    then have "r \<noteq> 95" by (auto simp: isLetter_def isDigitRune_def between_def)
    note e = encodeRune_plain [OF sr(1) this]
    have "no_double (encodeRune r)" using e no_underscore_no_double by blast
    moreover have "hd (encodeRune r) \<noteq> CHR ''_''" "last (encodeRune r) \<noteq> CHR ''_''"
      using e by (metis hd_in_set, metis last_in_set)
    ultimately have "written r (b @ encodeRune r)"
      using Cons.prems(2) e by (auto simp: written_def no_double_append hd_append)
    with Cons.IH [OF sr(2)] 1 show ?thesis by simp
  next
    case 2
    then have "written 95 (b @ encodeRune 95)"
      using Cons.prems(2) by (simp add: written_def no_double_append encodeRune_95)
    with Cons.IH [OF sr(2) this] 2 show ?thesis by simp
  next
    case 3
    with Cons.IH [OF sr(2) Cons.prems(2)] show ?thesis by simp
  qed
qed auto

lemma trimRight_split: "\<exists>rest. s = trimRight c s @ rest"
  unfolding trimRight_def by (metis rev_append rev_rev_ident takeWhile_dropWhile_id)

lemma trimRight_last: "trimRight c s \<noteq> [] \<Longrightarrow> last (trimRight c s) \<noteq> c"
  using hd_dropWhile [of "\<lambda>x. x = c" "rev s"] by (auto simp: trimRight_def last_rev)

lemma toGoFieldName_shape:
  "no_double (toGoFieldName u s) \<and> toGoFieldName u s \<noteq> [] \<and>
    hd (toGoFieldName u s) \<noteq> CHR ''_'' \<and> last (toGoFieldName u s) \<noteq> CHR ''_''"
proof -
  have rs: "list_all scalar (runes (ToLower u s))"
    using runeList_scalar by (simp add: runes_def)
  have "written 95 []" by (simp add: written_def)
  from written_loop [OF rs this] obtain prev where
    w: "written prev (fieldName_loop u (runes (ToLower u s)) 95 [])" by blast
  let ?b = "fieldName_loop u (runes (ToLower u s)) 95 []" and ?r = "trimRight CHR ''_'' (fieldName_loop u (runes (ToLower u s)) 95 [])"
  obtain rest where b: "?b = ?r @ rest" using trimRight_split by metis
  show ?thesis
  proof (cases "?r = []")
    case True
    then show ?thesis by (simp add: toGoFieldName_def)
  next
    case False
    have "no_double ?r" using w b no_double_append [of ?r rest] by (auto simp: written_def)
    moreover have "hd ?r \<noteq> CHR ''_''" using w b False by (metis append_is_Nil_conv hd_append2 written_def)
    ultimately show ?thesis using False trimRight_last [OF False] by (simp add: toGoFieldName_def Let_def)
  qed
qed


section \<open>Names and slugs\<close>

text \<open>The name of an ASCII text is plain, and its own slug: MQTT discovery does not change it.\<close>

lemma name_loop_chars:
  "list_all (\<lambda>r. r < 128 \<and> \<not> between 65 90 r) rs \<Longrightarrow> list_all name_char b \<Longrightarrow>
    list_all name_char (fieldName_loop u rs prev b)"
proof (induction rs arbitrary: prev b)
  case (Cons r rs)
  have "name_char (char_of r)" if "isLetter u r \<or> isDigitRune u r"
    using that Cons.prems(1) by (auto simp: isLetter_def isDigitRune_def name_char_def Let_def)
  moreover have "name_char CHR ''_''" by (simp add: name_char_def)
  ultimately show ?case using Cons by (simp add: encodeRune_ascii encodeRune_95)
qed simp

lemma toGoFieldName_chars:
  assumes "ascii s"
  shows "list_all name_char (toGoFieldName u s)"
proof -
  have l: "ToLower u s = map (\<lambda>c. char_of (runeLower u (of_char c))) s" using assms by (rule ToLower_ascii)
  have r: "runeLower u (of_char c) < 128 \<and> \<not> between 65 90 (runeLower u (of_char c))" if "c \<in> set s" for c
    using that assms by (auto simp: runeLower_def ascii_def list_all_iff between_def)
  then have m: "of_char (char_of (runeLower u (of_char c)) :: char) = runeLower u (of_char c)" if "c \<in> set s" for c
    using that by force
  with r have "ascii (ToLower u s)" by (simp add: l ascii_def list_all_iff del: of_char_of)
  then have "runes (ToLower u s) = map of_char (ToLower u s)" by (rule runes_ascii)
  with r have "list_all (\<lambda>r. r < 128 \<and> \<not> between 65 90 r) (runes (ToLower u s))"
    by (simp add: l list_all_iff m del: of_char_of)
  from name_loop_chars [OF this, of "[]" u 95] have "list_all name_char (fieldName_loop u (runes (ToLower u s)) 95 [])"
    by simp
  then have "list_all name_char (trimRight CHR ''_'' (fieldName_loop u (runes (ToLower u s)) 95 []))"
    by (auto simp: trimRight_def list_all_iff dest: set_dropWhileD)
  moreover have "list_all name_char ''field''" by (simp add: name_char_def between_def)
  ultimately show ?thesis by (simp add: toGoFieldName_def Let_def)
qed

lemma plain_slug:
  assumes "list_all name_char n" "n \<noteq> []" "hd n \<noteq> CHR ''_''" "last n \<noteq> CHR ''_''"
  shows "fieldSlug u n = n"
proof -
  have nc: "of_char c < (128 :: nat)" "runeLower u (of_char c) = (of_char c :: nat)"
    "isLetter u (of_char c) \<or> isDigitRune u (of_char c) \<or> c = CHR ''_''" if "c \<in> set n" for c
  proof -
    have c: "name_char c" using that assms(1) by (simp add: list_all_iff)
    then show "of_char c < (128 :: nat)" "runeLower u (of_char c) = (of_char c :: nat)"
      by (auto simp: name_char_def Let_def runeLower_def between_def)
    have "c = CHR ''_''" if "(of_char c :: nat) = 95"
      using that underscore by (metis char_of_char)
    with c show "isLetter u (of_char c) \<or> isDigitRune u (of_char c) \<or> c = CHR ''_''"
      by (auto simp: name_char_def Let_def isLetter_def isDigitRune_def between_def)
  qed
  have asc: "ascii n" using nc(1) by (simp add: ascii_def list_all_iff)
  have "ToLower u n = n" unfolding ToLower_ascii [OF asc] using nc(2) by (simp add: map_idI)
  then have "fieldSlug u n = trimBoth CHR ''_'' (concat (map (\<lambda>r. if isLetter u r \<or> isDigitRune u r
      then encodeRune r else ''_'') (map of_char n)))"
    by (simp add: fieldSlug_def runes_ascii [OF asc])
  also have "map (\<lambda>r. if isLetter u r \<or> isDigitRune u r then encodeRune r else ''_'') (map of_char n) = map (\<lambda>c. [c]) n"
    using nc(1,3) by (auto simp: encodeRune_ascii)
  also have "concat (map (\<lambda>c. [c]) n) = n" by simp
  also have "trimBoth CHR ''_'' n = n"
  proof -
    obtain y ys where y: "n = ys @ [y]" using assms(2) by (cases n rule: rev_cases) auto
    have "dropWhile (\<lambda>x. x = CHR ''_'') n = n" using assms(2,3) by (cases n) auto
    then show ?thesis using assms(4) by (simp add: trimBoth_def trimRight_def y)
  qed
  finally show ?thesis .
qed

lemma generated_name_slug: "ascii s \<Longrightarrow> fieldSlug u (toGoFieldName u s) = toGoFieldName u s"
  using toGoFieldName_chars toGoFieldName_shape by (intro plain_slug) auto

end
