(* ===== verification/VsfMeaning.thy ===== *)
theory VsfMeaning
  imports GenRegistry
begin

text \<open>
  What a VSF specification says about a frame, stated without the generator: which packets a frame
  belongs to (addresses under their masks) and which number a field stands for (bytes under their
  masks, shifted, signed and weighted). The lemmas compare it with what the decoder reads from the
  table cmd/gen-registry makes of the specification.
\<close>

section \<open>The number a field stands for\<close>

definition part_denotes :: "byte list \<Rightarrow> vsPart \<Rightarrow> int" where
  "part_denotes payload p =
     (let b = drop_bit (nat (vp_bitPos p)) (payload ! unat (vp_offset p) AND vp_mask p)
      in vp_rawFactor p * (if vp_isSigned p then sint b else uint b))"

definition field_denotes :: "byte list \<Rightarrow> vsPart list \<Rightarrow> int" where
  "field_denotes payload ps = sum_list (map (part_denotes payload) ps)"

definition inside :: "byte list \<Rightarrow> vsPart list \<Rightarrow> bool" where
  "inside payload ps \<longleftrightarrow> list_all (\<lambda>p. unat (vp_offset p) < length payload) ps"

text \<open>The parts \<open>mapField\<close> takes, and those among them its four types can express.\<close>

definition mapped :: "vsPart list \<Rightarrow> bool" where
  "mapped ps \<longleftrightarrow> list_all (\<lambda>p. vp_mask p = 0xFF) ps \<and>
     (length ps = 1 \<and> vp_bitPos (ps ! 0) = 0 \<or>
      length ps \<in> {2, 4} \<and> map vp_rawFactor ps = map (\<lambda>i. 256 ^ i) [0..<length ps])"

definition representable :: "vsPart list \<Rightarrow> bool" where
  "representable ps \<longleftrightarrow> consecutive ps \<and> list_all (\<lambda>p. vp_bitPos p = 0) ps \<and>
     (length ps = 1 \<longrightarrow> vp_rawFactor (ps ! 0) = 1) \<and>
     list_all (\<lambda>p. \<not> vp_isSigned p) (if length ps = 2 then butlast ps else ps)"

lemma length_cases:
  "length ps = 1 \<Longrightarrow> \<exists>p. ps = [p]" "length ps = 2 \<Longrightarrow> \<exists>p q. ps = [p, q]"
  "length ps = 4 \<Longrightarrow> \<exists>p q r s. ps = [p, q, r, s]"
  by (auto simp: length_Suc_conv eval_nat_numeral)

lemma mapField_mapped: "mapField f \<noteq> None \<longleftrightarrow> mapped (vf_parts f)"
proof
  assume "mapField f \<noteq> None"
  then show "mapped (vf_parts f)"
    by (auto simp: mapField_def mapped_def four_factors_def Let_def upt_rec split: list.splits if_splits)
next
  assume m: "mapped (vf_parts f)"
  then consider "length (vf_parts f) = 1" | "length (vf_parts f) = 2" | "length (vf_parts f) = 4"
    by (auto simp: mapped_def)
  then show "mapField f \<noteq> None"
    by cases (use m length_cases [of "vf_parts f"] in
      \<open>auto simp: mapField_def mapped_def four_factors_def Let_def upt_rec\<close>)
qed

lemma mapField_scale: "mapField f = Some (ft, ofs, scale) \<Longrightarrow> scale = Pow10 (- vf_precision f)"
  by (auto simp: mapField_def Let_def split: list.splits if_splits)

text \<open>With whole bytes the meaning is the plain one of theory GenRegistry.\<close>

lemma mask_all: "(b :: byte) AND 0xFF = b"
  by (rule bit_word_eqI) (auto simp: bit_simps numeral_eq_Suc less_Suc_eq)

lemma field_denotes_whole:
  assumes "list_all (\<lambda>p. vp_mask p = 0xFF) ps" "list_all (\<lambda>p. vp_bitPos p = 0) ps"
  shows "field_denotes payload ps = vsf_reading payload ps"
proof -
  have "part_denotes payload p = part_value payload p" if "p \<in> set ps" for p
    using that assms by (simp add: part_denotes_def part_value_def list_all_iff mask_all)
  then show ?thesis by (simp add: field_denotes_def vsf_reading_def cong: map_cong)
qed

lemma representable_expressible:
  assumes "mapped ps" "representable ps"
  shows "expressible ps"
proof -
  from assms(1) consider "length ps = 1" | "length ps = 2" | "length ps = 4" by (auto simp: mapped_def)
  then show ?thesis
    by cases (use assms(2) length_cases [of ps] in \<open>auto simp: representable_def expressible_def\<close>)
qed

lemma representable_fits:
  assumes "mapField f = Some (ft, ofs, scale)" "representable (vf_parts f)"
  shows "field_width ft = length (vf_parts f)" "inside payload (vf_parts f) \<longleftrightarrow> unat ofs + field_width ft \<le> length payload"
proof -
  from mapField_cases [OF assms(1)]
  have "field_width ft = length (vf_parts f) \<and>
    (inside payload (vf_parts f) \<longleftrightarrow> unat ofs + field_width ft \<le> length payload)"
    by (elim disjE exE conjE) (use assms(2) in \<open>auto simp: representable_def inside_def consecutive_simps\<close>)
  then show "field_width ft = length (vf_parts f)"
    "inside payload (vf_parts f) \<longleftrightarrow> unat ofs + field_width ft \<le> length payload" by blast+
qed

text \<open>\<open>extractValue\<close> with the layout of \<open>mapField\<close>, on every payload.\<close>

lemma layout_denotes:
  assumes "mapField f = Some (ft, ofs, scale)" "representable (vf_parts f)" "inside payload (vf_parts f)"
  shows "raw_reading payload (fld n (int (unat ofs)) ft sc un) = field_denotes payload (vf_parts f)"
proof -
  have m: "mapped (vf_parts f)" using assms(1) mapField_mapped [of f] by simp
  have "field_denotes payload (vf_parts f) = vsf_reading payload (vf_parts f)"
    using m assms(2) by (intro field_denotes_whole) (simp_all add: mapped_def representable_def)
  moreover have "unat ofs + length (vf_parts f) \<le> length payload"
    using representable_fits(1) [OF assms(1,2)] representable_fits(2) [OF assms(1,2), of payload] assms(3) by simp
  ultimately show ?thesis
    using mapField_reads [OF assms(1) representable_expressible [OF m assms(2)]] by simp
qed

lemma mapField_ok:
  assumes "mapField f = Some (ft, ofs, scale)"
  shows "field_ok (fld n (int (unat ofs)) ft sc un)" "ft \<noteq> Bit"
proof -
  have t: "ft \<in> {Int16, Uint8, Uint16, Uint32}" using mapField_cases [OF assms] by (auto split: if_splits)
  have "uint ofs < 2 ^ 32" using unsigned_less [of ofs, where 'a = int] by simp
  with t show "field_ok (fld n (int (unat ofs)) ft sc un)" "ft \<noteq> Bit" by auto
qed

lemma layout_value:
  assumes "mapField f = Some (ft, ofs, scale)" "representable (vf_parts f)"
  shows "fits payload (fld n (int (unat ofs)) ft scale un) \<longleftrightarrow> inside payload (vf_parts f)"
    and "inside payload (vf_parts f) \<Longrightarrow> field_value payload (fld n (int (unat ofs)) ft scale un) =
      scaleValue (field_denotes payload (vf_parts f)) (Pow10 (- vf_precision f))"
  using representable_fits(2) [OF assms, of payload] layout_denotes [OF assms] mapField_ok(2) [OF assms(1)]
    mapField_scale [OF assms(1)]
  by (simp_all add: fits_def field_value_def fld_def)

lemma layout_extracts:
  assumes "mapField f = Some (ft, ofs, scale)" "representable (vf_parts f)"
  shows "extractValue payload (fld n (int (unat ofs)) ft scale un) =
    (if inside payload (vf_parts f)
     then Some (Inr (scaleValue (field_denotes payload (vf_parts f)) (Pow10 (- vf_precision f))))
     else Some (Inl (OffsetOutOfRange (int (unat ofs)) (if length (vf_parts f) = 1 then 0 else length (vf_parts f)))))"
proof (cases "inside payload (vf_parts f)")
  case True
  then show ?thesis
    using extractValue_fits [OF mapField_ok(1) [OF assms(1)], of payload n scale un] layout_value [OF assms, of payload n un]
    by simp
next
  case False
  have w: "field_width ft = length (vf_parts f)" by (rule representable_fits(1) [OF assms])
  have "ft = Uint8 \<longleftrightarrow> length (vf_parts f) = 1"
    using mapField_cases [OF assms(1)] assms(2) by (auto simp: representable_def split: if_splits)
  with False w show ?thesis
    using extractValue_short [OF mapField_ok(1) [OF assms(1)], of payload n scale un]
      layout_value(1) [OF assms, of payload n un] mapField_ok(2) [OF assms(1)]
    by (simp add: fld_def)
qed

section \<open>The table of a specification\<close>

definition addressed :: "vsPacket \<Rightarrow> Frame \<Rightarrow> bool" where
  \<comment> \<open>the frame is an instance of the packet: its addresses agree where the masks have a bit\<close>
  "addressed pk f \<longleftrightarrow> Source f AND vk_srcMask pk = vk_src pk AND vk_srcMask pk \<and>
     Destination f AND vk_dstMask pk = vk_dst pk AND vk_dstMask pk \<and> Command f = vk_cmd pk"

definition measurements :: "unicode \<Rightarrow> byte list \<Rightarrow> vsPacket \<Rightarrow> TelemetryField list" where
  "measurements u payload pk =
     map (\<lambda>f. \<lparr>tf_Name = toGoFieldName u (vf_name f),
        tf_Value = scaleValue (field_denotes payload (vf_parts f)) (Pow10 (- vf_precision f)),
        tf_Unit = vf_unitText f\<rparr>)
       (filter (\<lambda>f. mapped (vf_parts f) \<and> inside payload (vf_parts f)) (vk_fields pk))"

lemma broadcast_addressed:
  assumes "broadcast pk"
  shows "addressed pk f \<longleftrightarrow> Source f = vk_src pk \<and> Destination f = vk_dst pk \<and> Command f = vk_cmd pk"
proof -
  have "(x :: uint16) AND 0xFFFF = x" for x
    by (rule bit_word_eqI) (auto simp: bit_simps numeral_eq_Suc less_Suc_eq)
  then show ?thesis using assms by (simp add: broadcast_def addressed_def)
qed

lemma entries_measure:
  assumes "list_all (\<lambda>f. mapped (vf_parts f) \<longrightarrow> representable (vf_parts f)) fs"
  shows "map (telemetry_of payload) (filter (fits payload) (List.map_filter (field_entry u) fs)) =
    map (\<lambda>f. \<lparr>tf_Name = toGoFieldName u (vf_name f),
        tf_Value = scaleValue (field_denotes payload (vf_parts f)) (Pow10 (- vf_precision f)),
        tf_Unit = vf_unitText f\<rparr>) (filter (\<lambda>f. mapped (vf_parts f) \<and> inside payload (vf_parts f)) fs)"
  using assms
proof (induction fs)
  case (Cons f fs)
  show ?case
  proof (cases "mapField f")
    case None
    then have "\<not> mapped (vf_parts f)" using mapField_mapped [of f] by simp
    with None Cons show ?thesis by (simp add: List.map_filter_simps field_entry_def)
  next
    case (Some m)
    obtain ft ofs scale where m: "m = (ft, ofs, scale)" by (cases m)
    let ?fd = "fld (toGoFieldName u (vf_name f)) (int (unat ofs)) ft scale (vf_unitText f)"
    have mp: "mapped (vf_parts f)" using Some mapField_mapped [of f] by simp
    then have r: "representable (vf_parts f)" using Cons.prems by simp
    note v = layout_value [OF Some [unfolded m] r, of payload "toGoFieldName u (vf_name f)" "vf_unitText f"]
    have e: "field_entry u f = Some ?fd" by (simp add: field_entry_def Some m)
    have "telemetry_of payload ?fd = \<lparr>tf_Name = toGoFieldName u (vf_name f),
        tf_Value = scaleValue (field_denotes payload (vf_parts f)) (Pow10 (- vf_precision f)),
        tf_Unit = vf_unitText f\<rparr>" if "inside payload (vf_parts f)"
      unfolding telemetry_of_def v(2) [OF that] by (simp add: fld_def)
    with Cons mp e v(1) show ?thesis by (simp add: List.map_filter_simps)
  qed
qed (simp add: List.map_filter_simps)

lemma entries_iff:
  "(k, d) \<in> set (entries u spec) \<longleftrightarrow>
     (\<exists>pk \<in> set (vs_packets spec). broadcast pk \<and> (\<exists>f \<in> set (vk_fields pk). mapped (vf_parts f)) \<and>
        k = pkey (vk_src pk) (vk_dst pk) (vk_cmd pk) \<and>
        d = pd (vk_name pk) (List.map_filter (field_entry u) (vk_fields pk)))"
proof -
  have "List.map_filter (field_entry u) fs \<noteq> [] \<longleftrightarrow> (\<exists>f \<in> set fs. mapped (vf_parts f))" for fs
  proof -
    have "List.map_filter (field_entry u) fs \<noteq> [] \<longleftrightarrow> (\<exists>f \<in> set fs. mapField f \<noteq> None)"
      by (induction fs) (auto simp: List.map_filter_simps field_entry_def split: option.split)
    then show ?thesis unfolding mapField_mapped .
  qed
  then show ?thesis
    by (auto simp: entries_def map_filter_set packet_entry_def Let_def split: if_splits)
qed

lemma table_decodes:
  assumes gen: "set gen = set (entries u spec)" "distinct (map fst gen)"
    and reg: "reg = initGenerated gen (initCustom customRegistry Map.empty)"
    and key: "map_of customRegistry (pkey (Source f) (Destination f) (Command f)) = None"
  shows "Decode f reg =
    (case map_of gen (pkey (Source f) (Destination f) (Command f)) of
       None \<Rightarrow> Some (''src_0x'' @ fmt04X (Source f), [], False)
     | Some d \<Rightarrow> Some (pd_DeviceName d,
         map (telemetry_of (Payload f)) (filter (fits (Payload f)) (pd_Fields d)), True))"
proof -
  have "registry_ok reg" unfolding reg using generated_registry_ok [of gen u spec] gen(1) by simp
  moreover have "reg (pkey (Source f) (Destination f) (Command f)) =
      map_of gen (pkey (Source f) (Destination f) (Command f))"
    using key by (simp add: reg initGenerated_lookup initCustom_lookup customRegistry_def)
  ultimately show ?thesis by (simp add: Decode_eq)
qed

lemma table_known:
  assumes "set gen = set (entries u spec)" "distinct (map fst gen)"
    and "reg = initGenerated gen (initCustom customRegistry Map.empty)"
    and "map_of customRegistry (pkey (Source f) (Destination f) (Command f)) = None"
    and "pk \<in> set (vs_packets spec)" "broadcast pk" "addressed pk f"
    and "\<exists>fd \<in> set (vk_fields pk). mapped (vf_parts fd)"
    and "\<forall>fd \<in> set (vk_fields pk). mapped (vf_parts fd) \<longrightarrow> representable (vf_parts fd)"
  shows "Decode f reg = Some (vk_name pk, measurements u (Payload f) pk, True)"
proof -
  let ?k = "pkey (Source f) (Destination f) (Command f)"
  let ?d = "pd (vk_name pk) (List.map_filter (field_entry u) (vk_fields pk))"
  have "(?k, ?d) \<in> set gen"
    using assms(1,5-8) broadcast_addressed [OF assms(6), of f] by (auto simp: entries_iff)
  then have "map_of gen ?k = Some ?d" using assms(2) by simp
  then show ?thesis
    using entries_measure [of "vk_fields pk" "Payload f" u] assms(9)
    by (simp add: table_decodes [OF assms(1-4)] measurements_def pd_def list_all_iff)
qed

lemma table_unknown:
  assumes "set gen = set (entries u spec)" "distinct (map fst gen)"
    and "reg = initGenerated gen (initCustom customRegistry Map.empty)"
    and "map_of customRegistry (pkey (Source f) (Destination f) (Command f)) = None"
    and "\<not> (\<exists>pk \<in> set (vs_packets spec). broadcast pk \<and> addressed pk f \<and>
      (\<exists>fd \<in> set (vk_fields pk). mapped (vf_parts fd)))"
  shows "Decode f reg = Some (''src_0x'' @ fmt04X (Source f), [], False)"
proof -
  have "(pkey (Source f) (Destination f) (Command f), d) \<notin> set gen" for d
    using assms(1,5) broadcast_addressed by (fastforce simp: entries_iff)
  then have "map_of gen (pkey (Source f) (Destination f) (Command f)) = None"
    by (metis map_of_SomeD option.exhaust)
  then show ?thesis by (simp add: table_decodes [OF assms(1-4)])
qed

end
