(* ===== verification/TableText.thy ===== *)
theory TableText
  imports GenRegistry "HOL-Library.Sublist"
begin

text \<open>
  The text cmd/gen-registry writes, read as Go: a reader of the composite literals of the table
  (names and units as string literals, offsets, types, factors as constant expressions), written
  from the Go syntax and not from the generator. Reading back what \<open>generate\<close> emits gives the
  entries of the specification. String literals are read by an argument \<open>unq\<close>, which the theorem
  relates to the verb \<open>%q\<close>; at the end, what \<open>%q\<close> writes for printable ASCII is shown to fit.
\<close>

section \<open>A reader\<close>

definition expect :: "string \<Rightarrow> string \<Rightarrow> string option" where
  "expect p s = (if take (length p) s = p then Some (drop (length p) s) else None)"

definition split_while :: "(char \<Rightarrow> bool) \<Rightarrow> string \<Rightarrow> string \<times> string" where
  "split_while P s = (takeWhile P s, dropWhile P s)"

fun skip_line :: "string \<Rightarrow> string option" where
  "skip_line [] = None"
| "skip_line (c # cs) = (if c = nl then Some cs else skip_line cs)"

definition hexVal :: "char \<Rightarrow> nat option" where
  "hexVal c = (let n = of_char c in
     if 48 \<le> n \<and> n \<le> 57 then Some (n - 48) else if 65 \<le> n \<and> n \<le> 70 then Some (n - 55) else None)"

definition read_hex4 :: "string \<Rightarrow> (uint16 \<times> string) option" where
  "read_hex4 s =
     (case s of
        a # b # c # d # rest \<Rightarrow> do {
          a \<leftarrow> hexVal a; b \<leftarrow> hexVal b; c \<leftarrow> hexVal c; d \<leftarrow> hexVal d;
          Some (of_nat (16 * (16 * (16 * a + b) + c) + d), rest)
        }
      | _ \<Rightarrow> None)"

definition read_nat :: "string \<Rightarrow> (nat \<times> string) option" where
  "read_nat s = (let (ds, s) = split_while isDigit s in if ds = [] then None else Some (digitsVal 0 ds, s))"

text \<open>The type constants of registry.go, and a factor: a decimal constant or \<open>math.Pow10\<close> of an integer.\<close>

definition type_const :: "string \<Rightarrow> FieldType option" where
  "type_const n = map_of [(''Int16'', Int16), (''Uint8'', Uint8), (''Uint16'', Uint16), (''Uint32'', Uint32),
     (''Bit'', Bit)] n"

definition factor_const :: "string \<Rightarrow> float64 option" where
  "factor_const l =
     (case expect ''math.Pow10('' l of
        Some arg \<Rightarrow> if arg \<noteq> [] \<and> last arg = CHR '')'' then map_option Pow10 (Atoi (butlast arg)) else None
      | None \<Rightarrow>
          (let (a, r) = split_while isDigit l
           in case r of
                [] \<Rightarrow> None
              | point # b \<Rightarrow>
                  if point = CHR ''.'' \<and> a \<noteq> [] \<and> b \<noteq> [] \<and> list_all isDigit b
                  then Some (f_lit (int (digitsVal 0 (a @ b))) (10 ^ length b)) else None))"

definition read_field :: "(string \<Rightarrow> (string \<times> string) option) \<Rightarrow> string \<Rightarrow> (FieldDef \<times> string) option" where
  "read_field unq s = do {
     s \<leftarrow> expect [tab, tab, tab] s;
     s \<leftarrow> expect ''{Name: '' s; (name, s) \<leftarrow> unq s;
     s \<leftarrow> expect '', Offset: '' s; (ofs, s) \<leftarrow> read_nat s;
     s \<leftarrow> expect '', Type: '' s; let (t, s) = split_while (\<lambda>c. c \<noteq> CHR '','') s;
     ft \<leftarrow> type_const t;
     s \<leftarrow> expect '', Factor: '' s; let (l, s) = split_while (\<lambda>c. c \<noteq> CHR '','') s;
     factor \<leftarrow> factor_const l;
     s \<leftarrow> expect '', Unit: '' s; (un, s) \<leftarrow> unq s;
     s \<leftarrow> expect ''},'' s; s \<leftarrow> expect [nl] s;
     Some (fld name (int ofs) ft factor un, s)
   }"

text \<open>The repetitions count down from the length of the text.\<close>

fun read_fields ::
  "(string \<Rightarrow> (string \<times> string) option) \<Rightarrow> nat \<Rightarrow> string \<Rightarrow> (FieldDef list \<times> string) option" where
  "read_fields unq 0 s = None"
| "read_fields unq (Suc n) s =
     (if expect [tab, tab, tab] s = None then Some ([], s)
      else do { (fd, s) \<leftarrow> read_field unq s; (fds, s) \<leftarrow> read_fields unq n s; Some (fd # fds, s) })"

definition read_packet ::
  "(string \<Rightarrow> (string \<times> string) option) \<Rightarrow> string \<Rightarrow> ((uint64 \<times> PacketDef) \<times> string) option" where
  "read_packet unq s = do {
     s \<leftarrow> expect [tab] s; s \<leftarrow> expect ''// '' s; s \<leftarrow> skip_line s;
     s \<leftarrow> expect [tab] s; s \<leftarrow> expect ''pkey(0x'' s; (src, s) \<leftarrow> read_hex4 s;
     s \<leftarrow> expect '', 0x'' s; (dst, s) \<leftarrow> read_hex4 s;
     s \<leftarrow> expect '', 0x'' s; (cmd, s) \<leftarrow> read_hex4 s;
     s \<leftarrow> expect ''): {'' s; s \<leftarrow> expect [nl] s;
     s \<leftarrow> expect [tab, tab] s; s \<leftarrow> expect ''DeviceName: '' s; (name, s) \<leftarrow> unq s;
     s \<leftarrow> expect '','' s; s \<leftarrow> expect [nl] s;
     s \<leftarrow> expect [tab, tab] s; s \<leftarrow> expect ''Fields: []FieldDef{'' s; s \<leftarrow> expect [nl] s;
     (fds, s) \<leftarrow> read_fields unq (length s) s;
     s \<leftarrow> expect [tab, tab] s; s \<leftarrow> expect ''},'' s; s \<leftarrow> expect [nl] s;
     s \<leftarrow> expect [tab] s; s \<leftarrow> expect ''},'' s; s \<leftarrow> expect [nl] s;
     Some ((pkey src dst cmd, pd name fds), s)
   }"

fun read_packets ::
  "(string \<Rightarrow> (string \<times> string) option) \<Rightarrow> nat \<Rightarrow> string \<Rightarrow> (uint64 \<times> PacketDef) list option" where
  "read_packets unq 0 s = None"
| "read_packets unq (Suc n) s =
     (if s = ''}'' @ [nl] then Some []
      else do { (e, s) \<leftarrow> read_packet unq s; es \<leftarrow> read_packets unq n s; Some (e # es) })"

text \<open>The file: what is before the import of \<open>math\<close> and what is between it and the entries.\<close>

definition file_head :: string where
  "file_head = concat (map (\<lambda>l. l @ [nl])
     [''// Code generated by cmd/gen-registry. DO NOT EDIT.'',
      ''// Source: tools/vbus_specification.vsf (Daniel Wippermann resol-vbus)'',
      ''// Regenerate: go run ./cmd/gen-registry tools/vbus_specification.vsf'',
      [], ''package vbus'', []])"

definition import_line :: string where
  "import_line = ''import '' @ [dq] @ ''math'' @ [dq] @ [nl]"

definition file_init :: string where
  "file_init = concat (map (\<lambda>l. l @ [nl])
     [[], ''func init() {'',
      [tab] @ ''for k, v := range generatedRegistry {'',
      [tab, tab] @ ''if _, exists := DefaultRegistry[k]; !exists {'',
      [tab, tab, tab] @ ''DefaultRegistry[k] = v'',
      [tab, tab] @ ''}'', [tab] @ ''}'', ''}'', [],
      ''var generatedRegistry = Registry{''])"

definition read_source ::
  "(string \<Rightarrow> (string \<times> string) option) \<Rightarrow> string \<Rightarrow> (bool \<times> (uint64 \<times> PacketDef) list) option" where
  \<comment> \<open>whether \<open>math\<close> is imported, and the entries\<close>
  "read_source unq s = do {
     s \<leftarrow> expect file_head s;
     let (imports, s) = (case expect import_line s of Some s \<Rightarrow> (True, s) | None \<Rightarrow> (False, s));
     s \<leftarrow> expect file_init s;
     es \<leftarrow> read_packets unq (length s) s;
     Some (imports, es)
   }"

section \<open>Reading pieces\<close>

lemma expect_append [simp]: "expect p (p @ s) = Some s"
  by (simp add: expect_def)

lemma split_while_stop:
  assumes "list_all P xs" "\<not> P c"
  shows "split_while P (xs @ (c # cs) @ rest) = (xs, (c # cs) @ rest)"
proof -
  have "takeWhile P (xs @ c # ys) = xs \<and> dropWhile P (xs @ c # ys) = c # ys" for ys
    using assms by (induction xs) simp_all
  then show ?thesis by (simp add: split_while_def)
qed

lemma skip_line_append: "nl \<notin> set xs \<Longrightarrow> skip_line (xs @ ys) = skip_line ys"
  by (induction xs) auto

lemma skip_line_nl: "skip_line ([nl] @ s) = Some s"
  by simp

lemma hexVal_hexDigit: "d < 16 \<Longrightarrow> hexVal (hexDigit d) = Some d"
proof -
  have "\<forall>d \<in> set [0..<16]. hexVal (hexDigit d) = Some d"
    by (simp add: upt_rec hexVal_def hexDigit_def Let_def)
  then show "d < 16 \<Longrightarrow> hexVal (hexDigit d) = Some d" by simp
qed

lemma read_hex4_fmt [simp]: "read_hex4 (fmt04X x @ s) = Some (x, s)"
proof -
  let ?n = "unat x"
  have "16 * (16 * (16 * (?n div 4096 mod 16) + ?n div 256 mod 16) + ?n div 16 mod 16) + ?n mod 16 = ?n"
    by (rule hex_digits_sum [symmetric]) simp
  then have "(of_nat (16 * (16 * (16 * (?n div 4096 mod 16) + ?n div 256 mod 16) + ?n div 16 mod 16) + ?n mod 16) :: uint16) = x"
    by (simp only:) simp
  then show ?thesis
    by (simp only: read_hex4_def fmt04X_def Let_def append_Cons append_Nil list.case) (simp add: hexVal_hexDigit)
qed

lemma nl_fmt04X: "nl \<notin> set (fmt04X x)"
proof -
  have "hexDigit d \<noteq> nl" if "d < 16" for d
    using hexVal_hexDigit [OF that] by (auto simp: hexVal_def nl_def)
  then show ?thesis by (simp add: fmt04X_def Let_def) (metis mod_less_divisor zero_less_numeral)
qed

lemma read_nat_dec: "read_nat (dec n @ (CHR '','' # cs) @ rest) = Some (n, (CHR '','' # cs) @ rest)"
proof -
  have "\<not> isDigit CHR '',''" by (simp add: isDigit_def)
  then show ?thesis using dec_digits [of n] split_while_stop [of isDigit "dec n" "CHR '',''" cs rest]
    by (simp add: read_nat_def)
qed

section \<open>Reading a factor\<close>

lemma factor_literals:
  "factor_const ''1.0'' = Some (f_lit 1 1)" "factor_const ''0.1'' = Some (f_lit 1 10)"
  "factor_const ''0.01'' = Some (f_lit 1 100)" "factor_const ''0.001'' = Some (f_lit 1 1000)"
proof -
  have one: "f_lit 10 10 = f_lit 1 1" by code_simp
  show "factor_const ''1.0'' = Some (f_lit 1 1)" "factor_const ''0.1'' = Some (f_lit 1 10)"
    "factor_const ''0.01'' = Some (f_lit 1 100)" "factor_const ''0.001'' = Some (f_lit 1 1000)"
    by (simp_all add: factor_const_def expect_def split_while_def isDigit_def digitVal_def one)
qed

lemma factor_power:
  assumes "- (2 ^ 63) \<le> n" "n < 2 ^ 63"
  shows "factor_const (''math.Pow10('' @ decInt n @ '')'') = Some (Pow10 n)"
  using Atoi_decInt [OF assms] unfolding factor_const_def expect_append by simp

lemma factor_const_factorLit:
  assumes "log10 (Pow10 n) = n" "- (2 ^ 63) \<le> n" "n < 2 ^ 63"
  shows "factor_const (factorLit log10 (Pow10 n)) = Some (Pow10 n)"
  unfolding factorLit_def using factor_literals factor_power [OF assms(2,3)] assms(1) by simp

lemma factorLit_no_comma: "list_all (\<lambda>c. c \<noteq> CHR '','') (factorLit log10 f)"
proof -
  have "list_all (\<lambda>c. c \<noteq> CHR '','') (dec n)" for n
    using dec_digits [of n] by (auto simp: list_all_iff isDigit_def)
  then show ?thesis by (simp add: factorLit_def decInt_def)
qed

section \<open>Reading an entry\<close>

text \<open>What a field must satisfy to be read back.\<close>

definition field_text_ok :: "gen_env \<Rightarrow> FieldDef \<Rightarrow> bool" where
  "field_text_ok e fd \<longleftrightarrow> 0 \<le> fd_Offset fd \<and> fd_Type fd \<in> {Int16, Uint8, Uint16, Uint32} \<and>
     fd_BitIndex fd = 0 \<and> factor_const (factorLit (ge_log10 e) (fd_Factor fd)) = Some (fd_Factor fd)"

lemma type_const_name:
  "ft \<in> {Int16, Uint8, Uint16, Uint32} \<Longrightarrow>
    type_const (type_name ft) = Some ft \<and> list_all (\<lambda>c. c \<noteq> CHR '','') (type_name ft)"
  by (auto simp: type_const_def)

lemma split_while_comma: "list_all (\<lambda>c. c \<noteq> CHR '','') xs \<Longrightarrow> split_while (\<lambda>c. c \<noteq> CHR '','') (xs @ (CHR '','' # cs) @ rest) =
    (xs, (CHR '','' # cs) @ rest)"
  by (rule split_while_stop) simp_all

lemma read_field_render:
  assumes unq: "\<And>s rest. unq (ge_quote e s @ rest) = Some (s, rest)" and ok: "field_text_ok e fd"
  shows "read_field unq (render_field e fd @ [nl] @ rest) = Some (fd, rest)"
proof -
  have t: "type_const (type_name (fd_Type fd)) = Some (fd_Type fd)"
    "list_all (\<lambda>c. c \<noteq> CHR '','') (type_name (fd_Type fd))"
    using ok type_const_name [of "fd_Type fd"] by (simp_all add: field_text_ok_def)
  have f: "factor_const (factorLit (ge_log10 e) (fd_Factor fd)) = Some (fd_Factor fd)"
    using ok by (simp add: field_text_ok_def)
  have fd: "fld (fd_Name fd) (int (nat (fd_Offset fd))) (fd_Type fd) (fd_Factor fd) (fd_Unit fd) = fd"
    using ok by (cases fd) (simp add: field_text_ok_def fld_def)
  show ?thesis
    unfolding read_field_def render_field_def append_assoc
    by (simp only: expect_append Option.bind.bind_lunit prod.case unq read_nat_dec split_while_comma [OF t(2)]
      split_while_comma [OF factorLit_no_comma] t(1) f Let_def fd)
qed

lemma tab_lines:
  "expect [tab, tab, tab] ([tab, tab] @ ''},'' @ rest) = None"
  "expect [tab, tab, tab] (render_field e fd @ rest) \<noteq> None"
  by (simp_all add: expect_def render_field_def tab_def)

lemma read_fields_render:
  assumes unq: "\<And>s rest. unq (ge_quote e s @ rest) = Some (s, rest)"
  shows "list_all (field_text_ok e) fds \<Longrightarrow> length fds < n \<Longrightarrow>
    read_fields unq n (concat (map (\<lambda>fd. render_field e fd @ [nl]) fds) @ [tab, tab] @ ''},'' @ rest) =
      Some (fds, [tab, tab] @ ''},'' @ rest)"
proof (induction fds arbitrary: n)
  case Nil
  then obtain m where "n = Suc m" by (cases n) auto
  then show ?case by (simp only: read_fields.simps tab_lines list.map concat.simps append_Nil if_True simp_thms)
next
  case (Cons fd fds)
  then obtain m where m: "n = Suc m" "length fds < m" by (cases n) auto
  have ok: "field_text_ok e fd" "list_all (field_text_ok e) fds" using Cons.prems(1) by simp_all
  have r: "concat (map (\<lambda>fd. render_field e fd @ [nl]) (fd # fds)) @ [tab, tab] @ ''},'' @ rest =
      render_field e fd @ [nl] @ concat (map (\<lambda>fd. render_field e fd @ [nl]) fds) @ [tab, tab] @ ''},'' @ rest"
    by (simp only: list.map concat.simps append_assoc)
  show ?case
    unfolding r m(1) read_fields.simps read_field_render [OF unq ok(1)] if_not_P [OF tab_lines(2)]
    by (simp only: Cons.IH [OF ok(2) m(2)] Option.bind.bind_lunit prod.case)
qed

lemma length_lines: "length xs \<le> length (concat (map (\<lambda>x. f x @ [nl]) xs))"
  by (induction xs) simp_all

definition entry_text_ok :: "gen_env \<Rightarrow> uint64 \<times> PacketDef \<Rightarrow> bool" where
  "entry_text_ok e = (\<lambda>(k, d). nl \<notin> set (pd_DeviceName d) \<and> list_all (field_text_ok e) (pd_Fields d) \<and>
     k = pkey (ucast (drop_bit 32 k)) (ucast (drop_bit 16 k)) (ucast k))"

lemma read_packet_render:
  assumes unq: "\<And>s rest. unq (ge_quote e s @ rest) = Some (s, rest)" and ok: "entry_text_ok e en"
  shows "read_packet unq (render_packet e en @ rest) = Some (en, rest)"
proof -
  obtain k d where en: "en = (k, d)" by (cases en)
  have n: "nl \<notin> set (pd_DeviceName d)" "list_all (field_text_ok e) (pd_Fields d)"
    "pkey (ucast (drop_bit 32 k)) (ucast (drop_bit 16 k)) (ucast k) = k"
    using ok by (simp_all add: en entry_text_ok_def)
  let ?key = "pd_DeviceName d @ '' src=0x'' @ fmt04X (ucast (drop_bit 32 k)) @
          '' dst=0x'' @ fmt04X (ucast (drop_bit 16 k)) @ '' cmd=0x'' @ fmt04X (ucast k)"
  have key: "nl \<notin> set ?key" using n(1) nl_fmt04X by (auto simp: nl_def)
  have skip: "skip_line (pd_DeviceName d @ '' src=0x'' @ fmt04X (ucast (drop_bit 32 k)) @
      '' dst=0x'' @ fmt04X (ucast (drop_bit 16 k)) @ '' cmd=0x'' @ fmt04X (ucast k) @ [nl] @ s) = Some s" for s
    using skip_line_append [OF key, of "[nl] @ s"] unfolding append_assoc skip_line_nl .
  have len: "length (pd_Fields d) < length (concat (map (\<lambda>fd. render_field e fd @ [nl]) (pd_Fields d)) @
      [tab, tab] @ ''},'' @ s)" for s
    using length_lines [of "pd_Fields d" "render_field e"] by simp
  show ?thesis
    unfolding en read_packet_def render_packet_def prod.case Let_def append_assoc
    by (simp only: expect_append Option.bind.bind_lunit prod.case skip read_hex4_fmt unq
      read_fields_render [OF unq n(2) len] n(3) pd_def) (simp add: pd_def)
qed

section \<open>Reading a file\<close>

lemma render_packet_start: "\<exists>s. render_packet e en = [tab] @ s"
  by (cases en) (simp add: render_packet_def Let_def)

lemma length_packets: "length ens \<le> length (concat (map (render_packet e) ens))"
proof (induction ens)
  case (Cons en ens)
  obtain s where "render_packet e en = [tab] @ s" using render_packet_start by blast
  with Cons show ?case by simp
qed simp

lemma read_packets_render:
  assumes unq: "\<And>s rest. unq (ge_quote e s @ rest) = Some (s, rest)"
  shows "list_all (entry_text_ok e) ens \<Longrightarrow> length ens < n \<Longrightarrow>
    read_packets unq n (concat (map (render_packet e) ens) @ ''}'' @ [nl]) = Some ens"
proof (induction ens arbitrary: n)
  case Nil
  then obtain m where "n = Suc m" by (cases n) auto
  then show ?case by simp
next
  case (Cons en ens)
  then obtain m where m: "n = Suc m" "length ens < m" by (cases n) auto
  have ok: "entry_text_ok e en" "list_all (entry_text_ok e) ens" using Cons.prems(1) by simp_all
  have r: "concat (map (render_packet e) (en # ens)) @ ''}'' @ [nl] =
      render_packet e en @ concat (map (render_packet e) ens) @ ''}'' @ [nl]"
    by (simp only: list.map concat.simps append_assoc)
  have more: "render_packet e en @ s \<noteq> ''}'' @ [nl]" for s
    using render_packet_start [of e en] by (auto simp: tab_def)
  show ?case
    unfolding r m(1) read_packets.simps if_not_P [OF more] read_packet_render [OF unq ok(1)]
    by (simp only: Cons.IH [OF ok(2) m(2)] Option.bind.bind_lunit prod.case)
qed

lemma head_parts: "gen_head = file_head @ import_line @ file_init"
  by (simp add: gen_head_def file_head_def import_line_def file_init_def)

lemma import_removed:
  "replaceFirst (gen_head @ body) ([nl] @ ''import '' @ [dq] @ ''math'' @ [dq, nl]) [nl] = file_head @ file_init @ body"
  by (simp add: gen_head_def file_head_def file_init_def nl_def tab_def dq_def)

lemma no_import: "expect import_line (file_init @ s) = None"
  by (simp add: import_line_def file_init_def expect_def nl_def)

lemma read_source_text:
  assumes unq: "\<And>s rest. unq (ge_quote e s @ rest) = Some (s, rest)"
    and ok: "list_all (entry_text_ok e) ens"
  defines "body \<equiv> concat (map (render_packet e) ens) @ ''}'' @ [nl]"
  shows "read_source unq (gen_head @ body) = Some (True, ens)"
    and "read_source unq (file_head @ file_init @ body) = Some (False, ens)"
proof -
  have "length ens < length body" using length_packets [of ens e] by (simp add: body_def)
  note body = read_packets_render [OF unq ok this, folded body_def]
  show "read_source unq (gen_head @ body) = Some (True, ens)"
    unfolding read_source_def head_parts append_assoc
    by (simp only: expect_append Option.bind.bind_lunit option.case Let_def prod.case body)
  show "read_source unq (file_head @ file_init @ body) = Some (False, ens)"
    unfolding read_source_def
    by (simp only: expect_append no_import Option.bind.bind_lunit option.case Let_def prod.case body)
qed

text \<open>A factor without a literal of its own names the package.\<close>

lemma contains_iff: "contains s sub \<longleftrightarrow> sublist sub s"
proof -
  have start: "starts_with p s \<longleftrightarrow> prefix p s" for p s
    by (induction p s rule: starts_with.induct) auto
  show ?thesis by (induction s sub rule: contains.induct) (auto simp: start sublist_Cons_right)
qed

lemma sublist_in:
  "sublist xs ys \<Longrightarrow> sublist xs (ps @ ys)" "sublist xs ys \<Longrightarrow> sublist xs (ys @ ss)"
  unfolding sublist_def by (metis append_assoc)+

lemma sublist_concat: "x \<in> set xs \<Longrightarrow> sublist x (concat xs)"
  by (induction xs) (auto intro: sublist_in)

lemma math_contained:
  assumes "(k, d) \<in> set ens" "fd \<in> set (pd_Fields d)" "\<forall>D \<in> {1, 10, 100, 1000}. fd_Factor fd \<noteq> f_lit 1 D"
  shows "contains (gen_head @ concat (map (render_packet e) ens) @ ''}'' @ [nl]) ''math.''"
proof -
  have "sublist ''math.'' (factorLit (ge_log10 e) (fd_Factor fd))"
    using assms(3) by (simp add: factorLit_def)
  then have "sublist ''math.'' (render_field e fd)"
    by (simp only: render_field_def sublist_append simp_thms)
  moreover have "sublist (render_field e fd) (concat (map (\<lambda>fd. render_field e fd @ [nl]) (pd_Fields d)))"
  proof (rule sublist_order.order.trans)
    show "sublist (render_field e fd) (render_field e fd @ [nl])" by (rule sublist_in(2)) simp
    show "sublist (render_field e fd @ [nl]) (concat (map (\<lambda>fd. render_field e fd @ [nl]) (pd_Fields d)))"
      using assms(2) by (intro sublist_concat) simp
  qed
  moreover have "sublist (concat (map (\<lambda>fd. render_field e fd @ [nl]) (pd_Fields d))) (render_packet e (k, d))"
    by (simp only: render_packet_def Let_def prod.case sublist_append sublist_order.order.refl simp_thms)
  moreover have "sublist (render_packet e (k, d)) (concat (map (render_packet e) ens))"
    using assms(1) by (auto intro!: sublist_concat)
  ultimately have "sublist ''math.'' (concat (map (render_packet e) ens))"
    by (meson sublist_order.order.trans)
  then show ?thesis by (simp only: contains_iff sublist_append simp_thms)
qed

section \<open>What is generated\<close>

text \<open>What a specification needs for its table to be readable: no line break in a packet's name (it goes
  into a comment) and logarithms of its factors that come out exactly.\<close>

definition readable :: "gen_env \<Rightarrow> vsf \<Rightarrow> bool" where
  "readable e spec \<longleftrightarrow> list_all (\<lambda>pk. nl \<notin> set (vk_name pk) \<and> list_all (\<lambda>f. \<bar>vf_precision f\<bar> < 2 ^ 32 \<and>
     ge_log10 e (Pow10 (- vf_precision f)) = - vf_precision f) (vk_fields pk)) (vs_packets spec)"

lemma field_entry_text_ok:
  assumes "field_entry u f = Some fd" "\<bar>vf_precision f\<bar> < 2 ^ 32"
    and "ge_log10 e (Pow10 (- vf_precision f)) = - vf_precision f"
  shows "field_text_ok e fd"
proof -
  have "fd_Factor fd = Pow10 (- vf_precision f)"
    using assms(1) by (auto simp: field_entry_def mapField_def Let_def fld_def split: list.splits if_splits)
  moreover have "factor_const (factorLit (ge_log10 e) (Pow10 (- vf_precision f))) = Some (Pow10 (- vf_precision f))"
    by (rule factor_const_factorLit) (use assms(2,3) in simp_all)
  ultimately show ?thesis using field_entry_ok [OF assms(1)] by (simp add: field_text_ok_def)
qed

lemma entries_text_ok:
  assumes "readable e spec"
  shows "list_all (entry_text_ok e) (entries u spec)"
proof -
  have "entry_text_ok e en" if "pk \<in> set (vs_packets spec)" "packet_entry u pk = Some en" for pk en
  proof -
    have r: "nl \<notin> set (vk_name pk)" "\<And>f. f \<in> set (vk_fields pk) \<Longrightarrow> \<bar>vf_precision f\<bar> < 2 ^ 32 \<and>
        ge_log10 e (Pow10 (- vf_precision f)) = - vf_precision f"
      using assms that(1) by (auto simp: readable_def list_all_iff)
    have "field_text_ok e fd" if "fd \<in> set (List.map_filter (field_entry u) (vk_fields pk))" for fd
      using that r(2) field_entry_text_ok by (fastforce simp: map_filter_set)
    then show ?thesis
      using that(2) r(1) by (auto simp: packet_entry_def entry_text_ok_def pkey_parts pd_def Let_def list_all_iff
        split: if_splits)
  qed
  then show ?thesis by (auto simp: entries_def map_filter_set list_all_iff)
qed

lemma generated_source:
  assumes unq: "\<And>s rest. unq (ge_quote e s @ rest) = Some (s, rest)" and ok: "readable e spec"
  shows "\<exists>src imports. generate e spec = ge_format e src \<and>
    read_source unq src = Some (imports, entries (ge_unicode e) spec) \<and>
    ((\<exists>(k, d) \<in> set (entries (ge_unicode e) spec). \<exists>fd \<in> set (pd_Fields d).
        \<forall>D \<in> {1, 10, 100, 1000}. fd_Factor fd \<noteq> f_lit 1 D) \<longrightarrow> imports)"
proof -
  let ?es = "entries (ge_unicode e) spec"
  let ?body = "concat (map (render_packet e) ?es) @ ''}'' @ [nl]"
  note read = read_source_text [OF unq entries_text_ok [OF ok], of "ge_unicode e"]
  have gen: "generate e spec = ge_format e (if contains (gen_head @ ?body) ''math.'' then gen_head @ ?body
      else file_head @ file_init @ ?body)"
    unfolding generate_renders Let_def import_removed ..
  show ?thesis
  proof (cases "contains (gen_head @ ?body) ''math.''")
    case True
    with gen read(1) show ?thesis by (intro exI [of _ "gen_head @ ?body"] exI [of _ True]) simp
  next
    case False
    then have "\<not> (\<exists>(k, d) \<in> set ?es. \<exists>fd \<in> set (pd_Fields d). \<forall>D \<in> {1, 10, 100, 1000}. fd_Factor fd \<noteq> f_lit 1 D)"
      using math_contained [of _ _ ?es _ e] by blast
    with False gen read(2) show ?thesis
      by (intro exI [of _ "file_head @ file_init @ ?body"] exI [of _ False]) simp
  qed
qed

section \<open>A quoting with the law\<close>

text \<open>What \<open>%q\<close> writes for printable ASCII, and its reader.\<close>

definition backslash :: char where "backslash = CHR 0x5C"

definition quote_ascii :: "string \<Rightarrow> string" where
  "quote_ascii s = [dq] @ concat (map (\<lambda>c. if c \<in> {dq, backslash} then [backslash, c] else [c]) s) @ [dq]"

fun unquote_rest :: "string \<Rightarrow> (string \<times> string) option" where
  "unquote_rest [] = None"
| "unquote_rest (c # cs) =
     (if c = dq then Some ([], cs)
      else if c = backslash then
        (case cs of [] \<Rightarrow> None | d # ds \<Rightarrow> map_option (\<lambda>(s, r). (d # s, r)) (unquote_rest ds))
      else map_option (\<lambda>(s, r). (c # s, r)) (unquote_rest cs))"

definition unquote_ascii :: "string \<Rightarrow> (string \<times> string) option" where
  "unquote_ascii s = do { s \<leftarrow> expect [dq] s; unquote_rest s }"

lemma unquote_quote: "unquote_ascii (quote_ascii s @ rest) = Some (s, rest)"
proof -
  have "unquote_rest (concat (map (\<lambda>c. if c \<in> {dq, backslash} then [backslash, c] else [c]) s) @ [dq] @ rest) =
      Some (s, rest)"
    by (induction s) (auto simp: dq_def backslash_def)
  then show ?thesis by (simp add: unquote_ascii_def quote_ascii_def expect_def)
qed

end
