(* ===== verification/Spec2Isabelle.thy ===== *)
theory Spec2Isabelle
  imports Encoder DefaultRegistry StoreRace Web Mqtt Bridge VsfMeaning TableText
begin

text \<open>
  vbus2mqtt reads RESOL VBus telegrams from a serial line, decodes them with a table of packet layouts
  and publishes the values to an MQTT broker; a web page changes its settings while it runs. This
  development models the whole of its Go code but the log output and the libraries it calls.

  The parts and how they meet (files under src/, theories of this directory):

  \<^item> internal/vbus/parser.go is theory Parser: \<open>Feed\<close>, \<open>drain\<close>, \<open>decodeSubFrames\<close>, \<open>checksum\<close> on the
    \<open>Parser\<close> record, every slice and index checked, its panic None. WireFormat states the telegram format and the
    leftmost scan without the code; Encoder holds \<open>buildFrame\<close> of parser_test.go, the sender.
  \<^item> internal/vbus/registry.go is Registry (\<open>pkey\<close>, \<open>Lookup\<close>, \<open>Register\<close>, \<open>Decode\<close>, \<open>extractValue\<close>) over
    GoFloat, binary64 arithmetic with its rounding. registry_custom.go and both \<open>init\<close> functions are
    DefaultRegistry; registry_gen.go is RegistryGen1 to RegistryGen4, packet by packet, with the
    literals in RegistryLiteral.
  \<^item> internal/config is Config (\<open>Load\<close> and its helpers, the saved form), Store (\<open>NewStore\<close>, \<open>Get\<close>,
    \<open>Version\<close>, \<open>Update\<close>, \<open>loadFile\<close>, \<open>saveFile\<close> on a map of files) and StoreRace, where \<open>Update\<close> and
    \<open>saveFile\<close> are cut into the steps between which other goroutines run.
  \<^item> internal/status is Status, internal/device is Device, internal/mqtt is Mqtt (options, discovery
    cache, \<open>Publish\<close>), internal/web is Web (routes, authentication, handlers).
  \<^item> cmd/vbus2mqtt is ReadLoop (\<open>readLoop\<close>), Logging (the handler that follows the settings) and Bridge
    (\<open>main\<close>, \<open>watchLogLevel\<close>, the web handlers and the signal as one transition system).
  \<^item> cmd/gen-registry is VsfFile (\<open>parseVSF\<close>) and GenRegistry (\<open>generate\<close> and what it calls, down to the
    characters it writes). VsfMeaning says without the generator what a specification means (bytes
    under masks, shifted, signed and weighted; addresses under masks), and TableText is a reader of
    the Go text it writes; both are references, not models of code.
  \<^item> Prelude, GoUtf8, GoStrconv, GoTime and GoJson model what the program uses of the language and its
    standard library: checked indexing, UTF-8, numbers, durations and their text, JSON values.

  State is passed explicitly. The bytes of the port go through \<open>Feed\<close> and \<open>Decode\<close> into the accumulator
  of the \<open>loop\<close> record, from there through \<open>Publish\<close> to the broker as a list of messages. What the
  program meets outside comes in as arguments: a \<open>turn\<close> for each iteration of \<open>readLoop\<close> (context,
  version, bytes or error of \<open>Read\<close>, clock, iteration order of the map, answers of the MQTT library),
  \<open>os_calls\<close> for package os, \<open>serial_env\<close> for the serial library, \<open>unicode\<close> for the tables of package
  unicode beyond ASCII, \<open>gen_env\<close> for the quoting verb, \<open>math.Log10\<close> and go/format.

  What the lemmas show. WireFormat and Parser: \<open>Feed\<close> is total and computes the scan (\<open>scan_Feed\<close>,
  \<open>Feed_scan\<close>), cutting the stream does not matter (locale \<open>stream_decoder\<close>). Encoder: sub-frames and
  frames round-trip (locale \<open>block_code\<close>). Registry: a table of usable layouts decodes without panic.
  GoFloat: the three roundings of a value stay within half a hundredth. Store: an update behaves as a
  versioned cell (locale \<open>versioned_cell\<close>), saving and loading compose, each failing call leaves a
  whole file. Web: which requests change what, and a noninterference simulation for the password.
  ReadLoop: \<open>heard\<close> ties the loop's state to the bytes received. Bridge: \<open>resources_ok\<close> and
  \<open>coherent\<close> are invariants of every interleaving, \<open>steps_left\<close> and \<open>lag\<close> are the measures of
  shutdown and of the adoption of new settings (\<open>main_steps\<close> lets the others act between the steps
  that are counted). GenRegistry: the emitted text is the rendering of a list of entries; TableText:
  the text reads back as these entries (\<open>generated_source\<close>); VsfMeaning: a registry made of them
  decodes a frame to what the specification says (\<open>layout_extracts\<close>, \<open>table_known\<close>, \<open>table_unknown\<close>),
  with the exceptions stated.

  Bounds. \<open>drain\<close> and the readers of the generator are total functions with measures, without fuel;
  the reader of TableText counts down from the length of the text, which each entry shortens. A run of \<open>readLoop\<close> is the list of its turns: statements about the list hold of every finite prefix of
  an endless run. In Bridge a turn of the loop is one step, and a PUT that is accepted is
  three: the section under the lock, the increment of the version, the save; StoreRace also takes the
  save apart. The version counter is 64 bits wide and wraps in both, so that the statements that
  compare versions assume fewer than 2 ^ 64 updates. Go's int is 64 bits
  wide; times are unbounded integers of nanoseconds.

  Not modelled: the text written to the log, the JSON text layer (values are trees), TCP, HTTP and MQTT
  transport, the tty, and the page ui.html, which runs in the browser. The time a library call takes
  is not modelled either: \<open>Connect\<close>, \<open>Read\<close> and \<open>Disconnect\<close> return. The test functions are left out, as
  they assert single cases of what is proved here.
\<close>

section \<open>Properties\<close>

text \<open>
  C1. Feeding bytes to the parser computes the leftmost scan of the buffered and the new bytes: the
  frames of the telegrams met from left to right, every position that starts none skipped, and
  the unfinished telegram at the end (if any) kept for the next call. The telegram format and the
  scan are stated without the code, as a relation on bytes and as an inductive predicate.
\<close>

theorem parser_refines_scan:
  "Feed p data = Some (fs, p') \<longleftrightarrow> scan (p_buf p @ data) fs (p_buf p')"
proof
  show "Feed p data = Some (fs, p') \<Longrightarrow> scan (p_buf p @ data) fs (p_buf p')"
    by (rule Feed_scan)
  show "scan (p_buf p @ data) fs (p_buf p') \<Longrightarrow> Feed p data = Some (fs, p')"
    by (cases p') (auto dest: scan_Feed)
qed

text \<open>
  C2. The parser inverts the encoder through any serial line that only splits the stream: telegrams of
  at most 1020 payload bytes, each behind noise without a SYNC byte, read in arbitrary pieces,
  give exactly the frames sent, in order, payloads zero-padded to whole sub-frames, and an empty
  buffer.
\<close>

theorem parser_recovers_transmission:
  assumes "list_all sendable ms" "concat reads = transmit ms"
  shows "run_feed Feed NewParser reads = Some (sent_frames ms, NewParser)"
  using assms by (simp add: vbus.run_feed_concat Feed_transmit)

lemma parser_recovers_transmission_witness:
  "let ms = [([0x01, 0x02], 0x0010, 0x7112, 0x0100, [0x81, 0x00, 0xFF, 0x7F, 0x05]), ([], 0x0015, 0x4278, 0x0200, [])];
       bytes = transmit ms
   in run_feed Feed NewParser [take 7 bytes, [], drop 7 bytes] = Some (sent_frames ms, NewParser)"
  unfolding Let_def
  by (rule parser_recovers_transmission) (simp_all add: sendable_def)

text \<open>
  C3. From the wire to the broker. If what the serial port delivered, cut into reads in any way, is a
  transmission of telegrams (with noise between them), and in this turn the interval has elapsed,
  then the loop goes on and the state messages it sends are exactly, for each source, the one of
  its last telegram the registry knows, with the values decoded from the payload that was sent.
\<close>

theorem telegrams_reach_the_broker:
  assumes "list_all sendable tel" "concat (map received (ts @ [t])) = transmit tel"
    and "readLoop u v now ts c st = (None, l, ms)"
    and "\<not> t_done t" "t_version t = v" "t_read t = Inr data"
    and "c_PublishInterval (t_cfg t) \<le> Since (t_clock t) (l_lastPublish l)"
  shows "\<exists>l' ms'. readLoop u v now (ts @ [t]) c st = (None, l', ms @ ms') \<and>
    set (state_messages ms') =
      {state_of (t_publish t) (s, a) |s a. latest (sent_frames tel) s = Some a \<and> pe_connected (t_publish t s)}"
  using assms by (rule readLoop_telegrams)

lemma telegrams_reach_the_broker_witness:
  "let u = \<lparr>uLower = (\<lambda>r. r), uLetter = (\<lambda>_. False), uDigit = (\<lambda>_. False)\<rparr>; tel = [([0x01], 0x0010, 0x4278, 0x0100, [0x15, 0x01, 0x00, 0x00])]; t = (\<lambda>data. \<lparr>t_done = False, t_version = 0, t_read = Inr data, t_cfg = Load (\<lambda>k. []), t_clock = 60 * Second, t_rank = (\<lambda>_. 0), t_publish = (\<lambda>_. \<lparr>pe_reconnected = False, pe_connected = True, pe_cfg = Load (\<lambda>k. []), pe_unix = 7, pe_result = Delivered\<rparr>), t_now = 60 * Second, t_connected = True\<rparr>)
   in \<exists>l' ms'. readLoop u 0 0 ([] @ [t (transmit tel)]) newClient (New 0) = (None, l', [] @ ms') \<and>
     set (state_messages ms') =
       {state_of (t_publish (t [])) (s, a) |s a. latest (sent_frames tel) s = Some a \<and> pe_connected (t_publish (t []) s)}"
proof -
  let ?u = "\<lparr>uLower = (\<lambda>r. r), uLetter = (\<lambda>_. False), uDigit = (\<lambda>_. False)\<rparr>"
  let ?tel = "[([0x01], 0x0010, 0x4278, 0x0100, [0x15, 0x01, 0x00, 0x00])]"
  let ?t = "\<lambda>data. \<lparr>t_done = False, t_version = 0, t_read = Inr data, t_cfg = Load (\<lambda>k. []), t_clock = 60 * Second, t_rank = (\<lambda>_. 0), t_publish = (\<lambda>_. \<lparr>pe_reconnected = False, pe_connected = True, pe_cfg = Load (\<lambda>k. []), pe_unix = 7, pe_result = Delivered\<rparr>), t_now = 60 * Second, t_connected = True\<rparr>"
  have "\<exists>l' ms'. readLoop ?u 0 0 ([] @ [?t (transmit ?tel)]) newClient (New 0) = (None, l', [] @ ms') \<and>
     set (state_messages ms') = {state_of (t_publish (?t (transmit ?tel))) (s, a) |s a.
       latest (sent_frames ?tel) s = Some a \<and> pe_connected (t_publish (?t (transmit ?tel)) s)}"
    by (rule telegrams_reach_the_broker [where l = "loop_start 0 newClient (New 0)"])
      (simp_all add: sendable_def received_def readLoop_def loop_start_def Since_def Load_def env_def envInt_def envDuration_def Let_def Second_def)
  then show ?thesis by (simp add: Let_def)
qed

text \<open>
  C4. Decoding a frame over a registry of usable layouts: an unknown address gives the name
  \<open>src_0xXXXX\<close> and no fields; a known one gives the device name and, in the order of the layout,
  the fields whose bytes lie inside the payload, each with the value of its bytes read
  little-endian (two's complement for Int16, the selected bit for Bit) and scaled.
\<close>

theorem decode_reads_layout:
  assumes "registry_ok reg"
  shows "Decode f reg =
    (case reg (pkey (Source f) (Destination f) (Command f)) of
       None \<Rightarrow> Some (''src_0x'' @ fmt04X (Source f), [], False)
     | Some d \<Rightarrow> Some (pd_DeviceName d,
         map (telemetry_of (Payload f)) (filter (fits (Payload f)) (pd_Fields d)), True))"
  using assms by (rule Decode_eq)

lemma decode_reads_layout_witness:
  "Decode \<lparr>Destination = 0x0010, Source = 0x1234, Command = 0x0100, Payload = [0xF0, 0xFF, 0x2A]\<rparr>
     [pkey 0x1234 0x0010 0x0100 \<mapsto>
        pd ''boiler'' [fld ''t'' 0 Int16 F0_1 c_degC, fld ''n'' 2 Uint8 F1 [], fld ''x'' 2 Uint16 F1 []]]
   = Some (''boiler'', [\<lparr>tf_Name = ''t'', tf_Value = scaleValue (- 16) F0_1, tf_Unit = c_degC\<rparr>,
                     \<lparr>tf_Name = ''n'', tf_Value = scaleValue 42 F1, tf_Unit = []\<rparr>], True)"
  by (subst decode_reads_layout)
    (simp_all add: registry_ok_def packet_ok_def pd_def fld_def field_ok_def telemetry_of_def fits_def
      field_value_def raw_reading_def bytes_value_def Let_def)

text \<open>
  C5. The state of the loop refines a specification over the bytes received: as long as it runs, the parser
  is where a single \<open>Feed\<close> of all bytes would be, and the accumulator is the map from each source to
  its last frame the registry knows; it has one entry per source and holds finite values only.
\<close>

theorem accumulator_holds_the_latest:
  assumes "readLoop u v now ts c st = (None, l, ms)"
  shows "\<exists>fs. Feed NewParser (concat (map received ts)) = Some (fs, l_parser l) \<and>
    map_of (l_accum l) = latest fs \<and> accum_ok (l_accum l)"
  using readLoop_heard [OF assms] by (auto simp: heard_def)

lemma accumulator_holds_the_latest_witness:
  "let u = \<lparr>uLower = (\<lambda>r. r), uLetter = (\<lambda>_. False), uDigit = (\<lambda>_. False)\<rparr>; t = \<lparr>t_done = False, t_version = 0, t_read = Inr [], t_cfg = Load (\<lambda>k. []), t_clock = 0, t_rank = (\<lambda>_. 0), t_publish = (\<lambda>_. \<lparr>pe_reconnected = False, pe_connected = True, pe_cfg = Load (\<lambda>k. []), pe_unix = 7, pe_result = Delivered\<rparr>), t_now = 0, t_connected = True\<rparr>
   in \<exists>l ms fs. readLoop u 0 0 [t] newClient (New 0) = (None, l, ms) \<and>
     Feed NewParser (concat (map received [t])) = Some (fs, l_parser l) \<and> map_of (l_accum l) = latest fs \<and> accum_ok (l_accum l)"
proof -
  let ?u = "\<lparr>uLower = (\<lambda>r. r), uLetter = (\<lambda>_. False), uDigit = (\<lambda>_. False)\<rparr>"
  let ?t = "\<lparr>t_done = False, t_version = 0, t_read = Inr [], t_cfg = Load (\<lambda>k. []), t_clock = 0, t_rank = (\<lambda>_. 0), t_publish = (\<lambda>_. \<lparr>pe_reconnected = False, pe_connected = True, pe_cfg = Load (\<lambda>k. []), pe_unix = 7, pe_result = Delivered\<rparr>), t_now = 0, t_connected = True\<rparr>"
  have r: "readLoop ?u 0 0 [?t] newClient (New 0) = (None, loop_start 0 newClient (New 0), [])"
    by (simp add: readLoop_def loop_turn_def receive_def publish_due_def loop_start_def)
  from accumulator_holds_the_latest [OF r] r show ?thesis unfolding Let_def by blast
qed

text \<open>
  C6. Whatever bytes arrive, \<open>Feed\<close> returns: the loop stops, no slice or index (of the header, the
  sub-frames or the rest) is out of range, and the buffer it leaves holds less than the largest telegram, 10 + 255 * 6 bytes.
\<close>

theorem parser_total_bounded:
  "\<exists>fs p'. Feed p data = Some (fs, p') \<and> length (p_buf p') < 1540"
  using Feed_total [of p data] Feed_ok parser_ok_length by blast

text \<open>
  C7. The resources of the process in every reachable state, under any interleaving of the main loop with web
  requests, the log watcher and the signal: exactly the device of a running read loop is open, an MQTT
  client exists exactly from \<open>New\<close> to \<open>Disconnect\<close>, the status shows a connection only then, and no
  panic has happened.
\<close>

theorem process_resources:
  assumes "bridge_reach u srv (main_start getenv os fs now) s"
  shows "br_ports s = open_ports (br_pc s) \<and> (br_mqtt s \<noteq> None \<longleftrightarrow> in_session (br_pc s)) \<and>
    (st_mqttConnected (br_status s) \<longrightarrow> in_session (br_pc s)) \<and> br_pc s \<noteq> Crashed"
  using reach_resources_ok [OF assms] by (auto simp: resources_ok_def)

lemma process_resources_witness:
  "let s = main_start (\<lambda>k. []) \<lparr>read_fails = False, mkdir_fails = False, write_fails = False, write_leaves = None, rename_fails = False\<rparr> Map.empty 0; s' = s\<lparr>br_pc := GotVer 0\<rparr>
   in br_ports s' = open_ports (br_pc s') \<and> (br_mqtt s' \<noteq> None \<longleftrightarrow> in_session (br_pc s')) \<and>
    (st_mqttConnected (br_status s') \<longrightarrow> in_session (br_pc s')) \<and> br_pc s' \<noteq> Crashed"
proof -
  let ?u = "\<lparr>uLower = (\<lambda>r. r), uLetter = (\<lambda>_. False), uDigit = (\<lambda>_. False)\<rparr>"
  let ?srv = "\<lparr>srv_version = ''dev'', srv_webUser = [], srv_webPass = []\<rparr>"
  let ?s = "main_start (\<lambda>k. []) \<lparr>read_fails = False, mkdir_fails = False, write_fails = False, write_leaves = None, rename_fails = False\<rparr> Map.empty 0"
  have "br_pc ?s = Outer" "\<not> br_cancelled ?s" "Version (br_store ?s) = 0"
    by (simp_all add: main_start_def buildLogger_def NewStore_def loadFile_def Version_def Let_def)
  then have "main_step ?u ?s (?s\<lparr>br_pc := GotVer 0\<rparr>)" using outer_version [of ?s ?u] by simp
  with br_init have "bridge_reach ?u ?srv ?s (?s\<lparr>br_pc := GotVer 0\<rparr>)" by (rule br_main)
  from process_resources [OF this] show ?thesis unfolding Let_def .
qed

text \<open>
  C8. What a successful \<open>Update\<close> stored is what a new process starts with: marshalling, the file, decoding,
  the duration printed and parsed again and the overlay compose to the identity on every saved
  field, except that an empty or zero one falls back to the environment.
\<close>

theorem settings_survive_restart:
  assumes "Update fn os fs s = (None, s', fs')" "s_path s \<noteq> []" "config_ok (fn (Get s))" "\<not> read_fails os'"
  shows "Get (NewStore getenv os' fs' (s_path s)) = restored (Get s') (Load getenv)"
  using assms by (intro restart) (simp_all add: Get_def)

lemma settings_survive_restart_witness:
  "let c = (Load (\<lambda>k. []))\<lparr>c_MQTTBroker := ''tcp://b:1883'', c_PublishInterval := 1500000000\<rparr>;
       os = \<lparr>read_fails = False, mkdir_fails = False, write_fails = False, write_leaves = None, rename_fails = False\<rparr>;
       s = \<lparr>s_cfg = Load (\<lambda>k. []), s_path = ''/d'', s_version = 0\<rparr>;
       (e, s', fs') = Update (\<lambda>_. c) os Map.empty s
   in e = None \<and> Get (NewStore (\<lambda>k. []) os fs' ''/d'') = restored (Get s') (Load (\<lambda>k. []))"
proof -
  let ?c = "(Load (\<lambda>k. []))\<lparr>c_MQTTBroker := ''tcp://b:1883'', c_PublishInterval := 1500000000\<rparr>"
  let ?os = "\<lparr>read_fails = False, mkdir_fails = False, write_fails = False, write_leaves = None, rename_fails = False\<rparr>"
  let ?s = "\<lparr>s_cfg = Load (\<lambda>k. []), s_path = ''/d'', s_version = 0\<rparr>"
  obtain s' fs' where u: "Update (\<lambda>_. ?c) ?os Map.empty ?s = (None, s', fs')"
    by (simp add: Update_def saveFile_def Let_def)
  have "config_ok ?c" by (simp add: config_ok_def Load_def env_def envInt_def Let_def ascii_def)
  with settings_survive_restart [OF u] show ?thesis by (simp add: u)
qed

text \<open>
  C9. Every field of \<open>DefaultRegistry\<close> has a power-of-ten factor \<open>1 / D\<close>, and the published value is the
  correctly rounded double of \<open>N / 100\<close>, with the sign of the reading, where \<open>N\<close> is an integer nearest to
  \<open>100 * reading / D\<close>: the three roundings of the code (two products, \<open>math.Round\<close>) never add up to
  a wrong hundredth.
\<close>

theorem published_value_nearest:
  assumes "DefaultRegistry k = Some d" "fd \<in> set (pd_Fields d)"
  shows "\<exists>D N. fd_Factor fd = f_lit 1 D \<and> D \<in> {1, 10, 100, 1000, 10000} \<and>
    field_value payload fd = rnd_real (raw_reading payload fd < 0) (of_int N / 100) \<and>
    2 * \<bar>D * N - 100 * \<bar>raw_reading payload fd\<bar>\<bar> \<le> D"
  using field_value_nearest [OF DefaultRegistry_factor [OF assms] DefaultRegistry_not_Bit [OF assms]]
  by blast

lemma published_value_nearest_witness:
  "\<exists>D N. fd_Factor (fld ''temp_sensor1'' 0 Int16 F0_1 c_degC) = f_lit 1 D \<and> D \<in> {1, 10, 100, 1000, 10000} \<and>
    field_value [0x15, 0x01] (fld ''temp_sensor1'' 0 Int16 F0_1 c_degC) =
      rnd_real (raw_reading [0x15, 0x01] (fld ''temp_sensor1'' 0 Int16 F0_1 c_degC) < 0) (of_int N / 100) \<and>
    2 * \<bar>D * N - 100 * \<bar>raw_reading [0x15, 0x01] (fld ''temp_sensor1'' 0 Int16 F0_1 c_degC)\<bar>\<bar> \<le> D"
  by (rule published_value_nearest
      [where k = "pkey 0x4278 0x0010 0x0100" and d = "snd (hd customRegistry)"])
    (simp_all add: DefaultRegistry_lookup customRegistry_def pd_def)

text \<open>
  C10. With \<open>DefaultRegistry\<close> every frame decodes without a panic, whatever its payload; every value is a
  finite double (so that JSON can carry it), and the frame is known exactly if its address is in
  the registry.
\<close>

theorem default_decode_safe:
  "\<exists>name tfs known. Decode f DefaultRegistry = Some (name, tfs, known) \<and>
     list_all (\<lambda>tf. is_finite (tf_Value tf)) tfs \<and>
     known = (Lookup DefaultRegistry (Source f) (Destination f) (Command f) \<noteq> None)"
proof -
  obtain name tfs known where d: "Decode f DefaultRegistry = Some (name, tfs, known)"
    using Decode_no_panic [OF DefaultRegistry_ok, of f] by (cases "Decode f DefaultRegistry") auto
  then show ?thesis
    using Decode_finite [OF d]
    by (auto simp: Decode_eq [OF DefaultRegistry_ok] Lookup_def split: option.splits)
qed

text \<open>
  C11. What the goroutines of the bridge agree on: in every reachable state in which no update is between
  its critical section and the increment that announces it, if the version a session was started
  with is still the current one, the session has the current settings in each of its phases and its
  MQTT client was made from them; and if the watcher has dealt with the current version, the log
  level is the one of the current settings.
\<close>

theorem settings_in_force:
  assumes "bridge_reach u srv (main_start getenv os fs now) s" "br_updates s < 2 ^ 64" "br_applied s = 0"
  shows "(\<forall>ver cfg c dev l d.
      br_pc s \<in> {Inner ver cfg c, Reading ver cfg dev l, Closing ver cfg dev c, Pausing ver cfg c d} \<and>
      Version (br_store s) = ver \<longrightarrow>
      cfg = Get (br_store s) \<and> br_mqtt s = Some (newOptions (Get (br_store s)))) \<and>
    (\<not> br_pending s \<and> br_lastVer s = Version (br_store s) \<longrightarrow>
      br_level s = setLogLevel (c_LogLevel (Get (br_store s))))"
proof (intro conjI allI impI)
  fix ver cfg c dev l d
  assume pc: "br_pc s \<in> {Inner ver cfg c, Reading ver cfg dev l, Closing ver cfg dev c, Pausing ver cfg c d} \<and>
    Version (br_store s) = ver"
  have ok: "updates_ok s" "session_ok s" using reach_coherent [OF assms(1)] by (simp_all add: coherent_def)
  have "unless_newer s ver (cfg = Get (br_store s) \<and> br_mqtt s = Some (newOptions (Get (br_store s))))"
    using ok(2) pc by (auto simp: session_ok_def Let_def)
  from unless_newer_last [OF this ok(1) assms(2) _ assms(3)] pc
  show "cfg = Get (br_store s)" "br_mqtt s = Some (newOptions (Get (br_store s)))" by simp_all
qed (use watch_settled [OF assms] in blast)

lemma settings_in_force_witness:
  "let s = main_start (\<lambda>k. []) \<lparr>read_fails = False, mkdir_fails = False, write_fails = False, write_leaves = None, rename_fails = False\<rparr> Map.empty 0;
       s' = s\<lparr>br_pc := Inner (Version (br_store s)) (Get (br_store s)) newClient,
         br_mqtt := Some (newOptions (Get (br_store s))), br_status := SetMQTTConnected True (br_status s)\<rparr>
   in Get (br_store s) = Get (br_store s') \<and> br_mqtt s' = Some (newOptions (Get (br_store s')))"
proof -
  let ?u = "\<lparr>uLower = (\<lambda>r. r), uLetter = (\<lambda>_. False), uDigit = (\<lambda>_. False)\<rparr>"
  let ?srv = "\<lparr>srv_version = ''dev'', srv_webUser = [], srv_webPass = []\<rparr>"
  let ?s = "main_start (\<lambda>k. []) \<lparr>read_fails = False, mkdir_fails = False, write_fails = False, write_leaves = None, rename_fails = False\<rparr> Map.empty 0"
  let ?t = "?s\<lparr>br_pc := Inner (Version (br_store ?s)) (Get (br_store ?s)) newClient,
         br_mqtt := Some (newOptions (Get (br_store ?s))), br_status := SetMQTTConnected True (br_status ?s)\<rparr>"
  have s: "br_pc ?s = Outer" "\<not> br_cancelled ?s" by (simp_all add: main_start_def buildLogger_def Let_def)
  have r: "bridge_reach ?u ?srv ?s ?t" by (rule reach_session [OF br_init s])
  have n: "br_updates ?t < 2 ^ 64" "br_applied ?t = 0" by (simp_all add: main_start_def buildLogger_def Let_def)
  have pc: "br_pc ?t \<in> {Inner (Version (br_store ?s)) (Get (br_store ?s)) newClient, Reading v c d l,
      Closing v c d newClient, Pausing v c newClient i} \<and> Version (br_store ?t) = Version (br_store ?s)"
    for v c d l i by simp
  from settings_in_force [OF r n] pc show ?thesis unfolding Let_def by simp
qed

text \<open>
  C12. New settings are adopted: from any reachable state that has not stopped, wherever the main goroutine
  is and whatever the other goroutines do between its steps, once it has taken seven steps it is in
  a session with the current version, configuration and MQTT client, provided that meanwhile no
  update has passed its lock or its increment (none is between them at the end, and none has been
  counted) and that the process has not been cancelled.
\<close>

theorem new_settings_are_adopted:
  assumes "bridge_reach u srv (main_start getenv os fs now) s" "br_pc s \<noteq> Stopped" "br_updates s < 2 ^ 64"
    and "main_steps u srv n s s'" "7 \<le> n"
    and "br_updates s' = br_updates s" "br_applied s' = 0" "\<not> br_cancelled s'"
  shows "current s' \<and> br_store s' = br_store s"
  using assms by (rule adopts_settings)

lemma new_settings_are_adopted_witness:
  "let s = main_start (\<lambda>k. []) \<lparr>read_fails = False, mkdir_fails = False, write_fails = False, write_leaves = None, rename_fails = False\<rparr> Map.empty 0
   in \<exists>s'. current s' \<and> br_store s' = br_store s"
proof -
  let ?u = "\<lparr>uLower = (\<lambda>r. r), uLetter = (\<lambda>_. False), uDigit = (\<lambda>_. False)\<rparr>"
  let ?srv = "\<lparr>srv_version = ''dev'', srv_webUser = [], srv_webPass = []\<rparr>"
  let ?s = "main_start (\<lambda>k. []) \<lparr>read_fails = False, mkdir_fails = False, write_fails = False, write_leaves = None, rename_fails = False\<rparr> Map.empty 0"
  have s: "\<not> br_cancelled ?s" "br_pc ?s \<noteq> Stopped" "br_updates ?s < 2 ^ 64" "br_applied ?s = 0"
    by (simp_all add: main_start_def buildLogger_def Let_def)
  from main_runs [OF resources_ok_start s(1,2), of 7 ?u] obtain s' where
    s': "(main_step ?u ^^ 7) ?s s'" "\<not> br_cancelled s'" by blast
  have "br_updates s' = br_updates ?s" "br_applied s' = 0" using main_same_power [OF s'(1)] s(4) by simp_all
  from new_settings_are_adopted [OF br_init [of ?u ?srv] s(2,3) main_steps_power [OF s'(1)] order_refl this s'(2)]
  show ?thesis unfolding Let_def by blast
qed

text \<open>
  C13. Termination on SIGTERM: once the context is cancelled, the main goroutine has at most five steps left,
  whatever the other goroutines do in between, and as long as it has not stopped it has a next step,
  so that it reaches its end with the device closed and the client disconnected.
\<close>

theorem shutdown_terminates:
  assumes "bridge_reach u srv (main_start getenv os fs now) s" "br_cancelled s" "main_steps u srv n s s'"
  shows "n \<le> 5 \<and> (br_pc s' = Stopped \<and> br_ports s' = {} \<and> br_mqtt s' = None \<or> (\<exists>s''. main_step u s' s''))"
proof -
  have ok: "resources_ok s'" using reach_resources_ok main_steps_reach [OF assms(3,1)] by blast
  show ?thesis
    using cancelled_steps [OF assms(3,2)] steps_left_max [of "br_pc s"] main_progress [OF ok] ok
    by (cases "br_pc s' = Stopped") (auto simp: resources_ok_def open_ports_def in_session_def)
qed

lemma shutdown_terminates_witness:
  "let s = (main_start (\<lambda>k. []) \<lparr>read_fails = False, mkdir_fails = False, write_fails = False, write_leaves = None, rename_fails = False\<rparr> Map.empty 0)\<lparr>br_cancelled := True\<rparr>; s' = s\<lparr>br_pc := Stopped\<rparr>
   in (1 :: nat) \<le> 5 \<and> (br_pc s' = Stopped \<and> br_ports s' = {} \<and> br_mqtt s' = None \<or>
     (\<exists>s''. main_step \<lparr>uLower = (\<lambda>r. r), uLetter = (\<lambda>_. False), uDigit = (\<lambda>_. False)\<rparr> s' s''))"
proof -
  let ?u = "\<lparr>uLower = (\<lambda>r. r), uLetter = (\<lambda>_. False), uDigit = (\<lambda>_. False)\<rparr>"
  let ?srv = "\<lparr>srv_version = ''dev'', srv_webUser = [], srv_webPass = []\<rparr>"
  let ?start = "main_start (\<lambda>k. []) \<lparr>read_fails = False, mkdir_fails = False, write_fails = False, write_leaves = None, rename_fails = False\<rparr> Map.empty 0"
  let ?s = "?start\<lparr>br_cancelled := True\<rparr>"
  have r: "bridge_reach ?u ?srv ?start ?s" using br_env [OF br_init signal] .
  have "br_pc ?s = Outer" by (simp add: main_start_def buildLogger_def Let_def)
  then have "main_step ?u ?s (?s\<lparr>br_pc := Stopped\<rparr>)" by (rule outer_done) simp
  with main_steps.none have "main_steps ?u ?srv (Suc 0) ?s (?s\<lparr>br_pc := Stopped\<rparr>)" by (rule main_steps.main)
  from shutdown_terminates [OF r _ this] show ?thesis unfolding Let_def by simp
qed

text \<open>
  C14. Noninterference: two servers whose settings differ only in the MQTT password (set in both or in
  neither) answer every sequence of requests alike, so that no response tells anything about the
  password but whether there is one.
\<close>

theorem password_never_leaks:
  assumes "same_backend b b'"
  shows "session s rs b = session s rs b'"
  using assms by (rule same_session)

lemma password_never_leaks_witness:
  "let s = \<lparr>srv_version = ''dev'', srv_webUser = ''admin'', srv_webPass = ''pw''\<rparr>; c = Load (\<lambda>k. []);
       b = (\<lambda>p. \<lparr>b_store = \<lparr>s_cfg = c\<lparr>c_MQTTPass := p\<rparr>, s_path = [], s_version = 0\<rparr>, b_files = Map.empty\<rparr>);
       r = \<lparr>rq_method = ''GET'', rq_path = ''/api/config'', rq_auth = Some (''admin'', ''pw''), rq_body = None, rq_os = \<lparr>read_fails = False, mkdir_fails = False, write_fails = False, write_leaves = None, rename_fails = False\<rparr>\<rparr>
   in session s [(0, New 0, r)] (b ''hunter2'') = session s [(0, New 0, r)] (b ''secret'')"
  unfolding Let_def
  by (rule password_never_leaks) (simp add: same_backend_def same_but_pass_def Get_def)

text \<open>
  C15. Basic authentication on every branch. It is on exactly if \<open>WEB_USER\<close> is not empty: then every route but
  \<open>/health\<close> answers a request without exactly the configured user and password with 401, and neither
  the settings nor the files change; any other request is served as by a server without
  credentials. \<open>WEB_PASS\<close> has no say in whether it is on (the README wants both to be set): with a
  user and an empty password the credentials asked for are that user and the empty password, and
  with a password but no user the server is open.
\<close>

theorem unauthenticated_rejected:
  assumes "protected r"
  shows "serve s now st r b =
    (if srv_webUser s \<noteq> [] \<and> rq_auth r \<noteq> Some (srv_webUser s, srv_webPass s)
     then (\<lparr>r_code = 401, r_body = ErrorText Unauthorized\<rparr>, b)
     else serve (s\<lparr>srv_webUser := []\<rparr>) now st r b)"
  using serve_unauthorized [OF assms, of s now st b] serve_authorized [of r s now st b] by auto

lemma unauthenticated_rejected_witness:
  "let s = \<lparr>srv_version = ''dev'', srv_webUser = ''admin'', srv_webPass = ''pw''\<rparr>; b = \<lparr>b_store = \<lparr>s_cfg = Load (\<lambda>k. []), s_path = [], s_version = 0\<rparr>, b_files = Map.empty\<rparr>;
       r = \<lparr>rq_method = ''PUT'', rq_path = ''/api/config'', rq_auth = Some (''admin'', ''guess''), rq_body = None, rq_os = \<lparr>read_fails = False, mkdir_fails = False, write_fails = False, write_leaves = None, rename_fails = False\<rparr>\<rparr>
   in serve s 0 (New 0) r b = (\<lparr>r_code = 401, r_body = ErrorText Unauthorized\<rparr>, b) \<and>
      serve (s\<lparr>srv_webPass := []\<rparr>) 0 (New 0) r b = (\<lparr>r_code = 401, r_body = ErrorText Unauthorized\<rparr>, b)"
proof -
  let ?r = "\<lparr>rq_method = ''PUT'', rq_path = ''/api/config'', rq_auth = Some (''admin'', ''guess''), rq_body = None, rq_os = \<lparr>read_fails = False, mkdir_fails = False, write_fails = False, write_leaves = None, rename_fails = False\<rparr>\<rparr>"
  have "protected ?r" by (simp add: protected_def)
  note unauthenticated_rejected [OF this]
  from this [of "\<lparr>srv_version = ''dev'', srv_webUser = ''admin'', srv_webPass = ''pw''\<rparr>"] this [of "\<lparr>srv_version = ''dev'', srv_webUser = ''admin'', srv_webPass = ''pw''\<rparr>\<lparr>srv_webPass := []\<rparr>"] show ?thesis unfolding Let_def by simp
qed

text \<open>
  C16. \<open>PUT /api/config\<close> on every branch. If the body decodes and passes the checks, then afterwards
  \<open>GET /api/config\<close> shows the document that was sent (the interval in its printed form, the password
  masked), the password is the one sent unless that is empty or the mask, and the version is one
  higher; the answer is 200 exactly if there is no file to save or every call of the save works, in
  which case the file holds the new settings, and 500 with the old file otherwise. If the body does
  not decode or fails a check, the answer is 400 and nothing changes. The settings outside the
  document stay in any case.
\<close>

theorem put_all_or_nothing:
  "let b' = snd (handlePutConfig r b); code = r_code (fst (handlePutConfig r b)) in
    (\<forall>j dto iv. rq_body r = Some j \<and> accepted j dto iv \<longrightarrow>
       handleGetConfig (b_store b') = \<lparr>r_code = 200, r_body = ConfigJson (dto\<lparr>
         d_MQTTPass := (if c_MQTTPass (Get (b_store b')) = [] then [] else ''****''),
         d_PublishInterval := durationString iv\<rparr>)\<rparr> \<and>
       c_MQTTPass (Get (b_store b')) =
         (if d_MQTTPass dto \<in> {[], ''****''} then c_MQTTPass (Get (b_store b)) else d_MQTTPass dto) \<and>
       Version (b_store b') = Version (b_store b) + 1 \<and>
       code = (if s_path (b_store b) = [] \<or> save_succeeds (rq_os r) then 200 else 500) \<and>
       (s_path (b_store b) \<noteq> [] \<longrightarrow> b_files b' (s_path (b_store b)) =
         (if save_succeeds (rq_os r) then Some (JsonText (marshalPersisted (toPersisted (Get (b_store b')))))
          else b_files b (s_path (b_store b))))) \<and>
    (\<not> (\<exists>j dto iv. rq_body r = Some j \<and> accepted j dto iv) \<longrightarrow> b' = b \<and> code = 400) \<and>
    hidden_settings (Get (b_store b')) = hidden_settings (Get (b_store b))"
  unfolding Let_def
  by (intro conjI allI impI; (elim conjE)?)
    ((rule put_shows [OF _ _ refl] put_saves [OF _ _ refl] put_hidden put_unchanged [THEN conjunct1]
      put_unchanged [THEN conjunct2]; blast)+)

lemma put_all_or_nothing_witness:
  "let b = \<lparr>b_store = \<lparr>s_cfg = (Load (\<lambda>k. []))\<lparr>c_MQTTPass := ''hunter2''\<rparr>, s_path = ''/d'', s_version = 0\<rparr>, b_files = Map.empty\<rparr>
   in \<exists>dto. let r = \<lparr>rq_method = ''PUT'', rq_path = ''/api/config'', rq_auth = None, rq_body = Some (marshalDTO dto),
           rq_os = \<lparr>read_fails = False, mkdir_fails = False, write_fails = False, write_leaves = None, rename_fails = False\<rparr>\<rparr>
        in r_code (fst (handlePutConfig r b)) = 200 \<and> Version (b_store (snd (handlePutConfig r b))) = 1"
proof -
  let ?c = "(Load (\<lambda>k. []))\<lparr>c_MQTTPass := ''hunter2''\<rparr>"
  let ?b = "\<lparr>b_store = \<lparr>s_cfg = ?c, s_path = ''/d'', s_version = 0\<rparr>, b_files = Map.empty\<rparr>"
  obtain dto where dto: "handleGetConfig (b_store ?b) = \<lparr>r_code = 200, r_body = ConfigJson dto\<rparr>"
    by (simp add: handleGetConfig_def Let_def)
  have "valid_config (Get (b_store ?b))" "config_ok (Get (b_store ?b))"
    by (simp_all add: Get_def valid_config_def config_ok_def Load_def env_def envInt_def envDuration_def Let_def
      ascii_def Second_def)
  note ok = get_dto(1) [OF dto this]
  let ?r = "\<lparr>rq_method = ''PUT'', rq_path = ''/api/config'', rq_auth = None, rq_body = Some (marshalDTO dto), rq_os = \<lparr>read_fails = False, mkdir_fails = False, write_fails = False, write_leaves = None, rename_fails = False\<rparr>\<rparr>"
  have r: "rq_body ?r = Some (marshalDTO dto)" by simp
  have os: "save_succeeds (rq_os ?r)" "Version (b_store ?b) = 0" by (simp_all add: save_succeeds_def Version_def)
  from put_all_or_nothing [of ?r ?b, unfolded Let_def] r ok os
  have "r_code (fst (handlePutConfig ?r ?b)) = 200 \<and> Version (b_store (snd (handlePutConfig ?r ?b))) = 0 + 1"
    by metis
  then show ?thesis unfolding Let_def by (intro exI [of _ dto]) simp
qed

text \<open>
  C17. The invariant of the settings under every request the server can get: an interval of at least one
  second that fits a duration, QoS 0 to 2, a known log level and format, integers in range and
  strings that survive being saved.
\<close>

theorem settings_stay_valid:
  assumes "valid_config (Get (b_store b))" "config_ok (Get (b_store b))"
  shows "valid_config (Get (b_store (snd (serve s now st r b)))) \<and>
    config_ok (Get (b_store (snd (serve s now st r b))))"
  using assms serve_put_only [of s now st r b] serve_valid put_config_ok by auto

lemma settings_stay_valid_witness:
  "let s = \<lparr>srv_version = ''dev'', srv_webUser = ''admin'', srv_webPass = ''pw''\<rparr>; b = \<lparr>b_store = \<lparr>s_cfg = Load (\<lambda>k. []), s_path = [], s_version = 0\<rparr>, b_files = Map.empty\<rparr>;
       r = \<lparr>rq_method = ''PUT'', rq_path = ''/api/config'', rq_auth = Some (''admin'', ''pw''),
         rq_body = Some (JObj [(''log_level'', JStr ''trace'')]), rq_os = \<lparr>read_fails = False, mkdir_fails = False, write_fails = False, write_leaves = None, rename_fails = False\<rparr>\<rparr>
   in valid_config (Get (b_store (snd (serve s 0 (New 0) r b)))) \<and>
      config_ok (Get (b_store (snd (serve s 0 (New 0) r b))))"
  unfolding Let_def
  by (rule settings_stay_valid)
    (simp_all add: Get_def valid_config_def config_ok_def Load_def env_def envInt_def envDuration_def Let_def
      ascii_def Second_def)

text \<open>
  C18. The document \<open>GET /api/config\<close> returns can be sent back: it passes every check, and the settings are
  afterwards what they were, the password behind the asterisks included.
\<close>

theorem get_then_put_keeps_settings:
  assumes "handleGetConfig (b_store b) = \<lparr>r_code = 200, r_body = ConfigJson dto\<rparr>"
    and "valid_config (Get (b_store b))" "config_ok (Get (b_store b))"
    and "rq_body r = Some (marshalDTO dto)"
  shows "Get (b_store (snd (handlePutConfig r b))) = Get (b_store b) \<and>
    r_code (fst (handlePutConfig r b)) \<in> {200, 500}"
  using assms by (rule get_then_put)

lemma get_then_put_keeps_settings_witness:
  "let c = (Load (\<lambda>k. []))\<lparr>c_MQTTPass := ''hunter2''\<rparr>;
       b = \<lparr>b_store = \<lparr>s_cfg = c, s_path = [], s_version = 0\<rparr>, b_files = Map.empty\<rparr>
   in \<exists>dto. let r = \<lparr>rq_method = ''PUT'', rq_path = ''/api/config'', rq_auth = None, rq_body = Some (marshalDTO dto),
           rq_os = \<lparr>read_fails = False, mkdir_fails = False, write_fails = False, write_leaves = None, rename_fails = False\<rparr>\<rparr>
        in Get (b_store (snd (handlePutConfig r b))) = Get (b_store b) \<and>
           r_code (fst (handlePutConfig r b)) \<in> {200, 500}"
proof -
  let ?c = "(Load (\<lambda>k. []))\<lparr>c_MQTTPass := ''hunter2''\<rparr>"
  let ?b = "\<lparr>b_store = \<lparr>s_cfg = ?c, s_path = [], s_version = 0\<rparr>, b_files = Map.empty\<rparr>"
  obtain dto where dto: "handleGetConfig (b_store ?b) = \<lparr>r_code = 200, r_body = ConfigJson dto\<rparr>"
    by (simp add: handleGetConfig_def Let_def)
  have ok: "valid_config (Get (b_store ?b))" "config_ok (Get (b_store ?b))"
    by (simp_all add: Get_def valid_config_def config_ok_def Load_def env_def envInt_def envDuration_def Let_def
      ascii_def Second_def)
  let ?r = "\<lparr>rq_method = ''PUT'', rq_path = ''/api/config'', rq_auth = None, rq_body = Some (marshalDTO dto), rq_os = \<lparr>read_fails = False, mkdir_fails = False, write_fails = False, write_leaves = None, rename_fails = False\<rparr>\<rparr>"
  from get_then_put_keeps_settings [OF dto ok, of ?r] show ?thesis
    unfolding Let_def by (intro exI [of _ dto]) simp
qed

text \<open>
  C19. Two sequences of reads with the same bytes lead to the same frames and the same parser state.
\<close>

theorem parser_chunking:
  assumes "concat reads = concat reads'"
  shows "run_feed Feed NewParser reads = run_feed Feed NewParser reads'"
  using assms by (intro vbus.run_feed_regroup) simp_all

lemma parser_chunking_witness:
  "run_feed Feed NewParser [[0xAA, 0x10], [0x00, 0x12]] = run_feed Feed NewParser [[0xAA], [], [0x10, 0x00, 0x12]]"
  by (rule parser_chunking) simp

text \<open>
  C20. Nothing is invented: the bytes fed to a fresh parser are the telegrams of the delivered frames, in
  order and without overlap, with skipped bytes between them, followed by skipped bytes and by
  the bytes kept in the buffer.
\<close>

theorem frames_are_telegrams:
  assumes "run_feed Feed NewParser reads = Some (fs, p')"
  shows "\<exists>parts tail. concat reads = concat (map (\<lambda>(gap, t). gap @ t) parts) @ tail @ p_buf p' \<and>
    list_all2 (\<lambda>(gap, t) f. telegram t f) parts fs"
proof -
  have "Feed NewParser (concat reads) = Some (fs, p')"
    using assms by (simp add: vbus.run_feed_concat)
  then have "scan (p_buf NewParser @ concat reads) fs (p_buf p')" by (rule Feed_scan)
  then have "scan (concat reads) fs (p_buf p')" by (simp add: NewParser_def)
  then show ?thesis by (rule scan_segments)
qed

lemma frames_are_telegrams_witness:
  "\<exists>parts tail. concat [[0x55], buildFrame 0x0010 0x7112 0x0100 [0xF0]] =
     concat (map (\<lambda>(gap, t). gap @ t) parts) @ tail @ p_buf NewParser \<and>
     list_all2 (\<lambda>(gap, t) f. telegram t f) parts [sent 0x0010 0x7112 0x0100 [0xF0]]"
  by (rule frames_are_telegrams)
    (use vbus.run_feed_concat [of NewParser "[[0x55], buildFrame 0x0010 0x7112 0x0100 [0xF0]]"]
       Feed_transmit [of "[([0x55], 0x0010, 0x7112, 0x0100, [0xF0])]"]
     in \<open>simp add: transmit_def sent_frames_def sendable_def\<close>)

text \<open>
  C21. The checksums detect every change of the low seven bits of one byte: the loop body drops the SYNC
  byte of the damaged telegram and goes on behind it, without delivering a frame there and
  without waiting for more bytes.
\<close>

theorem corrupted_byte_rejected:
  assumes "telegram t f" "1 \<le> k" "k < length t" "unat b mod 128 \<noteq> unat (t ! k) mod 128"
  shows "drain_body (t[k := b] @ ys) = Some (Continue (drop 1 (t[k := b] @ ys)))"
  using assms by (rule corrupted_rejected)

lemma corrupted_byte_rejected_witness:
  "drain_body ((buildFrame 0x0010 0x7112 0x0100 [1, 2, 3, 4])[12 := 0x55] @ [0xAA]) =
     Some (Continue (drop 1 ((buildFrame 0x0010 0x7112 0x0100 [1, 2, 3, 4])[12 := 0x55] @ [0xAA])))"
proof (rule corrupted_byte_rejected [OF buildFrame_telegram])
  show "12 < length (buildFrame 0x0010 0x7112 0x0100 [1, 2, 3, 4])"
    "unat (0x55 :: byte) mod 128 \<noteq> unat (buildFrame 0x0010 0x7112 0x0100 [1, 2, 3, 4] ! 12) mod 128"
    by code_simp+
qed simp_all

text \<open>
  C22. A limit of the error detection: the checksums do not cover bit 7 and the parser does not insist
  that it is clear, so a flipped bit 7 in an address or command byte is delivered as a frame with
  another address or command.
\<close>

theorem flipped_bit7_accepted:
  assumes "telegram t f" "k \<in> {1, 2, 3, 4, 6, 7}"
  shows "\<exists>g. Feed NewParser (t[k := t ! k XOR 0x80]) = Some ([g], NewParser) \<and>
    g \<noteq> f \<and> Payload g = Payload f"
  using flip7_accepted [OF assms] scan_telegram [OF _ scan_end] scan_Feed [of NewParser]
  by (fastforce simp: NewParser_def)

lemma flipped_bit7_accepted_witness:
  "\<exists>g. Feed NewParser ((buildFrame 0x0010 0x7112 0x0100 [1])[3 := buildFrame 0x0010 0x7112 0x0100 [1] ! 3 XOR 0x80])
      = Some ([g], NewParser) \<and> g \<noteq> sent 0x0010 0x7112 0x0100 [1] \<and>
      Payload g = Payload (sent 0x0010 0x7112 0x0100 [1])"
  by (rule flipped_bit7_accepted [OF buildFrame_telegram]) simp_all

text \<open>
  C23. Home Assistant discovery: in a run of the client without a reconnect, whatever is published in
  whatever order, there is exactly one message announcing the field \<open>name\<close> of the source \<open>src\<close> (its
  value template reads that member of the payload, its state topic is the one of that source) if the
  pair was published while connected with discovery switched on, and none if it was not; and
  there are no further discovery messages.
\<close>

theorem announced_once:
  assumes "Reconnected \<notin> set es" "client_run u es newClient = (c', out)"
  shows "length (filter (announcement src name) out) = (if (src, name) \<in> \<Union> (announces ` set es) then 1 else 0) \<and>
    config_count out = card (\<Union> (announces ` set es))"
  using client_run_announces [OF assms, of src name] client_run_discovers [OF assms]
    client_run_cache [OF assms(1), of u newClient] assms(2)
  by (simp add: newClient_def card_keys_of)

lemma announced_once_witness:
  "let u = \<lparr>uLower = (\<lambda>r. r), uLetter = (\<lambda>_. False), uDigit = (\<lambda>_. False)\<rparr>;
       cfg = (Load (\<lambda>k. []))\<lparr>c_MQTTHADiscovery := True\<rparr>;
       f = \<lparr>tf_Name = ''t'', tf_Value = f_of_int 1, tf_Unit = []\<rparr>; g = f\<lparr>tf_Name := ''g''\<rparr>;
       es = [Published True Delivered 0 cfg 0x7111 ''d'' [f, g, f], Published True TimedOut 1 cfg 0x7111 ''d'' [f]];
       out = snd (client_run u es newClient)
   in length (filter (announcement 0x7111 ''t'') out) = 1 \<and> length (filter (announcement 0x7112 ''t'') out) = 0 \<and>
      config_count out = 2"
proof -
  let ?u = "\<lparr>uLower = (\<lambda>r. r), uLetter = (\<lambda>_. False), uDigit = (\<lambda>_. False)\<rparr>"
  let ?cfg = "(Load (\<lambda>k. []))\<lparr>c_MQTTHADiscovery := True\<rparr>"
  let ?f = "\<lparr>tf_Name = ''t'', tf_Value = f_of_int 1, tf_Unit = []\<rparr>"
  let ?g = "?f\<lparr>tf_Name := ''g''\<rparr>"
  let ?es = "[Published True Delivered 0 ?cfg 0x7111 ''d'' [?f, ?g, ?f], Published True TimedOut 1 ?cfg 0x7111 ''d'' [?f]]"
  have "Reconnected \<notin> set ?es" by simp
  note run = announced_once [OF this surjective_pairing]
  from run [where u = ?u and src = "0x7111" and name = "''t''"] run [where u = ?u and src = "0x7112" and name = "''t''"]
  show ?thesis by (simp add: Let_def card_insert_if)
qed

text \<open>
  C24. The topic of a discovery message: behind the configured prefix there is no wildcard and no separator
  but the fixed ones, whatever the field is called, and two fields share a topic exactly if they
  have the same source and the same slug.
\<close>

theorem discovery_topics:
  "(\<exists>slug. msg_topic (discoveryMsg u cfg src device f) =
      c_MQTTHADiscoveryPrefix cfg @ ''/sensor/vbus2mqtt_'' @ ToLower u (fmt04X src) @ ''_'' @ slug @ ''/config'' \<and>
    list_all (\<lambda>c. c \<notin> {CHR ''+'', CHR ''#'', CHR ''/''}) slug) \<and>
   (msg_topic (discoveryMsg u cfg src device f) = msg_topic (discoveryMsg u cfg src' device' f') \<longleftrightarrow>
     src = src' \<and> fieldSlug u (tf_Name f) = fieldSlug u (tf_Name f'))"
proof (intro conjI exI)
  show "msg_topic (discoveryMsg u cfg src device f) =
      c_MQTTHADiscoveryPrefix cfg @ ''/sensor/vbus2mqtt_'' @ ToLower u (fmt04X src) @ ''_'' @
        fieldSlug u (tf_Name f) @ ''/config''"
    by (simp add: discoveryMsg_def uniqueID_def Let_def split: prod.split)
  show "list_all (\<lambda>c. c \<notin> {CHR ''+'', CHR ''#'', CHR ''/''}) (fieldSlug u (tf_Name f))"
    using fieldSlug_topic topic_char_plain unfolding list_all_iff by blast
  show "msg_topic (discoveryMsg u cfg src device f) = msg_topic (discoveryMsg u cfg src' device' f') \<longleftrightarrow>
     src = src' \<and> fieldSlug u (tf_Name f) = fieldSlug u (tf_Name f')"
    using uniqueID_inj [of u src "tf_Name f" src' "tf_Name f'"]
    by (simp add: discoveryMsg_def Let_def split: prod.split)
qed

text \<open>
  C25. How \<open>readLoop\<close> ends: never with a panic, whatever the serial port delivers; in a turn that changes
  nothing and sends nothing; and with \<open>errConfigChanged\<close> exactly if that turn saw another version of
  the settings and the context was not done.
\<close>

theorem read_loop_exits:
  assumes "readLoop u v now ts c st = (Some e, l, ms)"
  shows "e \<noteq> Panicked \<and> (\<exists>k < length ts. readLoop u v now (take k ts) c st = (None, l, ms) \<and>
    (e = ConfigChanged \<longleftrightarrow> \<not> t_done (ts ! k) \<and> t_version (ts ! k) \<noteq> v))"
  using assms by (rule readLoop_exit)

lemma read_loop_exits_witness:
  "let u = \<lparr>uLower = (\<lambda>r. r), uLetter = (\<lambda>_. False), uDigit = (\<lambda>_. False)\<rparr>; t = \<lparr>t_done = False, t_version = 0, t_read = Inl EOF, t_cfg = Load (\<lambda>k. []), t_clock = 60 * Second, t_rank = (\<lambda>_. 0), t_publish = (\<lambda>_. \<lparr>pe_reconnected = False, pe_connected = True, pe_cfg = Load (\<lambda>k. []), pe_unix = 7, pe_result = Delivered\<rparr>), t_now = 60 * Second, t_connected = True\<rparr>
   in \<exists>k < length [t]. readLoop u 1 0 (take k [t]) newClient (New 0) = (None, loop_start 0 newClient (New 0), []) \<and>
     (ConfigChanged = ConfigChanged \<longleftrightarrow> \<not> t_done ([t] ! k) \<and> t_version ([t] ! k) \<noteq> 1)"
proof -
  let ?u = "\<lparr>uLower = (\<lambda>r. r), uLetter = (\<lambda>_. False), uDigit = (\<lambda>_. False)\<rparr>"
  let ?t = "\<lparr>t_done = False, t_version = 0, t_read = Inl EOF, t_cfg = Load (\<lambda>k. []), t_clock = 60 * Second, t_rank = (\<lambda>_. 0), t_publish = (\<lambda>_. \<lparr>pe_reconnected = False, pe_connected = True, pe_cfg = Load (\<lambda>k. []), pe_unix = 7, pe_result = Delivered\<rparr>), t_now = 60 * Second, t_connected = True\<rparr>"
  have "readLoop ?u 1 0 [?t] newClient (New 0) = (Some ConfigChanged, loop_start 0 newClient (New 0), [])"
    by (simp add: readLoop_def loop_turn_def)
  from read_loop_exits [OF this] show ?thesis unfolding Let_def by blast
qed

text \<open>
  C26. A change of the settings is noticed: a turn that finds another version is the last one; by then the
  loop has returned, and nothing the world does afterwards matters. As \<open>Read\<close> returns after a second
  at the latest, this bounds how long the old settings stay in use.
\<close>

theorem config_change_ends_the_loop:
  assumes "k < length ts" "t_version (ts ! k) \<noteq> v"
  shows "fst (readLoop u v now ts c st) \<noteq> None \<and>
    readLoop u v now ts c st = readLoop u v now (take (Suc k) ts) c st"
  using assms by (rule readLoop_notices)

lemma config_change_ends_the_loop_witness:
  "let u = \<lparr>uLower = (\<lambda>r. r), uLetter = (\<lambda>_. False), uDigit = (\<lambda>_. False)\<rparr>; t = (\<lambda>v. \<lparr>t_done = False, t_version = v, t_read = Inr [], t_cfg = Load (\<lambda>k. []), t_clock = 60 * Second, t_rank = (\<lambda>_. 0), t_publish = (\<lambda>_. \<lparr>pe_reconnected = False, pe_connected = True, pe_cfg = Load (\<lambda>k. []), pe_unix = 7, pe_result = Delivered\<rparr>), t_now = 60 * Second, t_connected = True\<rparr>)
   in fst (readLoop u 0 0 [t 0, t 1, t 1] newClient (New 0)) \<noteq> None \<and>
     readLoop u 0 0 [t 0, t 1, t 1] newClient (New 0) = readLoop u 0 0 (take (Suc 1) [t 0, t 1, t 1]) newClient (New 0)"
  unfolding Let_def by (rule config_change_ends_the_loop) simp_all

text \<open>
  C27. The rate limit: while the interval is at least \<open>d\<close> and the clock does not run backwards within a turn,
  a source is reported at most once per \<open>d\<close>, whatever the serial line delivers and however often the
  settings change.
\<close>

theorem publish_rate_bounded:
  assumes "0 < d" "list_all (\<lambda>t. d \<le> c_PublishInterval (t_cfg t) \<and> t_clock t \<le> t_now t) ts"
    and "readLoop u v now ts c st = (e, l, ms)"
  shows "d * int (length (reports src ms)) \<le> l_lastPublish l - now"
  using assms by (rule readLoop_rate)

lemma publish_rate_bounded_witness:
  "let u = \<lparr>uLower = (\<lambda>r. r), uLetter = (\<lambda>_. False), uDigit = (\<lambda>_. False)\<rparr>; t = \<lparr>t_done = False, t_version = 0, t_read = Inr (transmit [([0x01], 0x0010, 0x4278, 0x0100, [0x15, 0x01, 0x00, 0x00])]), t_cfg = Load (\<lambda>k. []), t_clock = 60 * Second, t_rank = (\<lambda>_. 0), t_publish = (\<lambda>_. \<lparr>pe_reconnected = False, pe_connected = True, pe_cfg = Load (\<lambda>k. []), pe_unix = 7, pe_result = Delivered\<rparr>), t_now = 60 * Second, t_connected = True\<rparr>; r = readLoop u 0 0 [t] newClient (New 0)
   in Second * int (length (reports 0x4278 (snd (snd r)))) \<le> l_lastPublish (fst (snd r)) - 0"
proof -
  let ?u = "\<lparr>uLower = (\<lambda>r. r), uLetter = (\<lambda>_. False), uDigit = (\<lambda>_. False)\<rparr>"
  let ?t = "\<lparr>t_done = False, t_version = 0, t_read = Inr (transmit [([0x01], 0x0010, 0x4278, 0x0100, [0x15, 0x01, 0x00, 0x00])]), t_cfg = Load (\<lambda>k. []), t_clock = 60 * Second, t_rank = (\<lambda>_. 0), t_publish = (\<lambda>_. \<lparr>pe_reconnected = False, pe_connected = True, pe_cfg = Load (\<lambda>k. []), pe_unix = 7, pe_result = Delivered\<rparr>), t_now = 60 * Second, t_connected = True\<rparr>"
  obtain e l ms where r: "readLoop ?u 0 0 [?t] newClient (New 0) = (e, l, ms)" by (rule prod_cases3)
  have "list_all (\<lambda>t. Second \<le> c_PublishInterval (t_cfg t) \<and> t_clock t \<le> t_now t) [?t]"
    by (simp add: Load_def env_def envInt_def envDuration_def Let_def Second_def)
  from publish_rate_bounded [OF _ this r] show ?thesis unfolding Let_def r by (simp add: Second_def)
qed

text \<open>
  C28. The generated source denotes the table of the specification. Read by a reader of Go composite literals
  that knows nothing of the generator, the text handed to \<open>format.Source\<close> is the fixed head with
  the \<open>init\<close> function, perhaps the import of \<open>math\<close>, and exactly the entries of the specification:
  the packets to 0x0010 with command 0x0100 and full masks, in order, under the key of their
  addresses, with name, offset, type, factor and unit of each mappable field; and \<open>math\<close> is imported
  if a factor is written with \<open>math.Pow10\<close>. \<open>%q\<close> has to write what an \<open>unq\<close> can read back, and the
  logarithm of a power of ten has to come out exactly.
\<close>

theorem generated_text_reads_back:
  assumes "\<And>s rest. unq (ge_quote e s @ rest) = Some (s, rest)" "readable e spec"
  shows "\<exists>src imports. generate e spec = ge_format e src \<and>
    read_source unq src = Some (imports, entries (ge_unicode e) spec) \<and>
    ((\<exists>(k, d) \<in> set (entries (ge_unicode e) spec). \<exists>fd \<in> set (pd_Fields d).
        \<forall>D \<in> {1, 10, 100, 1000}. fd_Factor fd \<noteq> f_lit 1 D) \<longrightarrow> imports)"
  using assms by (rule generated_source)

lemma generated_text_reads_back_witness:
  "let e = \<lparr>ge_unicode = \<lparr>uLower = (\<lambda>r. r), uLetter = (\<lambda>_. False), uDigit = (\<lambda>_. False)\<rparr>, ge_quote = quote_ascii, ge_log10 = (\<lambda>_. - 4), ge_format = Some\<rparr>;
       spec = \<lparr>vs_texts = [], vs_packets = [\<lparr>vk_dst = 0x0010, vk_dstMask = 0xFFFF, vk_src = 0x7111, vk_srcMask = 0xFFFF, vk_cmd = 0x0100, vk_name = ''0x7111'', vk_fields = [\<lparr>vf_name = ''Temperature sensor 1'', vf_unitText = '' K'', vf_precision = 4, vf_typeID = 0, vf_parts = [\<lparr>vp_offset = 0, vp_bitPos = 0, vp_mask = 0xFF, vp_isSigned = False, vp_factor = f_of_int 0, vp_rawFactor = 1\<rparr>, \<lparr>vp_offset = 1, vp_bitPos = 0, vp_mask = 0xFF, vp_isSigned = True, vp_factor = f_of_int 0, vp_rawFactor = 256\<rparr>]\<rparr>]\<rparr>]\<rparr>
   in \<exists>src imports. generate e spec = Some src \<and> read_source unquote_ascii src = Some (imports, entries (ge_unicode e) spec)"
proof -
  let ?e = "\<lparr>ge_unicode = \<lparr>uLower = (\<lambda>r. r), uLetter = (\<lambda>_. False), uDigit = (\<lambda>_. False)\<rparr>, ge_quote = quote_ascii, ge_log10 = (\<lambda>_. - 4), ge_format = Some\<rparr>"
  let ?spec = "\<lparr>vs_texts = [], vs_packets = [\<lparr>vk_dst = 0x0010, vk_dstMask = 0xFFFF, vk_src = 0x7111, vk_srcMask = 0xFFFF, vk_cmd = 0x0100, vk_name = ''0x7111'', vk_fields = [\<lparr>vf_name = ''Temperature sensor 1'', vf_unitText = '' K'', vf_precision = 4, vf_typeID = 0, vf_parts = [\<lparr>vp_offset = 0, vp_bitPos = 0, vp_mask = 0xFF, vp_isSigned = False, vp_factor = f_of_int 0, vp_rawFactor = 1\<rparr>, \<lparr>vp_offset = 1, vp_bitPos = 0, vp_mask = 0xFF, vp_isSigned = True, vp_factor = f_of_int 0, vp_rawFactor = 256\<rparr>]\<rparr>]\<rparr>]\<rparr>"
  have q: "unquote_ascii (ge_quote ?e s @ rest) = Some (s, rest)" for s rest by (simp add: unquote_quote)
  have "readable ?e ?spec" by (simp add: readable_def nl_def)
  from generated_text_reads_back [OF q this] obtain src im where "generate ?e ?spec = ge_format ?e src"
    "read_source unquote_ascii src = Some (im, entries (ge_unicode ?e) ?spec)" by blast
  then show ?thesis unfolding Let_def gen_env.simps by blast
qed

text \<open>
  C29. The generator and the decoder agree with the specification file. Let \<open>mapField\<close> accept a field whose
  parts are consecutive, start at bit 0, weigh one if there is just one, and are signed at most in
  the second of two (it checks the masks, and the weights of two and four, but none of these).
  Then, for every payload, \<open>extractValue\<close> with the layout it chooses returns the number the field
  denotes (each byte masked, shifted, signed if its part says so, weighted, summed) scaled by the
  precision if all parts are inside the payload, and the range error if not.
\<close>

theorem generated_layout_reads_the_specification:
  assumes "mapField f = Some (ft, ofs, scale)" "representable (vf_parts f)"
  shows "extractValue payload (fld n (int (unat ofs)) ft scale un) =
    (if inside payload (vf_parts f)
     then Some (Inr (scaleValue (field_denotes payload (vf_parts f)) (Pow10 (- vf_precision f))))
     else Some (Inl (OffsetOutOfRange (int (unat ofs)) (if length (vf_parts f) = 1 then 0 else length (vf_parts f)))))"
  using assms by (rule layout_extracts)

lemma generated_layout_reads_the_specification_witness:
  "let f = \<lparr>vf_name = ''Temperature sensor 1'', vf_unitText = '' K'', vf_precision = 1, vf_typeID = 0, vf_parts = [\<lparr>vp_offset = 0, vp_bitPos = 0, vp_mask = 0xFF, vp_isSigned = False, vp_factor = f_of_int 0, vp_rawFactor = 1\<rparr>, \<lparr>vp_offset = 1, vp_bitPos = 0, vp_mask = 0xFF, vp_isSigned = True, vp_factor = f_of_int 0, vp_rawFactor = 256\<rparr>]\<rparr>
   in extractValue [0xF0, 0xFF] (fld [] (int (unat (0 :: uint32))) Int16 (Pow10 (- 1)) []) =
     Some (Inr (scaleValue (field_denotes [0xF0, 0xFF] (vf_parts f)) (Pow10 (- 1)))) \<and>
     field_denotes [0xF0, 0xFF] (vf_parts f) = - 16"
proof -
  let ?f = "\<lparr>vf_name = ''Temperature sensor 1'', vf_unitText = '' K'', vf_precision = 1, vf_typeID = 0, vf_parts = [\<lparr>vp_offset = 0, vp_bitPos = 0, vp_mask = 0xFF, vp_isSigned = False, vp_factor = f_of_int 0, vp_rawFactor = 1\<rparr>, \<lparr>vp_offset = 1, vp_bitPos = 0, vp_mask = 0xFF, vp_isSigned = True, vp_factor = f_of_int 0, vp_rawFactor = 256\<rparr>]\<rparr>"
  have f: "mapField ?f = Some (Int16, 0, Pow10 (- 1))" by (simp add: mapField_def)
  have r: "representable (vf_parts ?f)" by (simp add: representable_def consecutive_simps)
  have i: "inside [0xF0, 0xFF] (vf_parts ?f)" by (simp add: inside_def)
  have d: "field_denotes [0xF0, 0xFF] (vf_parts ?f) = - 16"
    by (simp add: field_denotes_def part_denotes_def mask_all Let_def)
  from generated_layout_reads_the_specification [OF f r, of "[0xF0, 0xFF]" "[]" "[]"] i d
  show ?thesis by (simp add: Let_def)
qed



text \<open>
  C31. The two kinds of field the generator gets wrong. A single signed byte becomes an \<open>Int16\<close>, which reads the
  neighbouring byte as well and is right exactly if that happens to be the sign extension; four bytes
  of which the last is signed become a \<open>Uint32\<close>, which reads a negative value as \<open>2 ^ 32\<close> too large.
\<close>

theorem signed_fields_misread:
  assumes "mapField f = Some (ft, ofs, scale)" "unat ofs + 4 \<le> length payload"
    and "(\<exists>p. ps = [p] \<and> vp_isSigned p \<and> vp_rawFactor p = 1) \<or>
      (\<exists>p q r s. ps = [p, q, r, s] \<and> consecutive ps \<and> vp_isSigned s \<and>
         \<not> vp_isSigned p \<and> \<not> vp_isSigned q \<and> \<not> vp_isSigned r)" "vf_parts f = ps"
  shows "if length ps = 1
    then ft = Int16 \<and> (raw_reading payload (fld n (int (unat ofs)) ft sc un) = vsf_reading payload ps \<longleftrightarrow>
      uint (payload ! (unat ofs + 1)) = (if uint (payload ! unat ofs) < 128 then 0 else 255))
    else ft = Uint32 \<and> raw_reading payload (fld n (int (unat ofs)) ft sc un) = vsf_reading payload ps mod 2 ^ 32"
  using assms(3)
proof (elim disjE exE conjE)
  fix p assume p: "ps = [p]" "vp_isSigned p" "vp_rawFactor p = 1"
  then have "vf_parts f = [p]" "unat ofs + 2 \<le> length payload" using assms(2,4) by simp_all
  note byte = signed_byte_reads_two [OF this(1) p(2,3) assms(1) this(2)]
  have one: "length ps = 1" using p(1) by simp
  show ?thesis unfolding if_P [OF one] using byte unfolding assms(4) .
next
  fix p q r s assume p: "ps = [p, q, r, s]" "consecutive ps" "vp_isSigned s"
    "\<not> vp_isSigned p" "\<not> vp_isSigned q" "\<not> vp_isSigned r"
  note word = signed_word_wraps [OF assms(4) [unfolded p(1)] p(2) [unfolded p(1)] p(3-6) assms(1,2)]
  have four: "length ps \<noteq> 1" using p(1) by simp
  show ?thesis unfolding if_not_P [OF four] using word unfolding assms(4) .
qed

lemma signed_fields_misread_witness:
  "let ps = [\<lparr>vp_offset = 0, vp_bitPos = 0, vp_mask = 0xFF, vp_isSigned = True, vp_factor = f_of_int 0, vp_rawFactor = 1\<rparr>] in
   if length ps = 1
   then Int16 = Int16 \<and> (raw_reading [0xF0, 0x01, 0, 0] (fld [] (int (unat (0 :: uint32))) Int16 F1 []) = vsf_reading [0xF0, 0x01, 0, 0] ps \<longleftrightarrow>
      uint ([0xF0, 0x01, 0, 0 :: byte] ! (unat (0 :: uint32) + 1)) = (if uint ([0xF0, 0x01, 0, 0 :: byte] ! unat (0 :: uint32)) < 128 then 0 else 255))
   else Int16 = Uint32 \<and> raw_reading [0xF0, 0x01, 0, 0] (fld [] (int (unat (0 :: uint32))) Int16 F1 []) = vsf_reading [0xF0, 0x01, 0, 0] ps mod 2 ^ 32"
  unfolding Let_def
  by (rule signed_fields_misread [where scale = "Pow10 (- 1)" and f = "\<lparr>vf_name = ''Temperature sensor 1'', vf_unitText = '' K'', vf_precision = 1, vf_typeID = 0, vf_parts = [\<lparr>vp_offset = 0, vp_bitPos = 0, vp_mask = 0xFF, vp_isSigned = True, vp_factor = f_of_int 0, vp_rawFactor = 1\<rparr>]\<rparr>"])
    (simp_all add: mapField_def)

text \<open>
  C32. Generated field names: from an ASCII text \<open>toGoFieldName\<close> makes a non-empty name of lower-case letters,
  digits and single underscores between them, and \<open>fieldSlug\<close> of the MQTT client leaves it alone, so
  that two fields of a device share a discovery topic only if they share the name.
\<close>

theorem generated_names_are_slugs:
  assumes "ascii s"
  shows "list_all name_char (toGoFieldName u s) \<and> no_double (toGoFieldName u s) \<and> toGoFieldName u s \<noteq> [] \<and>
    hd (toGoFieldName u s) \<noteq> CHR ''_'' \<and> last (toGoFieldName u s) \<noteq> CHR ''_'' \<and>
    fieldSlug u (toGoFieldName u s) = toGoFieldName u s"
  using toGoFieldName_chars [OF assms] toGoFieldName_shape [of u s] generated_name_slug [OF assms] by blast

lemma generated_names_are_slugs_witness:
  "let u = \<lparr>uLower = (\<lambda>r. r), uLetter = (\<lambda>_. False), uDigit = (\<lambda>_. False)\<rparr>; n = toGoFieldName u ''Temperature sensor 1''
   in list_all name_char n \<and> no_double n \<and> n \<noteq> [] \<and> hd n \<noteq> CHR ''_'' \<and> last n \<noteq> CHR ''_'' \<and> fieldSlug u n = n"
  unfolding Let_def by (rule generated_names_are_slugs) (simp add: ascii_def)

text \<open>
  C33. One save alone is atomic: whichever of \<open>MkdirAll\<close>, \<open>WriteFile\<close> and \<open>Rename\<close> fails, the configuration
  file is afterwards the old one, and without an error it is the complete new document.
\<close>

theorem save_keeps_a_whole_file:
  "snd (saveFile os fs s) (s_path s) =
     (if fst (saveFile os fs s) = None then Some (JsonText (marshalPersisted (toPersisted (s_cfg s))))
      else fs (s_path s))"
  by (rule saveFile_atomic)

text \<open>
  C34. Reading the version before the configuration loses no update: in every interleaving, as long as the
  version is the one main has read and fewer than \<open>2 ^ 64\<close> updates have been counted, so that the
  counter has not come round, the configuration main works with is the one in the store, unless an
  update sits between its critical section and the increment that announces it.
\<close>

theorem main_loses_no_update:
  assumes "race_reach c w" "w_main w = Running v c'" "w_version w = v" "w_updates w < 2 ^ 64"
    and "\<forall>i. w_thread w i \<noteq> Applied"
  shows "w_cfg w = c'"
  using assms by (rule main_current_counted)

lemma main_loses_no_update_witness:
  "let c = Load (\<lambda>k. []); a = c\<lparr>c_LogLevel := ''debug''\<rparr>;
       w = (put a 0 (race_init c))\<lparr>w_main := GotVersion 1\<rparr>; w' = w\<lparr>w_main := Running 1 a\<rparr>
   in race_reach c w' \<and> w_cfg w' = a"
proof -
  let ?c = "Load (\<lambda>k. [])"
  let ?a = "?c\<lparr>c_LogLevel := ''debug''\<rparr>"
  let ?w = "(put ?a 0 (race_init ?c))\<lparr>w_main := GotVersion 1\<rparr>"
  let ?v = "?w\<lparr>w_main := Running 1 ?a\<rparr>"
  have "race_reach ?c (put ?a 0 (race_init ?c))" by (rule reach_put [OF reach_init]) (simp add: race_init_def)
  then have "race_reach ?c ?w"
    using reach_step [OF _ main_version [of "put ?a 0 (race_init ?c)"]] by (simp add: put_def race_init_def)
  then have r: "race_reach ?c ?v"
    using reach_step [OF _ main_get [of ?w 1]] by (simp add: put_def race_init_def)
  have "w_cfg ?v = ?a"
    by (rule main_loses_no_update [OF r, of 1]) (simp_all add: put_def race_init_def)
  with r show ?thesis by (simp add: Let_def)
qed

text \<open>
  C35. Two concurrent updates share the temporary file, and the save is outside the lock: there is a run in
  which both return without an error while the file holds the settings \<open>a\<close> and the store the
  settings \<open>b\<close>, and one in which an update has returned without an error and the file is empty.
\<close>

theorem concurrent_saves_damage_file:
  "(\<exists>w n. race_reach c w \<and> w_thread w 0 = Done True \<and> w_thread w 1 = Done True \<and>
      w_cfg w = b \<and> w_file w = Some n \<and> w_data w n = Some a) \<and>
    (\<exists>w n. race_reach c w \<and> w_thread w 0 = Done True \<and> w_file w = Some n \<and> w_data w n = None)"
  using stale_file torn_file by blast

text \<open>
  C36. For the factors 1, 0.1 and 0.01 the expression \<open>math.Round(float64(raw)*factor*100) / 100\<close> is the
  double nearest to the exact quotient, for every reading the payload can hold.
\<close>

theorem scale_exact_hundredths:
  assumes "D \<in> {1, 10, 100}" "\<bar>raw\<bar> < 2 ^ 32"
  shows "scaleValue raw (f_lit 1 D) = rnd_real (raw < 0) (of_int \<bar>raw\<bar> / of_int D)"
  using assms by (rule scaleValue_exact)

lemma scale_exact_hundredths_witness:
  "scaleValue (- 32768) (f_lit 1 10) = rnd_real True (32768 / 10)"
  using scale_exact_hundredths [of 10 "- 32768"] by simp

text \<open>
  C37. The merged registry does not depend on the order in which the two init functions range over their
  maps: a key has its custom entry if there is one, its generated entry otherwise.
\<close>

theorem custom_takes_precedence:
  assumes "distinct (map fst custom)" "set custom = set customRegistry"
    and "distinct (map fst generated)" "set generated = set generatedRegistry"
  shows "initGenerated generated (initCustom custom Map.empty) k =
    (case map_of customRegistry k of Some d \<Rightarrow> Some d | None \<Rightarrow> map_of generatedRegistry k)"
  using init_order [OF assms] by (simp add: DefaultRegistry_lookup)

lemma custom_takes_precedence_witness:
  "initGenerated (rev generatedRegistry) (initCustom customRegistry Map.empty) (pkey 0x4278 0x0010 0x0100)
     = Some (snd (hd customRegistry))"
  by (subst custom_takes_precedence)
    (simp_all add: rev_map [symmetric] generated_keys_distinct, simp_all add: customRegistry_def)

text \<open>
  C38. Malformed specification files: \<open>parseVSF\<close> has two error values, one exactly for files of less than 16
  bytes, the other exactly for a specification block that ends behind the file. The check has no
  lower bound: with a negative offset that passes it (below -4) the next read panics.
\<close>

theorem malformed_specification_file:
  "(parseVSF capacity data = Some (Inl FileTooShort) \<longleftrightarrow> length data < 16) \<and>
    (parseVSF capacity data = Some (Inl SpecOutOfRange) \<longleftrightarrow>
      16 \<le> length data \<and> (\<exists>ofs. i32 data 12 = Some ofs \<and> int (length data) < ofs + 44)) \<and>
    (16 \<le> length data \<and> (\<exists>ofs. i32 data 12 = Some ofs \<and> ofs < - 4 \<and> ofs + 44 \<le> int (length data)) \<longrightarrow> parseVSF capacity data = None)"
  by (intro conjI impI parseVSF_errors; elim conjE exE; rule parseVSF_negative)

lemma malformed_specification_file_witness:
  "parseVSF 32 (replicate 12 0 @ [0xF0, 0xFF, 0xFF, 0xFF] @ replicate 16 0) = None"
proof -
  let ?d = "replicate 12 0 @ [0xF0, 0xFF, 0xFF, 0xFF] @ replicate 16 0 :: byte list"
  have "i32 ?d 12 = Some (- 16)" by code_simp
  then have "16 \<le> length ?d \<and> (\<exists>ofs. i32 ?d 12 = Some ofs \<and> ofs < - 4 \<and> ofs + 44 \<le> int (length ?d))" by simp
  with malformed_specification_file [of 32 ?d] show ?thesis by blast
qed

text \<open>
  C39. Every unit of the generated table falls through to the default of \<open>haClassFromUnit\<close>: none of the 3838
  generated fields gets a device class, and energies are announced as measurements.
\<close>

theorem generated_units_without_class:
  "list_all (\<lambda>(k, d). list_all (\<lambda>fd. haClassFromUnit (fd_Unit fd) = ([], ''measurement'')) (pd_Fields d)) generatedRegistry"
proof -
  have "haClassFromUnit (fd_Unit fd) = ([], ''measurement'')" if "generated_field fd" for fd
    using that by (intro spaced_no_class) (auto simp: generated_field_def spaced_unit_def)
  then show ?thesis
    using generated_entries by (auto simp: list_all_iff generated_entry_def)
qed

text \<open>
  C40. Auto-detection: with devices of both kinds present, \<open>Detect\<close> returns the least name of all, and that is
  always a \<open>/dev/ttyACM\<close> one, although the pattern for \<open>/dev/ttyUSB\<close> is listed first.
\<close>

theorem modem_preferred:
  assumes "\<forall>p \<in> set (glob ''/dev/ttyUSB*''). \<exists>r. p = ''/dev/ttyUSB'' @ r"
    and "\<forall>p \<in> set (glob ''/dev/ttyACM*''). \<exists>r. p = ''/dev/ttyACM'' @ r"
    and "glob ''/dev/ttyACM*'' \<noteq> []" "Detect glob = Inr p"
  shows "p \<in> set (glob ''/dev/ttyACM*'') \<and>
    (\<forall>q \<in> set (glob ''/dev/ttyUSB*'') \<union> set (glob ''/dev/ttyACM*''). p \<le> q)"
  using Detect_prefers_acm [OF assms] assms(4) by (auto simp: Detect_least)

lemma modem_preferred_witness:
  "let glob = (\<lambda>p. if p = ''/dev/ttyUSB*'' then [''/dev/ttyUSB0''] else [''/dev/ttyACM1'', ''/dev/ttyACM0''])
   in ''/dev/ttyACM0'' \<in> set (glob ''/dev/ttyACM*'') \<and>
    (\<forall>q \<in> set (glob ''/dev/ttyUSB*'') \<union> set (glob ''/dev/ttyACM*''). ''/dev/ttyACM0'' \<le> q)"
  unfolding Let_def
  by (rule modem_preferred) (simp_all add: Detect_least less_eq_char_def less_char_def)

end
